(* ===== verification/SWS_Prelude.thy ===== *)
theory SWS_Prelude
  imports Main "HOL-Library.Word" "HOL-Library.Sublist"
begin

text \<open>
  Shared vocabulary of the development: machine integers, the result type of fallible
  functions, and the operations of Rust's \<^verbatim>\<open>str\<close> the server uses (\<^verbatim>\<open>split\<close>, \<^verbatim>\<open>split_once\<close>,
  \<^verbatim>\<open>rsplit_once\<close>, \<^verbatim>\<open>starts_with\<close>, \<^verbatim>\<open>ends_with\<close>, \<^verbatim>\<open>strip_prefix\<close>, \<^verbatim>\<open>trim\<close>, UTF-8 decoding).
  A Rust string, byte vector or \<^verbatim>\<open>OsString\<close> is a \<^typ>\<open>string\<close>, that is its list of bytes.
\<close>

named_theorems str_simps \<comment> \<open>equations of the string operations\<close>

section \<open>Machine integers and results\<close>

type_synonym u8 = "8 word"
type_synonym u16 = "16 word"
type_synonym u64 = "64 word"
type_synonym bytes = string

text \<open>
  A fallible Rust function returns \<open>Inr\<close> of its value, \<open>Inl (Err e)\<close> for an \<^verbatim>\<open>Err(e)\<close> and
  \<open>Inl (Panic msg)\<close> where the source panics.
\<close>

datatype 'e abort = Panic string | Err 'e

type_synonym ('e, 'a) result = "'e abort + 'a"

section \<open>Splitting and joining\<close>

fun split_on :: "'a \<Rightarrow> 'a list \<Rightarrow> 'a list list" where
  "split_on c [] = [[]]"
| "split_on c (x # xs) =
     (if x = c then [] # split_on c xs
      else (x # hd (split_on c xs)) # tl (split_on c xs))"

fun join_on :: "'a \<Rightarrow> 'a list list \<Rightarrow> 'a list" where
  "join_on c [] = []"
| "join_on c [s] = s"
| "join_on c (s # t # ss) = s @ c # join_on c (t # ss)"

fun split_once :: "'a \<Rightarrow> 'a list \<Rightarrow> ('a list \<times> 'a list) option" where
  "split_once c [] = None"
| "split_once c (x # xs) =
     (if x = c then Some ([], xs)
      else map_option (\<lambda>(a, b). (x # a, b)) (split_once c xs))"

definition rsplit_once :: "'a \<Rightarrow> 'a list \<Rightarrow> ('a list \<times> 'a list) option" where
  "rsplit_once c s = map_option (\<lambda>(a, b). (rev b, rev a)) (split_once c (rev s))"

definition strip_prefix :: "'a list \<Rightarrow> 'a list \<Rightarrow> 'a list option" where
  "strip_prefix p s = (if prefix p s then Some (drop (length p) s) else None)"

definition ends_with :: "'a \<Rightarrow> 'a list \<Rightarrow> bool" where
  "ends_with c s \<longleftrightarrow> s \<noteq> [] \<and> last s = c"

definition trim_start_by :: "('a \<Rightarrow> bool) \<Rightarrow> 'a list \<Rightarrow> 'a list" where
  "trim_start_by P s = dropWhile P s"

definition trim_by :: "('a \<Rightarrow> bool) \<Rightarrow> 'a list \<Rightarrow> 'a list" where
  "trim_by P s = rev (dropWhile P (rev (dropWhile P s)))"

lemma split_on_ne [simp]: "split_on c s \<noteq> []"
  by (cases s) auto

text \<open>The same in one pass, for evaluation.\<close>

fun split_go :: "'a \<Rightarrow> 'a list \<Rightarrow> 'a list \<Rightarrow> 'a list list" where
  "split_go c acc [] = [rev acc]"
| "split_go c acc (x # xs) = (if x = c then rev acc # split_go c [] xs else split_go c (x # acc) xs)"

lemma split_go_eq: "split_go c acc s = (rev acc @ hd (split_on c s)) # tl (split_on c s)"
  by (induction c acc s rule: split_go.induct) (simp_all add: hd_Cons_tl)

lemma split_on_code [code]: "split_on c s = split_go c [] s"
  by (simp add: split_go_eq)

lemma split_on_none: "c \<notin> set s \<Longrightarrow> split_on c s = [s]"
  by (induction s) auto

lemma split_on_append [str_simps]: "split_on c (xs @ c # ys) = split_on c xs @ split_on c ys"
  by (induction xs) (simp_all add: hd_append2 tl_append2)

lemma split_on_pieces: "p \<in> set (split_on c s) \<Longrightarrow> c \<notin> set p"
proof (induction s arbitrary: p)
  case (Cons x xs)
  then show ?case
    by (cases "split_on c xs") (auto split: if_splits)
qed simp

lemma join_on_Cons [str_simps]: "ss \<noteq> [] \<Longrightarrow> join_on c (s # ss) = s @ c # join_on c ss"
  by (cases ss) auto

lemma join_split [simp]: "join_on c (split_on c s) = s"
proof (induction s)
  case (Cons x xs)
  then show ?case
    by (cases "split_on c xs"; cases "tl (split_on c xs)") (simp_all split: if_splits)
qed simp

lemma split_join:
  "ss \<noteq> [] \<Longrightarrow> \<forall>s \<in> set ss. c \<notin> set s \<Longrightarrow> split_on c (join_on c ss) = ss"
  by (induction c ss rule: join_on.induct) (auto simp: split_on_none split_on_append)

lemma join_on_append [str_simps]:
  "xs \<noteq> [] \<Longrightarrow> ys \<noteq> [] \<Longrightarrow> join_on c (xs @ ys) = join_on c xs @ c # join_on c ys"
  by (induction c xs rule: join_on.induct) (auto simp: join_on_Cons)

lemma split_once_Some:
  "split_once c s = Some (a, b) \<longleftrightarrow> s = a @ c # b \<and> c \<notin> set a"
proof (induction s arbitrary: a)
  case (Cons x xs)
  then show ?case by (cases a) auto
qed simp

lemma split_once_None [simp]: "split_once c s = None \<longleftrightarrow> c \<notin> set s"
  by (induction s) auto

lemma rsplit_once_Some:
  "rsplit_once c s = Some (a, b) \<longleftrightarrow> s = a @ c # b \<and> c \<notin> set b"
proof -
  have "rsplit_once c s = Some (a, b) \<longleftrightarrow> split_once c (rev s) = Some (rev b, rev a)"
    by (auto simp: rsplit_once_def)
  also have "\<dots> \<longleftrightarrow> rev s = rev (a @ c # b) \<and> c \<notin> set b"
    by (simp add: split_once_Some)
  finally show ?thesis by (simp only: rev_is_rev_conv)
qed

lemma rsplit_once_None [simp]: "rsplit_once c s = None \<longleftrightarrow> c \<notin> set s"
  by (simp add: rsplit_once_def)

lemma ends_with_snoc [simp]: "ends_with c (s @ [x]) \<longleftrightarrow> x = c"
  by (simp add: ends_with_def)

lemma ends_with_split: "ends_with c s \<Longrightarrow> \<exists>t. s = t @ [c]"
  by (metis append_butlast_last_id ends_with_def)

lemma strip_prefix_Some: "strip_prefix p s = Some r \<longleftrightarrow> s = p @ r"
  by (auto simp: strip_prefix_def prefix_def)

lemma trim_by_id: "s = [] \<or> (\<not> P (hd s) \<and> \<not> P (last s)) \<Longrightarrow> trim_by P s = s"
proof (cases s rule: rev_cases)
  case (snoc t x)
  assume "s = [] \<or> (\<not> P (hd s) \<and> \<not> P (last s))"
  with snoc have "\<not> P (hd s)" and "\<not> P x" by auto
  then have "dropWhile P s = s" by (cases s) auto
  with snoc \<open>\<not> P x\<close> show ?thesis by (simp add: trim_by_def)
qed (simp add: trim_by_def)

section \<open>Decimal numerals\<close>

definition digit_char :: "nat \<Rightarrow> char" where
  "digit_char d = char_of (48 + d)"

fun nat_str :: "nat \<Rightarrow> string" where
  "nat_str n = (if n < 10 then [digit_char n] else nat_str (n div 10) @ [digit_char (n mod 10)])"

declare nat_str.simps [simp del]

definition is_digit :: "char \<Rightarrow> bool" where
  "is_digit c \<longleftrightarrow> 48 \<le> (of_char c :: nat) \<and> (of_char c :: nat) \<le> 57"

definition digit_val :: "char \<Rightarrow> nat" where
  "digit_val c = of_char c - 48"

definition dec_val :: "string \<Rightarrow> nat" where
  "dec_val = foldl (\<lambda>n c. 10 * n + digit_val c) 0"

lemma digit_char_props [simp]:
  "d < 10 \<Longrightarrow> is_digit (digit_char d)" "d < 10 \<Longrightarrow> digit_val (digit_char d) = d"
  by (simp_all add: is_digit_def digit_val_def digit_char_def of_char_mod_256)

lemma nat_str_digits: "list_all is_digit (nat_str n) \<and> nat_str n \<noteq> []"
proof (induction n rule: nat_str.induct)
  case (1 n)
  then show ?case by (subst (1 2) nat_str.simps) auto
qed

text \<open>Printing a number in decimal and reading it back gives the number.\<close>

lemma dec_val_nat_str [simp]: "dec_val (nat_str n) = n"
proof (induction n rule: nat_str.induct)
  case (1 n)
  show ?case
  proof (cases "n < 10")
    case True
    then show ?thesis by (subst nat_str.simps) (simp add: dec_val_def)
  next
    case False
    with 1 have "dec_val (nat_str (n div 10)) = n div 10" by simp
    with False show ?thesis by (subst nat_str.simps) (simp add: dec_val_def)
  qed
qed

section \<open>Outcomes\<close>

text \<open>How a computation can end: with one of a set of errors, or with a value that is as it should be; no panic.\<close>

definition outcome :: "'e set \<Rightarrow> ('a \<Rightarrow> bool) \<Rightarrow> ('e, 'a) result \<Rightarrow> bool" where
  "outcome errs good r \<longleftrightarrow> (case r of Inl e \<Rightarrow> e \<in> Err ` errs | Inr a \<Rightarrow> good a)"

lemma outcome_simps [simp]:
  "outcome errs good (Inl e) \<longleftrightarrow> e \<in> Err ` errs"
  "outcome errs good (Inr a) \<longleftrightarrow> good a"
  by (simp_all add: outcome_def)

lemma outcome_map [simp]: "outcome errs good (map_sum id f r) \<longleftrightarrow> outcome errs (\<lambda>a. good (f a)) r"
  by (cases r) auto

lemma outcome_bind:
  assumes "outcome errs good r" "\<And>a. good a \<Longrightarrow> outcome errs good' (f a)"
  shows "outcome errs good' (case r of Inl e \<Rightarrow> Inl e | Inr a \<Rightarrow> f a)"
  using assms by (cases r) auto

lemma outcome_mono:
  "outcome errs good r \<Longrightarrow> errs \<subseteq> errs' \<Longrightarrow> (\<And>a. good a \<Longrightarrow> good' a) \<Longrightarrow> outcome errs' good' r"
  by (cases r) auto

end
