(* ===== verification/Rust_Str.thy ===== *)
theory Rust_Str
  imports SWS_Prelude
begin

text \<open>
  UTF-8 as Rust's standard library reads it: \<^verbatim>\<open>str::from_utf8\<close> (behind \<^verbatim>\<open>OsStr::to_str\<close> and
  \<^verbatim>\<open>Path::to_str\<close>), \<^verbatim>\<open>String::from_utf8_lossy\<close> and \<^verbatim>\<open>str::trim\<close>. A byte string is cut into
  chunks, each a well-formed character or a maximal ill-formed piece; every function is an
  operation on that list of chunks.
\<close>

definition in_range :: "nat \<Rightarrow> nat \<Rightarrow> char \<Rightarrow> bool" where
  "in_range lo hi c \<longleftrightarrow> lo \<le> of_char c \<and> of_char c \<le> hi"

definition is_cont :: "char \<Rightarrow> bool" where
  "is_cont = in_range 0x80 0xBF"

definition second_ok :: "nat \<Rightarrow> char \<Rightarrow> bool" where
  "second_ok b =
     (if b = 0xE0 then in_range 0xA0 0xBF
      else if b = 0xED then in_range 0x80 0x9F
      else if b = 0xF0 then in_range 0x90 0xBF
      else if b = 0xF4 then in_range 0x80 0x8F
      else is_cont)"

definition utf8_width :: "nat \<Rightarrow> nat" where
  "utf8_width b =
     (if b < 0x80 then 1
      else if 0xC2 \<le> b \<and> b \<le> 0xDF then 2
      else if 0xE0 \<le> b \<and> b \<le> 0xEF then 3
      else if 0xF0 \<le> b \<and> b \<le> 0xF4 then 4
      else 0)"

text \<open>Whether the next character is well-formed, and how many bytes it takes after the first.\<close>

definition utf8_next :: "char \<Rightarrow> string \<Rightarrow> bool \<times> nat" where
  "utf8_next b rest =
     (let w = utf8_width (of_char b);
          good = (case take (w - 1) rest of [] \<Rightarrow> 0
                  | c # cs \<Rightarrow> if second_ok (of_char b) c then Suc (length (takeWhile is_cont cs)) else 0)
      in if w = 0 then (False, 0) else (good = w - 1, good))"

function utf8_chunks :: "string \<Rightarrow> (bool \<times> string) list" where
  "utf8_chunks [] = []"
| "utf8_chunks (b # rest) =
     (fst (utf8_next b rest), b # take (snd (utf8_next b rest)) rest)
       # utf8_chunks (drop (snd (utf8_next b rest)) rest)"
  by pat_completeness auto
termination
  by (relation "measure length") auto

definition utf8_valid :: "string \<Rightarrow> bool" where
  "utf8_valid s \<longleftrightarrow> list_all fst (utf8_chunks s)"

definition replacement :: string where
  "replacement = [CHR 0xEF, CHR 0xBF, CHR 0xBD]"

definition from_utf8_lossy :: "string \<Rightarrow> string" where
  "from_utf8_lossy s = concat (map (\<lambda>(ok, c). if ok then c else replacement) (utf8_chunks s))"

text \<open>\<^verbatim>\<open>OsStr::to_str\<close> and \<^verbatim>\<open>Path::to_str\<close>: the bytes when they are UTF-8.\<close>

definition to_str :: "string \<Rightarrow> string option" where
  "to_str s = (if utf8_valid s then Some s else None)"

section \<open>White space\<close>

definition is_ascii_ws :: "char \<Rightarrow> bool" where
  "is_ascii_ws c \<longleftrightarrow> in_range 9 13 c \<or> c = CHR '' ''"

definition is_whitespace :: "string \<Rightarrow> bool" where
  "is_whitespace cs =
     (case cs of
        [c] \<Rightarrow> is_ascii_ws c
      | [b, c] \<Rightarrow> b = CHR 0xC2 \<and> (c = CHR 0x85 \<or> c = CHR 0xA0)
      | [b, c, d] \<Rightarrow>
          (b = CHR 0xE1 \<and> c = CHR 0x9A \<and> d = CHR 0x80)
          \<or> (b = CHR 0xE2 \<and> c = CHR 0x80
               \<and> (in_range 0x80 0x8A d \<or> d = CHR 0xA8 \<or> d = CHR 0xA9 \<or> d = CHR 0xAF))
          \<or> (b = CHR 0xE2 \<and> c = CHR 0x81 \<and> d = CHR 0x9F)
          \<or> (b = CHR 0xE3 \<and> c = CHR 0x80 \<and> d = CHR 0x80)
      | _ \<Rightarrow> False)"

definition str_trim :: "string \<Rightarrow> string" where
  "str_trim s = concat (trim_by is_whitespace (map snd (utf8_chunks s)))"

definition str_trim_start :: "string \<Rightarrow> string" where
  "str_trim_start s = concat (trim_start_by is_whitespace (map snd (utf8_chunks s)))"

section \<open>Lemmas\<close>

lemma concat_utf8_chunks [simp]: "concat (map snd (utf8_chunks s)) = s"
  by (induction s rule: utf8_chunks.induct) auto

lemma from_utf8_lossy_valid [simp]: "utf8_valid s \<Longrightarrow> from_utf8_lossy s = s"
proof -
  assume "utf8_valid s"
  then have "map (\<lambda>(ok, c). if ok then c else replacement) (utf8_chunks s) = map snd (utf8_chunks s)"
    by (auto simp: utf8_valid_def list_all_iff)
  then show ?thesis
    by (simp only: from_utf8_lossy_def concat_utf8_chunks)
qed

definition is_ascii :: "string \<Rightarrow> bool" where
  "is_ascii s \<longleftrightarrow> list_all (\<lambda>c. of_char c < (0x80 :: nat)) s"

text \<open>Well-formed strings concatenate.\<close>

lemma utf8_next_append:
  assumes "fst (utf8_next b rest)"
  shows "utf8_next b (rest @ t) = utf8_next b rest" "snd (utf8_next b rest) \<le> length rest"
proof -
  let ?w = "utf8_width (of_char b)"
  have w: "?w \<noteq> 0" using assms by (auto simp: utf8_next_def Let_def split: if_splits)
  have good: "(case take (?w - 1) rest of [] \<Rightarrow> 0
      | c # cs \<Rightarrow> if second_ok (of_char b) c then Suc (length (takeWhile is_cont cs)) else 0) = ?w - 1"
    using assms w by (simp add: utf8_next_def Let_def split: if_splits)
  moreover have "(case xs of [] \<Rightarrow> 0
      | c # cs \<Rightarrow> if second_ok (of_char b) c then Suc (length (takeWhile is_cont cs)) else 0) \<le> length xs" for xs
    by (auto split: list.splits simp: length_takeWhile_le)
  ultimately have len: "?w - 1 \<le> length (take (?w - 1) rest)" by metis
  then have "take (?w - 1) (rest @ t) = take (?w - 1) rest" by simp
  with w good len show "utf8_next b (rest @ t) = utf8_next b rest" "snd (utf8_next b rest) \<le> length rest"
    by (simp_all add: utf8_next_def Let_def)
qed

lemma utf8_valid_append: "utf8_valid s \<Longrightarrow> utf8_valid t \<Longrightarrow> utf8_valid (s @ t)"
proof (induction s rule: utf8_chunks.induct)
  case (2 b rest)
  have "fst (utf8_next b rest)" "utf8_valid (drop (snd (utf8_next b rest)) rest)"
    using 2(2) by (simp_all add: utf8_valid_def)
  with 2 utf8_next_append [of b rest] show ?case
    by (simp add: utf8_valid_def)
qed simp

lemma utf8_next_ascii: "of_char b < (0x80 :: nat) \<Longrightarrow> utf8_next b rest = (True, 0)"
  by (simp add: utf8_next_def utf8_width_def)

lemma utf8_chunks_ascii: "is_ascii s \<Longrightarrow> utf8_chunks s = map (\<lambda>c. (True, [c])) s"
  by (induction s) (auto simp: is_ascii_def utf8_next_ascii)

lemma utf8_valid_ascii [simp]: "is_ascii s \<Longrightarrow> utf8_valid s"
  by (simp add: utf8_valid_def utf8_chunks_ascii list_all_iff)

lemma concat_singletons [simp]: "concat (map (\<lambda>c. [c]) xs) = xs"
  by (induction xs) auto

lemma dropWhile_map_singleton:
  "dropWhile is_whitespace (map (\<lambda>c. [c]) s) = map (\<lambda>c. [c]) (dropWhile is_ascii_ws s)"
  by (induction s) (auto simp: is_whitespace_def)

text \<open>On ASCII text \<^verbatim>\<open>trim\<close> and \<^verbatim>\<open>trim_start\<close> strip the six ASCII white-space bytes.\<close>

lemma str_trim_ascii: "is_ascii s \<Longrightarrow> str_trim s = trim_by is_ascii_ws s"
proof -
  assume "is_ascii s"
  then have "map snd (utf8_chunks s) = map (\<lambda>c. [c]) s"
    by (simp add: utf8_chunks_ascii comp_def)
  then show ?thesis
    by (simp add: str_trim_def trim_by_def dropWhile_map_singleton rev_map)
qed

lemma str_trim_start_ascii: "is_ascii s \<Longrightarrow> str_trim_start s = dropWhile is_ascii_ws s"
  by (simp add: str_trim_start_def trim_start_by_def utf8_chunks_ascii comp_def
      dropWhile_map_singleton)

lemma is_ascii_append [simp]: "is_ascii (a @ b) \<longleftrightarrow> is_ascii a \<and> is_ascii b"
  by (simp add: is_ascii_def)

lemma is_ascii_concat_split: "is_ascii s \<Longrightarrow> p \<in> set (split_on c s) \<Longrightarrow> is_ascii p"
proof -
  have "set p \<subseteq> set s" if "p \<in> set (split_on c s)"
    using that
  proof (induction s arbitrary: p)
    case (Cons x xs)
    then show ?case
      by (cases "split_on c xs") (fastforce split: if_splits)+
  qed simp
  then show "is_ascii s \<Longrightarrow> p \<in> set (split_on c s) \<Longrightarrow> is_ascii p"
    by (auto simp: is_ascii_def list_all_iff)
qed

end
