(* ===== verification/Paths.thy ===== *)
theory Paths
  imports Rust_Str
begin

text \<open>
  Unix paths and the request-path sanitizer (\<^verbatim>\<open>src/fs/path.rs\<close>). A \<^verbatim>\<open>PathBuf\<close> is its byte
  string; \<open>components\<close>, \<open>path_push\<close>, \<open>path_parent\<close>, \<open>file_name\<close> and \<open>with_file_name\<close> are the
  operations of \<^verbatim>\<open>std::path\<close> on it. The lemmas show what \<open>sanitize_path\<close> can and cannot build:
  whatever the client sends, the result is the base directory followed by plain names.
\<close>

type_synonym path = string

section \<open>std::path on Unix\<close>

datatype component = RootDir | CurDir | ParentDir | Normal string

abbreviation slash :: char where
  "slash \<equiv> CHR ''/''"

definition has_root :: "path \<Rightarrow> bool" where
  "has_root p \<longleftrightarrow> p \<noteq> [] \<and> hd p = slash"

text \<open>A segment between separators; empty ones and \<open>.\<close> are skipped.\<close>

definition seg_component :: "string \<Rightarrow> component option" where
  "seg_component s =
     (if s = [] \<or> s = ''.'' then None
      else if s = ''..'' then Some ParentDir
      else Some (Normal s))"

definition seg_components :: "string list \<Rightarrow> component list" where
  "seg_components ss = List.map_filter seg_component ss"

text \<open>A leading \<open>.\<close> of a relative path is the one that is kept.\<close>

definition components :: "path \<Rightarrow> component list" where
  "components p =
     (if has_root p then RootDir # seg_components (split_on slash p)
      else if hd (split_on slash p) = ''.'' then CurDir # seg_components (split_on slash p)
      else seg_components (split_on slash p))"

definition path_push :: "path \<Rightarrow> path \<Rightarrow> path" where
  "path_push base p =
     (if has_root p then p
      else if base = [] \<or> ends_with slash base then base @ p
      else base @ slash # p)"

definition is_trivial_seg :: "string \<Rightarrow> bool" where
  "is_trivial_seg s \<longleftrightarrow> s = [] \<or> s = ''.''"

text \<open>The part of a path before its body: the root or a leading current directory.\<close>

definition path_start :: "path \<Rightarrow> string" where
  "path_start p = (if has_root p then [slash]
     else if hd (split_on slash p) = ''.'' then ''.'' else [])"

definition rev_segs :: "path \<Rightarrow> string list" where
  "rev_segs p = dropWhile is_trivial_seg (rev (split_on slash (drop (length (path_start p)) p)))"

definition path_parent :: "path \<Rightarrow> path option" where
  "path_parent p =
     (case rev_segs p of
        [] \<Rightarrow> if path_start p = ''.'' then Some [] else None
      | _ # rest \<Rightarrow> Some (path_start p @ join_on slash (rev (dropWhile is_trivial_seg rest))))"

definition path_pop :: "path \<Rightarrow> path" where
  "path_pop p = (case path_parent p of None \<Rightarrow> p | Some q \<Rightarrow> q)"

definition file_name :: "path \<Rightarrow> string option" where
  "file_name p = (case rev_segs p of [] \<Rightarrow> None | s # _ \<Rightarrow> if s = ''..'' then None else Some s)"

definition with_file_name :: "path \<Rightarrow> string \<Rightarrow> path" where
  "with_file_name p name = path_push (if file_name p \<noteq> None then path_pop p else p) name"

definition is_normal :: "component \<Rightarrow> bool" where
  "is_normal c \<longleftrightarrow> (case c of Normal _ \<Rightarrow> True | _ \<Rightarrow> False)"

section \<open>fs/path.rs\<close>

fun is_hidden_component :: "component \<Rightarrow> bool" where
  "is_hidden_component (Normal s) =
     (case to_str s of None \<Rightarrow> False | Some n \<Rightarrow> n \<noteq> [] \<and> hd n = CHR ''.'')"
| "is_hidden_component _ = False"

definition is_hidden :: "path \<Rightarrow> bool" where
  "is_hidden p \<longleftrightarrow> list_ex is_hidden_component (components p)"

text \<open>
  The percent decoder is the \<^verbatim>\<open>percent_encoding\<close> crate's: a parameter. On Unix
  \<^verbatim>\<open>path_from_bytes\<close> takes the bytes as they are.
\<close>

definition path_from_bytes :: "bytes \<Rightarrow> path" where
  "path_from_bytes bs = bs"

definition decode_tail_path :: "(string \<Rightarrow> bytes) \<Rightarrow> string \<Rightarrow> path" where
  "decode_tail_path percent_decode tail =
     path_from_bytes (percent_decode (trim_start_by (\<lambda>c. c = slash) tail))"

fun sanitize_loop :: "path \<Rightarrow> component list \<Rightarrow> path" where
  "sanitize_loop full [] = full"
| "sanitize_loop full (Normal c # cs) =
     (if list_all is_normal (components c)
      then sanitize_loop (path_push full c) cs
      else sanitize_loop full cs)"
| "sanitize_loop full (CurDir # cs) = sanitize_loop full cs"
| "sanitize_loop full (RootDir # cs) = sanitize_loop full cs"
| "sanitize_loop full (ParentDir # cs) = sanitize_loop full cs"

definition sanitize_path :: "(string \<Rightarrow> bytes) \<Rightarrow> path \<Rightarrow> string \<Rightarrow> (nat, path) result" where
  "sanitize_path percent_decode base tail =
     Inr (sanitize_loop base (components (decode_tail_path percent_decode tail)))"

section \<open>What the sanitizer builds\<close>

text \<open>A plain name is one directory entry: no separator, not empty, not a dot directory.\<close>

definition plain_name :: "string \<Rightarrow> bool" where
  "plain_name s \<longleftrightarrow> slash \<notin> set s \<and> s \<noteq> [] \<and> s \<noteq> ''.'' \<and> s \<noteq> ''..''"

definition normal_names :: "component list \<Rightarrow> string list" where
  "normal_names cs = List.map_filter (\<lambda>c. case c of Normal s \<Rightarrow> Some s | _ \<Rightarrow> None) cs"

lemma seg_components_simps [simp]:
  "seg_components [] = []"
  "seg_components (s # ss) = (case seg_component s of None \<Rightarrow> [] | Some c \<Rightarrow> [c]) @ seg_components ss"
  "seg_components (ss @ ts) = seg_components ss @ seg_components ts"
  by (auto simp: seg_components_def List.map_filter_def split: option.splits)

lemma normal_names_simps [simp]:
  "normal_names [] = []"
  "normal_names (Normal s # cs) = s # normal_names cs"
  "normal_names (RootDir # cs) = normal_names cs"
  "normal_names (CurDir # cs) = normal_names cs"
  "normal_names (ParentDir # cs) = normal_names cs"
  by (auto simp: normal_names_def List.map_filter_def)

lemma seg_component_plain: "plain_name s \<Longrightarrow> seg_component s = Some (Normal s)"
  by (simp add: seg_component_def plain_name_def)

lemma plain_no_root [simp]: "plain_name s \<Longrightarrow> \<not> has_root s"
  by (cases s) (auto simp: plain_name_def has_root_def)

lemma has_root_append [simp]: "base \<noteq> [] \<Longrightarrow> has_root (base @ x) = has_root base"
  by (simp add: has_root_def)

lemma split_plain [simp]: "plain_name s \<Longrightarrow> split_on slash s = [s]"
  by (simp add: plain_name_def split_on_none)

lemma components_plain: "plain_name s \<Longrightarrow> components s = [Normal s]"
  by (simp add: components_def seg_component_plain) (simp add: plain_name_def)

lemma seg_components_Normal:
  "Normal s \<in> set (seg_components (split_on slash p)) \<Longrightarrow> plain_name s"
  by (auto simp: seg_components_def List.map_filter_def seg_component_def plain_name_def
      dest: split_on_pieces split: if_splits)

lemma components_Normal: "Normal s \<in> set (components p) \<Longrightarrow> plain_name s"
  by (auto simp: components_def split: if_splits dest: seg_components_Normal)

lemma components_Nil [simp]: "components [] = []"
  by (simp add: components_def has_root_def seg_component_def)

text \<open>Pushing a plain name adds exactly one component.\<close>

lemma components_push:
  assumes "plain_name s"
  shows "components (path_push base s) = components base @ [Normal s]"
proof (cases "base = []")
  case True
  with assms show ?thesis by (simp add: path_push_def components_plain)
next
  case ne: False
  show ?thesis
  proof (cases "ends_with slash base")
    case True
    then obtain t where t: "base = t @ [slash]" by (blast dest: ends_with_split)
    have "split_on slash (base @ s) = split_on slash t @ [s]"
      and "split_on slash base = split_on slash t @ [[]]"
      using split_on_append [of slash t s] split_on_append [of slash t "[]"] assms
      by (simp_all add: t)
    then show ?thesis
      using assms ne
      by (simp add: path_push_def True components_def seg_component_plain seg_component_def [of "[]"])
  next
    case False
    have "split_on slash (base @ slash # s) = split_on slash base @ [s]"
      using assms by (simp add: split_on_append)
    then show ?thesis
      using assms ne
      by (simp add: path_push_def False components_def seg_component_plain)
  qed
qed

lemma components_push_all:
  "\<forall>s \<in> set ns. plain_name s \<Longrightarrow>
     components (foldl path_push base ns) = components base @ map Normal ns"
  by (induction ns arbitrary: base) (auto simp: components_push)

text \<open>
  On Unix the check against segments such as \<open>c:\<close> never fires, so the loop pushes every
  normal component.
\<close>

lemma sanitize_loop_eq:
  "\<forall>s \<in> set (normal_names cs). plain_name s \<Longrightarrow>
     sanitize_loop full cs = foldl path_push full (normal_names cs)"
  by (induction full cs rule: sanitize_loop.induct) (auto simp: components_plain is_normal_def)

lemma normal_names_components: "s \<in> set (normal_names (components p)) \<Longrightarrow> plain_name s"
  by (auto simp: normal_names_def List.map_filter_def split: component.splits
      dest!: components_Normal)

lemma sanitize_path_eq:
  "sanitize_path pd base tail =
     Inr (foldl path_push base (normal_names (components (decode_tail_path pd tail))))"
  by (simp add: sanitize_path_def sanitize_loop_eq normal_names_components)

text \<open>A path is under another when its components extend it by plain names only.\<close>

definition under :: "path \<Rightarrow> path \<Rightarrow> bool" where
  "under base p \<longleftrightarrow>
     (\<exists>ns. components p = components base @ map Normal ns \<and> (\<forall>n \<in> set ns. plain_name n))"

lemma under_refl [simp]: "under base base"
  by (auto simp: under_def intro: exI [of _ "[]"])

lemma under_push: "under base p \<Longrightarrow> plain_name s \<Longrightarrow> under base (path_push p s)"
proof -
  assume "under base p" and s: "plain_name s"
  then obtain ns where "components p = components base @ map Normal ns" "\<forall>n \<in> set ns. plain_name n"
    by (auto simp: under_def)
  with s show ?thesis
    unfolding under_def by (intro exI [of _ "ns @ [s]"]) (simp add: components_push)
qed

lemma under_sanitize: "sanitize_path pd base tail = Inr p \<Longrightarrow> under base p"
  by (auto simp: sanitize_path_eq under_def normal_names_components components_push_all)

lemma under_no_parent: "under base p \<Longrightarrow> ParentDir \<in> set (components p) \<Longrightarrow> ParentDir \<in> set (components base)"
  by (auto simp: under_def)

section \<open>Parents and siblings\<close>

text \<open>
  A path is its start (the root, a leading current directory or nothing) followed by the
  segments of its body; both forms have the same components.
\<close>

definition start_comps :: "string \<Rightarrow> component list" where
  "start_comps st = (if st = [slash] then [RootDir] else if st = ''.'' then [CurDir] else [])"

definition body_segs :: "path \<Rightarrow> string list" where
  "body_segs p = split_on slash (drop (length (path_start p)) p)"

definition well_started :: "string \<Rightarrow> string list \<Rightarrow> bool" where
  "well_started st ss \<longleftrightarrow> (\<forall>s \<in> set ss. slash \<notin> set s) \<and>
     (st = [slash] \<or> st = ''.'' \<and> (ss = [] \<or> hd ss = [])
      \<or> st = [] \<and> (ss = [] \<or> ss = [[]] \<or> hd ss \<noteq> [] \<and> hd ss \<noteq> ''.''))"

lemma seg_component_trivial [simp]: "seg_component [] = None" "seg_component ''.'' = None"
  by (simp_all add: seg_component_def)

lemma split_join_segs:
  assumes "\<forall>s \<in> set ss. slash \<notin> set s"
  shows "split_on slash (join_on slash ss) = (if ss = [] then [[]] else ss)"
  using assms by (simp add: split_join)

lemma components_started:
  assumes "well_started st ss"
  shows "components (st @ join_on slash ss) = start_comps st @ seg_components ss"
proof -
  have sj: "split_on slash (join_on slash ss) = (if ss = [] then [[]] else ss)"
    using assms by (intro split_join_segs) (simp add: well_started_def)
  consider "st = [slash]" | "st = ''.''" "ss = [] \<or> hd ss = []"
    | "st = []" "ss = [] \<or> ss = [[]]" | "st = []" "ss \<noteq> []" "hd ss \<noteq> []" "hd ss \<noteq> ''.''"
    using assms by (auto simp: well_started_def)
  then show ?thesis
  proof cases
    case 1
    then show ?thesis using sj by (simp add: components_def has_root_def start_comps_def)
  next
    case 2
    show ?thesis
    proof (cases ss)
      case (Cons s ts)
      with 2 have "s = []" by simp
      show ?thesis
      proof (cases "ts = []")
        case False
        then have "join_on slash ss = slash # join_on slash ts"
          using Cons \<open>s = []\<close> by (simp add: join_on_Cons)
        moreover have "split_on slash (join_on slash ts) = ts"
          using sj Cons \<open>s = []\<close> False assms by (simp add: split_join_segs well_started_def)
        ultimately show ?thesis
          using Cons \<open>s = []\<close> 2(1) by (simp add: components_def has_root_def start_comps_def)
      qed (use Cons \<open>s = []\<close> 2(1) in \<open>simp add: components_def has_root_def start_comps_def\<close>)
    qed (use 2(1) in \<open>simp add: components_def has_root_def start_comps_def\<close>)
  next
    case 3
    then show ?thesis by (auto simp: start_comps_def)
  next
    case 4
    then obtain c cs ts where ss: "ss = (c # cs) # ts" by (cases ss; cases "hd ss") auto
    then have "\<not> has_root (join_on slash ss)"
      using assms by (cases ts) (auto simp: has_root_def well_started_def join_on_Cons)
    with sj ss 4 show ?thesis by (auto simp: components_def start_comps_def)
  qed
qed

lemma path_started: "p = path_start p @ join_on slash (body_segs p) \<and> well_started (path_start p) (body_segs p)"
proof -
  have no: "\<forall>s \<in> set (body_segs p). slash \<notin> set s"
    by (auto simp: body_segs_def dest: split_on_pieces)
  consider "has_root p" | "\<not> has_root p" "hd (split_on slash p) = ''.''"
    | "\<not> has_root p" "hd (split_on slash p) \<noteq> ''.''" by blast
  then show ?thesis
  proof cases
    case 1
    then show ?thesis using no
      by (cases p) (auto simp: path_start_def has_root_def body_segs_def well_started_def)
  next
    case 2
    then obtain ts where ts: "split_on slash p = ''.'' # ts"
      by (cases "split_on slash p") (auto simp: split_on_ne)
    then have "p = join_on slash (''.'' # ts)" by (metis join_split)
    then have "p = ''.'' @ drop 1 p" "drop 1 p = [] \<or> hd (drop 1 p) = slash"
      by (cases ts; simp)+
    moreover have "hd (split_on slash (drop 1 p)) = []"
      using calculation(2) by (cases "drop 1 p") auto
    ultimately show ?thesis using no 2
      by (auto simp: path_start_def body_segs_def well_started_def)
  next
    case 3
    then have "p \<noteq> [] \<Longrightarrow> hd (split_on slash p) \<noteq> []"
      by (cases p) (auto simp: has_root_def split: list.splits)
    then show ?thesis using no 3
      by (cases "p = []") (auto simp: path_start_def body_segs_def well_started_def)
  qed
qed

lemma components_body:
  "components p = start_comps (path_start p) @ seg_components (body_segs p)"
  using components_started path_started by metis

lemma rev_segs_body: "rev_segs p = dropWhile is_trivial_seg (rev (body_segs p))"
  by (simp add: rev_segs_def body_segs_def)

lemma seg_components_trim:
  "seg_components (rev (dropWhile is_trivial_seg xs)) = seg_components (rev xs)"
  by (induction xs) (auto simp: is_trivial_seg_def)

lemma well_started_prefix: "well_started st ss \<Longrightarrow> prefix ts ss \<Longrightarrow> well_started st ts"
  by (cases ts; cases ss) (auto simp: well_started_def dest: set_mono_prefix)

lemma rev_segs_Nil: "rev_segs p = [] \<Longrightarrow> components p = start_comps (path_start p)"
  using seg_components_trim [of "rev (body_segs p)"]
  by (simp add: components_body rev_segs_body del: dropWhile_eq_Nil_conv)

lemma rev_segs_Cons:
  assumes "rev_segs p = s # rest"
  shows "seg_component s \<noteq> None"
    and "components p = start_comps (path_start p) @ seg_components (rev rest) @ [the (seg_component s)]"
proof -
  have "\<not> is_trivial_seg s"
    using assms hd_dropWhile [of is_trivial_seg "rev (body_segs p)"] by (simp add: rev_segs_body)
  then show s: "seg_component s \<noteq> None"
    by (simp add: is_trivial_seg_def seg_component_def)
  have "components p = start_comps (path_start p) @ seg_components (rev (s # rest))"
    unfolding components_body [of p] using assms seg_components_trim [of "rev (body_segs p)"]
    by (simp add: rev_segs_body)
  with s show "components p = start_comps (path_start p) @ seg_components (rev rest) @ [the (seg_component s)]"
    by auto
qed

lemma components_parent:
  assumes "rev_segs p = s # rest"
  shows "components (path_pop p) = start_comps (path_start p) @ seg_components (rev rest)"
proof -
  let ?top = "rev (dropWhile is_trivial_seg rest)"
  have "suffix (s # rest) (rev (body_segs p))"
    using assms suffix_dropWhile by (metis rev_segs_body)
  moreover have "suffix (dropWhile is_trivial_seg rest) (s # rest)"
    using suffix_dropWhile by (metis suffix_ConsI)
  ultimately have "prefix ?top (body_segs p)"
    by (metis suffix_order.trans suffix_to_prefix rev_rev_ident)
  then have "well_started (path_start p) ?top"
    using path_started well_started_prefix by metis
  from components_started [OF this] show ?thesis
    by (simp add: assms path_pop_def path_parent_def seg_components_trim)
qed

text \<open>The last name of a path, and what is left without it.\<close>

lemma file_name_iff: "file_name p = Some n \<longleftrightarrow> (\<exists>cs. components p = cs @ [Normal n])"
proof (cases "rev_segs p")
  case Nil
  then show ?thesis
    using rev_segs_Nil [OF Nil]
    by (auto simp: file_name_def start_comps_def append_eq_Cons_conv Cons_eq_append_conv)
next
  case (Cons s rest)
  then show ?thesis
    using rev_segs_Cons [OF Cons]
    by (auto simp: file_name_def seg_component_def split: if_splits)
qed

lemma file_name_plain: "file_name p = Some n \<Longrightarrow> plain_name n"
  unfolding file_name_iff by (auto intro: components_Normal [of n p])

lemma components_pop:
  assumes "file_name p = Some n"
  shows "components (path_pop p) = butlast (components p)"
proof -
  obtain s rest where r: "rev_segs p = s # rest"
    using assms by (cases "rev_segs p") (auto simp: file_name_def)
  show ?thesis
    unfolding components_parent [OF r] rev_segs_Cons(2) [OF r] append_assoc [symmetric] butlast_snoc ..
qed

lemma components_with_file_name:
  assumes "file_name p = Some n" "plain_name m"
  shows "components (with_file_name p m) = butlast (components p) @ [Normal m]"
  using assms by (simp add: with_file_name_def components_push components_pop)

lemma file_name_push [simp]: "plain_name s \<Longrightarrow> file_name (path_push p s) = Some s"
  by (simp add: file_name_iff components_push)

lemma components_pop_push [simp]:
  "plain_name s \<Longrightarrow> components (path_pop (path_push p s)) = components p"
  by (simp add: components_pop [OF file_name_push] components_push)

section \<open>Properties\<close>

lemma prefix_push: "plain_name s \<Longrightarrow> prefix base (path_push base s)"
  by (simp add: path_push_def)

lemma prefix_push_all: "\<forall>s \<in> set ns. plain_name s \<Longrightarrow> prefix base (foldl path_push base ns)"
proof (induction ns arbitrary: base)
  case (Cons n ns)
  then have "prefix base (path_push base n)" "prefix (path_push base n) (foldl path_push (path_push base n) ns)"
    by (simp_all add: prefix_push)
  then show ?case using prefix_order.trans by auto
qed simp

text \<open>C14: whatever the client sends and whatever the percent decoder makes of it, the path to be
  served is the base directory, byte for byte, followed by the plain names of the decoded
  request in order: no separator, no root and no parent directory can be smuggled in.\<close>

theorem sanitize_path_confined:
  "\<exists>p ns. sanitize_path pd base tail = Inr p
     \<and> prefix base p
     \<and> components p = components base @ map Normal ns
     \<and> ns = normal_names (components (decode_tail_path pd tail))
     \<and> list_all plain_name ns"
  using normal_names_components [of _ "decode_tail_path pd tail"]
  by (auto simp: sanitize_path_eq list_all_iff components_push_all intro: prefix_push_all)

end
