(* ===== verification/Http.thy ===== *)
theory Http
  imports Paths
begin

text \<open>
  The HTTP data the server works on: methods (\<^verbatim>\<open>src/http_ext.rs\<close>), status codes, header maps,
  URIs, requests and responses. These are types of the \<^verbatim>\<open>http\<close>, \<^verbatim>\<open>hyper\<close> and \<^verbatim>\<open>headers\<close> crates;
  they are represented by the data their documented accessors give. What those crates
  compute on the data (parsing a date, a range, a URI; encoding a typed header; guessing a
  MIME type; matching a pattern) is not defined here: it is the record \<open>api\<close> of functions,
  a parameter of every definition that uses it.
\<close>

section \<open>Methods (http\_ext.rs)\<close>

datatype http_method =
    OPTIONS | GET | POST | PUT | DELETE | HEAD | TRACE | CONNECT | PATCH | Extension string

definition HTTP_SUPPORTED_METHODS :: "http_method list" where
  "HTTP_SUPPORTED_METHODS = [OPTIONS, HEAD, GET]"

fun is_allowed_loop :: "http_method list \<Rightarrow> http_method \<Rightarrow> bool" where
  "is_allowed_loop [] self = False"
| "is_allowed_loop (m # ms) self = (if m = self then True else is_allowed_loop ms self)"

definition is_allowed :: "http_method \<Rightarrow> bool" where
  "is_allowed self = is_allowed_loop HTTP_SUPPORTED_METHODS self"

definition is_get :: "http_method \<Rightarrow> bool" where
  "is_get self \<longleftrightarrow> self = GET"

definition is_head :: "http_method \<Rightarrow> bool" where
  "is_head self \<longleftrightarrow> self = HEAD"

definition is_options :: "http_method \<Rightarrow> bool" where
  "is_options self \<longleftrightarrow> self = OPTIONS"

lemma is_allowed_iff: "is_allowed m \<longleftrightarrow> m = OPTIONS \<or> m = HEAD \<or> m = GET"
  by (auto simp: is_allowed_def HTTP_SUPPORTED_METHODS_def)

section \<open>Status codes\<close>

type_synonym status = nat

abbreviation OK :: status where "OK \<equiv> 200"
abbreviation NO_CONTENT :: status where "NO_CONTENT \<equiv> 204"
abbreviation PARTIAL_CONTENT :: status where "PARTIAL_CONTENT \<equiv> 206"
abbreviation MOVED_PERMANENTLY :: status where "MOVED_PERMANENTLY \<equiv> 301"
abbreviation FOUND :: status where "FOUND \<equiv> 302"
abbreviation NOT_MODIFIED :: status where "NOT_MODIFIED \<equiv> 304"
abbreviation PERMANENT_REDIRECT :: status where "PERMANENT_REDIRECT \<equiv> 308"
abbreviation BAD_REQUEST :: status where "BAD_REQUEST \<equiv> 400"
abbreviation UNAUTHORIZED :: status where "UNAUTHORIZED \<equiv> 401"
abbreviation FORBIDDEN :: status where "FORBIDDEN \<equiv> 403"
abbreviation NOT_FOUND :: status where "NOT_FOUND \<equiv> 404"
abbreviation METHOD_NOT_ALLOWED :: status where "METHOD_NOT_ALLOWED \<equiv> 405"
abbreviation PRECONDITION_FAILED :: status where "PRECONDITION_FAILED \<equiv> 412"
abbreviation RANGE_NOT_SATISFIABLE :: status where "RANGE_NOT_SATISFIABLE \<equiv> 416"
abbreviation INTERNAL_SERVER_ERROR :: status where "INTERNAL_SERVER_ERROR \<equiv> 500"
abbreviation SERVICE_UNAVAILABLE :: status where "SERVICE_UNAVAILABLE \<equiv> 503"

section \<open>Header maps\<close>

text \<open>
  A header map is a multimap from lower-case names to values, here the list of its
  entries: \<^verbatim>\<open>get\<close> gives the first value of a name, \<^verbatim>\<open>insert\<close> leaves the new value as the only
  one, \<^verbatim>\<open>remove\<close> drops all values.
\<close>

type_synonym header_map = "(string \<times> string) list"

definition hm_get :: "header_map \<Rightarrow> string \<Rightarrow> string option" where
  "hm_get h n = map_of h n"

definition hm_get_all :: "header_map \<Rightarrow> string \<Rightarrow> string list" where
  "hm_get_all h n = map snd (filter (\<lambda>(k, _). k = n) h)"

definition hm_remove :: "string \<Rightarrow> header_map \<Rightarrow> header_map" where
  "hm_remove n h = filter (\<lambda>(k, _). k \<noteq> n) h"

fun hm_insert :: "string \<Rightarrow> string \<Rightarrow> header_map \<Rightarrow> header_map" where
  "hm_insert n v [] = [(n, v)]"
| "hm_insert n v ((k, w) # h) =
     (if k = n then (n, v) # hm_remove n h else (k, w) # hm_insert n v h)"

abbreviation ACCEPT_ENCODING :: string where "ACCEPT_ENCODING \<equiv> ''accept-encoding''"
abbreviation ACCEPT_RANGES :: string where "ACCEPT_RANGES \<equiv> ''accept-ranges''"
abbreviation ALLOW :: string where "ALLOW \<equiv> ''allow''"
abbreviation CACHE_CONTROL :: string where "CACHE_CONTROL \<equiv> ''cache-control''"
abbreviation CONTENT_ENCODING :: string where "CONTENT_ENCODING \<equiv> ''content-encoding''"
abbreviation CONTENT_LENGTH :: string where "CONTENT_LENGTH \<equiv> ''content-length''"
abbreviation CONTENT_RANGE :: string where "CONTENT_RANGE \<equiv> ''content-range''"
abbreviation CONTENT_TYPE :: string where "CONTENT_TYPE \<equiv> ''content-type''"
abbreviation HOST :: string where "HOST \<equiv> ''host''"
abbreviation LAST_MODIFIED :: string where "LAST_MODIFIED \<equiv> ''last-modified''"
abbreviation LOCATION :: string where "LOCATION \<equiv> ''location''"
abbreviation ORIGIN :: string where "ORIGIN \<equiv> ''origin''"
abbreviation VARY :: string where "VARY \<equiv> ''vary''"
abbreviation WWW_AUTHENTICATE :: string where "WWW_AUTHENTICATE \<equiv> ''www-authenticate''"

text \<open>The interface the response stages rely on.\<close>

locale header_map_ops =
  fixes get :: "'h \<Rightarrow> 'k \<Rightarrow> 'v option"
    and ins :: "'k \<Rightarrow> 'v \<Rightarrow> 'h \<Rightarrow> 'h"
    and rem :: "'k \<Rightarrow> 'h \<Rightarrow> 'h"
  assumes get_ins: "get (ins n v h) m = (if m = n then Some v else get h m)"
    and get_rem: "get (rem n h) m = (if m = n then None else get h m)"
begin

lemma get_ins_all:
  "get (foldl (\<lambda>h (k, v). ins k v h) h kvs) m =
     (case map_of (rev kvs) m of None \<Rightarrow> get h m | Some v \<Rightarrow> Some v)"
proof (induction kvs arbitrary: h)
  case (Cons kv kvs)
  obtain k v where "kv = (k, v)" by fastforce
  with Cons show ?case
    by (simp add: get_ins map_add_def split: option.splits)
qed simp

lemma get_ins_all_frame:
  "m \<notin> fst ` set kvs \<Longrightarrow> get (foldl (\<lambda>h (k, v). ins k v h) h kvs) m = get h m"
  by (simp add: get_ins_all map_of_eq_None_iff split: option.splits)
    (metis fst_conv image_eqI map_of_SomeD not_None_eq set_rev)

end

lemma map_of_remove [simp]:
  "map_of (hm_remove n h) m = (if m = n then None else map_of h m)"
  by (induction h) (auto simp: hm_remove_def)

lemma map_of_insert [simp]:
  "map_of (hm_insert n v h) m = (if m = n then Some v else map_of h m)"
  by (induction n v h rule: hm_insert.induct) auto

interpretation hm: header_map_ops hm_get hm_insert hm_remove
  by unfold_locales (simp_all add: hm_get_def)

lemmas hm_simps [simp] = hm.get_ins hm.get_rem

lemma hm_get_Nil [simp]: "hm_get [] n = None"
  by (simp add: hm_get_def)

lemma hm_get_Cons [simp]: "hm_get ((k, v) # h) n = (if n = k then Some v else hm_get h n)"
  by (simp add: hm_get_def)

section \<open>URIs, requests, responses\<close>

record path_and_query =
  pq_str :: string
  pq_query :: "string option"

record uri =
  u_scheme :: "string option"
  u_authority :: "string option"
  u_path_and_query :: "path_and_query option"
  u_path :: string
  u_query :: "string option"
  u_host :: "string option"
  u_port :: "u16 option"
  u_str :: string

record request =
  r_method :: http_method
  r_uri :: uri
  r_headers :: header_map

record 'b response =
  resp_status :: status
  resp_headers :: header_map
  resp_body :: 'b

definition insert_header :: "string \<Rightarrow> string \<Rightarrow> 'b response \<Rightarrow> 'b response" where
  "insert_header n v r = r\<lparr>resp_headers := hm_insert n v (resp_headers r)\<rparr>"

definition remove_header :: "string \<Rightarrow> 'b response \<Rightarrow> 'b response" where
  "remove_header n r = r\<lparr>resp_headers := hm_remove n (resp_headers r)\<rparr>"

abbreviation header :: "'b response \<Rightarrow> string \<Rightarrow> string option" where
  "header r \<equiv> hm_get (resp_headers r)"

lemma insert_header_simps [simp]:
  "resp_status (insert_header n v r) = resp_status r"
  "resp_body (insert_header n v r) = resp_body r"
  "header (insert_header n v r) m = (if m = n then Some v else header r m)"
  by (simp_all add: insert_header_def)

lemma remove_header_simps [simp]:
  "resp_status (remove_header n r) = resp_status r"
  "resp_body (remove_header n r) = resp_body r"
  "header (remove_header n r) m = (if m = n then None else header r m)"
  by (simp_all add: remove_header_def)

text \<open>Inserting a list of pairs, the way the stages copy headers into a response.\<close>

lemma foldl_insert_header:
  "foldl (\<lambda>r (k, v). insert_header k v r) r kvs
     = r\<lparr>resp_headers := foldl (\<lambda>h (k, v). hm_insert k v h) (resp_headers r) kvs\<rparr>"
  by (induction kvs arbitrary: r) (auto simp: insert_header_def)

lemma insert_headers_simps [simp]:
  "resp_status (foldl (\<lambda>r (k, v). insert_header k v r) r kvs) = resp_status r"
  "resp_body (foldl (\<lambda>r (k, v). insert_header k v r) r kvs) = resp_body r"
  "header (foldl (\<lambda>r (k, v). insert_header k v r) r kvs) n
     = (case map_of (rev kvs) n of None \<Rightarrow> header r n | Some v \<Rightarrow> Some v)"
  by (simp_all add: foldl_insert_header hm.get_ins_all)

section \<open>Third-party functions\<close>

datatype bound = Included u64 | Excluded u64 | Unbounded

text \<open>A parsed \<^verbatim>\<open>mime::Mime\<close>: its top-level type, structured suffix and essence.\<close>

record mime =
  mime_type :: string
  mime_suffix :: "string option"
  mime_essence :: string

type_synonym http_date = nat

record api =
  percent_decode :: "string \<Rightarrow> bytes"
  percent_encode :: "(char \<Rightarrow> bool) \<Rightarrow> bytes \<Rightarrow> string"
  decode_utf8_lossy_percent :: "string \<Rightarrow> string"
  form_parse :: "string \<Rightarrow> (string \<times> string) list"
  hv_valid :: "string \<Rightarrow> bool"
  hv_to_str :: "string \<Rightarrow> string option"
  canonical_reason :: "status \<Rightarrow> string option"
  status_as_str :: "status \<Rightarrow> string"
  status_display :: "status \<Rightarrow> string"
  mime_from_path :: "path \<Rightarrow> string"
  typed_content_type :: "header_map \<Rightarrow> mime option"
  typed_if_modified_since :: "header_map \<Rightarrow> http_date option"
  typed_if_unmodified_since :: "header_map \<Rightarrow> http_date option"
  typed_if_range :: "header_map \<Rightarrow> string option"
  typed_range :: "header_map \<Rightarrow> (bound \<times> bound) list option"
  precondition_passes :: "http_date \<Rightarrow> http_date \<Rightarrow> bool"
  is_modified_since :: "http_date \<Rightarrow> http_date \<Rightarrow> bool"
  if_range_is_modified :: "string \<Rightarrow> http_date option \<Rightarrow> bool"
  last_modified_from :: "int \<Rightarrow> http_date"
  last_modified_value :: "http_date \<Rightarrow> string"
  content_range_bytes :: "u64 \<Rightarrow> u64 \<Rightarrow> u64 \<Rightarrow> string option"
  content_range_unsatisfied :: "u64 \<Rightarrow> string"
  content_length_value :: "u64 \<Rightarrow> string"
  allow_value :: "http_method list \<Rightarrow> string"
  typed_authorization_basic :: "header_map \<Rightarrow> (string \<times> string) option"
  bcrypt_verify :: "string \<Rightarrow> string \<Rightarrow> bool option"
  typed_host :: "header_map \<Rightarrow> string option"
  method_from_bytes :: "bytes \<Rightarrow> http_method option"
  header_name_from_bytes :: "bytes \<Rightarrow> string option"
  origin_to_string :: "string \<Rightarrow> string \<Rightarrow> string option"
  header_list_value :: "string set \<Rightarrow> string"
  method_list_value :: "http_method set \<Rightarrow> string"
  re_is_match :: "string \<Rightarrow> string \<Rightarrow> bool"
  re_captures :: "string \<Rightarrow> string \<Rightarrow> string option list option"
  ac_new :: "string list \<Rightarrow> bool"
  ac_try_replace_all :: "string list \<Rightarrow> string \<Rightarrow> string list \<Rightarrow> string option"
  glob_is_match :: "string \<Rightarrow> string \<Rightarrow> bool"
  glob_to_regex :: "string \<Rightarrow> string option"
  glob_valid :: "string \<Rightarrow> bool"
  regex_valid :: "string \<Rightarrow> bool"
  uri_parse :: "string \<Rightarrow> uri option"
  pq_parse :: "string \<Rightarrow> path_and_query option"
  uri_from_parts :: "string option \<Rightarrow> string option \<Rightarrow> path_and_query option \<Rightarrow> uri option"
  to_lowercase :: "string \<Rightarrow> string"
  bytesmut_capacity :: "nat \<Rightarrow> nat"
  bytesmut_grow :: "nat \<Rightarrow> nat \<Rightarrow> nat"
  semaphore_acquire_ok :: bool
  metrics_text :: string
  html_escape :: "string \<Rightarrow> string"
  json_str :: "string \<Rightarrow> string"
  format_local :: "int \<Rightarrow> string"
  format_utc :: "int \<Rightarrow> string"

end
