(* ===== verification/File_System.thy ===== *)
theory File_System
  imports Http
begin

text \<open>
  The file system as the server sees it, and the code that reads it: \<^verbatim>\<open>src/fs/meta.rs\<close>,
  \<^verbatim>\<open>src/fs/stream.rs\<close> and the readers of \<^verbatim>\<open>src/helpers.rs\<close>. The operating system is the record
  \<open>fs\<close> of what \<^verbatim>\<open>std::fs\<close> answers for a path; it is an argument of every definition that
  touches a file, so that a theorem holds for every content of the disk.
\<close>

section \<open>std::fs\<close>

datatype io_error = NotFound | PermissionDenied | InvalidData | OtherIo

datatype file_type = FT_Dir | FT_File | FT_Symlink | FT_Other

text \<open>\<open>m_modified\<close> is the modification time in nanoseconds since the Unix epoch, if the platform has it.\<close>

record metadata =
  m_type :: file_type
  m_len :: u64
  m_modified :: "int option"
  m_blksize :: u64

record dir_entry =
  de_name :: string
  de_meta :: "io_error + metadata"
  de_target :: "io_error + (io_error + metadata)"

text \<open>
  An open file: its bytes, whether a seek to a position succeeds, and the error every read
  gives, if any (a directory opens on Unix and fails on the first read).
\<close>

record open_file =
  f_data :: bytes
  f_seek_ok :: "u64 \<Rightarrow> bool"
  f_read_err :: "io_error option"

record fs =
  fs_metadata :: "path \<Rightarrow> io_error + metadata"
  fs_is_symlink :: "path \<Rightarrow> bool"
  fs_open :: "path \<Rightarrow> io_error + open_file"
  fs_read_dir :: "path \<Rightarrow> io_error + (io_error + dir_entry) list"

definition path_exists :: "fs \<Rightarrow> path \<Rightarrow> bool" where
  "path_exists fs p \<longleftrightarrow> (\<exists>m. fs_metadata fs p = Inr m)"

definition is_file :: "fs \<Rightarrow> path \<Rightarrow> bool" where
  "is_file fs p = (case fs_metadata fs p of Inl _ \<Rightarrow> False | Inr m \<Rightarrow> m_type m = FT_File)"

definition is_dir :: "fs \<Rightarrow> path \<Rightarrow> bool" where
  "is_dir fs p = (case fs_metadata fs p of Inl _ \<Rightarrow> False | Inr m \<Rightarrow> m_type m = FT_Dir)"

lemma path_exists_code [code]:
  "path_exists fs p = (case fs_metadata fs p of Inl _ \<Rightarrow> False | Inr _ \<Rightarrow> True)"
  by (auto simp: path_exists_def split: sum.splits)

section \<open>helpers.rs\<close>

text \<open>\<^verbatim>\<open>std::fs::read\<close>: open, then read to the end.\<close>

definition fs_read :: "fs \<Rightarrow> path \<Rightarrow> io_error + bytes" where
  "fs_read fs p =
     (case fs_open fs p of
        Inl e \<Rightarrow> Inl e
      | Inr f \<Rightarrow> (case f_read_err f of Some e \<Rightarrow> Inl e | None \<Rightarrow> Inr (f_data f)))"

definition get_valid_dirpath :: "fs \<Rightarrow> path \<Rightarrow> (string, path) result" where
  "get_valid_dirpath fs v =
     (if \<not> path_exists fs v then Inl (Err (''path '' @ v @ '' was not found or inaccessible''))
      else if \<not> is_dir fs v then Inl (Err (''path '' @ v @ '' is not a valid directory''))
      else Inr v)"

definition read_bytes :: "fs \<Rightarrow> path \<Rightarrow> (string, bytes) result" where
  "read_bytes fs p =
     (case fs_read fs p of
        Inl _ \<Rightarrow> Inl (Err (''failed to read file `'' @ p @ ''`''))
      | Inr bs \<Rightarrow> Inr bs)"

definition read_bytes_default :: "fs \<Rightarrow> path \<Rightarrow> bytes" where
  "read_bytes_default fs p = (case fs_read fs p of Inl _ \<Rightarrow> [] | Inr bs \<Rightarrow> bs)"

definition read_file :: "fs \<Rightarrow> path \<Rightarrow> (string, string) result" where
  "read_file fs p =
     (case read_bytes fs p of
        Inl e \<Rightarrow> Inl e
      | Inr bs \<Rightarrow>
          if utf8_valid bs then Inr bs
          else Inl (Err (''path at `'' @ p @ ''` was not valid utf-8'')))"

section \<open>fs/meta.rs\<close>

definition try_metadata :: "fs \<Rightarrow> path \<Rightarrow> (status, metadata \<times> bool) result" where
  "try_metadata fs p =
     (case fs_metadata fs p of
        Inr m \<Rightarrow> Inr (m, m_type m = FT_Dir)
      | Inl _ \<Rightarrow> Inl (Err NOT_FOUND))"

text \<open>The path is mutated in place in the source: it is returned with the metadata.\<close>

definition try_metadata_with_html_suffix :: "fs \<Rightarrow> path \<Rightarrow> path \<times> metadata option" where
  "try_metadata_with_html_suffix fs file_path =
     (case file_name file_path of
        None \<Rightarrow> (file_path, None)
      | Some owned_filename \<Rightarrow>
          (let html_path = with_file_name file_path (owned_filename @ ''.html'')
           in case try_metadata fs html_path of
                Inr (m, _) \<Rightarrow> (html_path, Some m)
              | Inl _ \<Rightarrow> (with_file_name html_path owned_filename, None)))"

section \<open>fs/stream.rs\<close>

definition DEFAULT_READ_BUF_SIZE :: u64 where
  "DEFAULT_READ_BUF_SIZE = 4096"

definition get_block_size :: "metadata \<Rightarrow> u64" where
  "get_block_size m = max (m_blksize m) DEFAULT_READ_BUF_SIZE"

definition optimal_buf_size :: "metadata \<Rightarrow> u64" where
  "optimal_buf_size m = min (get_block_size m) (m_len m)"

text \<open>
  A \<^verbatim>\<open>FileStream\<close> over any reader. \<open>read\<close> is the reader's \<^verbatim>\<open>Read::read\<close> into a buffer of the given
  size; a poll yields the end, an error or the next chunk together with the reader's new state.
\<close>

datatype 'a poll = Done | Item 'a | Failed io_error

record 'r file_stream =
  fst_reader :: 'r
  fst_buf_size :: nat

type_synonym 'r read = "'r \<Rightarrow> nat \<Rightarrow> io_error + (bytes \<times> 'r)"

definition poll_next :: "'r read \<Rightarrow> 'r file_stream \<Rightarrow> bytes poll \<times> 'r file_stream" where
  "poll_next read self =
     (case read (fst_reader self) (fst_buf_size self) of
        Inr (buf, r) \<Rightarrow>
          (let self' = self\<lparr>fst_reader := r\<rparr>
           in if length buf = 0 then (Done, self') else (Item buf, self'))
      | Inl err \<Rightarrow> (Failed err, self))"

text \<open>The consumer (hyper) polls until the end or an error; fuel bounds the number of polls.\<close>

fun drain :: "'r read \<Rightarrow> nat \<Rightarrow> 'r file_stream \<Rightarrow> (io_error + bytes) option" where
  "drain read 0 s = None"
| "drain read (Suc fuel) s =
     (case poll_next read s of
        (Done, _) \<Rightarrow> Some (Inr [])
      | (Failed e, _) \<Rightarrow> Some (Inl e)
      | (Item b, s') \<Rightarrow>
          (case drain read fuel s' of
             None \<Rightarrow> None
           | Some (Inl e) \<Rightarrow> Some (Inl e)
           | Some (Inr bs) \<Rightarrow> Some (Inr (b @ bs))))"

text \<open>
  What \<^verbatim>\<open>std::io::Read\<close> documents of a reader that does not fail: the bytes come off the front
  of what is left, at most as many as asked for, and none only at the end (or for an empty
  buffer).
\<close>

locale byte_reader =
  fixes read :: "'r read"
    and rest :: "'r \<Rightarrow> bytes"
    and ok :: "'r \<Rightarrow> bool"
  assumes read_ok: "ok r \<Longrightarrow> \<exists>bs r'. read r n = Inr (bs, r') \<and> ok r' \<and> rest r = bs @ rest r'
      \<and> length bs \<le> n \<and> (bs = [] \<longrightarrow> n = 0 \<or> rest r = [])"
begin

lemma read_cases:
  assumes "ok r"
  obtains bs r' where "read r n = Inr (bs, r')" "ok r'" "rest r = bs @ rest r'" "length bs \<le> n"
    "bs = [] \<Longrightarrow> n = 0 \<or> rest r = []"
  using read_ok [OF assms, of n] by blast

text \<open>
  Draining a stream with a non-empty buffer yields exactly the reader's remaining bytes,
  within one poll more than there are bytes.
\<close>

lemma drain_rest:
  "ok (fst_reader s) \<Longrightarrow> 0 < fst_buf_size s \<or> rest (fst_reader s) = [] \<Longrightarrow>
     length (rest (fst_reader s)) < fuel \<Longrightarrow>
     drain read fuel s = Some (Inr (rest (fst_reader s)))"
proof (induction fuel arbitrary: s)
  case (Suc fuel)
  obtain bs r' where r: "read (fst_reader s) (fst_buf_size s) = Inr (bs, r')" "ok r'"
    and eq: "rest (fst_reader s) = bs @ rest r'" and
    e: "bs = [] \<Longrightarrow> fst_buf_size s = 0 \<or> rest (fst_reader s) = []"
    using Suc.prems by (blast elim: read_cases [of "fst_reader s" "fst_buf_size s"])
  show ?case
  proof (cases "bs = []")
    case True
    with r e Suc.prems show ?thesis by (auto simp: poll_next_def)
  next
    case False
    with eq Suc.prems have "length (rest r') < fuel" "0 < fst_buf_size s" by (cases bs; auto)+
    then have "drain read fuel (s\<lparr>fst_reader := r'\<rparr>) = Some (Inr (rest r'))"
      using Suc.IH [of "s\<lparr>fst_reader := r'\<rparr>"] r by simp
    with r eq False show ?thesis by (simp add: poll_next_def)
  qed
qed simp

end

subsection \<open>The readers of std::io\<close>

text \<open>\<^verbatim>\<open>Cursor<Bytes>\<close>: what is left of the bytes.\<close>

definition cursor_read :: "bytes read" where
  "cursor_read r n = Inr (take n r, drop n r)"

interpretation cursor: byte_reader cursor_read "\<lambda>r. r" "\<lambda>_. True"
  by unfold_locales (auto simp: cursor_read_def)

text \<open>\<^verbatim>\<open>File\<close>: the read error, if any, and what is left behind the position.\<close>

type_synonym file_reader = "io_error option \<times> bytes"

fun file_read :: "file_reader read" where
  "file_read (Some e, r) n = Inl e"
| "file_read (None, r) n = Inr (take n r, (None, drop n r))"

interpretation plain_file: byte_reader file_read snd "\<lambda>r. fst r = None"
  by unfold_locales auto

text \<open>
  \<^verbatim>\<open>BufReader<R>\<close>: a read of at least the buffer's size with nothing buffered goes to the inner
  reader; otherwise the buffer is filled when it is empty and the read is served from it.
\<close>

definition BUF_READER_CAPACITY :: nat where
  "BUF_READER_CAPACITY = 8192"

fun buf_read :: "'r read \<Rightarrow> ('r \<times> bytes) read" where
  "buf_read read (r, buf) n =
     (if buf = [] \<and> BUF_READER_CAPACITY \<le> n then
        (case read r n of Inl e \<Rightarrow> Inl e | Inr (bs, r') \<Rightarrow> Inr (bs, (r', [])))
      else if buf = [] then
        (case read r BUF_READER_CAPACITY of
           Inl e \<Rightarrow> Inl e
         | Inr (bs, r') \<Rightarrow> Inr (take n bs, (r', drop n bs)))
      else Inr (take n buf, (r, drop n buf)))"

text \<open>\<^verbatim>\<open>Take<R>\<close>: no read at all once the limit is used up.\<close>

fun take_read :: "'r read \<Rightarrow> ('r \<times> nat) read" where
  "take_read read (r, limit) n =
     (if limit = 0 then Inr ([], (r, limit))
      else (case read r (min n limit) of
              Inl e \<Rightarrow> Inl e
            | Inr (bs, r') \<Rightarrow> Inr (bs, (r', limit - length bs))))"

context byte_reader
begin

lemma buf_reader:
  "byte_reader (buf_read read) (\<lambda>(r, buf). buf @ rest r) (\<lambda>(r, buf). ok r)"
proof
  fix r :: "'r \<times> bytes" and n
  obtain r0 buf where r: "r = (r0, buf)" by (cases r)
  assume "case r of (r, buf) \<Rightarrow> ok r"
  with r have "ok r0" by simp
  then show "\<exists>bs r'. buf_read read r n = Inr (bs, r') \<and> (case r' of (r, buf) \<Rightarrow> ok r) \<and>
      (case r of (r, buf) \<Rightarrow> buf @ rest r) = bs @ (case r' of (r, buf) \<Rightarrow> buf @ rest r) \<and>
      length bs \<le> n \<and> (bs = [] \<longrightarrow> n = 0 \<or> (case r of (r, buf) \<Rightarrow> buf @ rest r) = [])"
    using read_ok [of r0 n] read_ok [of r0 BUF_READER_CAPACITY]
    by (auto simp: r BUF_READER_CAPACITY_def) (metis append_assoc append_take_drop_id)
qed

lemma take_reader:
  "byte_reader (take_read read) (\<lambda>(r, limit). take limit (rest r)) (\<lambda>(r, limit). ok r)"
proof
  fix r :: "'r \<times> nat" and n
  obtain r0 limit where r: "r = (r0, limit)" by (cases r)
  assume "case r of (r, limit) \<Rightarrow> ok r"
  with r have "ok r0" by simp
  then show "\<exists>bs r'. take_read read r n = Inr (bs, r') \<and> (case r' of (r, limit) \<Rightarrow> ok r) \<and>
      (case r of (r, limit) \<Rightarrow> take limit (rest r))
        = bs @ (case r' of (r, limit) \<Rightarrow> take limit (rest r)) \<and>
      length bs \<le> n \<and> (bs = [] \<longrightarrow> n = 0 \<or> (case r of (r, limit) \<Rightarrow> take limit (rest r)) = [])"
    using read_ok [of r0 "min n limit"] by (auto simp: r)
qed

end

text \<open>\<^verbatim>\<open>Take<BufReader<File>>\<close> and \<^verbatim>\<open>Take<Cursor<Bytes>>\<close>, the readers behind the server's responses.\<close>

type_synonym file_take = "(file_reader \<times> bytes) \<times> nat"

type_synonym cursor_take = "bytes \<times> nat"

abbreviation file_take_read :: "file_take read" where
  "file_take_read \<equiv> take_read (buf_read file_read)"

abbreviation cursor_take_read :: "cursor_take read" where
  "cursor_take_read \<equiv> take_read cursor_read"

interpretation buf_file: byte_reader "buf_read file_read" "\<lambda>(r, buf). buf @ snd r"
    "\<lambda>(r, buf). fst r = None"
  by (rule plain_file.buf_reader)

interpretation file_take: byte_reader file_take_read
    "\<lambda>(r, limit). take limit (case r of (r, buf) \<Rightarrow> buf @ snd r)"
    "\<lambda>(r, limit). case r of (r, buf) \<Rightarrow> fst r = None"
  by (rule buf_file.take_reader)

interpretation cursor_take: byte_reader cursor_take_read "\<lambda>(r, limit). take limit r"
    "\<lambda>(r, limit). True"
  by (rule cursor.take_reader)

lemma optimal_buf_size_le: "optimal_buf_size m \<le> m_len m"
  by (simp add: optimal_buf_size_def)

lemma optimal_buf_size_pos: "0 < m_len m \<Longrightarrow> 0 < optimal_buf_size m"
proof -
  assume "0 < m_len m"
  have "0 < DEFAULT_READ_BUF_SIZE" by (simp add: DEFAULT_READ_BUF_SIZE_def)
  also have "\<dots> \<le> get_block_size m" by (simp add: get_block_size_def)
  finally show ?thesis using \<open>0 < m_len m\<close> by (simp add: optimal_buf_size_def)
qed

end
