(* ===== verification/Float32.thy ===== *)
theory Float32
  imports Rust_Str "HOL-Library.Code_Target_Numeral"
begin

text \<open>
  The part of Rust's \<^verbatim>\<open>f32\<close> the \<^verbatim>\<open>Accept-Encoding\<close> parser uses: \<^verbatim>\<open>str::parse::<f32>\<close> (decimal to the
  nearest single-precision value, ties to even), multiplication by the constant 1000 with
  the same rounding, and the saturating cast \<^verbatim>\<open>as u16\<close>. A finite value is a sign, a mantissa
  and a binary exponent.
\<close>

datatype f32 = F32_NaN | F32_Inf bool | F32 bool nat int

fun log2 :: "nat \<Rightarrow> nat" where
  "log2 n = (if n < 2 then 0 else Suc (log2 (n div 2)))"

declare log2.simps [simp del]

definition scale2 :: "nat \<Rightarrow> int \<Rightarrow> nat" where
  "scale2 n e = (if e \<le> 0 then n else n * 2 ^ nat e)"

text \<open>The quotient of two numbers, to the nearest integer, ties to even.\<close>

definition div_even :: "nat \<Rightarrow> nat \<Rightarrow> nat" where
  "div_even n d =
     (let q = n div d; r = n mod d
      in if 2 * r < d \<or> (2 * r = d \<and> even q) then q else Suc q)"

definition round_f32 :: "bool \<Rightarrow> nat \<Rightarrow> nat \<Rightarrow> f32" where
  "round_f32 neg n d =
     (if n = 0 then F32 neg 0 0
      else
        let k = int (log2 n) - int (log2 d);
            fl = (if scale2 d k \<le> scale2 n (- k) then k else k - 1);
            e = max (fl - 23) (-149);
            m = div_even (scale2 n (- e)) (scale2 d e)
        in if 2 ^ 128 \<le> scale2 m e then F32_Inf neg else F32 neg m e)"

definition ascii_lower :: "char \<Rightarrow> char" where
  "ascii_lower c = (if in_range 65 90 c then char_of ((of_char c :: nat) + 32) else c)"

definition parse_sign :: "string \<Rightarrow> bool \<times> string" where
  "parse_sign s =
     (case s of
        c # cs \<Rightarrow> if c = CHR ''-'' then (True, cs) else if c = CHR ''+'' then (False, cs) else (False, s)
      | [] \<Rightarrow> (False, s))"

definition parse_exp :: "string \<Rightarrow> int option" where
  "parse_exp s =
     (case s of
        [] \<Rightarrow> Some 0
      | c # cs \<Rightarrow>
          (let (neg, ds) = parse_sign cs
           in if ascii_lower c = CHR ''e'' \<and> ds \<noteq> [] \<and> list_all is_digit ds
              then Some (if neg then - int (dec_val ds) else int (dec_val ds))
              else None))"

definition parse_number :: "bool \<Rightarrow> string \<Rightarrow> f32 option" where
  "parse_number neg s =
     (let ip = takeWhile is_digit s;
          r = dropWhile is_digit s;
          (fp, r') = (case r of
              c # cs \<Rightarrow> if c = CHR ''.'' then (takeWhile is_digit cs, dropWhile is_digit cs) else ([], r)
            | [] \<Rightarrow> ([], r))
      in if ip @ fp = [] then None
         else case parse_exp r' of
             None \<Rightarrow> None
           | Some e \<Rightarrow>
               let k = e - int (length fp); n = dec_val (ip @ fp)
               in Some (if 0 \<le> k then round_f32 neg (n * 10 ^ nat k) 1
                        else round_f32 neg n (10 ^ nat (- k))))"

definition parse_f32 :: "string \<Rightarrow> f32 option" where
  "parse_f32 s =
     (let (neg, r) = parse_sign s; l = map ascii_lower r
      in if l = ''inf'' \<or> l = ''infinity'' then Some (F32_Inf neg)
         else if l = ''nan'' then Some F32_NaN
         else parse_number neg r)"

fun mul_1000 :: "f32 \<Rightarrow> f32" where
  "mul_1000 F32_NaN = F32_NaN"
| "mul_1000 (F32_Inf neg) = F32_Inf neg"
| "mul_1000 (F32 neg m e) = round_f32 neg (scale2 (1000 * m) e) (scale2 1 (- e))"

fun as_u16 :: "f32 \<Rightarrow> nat" where
  "as_u16 F32_NaN = 0"
| "as_u16 (F32_Inf neg) = (if neg then 0 else 65535)"
| "as_u16 (F32 neg m e) = (if neg then 0 else min 65535 (scale2 m e div scale2 1 (- e)))"

lemma as_u16_bound: "as_u16 x \<le> 65535"
  by (cases x) auto

end
