(* ===== verification/Samples.thy ===== *)
theory Samples
  imports File_System Float32
begin

text \<open>
  A small concrete world for the witnesses of the development: plain implementations of the
  third-party functions on the inputs the witnesses use, and file systems given by a list of
  files and directories.
\<close>

definition hex_val :: "char \<Rightarrow> nat option" where
  "hex_val c =
     (let n = of_char c in
      if 48 \<le> n \<and> n \<le> 57 then Some (n - 48)
      else if 65 \<le> n \<and> n \<le> 70 then Some (n - 55)
      else if 97 \<le> n \<and> n \<le> 102 then Some (n - 87)
      else None)"

fun percent_decode_all :: "string \<Rightarrow> bytes" where
  "percent_decode_all (c # h # l # cs) =
     (if c = CHR ''%'' then
        (case (hex_val h, hex_val l) of
           (Some a, Some b) \<Rightarrow> char_of (16 * a + b) # percent_decode_all cs
         | _ \<Rightarrow> c # percent_decode_all (h # l # cs))
      else c # percent_decode_all (h # l # cs))"
| "percent_decode_all cs = cs"

definition visible :: "string \<Rightarrow> bool" where
  "visible s = list_all (\<lambda>c. 32 \<le> (of_char c :: nat) \<and> (of_char c :: nat) \<noteq> 127) s"

definition sample_mime :: "path \<Rightarrow> string" where
  "sample_mime p =
     (case rsplit_once (CHR ''.'') p of
        Some (_, ext) \<Rightarrow> if ext = ''html'' then ''text/html'' else if ext = ''txt'' then ''text/plain''
                        else ''application/octet-stream''
      | None \<Rightarrow> ''application/octet-stream'')"

definition sample_api :: api where
  "sample_api =
    \<lparr>percent_decode = percent_decode_all,
     percent_encode = (\<lambda>_ s. s),
     decode_utf8_lossy_percent = percent_decode_all,
     form_parse = (\<lambda>_. []),
     hv_valid = visible,
     hv_to_str = (\<lambda>s. if visible s then Some s else None),
     canonical_reason = (\<lambda>n. if n = 404 then Some ''Not Found'' else None),
     status_as_str = nat_str,
     status_display = nat_str,
     mime_from_path = sample_mime,
     typed_content_type = (\<lambda>h. case hm_get h CONTENT_TYPE of
        Some ct \<Rightarrow> Some \<lparr>mime_type = takeWhile (\<lambda>c. c \<noteq> CHR ''/'') ct, mime_suffix = None, mime_essence = ct\<rparr>
      | None \<Rightarrow> None),
     typed_if_modified_since = (\<lambda>_. None),
     typed_if_unmodified_since = (\<lambda>_. None),
     typed_if_range = (\<lambda>_. None),
     typed_range = (\<lambda>h. case hm_get h ''range'' of
        Some v \<Rightarrow> if v = ''bytes=1-2'' then Some [(Included 1, Included 2)] else None
      | None \<Rightarrow> None),
     precondition_passes = (\<lambda>a b. b \<le> a),
     is_modified_since = (\<lambda>a b. a < b),
     if_range_is_modified = (\<lambda>_ _. True),
     last_modified_from = (\<lambda>t. nat (t div 1000000000)),
     last_modified_value = nat_str,
     content_range_bytes = (\<lambda>s e l. Some
        (''bytes '' @ nat_str (unat s) @ ''-'' @ nat_str (unat (e - 1)) @ ''/'' @ nat_str (unat l))),
     content_range_unsatisfied = (\<lambda>l. ''bytes */'' @ nat_str (unat l)),
     content_length_value = (\<lambda>n. nat_str (unat n)),
     allow_value = (\<lambda>_. ''OPTIONS, HEAD, GET''),
     typed_authorization_basic = (\<lambda>h. case hm_get h ''authorization'' of
        Some v \<Rightarrow> if v = ''Basic ann:pw'' then Some (''ann'', ''pw'') else None
      | None \<Rightarrow> None),
     bcrypt_verify = (\<lambda>pw hash. Some (hash = ''hash-of-'' @ pw)),
     typed_host = (\<lambda>h. hm_get h HOST),
     method_from_bytes = (\<lambda>s. if s = ''GET'' then Some GET else if s = ''HEAD'' then Some HEAD
        else if s = ''OPTIONS'' then Some OPTIONS else if s = ''PUT'' then Some PUT else None),
     header_name_from_bytes = (\<lambda>s. if s = [] then None else Some s),
     origin_to_string = (\<lambda>scheme rest. if scheme = ''http'' \<or> scheme = ''https''
        then Some (scheme @ ''://'' @ rest) else None),
     header_list_value = (\<lambda>_. ''content-type, origin''),
     method_list_value = (\<lambda>_. ''OPTIONS, HEAD, GET''),
     re_is_match = (=),
     re_captures = (\<lambda>re s. if re = s then Some [Some s] else None),
     ac_new = (\<lambda>_. True),
     ac_try_replace_all = (\<lambda>_ s _. Some s),
     glob_is_match = (\<lambda>g p. g = p \<or> g = ''**''),
     glob_to_regex = Some,
     glob_valid = (\<lambda>_. True),
     regex_valid = (\<lambda>_. True),
     uri_parse = (\<lambda>s. Some \<lparr>u_scheme = None, u_authority = None,
        u_path_and_query = Some \<lparr>pq_str = s, pq_query = None\<rparr>, u_path = s, u_query = None,
        u_host = None, u_port = None, u_str = s\<rparr>),
     pq_parse = (\<lambda>s. Some \<lparr>pq_str = s, pq_query = None\<rparr>),
     uri_from_parts = (\<lambda>_ _ _. None),
     to_lowercase = map ascii_lower,
     bytesmut_capacity = (\<lambda>n. n),
     bytesmut_grow = (\<lambda>_ n. n),
     semaphore_acquire_ok = True,
     metrics_text = ''# metrics'',
     html_escape = (\<lambda>s. s),
     json_str = (\<lambda>s. [CHR 0x22] @ s @ [CHR 0x22]),
     format_local = (\<lambda>_. ''1970-01-01 00:00:00''),
     format_utc = (\<lambda>_. ''1970-01-01T00:00:00Z'')\<rparr>"

lemma sample_api_simps [simp]:
  "percent_decode sample_api = percent_decode_all"
  "percent_encode sample_api = (\<lambda>_ s. s)"
  "decode_utf8_lossy_percent sample_api = percent_decode_all"
  "form_parse sample_api = (\<lambda>_. [])"
  "hv_valid sample_api = visible"
  "hv_to_str sample_api = (\<lambda>s. if visible s then Some s else None)"
  "canonical_reason sample_api = (\<lambda>n. if n = 404 then Some ''Not Found'' else None)"
  "status_as_str sample_api = nat_str"
  "status_display sample_api = nat_str"
  "mime_from_path sample_api = sample_mime"
  "typed_content_type sample_api = (\<lambda>h. case hm_get h CONTENT_TYPE of
        Some ct \<Rightarrow> Some \<lparr>mime_type = takeWhile (\<lambda>c. c \<noteq> CHR ''/'') ct, mime_suffix = None, mime_essence = ct\<rparr>
      | None \<Rightarrow> None)"
  "typed_if_modified_since sample_api = (\<lambda>_. None)"
  "typed_if_unmodified_since sample_api = (\<lambda>_. None)"
  "typed_if_range sample_api = (\<lambda>_. None)"
  "typed_range sample_api = (\<lambda>h. case hm_get h ''range'' of
        Some v \<Rightarrow> if v = ''bytes=1-2'' then Some [(Included 1, Included 2)] else None
      | None \<Rightarrow> None)"
  "precondition_passes sample_api = (\<lambda>a b. b \<le> a)"
  "is_modified_since sample_api = (\<lambda>a b. a < b)"
  "if_range_is_modified sample_api = (\<lambda>_ _. True)"
  "last_modified_from sample_api = (\<lambda>t. nat (t div 1000000000))"
  "last_modified_value sample_api = nat_str"
  "content_range_bytes sample_api = (\<lambda>s e l. Some
        (''bytes '' @ nat_str (unat s) @ ''-'' @ nat_str (unat (e - 1)) @ ''/'' @ nat_str (unat l)))"
  "content_range_unsatisfied sample_api = (\<lambda>l. ''bytes */'' @ nat_str (unat l))"
  "content_length_value sample_api = (\<lambda>n. nat_str (unat n))"
  "allow_value sample_api = (\<lambda>_. ''OPTIONS, HEAD, GET'')"
  "typed_authorization_basic sample_api = (\<lambda>h. case hm_get h ''authorization'' of
        Some v \<Rightarrow> if v = ''Basic ann:pw'' then Some (''ann'', ''pw'') else None
      | None \<Rightarrow> None)"
  "bcrypt_verify sample_api = (\<lambda>pw hash. Some (hash = ''hash-of-'' @ pw))"
  "typed_host sample_api = (\<lambda>h. hm_get h HOST)"
  "method_from_bytes sample_api = (\<lambda>s. if s = ''GET'' then Some GET else if s = ''HEAD'' then Some HEAD
        else if s = ''OPTIONS'' then Some OPTIONS else if s = ''PUT'' then Some PUT else None)"
  "header_name_from_bytes sample_api = (\<lambda>s. if s = [] then None else Some s)"
  "origin_to_string sample_api = (\<lambda>scheme rest. if scheme = ''http'' \<or> scheme = ''https''
        then Some (scheme @ ''://'' @ rest) else None)"
  "header_list_value sample_api = (\<lambda>_. ''content-type, origin'')"
  "method_list_value sample_api = (\<lambda>_. ''OPTIONS, HEAD, GET'')"
  "re_is_match sample_api = (=)"
  "re_captures sample_api = (\<lambda>re s. if re = s then Some [Some s] else None)"
  "ac_new sample_api = (\<lambda>_. True)"
  "ac_try_replace_all sample_api = (\<lambda>_ s _. Some s)"
  "glob_is_match sample_api = (\<lambda>g p. g = p \<or> g = ''**'')"
  "glob_to_regex sample_api = Some"
  "glob_valid sample_api = (\<lambda>_. True)"
  "regex_valid sample_api = (\<lambda>_. True)"
  "uri_parse sample_api = (\<lambda>s. Some \<lparr>u_scheme = None, u_authority = None,
        u_path_and_query = Some \<lparr>pq_str = s, pq_query = None\<rparr>, u_path = s, u_query = None,
        u_host = None, u_port = None, u_str = s\<rparr>)"
  "pq_parse sample_api = (\<lambda>s. Some \<lparr>pq_str = s, pq_query = None\<rparr>)"
  "uri_from_parts sample_api = (\<lambda>_ _ _. None)"
  "to_lowercase sample_api = map ascii_lower"
  "bytesmut_capacity sample_api = (\<lambda>n. n)"
  "bytesmut_grow sample_api = (\<lambda>_ n. n)"
  "semaphore_acquire_ok sample_api = True"
  "metrics_text sample_api = ''# metrics''"
  "html_escape sample_api = (\<lambda>s. s)"
  "json_str sample_api = (\<lambda>s. [CHR 0x22] @ s @ [CHR 0x22])"
  "format_local sample_api = (\<lambda>_. ''1970-01-01 00:00:00'')"
  "format_utc sample_api = (\<lambda>_. ''1970-01-01T00:00:00Z'')"
  by (simp_all add: sample_api_def)

datatype node = Node_File bytes | Node_Dir

definition sample_meta :: "node \<Rightarrow> metadata" where
  "sample_meta n =
     (case n of
        Node_File bs \<Rightarrow> \<lparr>m_type = FT_File, m_len = word_of_nat (length bs), m_modified = None, m_blksize = 4096\<rparr>
      | Node_Dir \<Rightarrow> \<lparr>m_type = FT_Dir, m_len = 4096, m_modified = None, m_blksize = 4096\<rparr>)"

definition sample_fs :: "(path \<times> node) list \<Rightarrow> fs" where
  "sample_fs ns =
    \<lparr>fs_metadata = (\<lambda>p. case map_of ns p of None \<Rightarrow> Inl NotFound | Some n \<Rightarrow> Inr (sample_meta n)),
     fs_is_symlink = (\<lambda>_. False),
     fs_open = (\<lambda>p. case map_of ns p of
        None \<Rightarrow> Inl NotFound
      | Some (Node_File bs) \<Rightarrow> Inr \<lparr>f_data = bs, f_seek_ok = (\<lambda>_. True), f_read_err = None\<rparr>
      | Some Node_Dir \<Rightarrow> Inr \<lparr>f_data = [], f_seek_ok = (\<lambda>_. True), f_read_err = Some OtherIo\<rparr>),
     fs_read_dir = (\<lambda>_. Inr [])\<rparr>"

definition sample_uri :: "string \<Rightarrow> uri" where
  "sample_uri p =
    \<lparr>u_scheme = None, u_authority = None, u_path_and_query = Some \<lparr>pq_str = p, pq_query = None\<rparr>,
     u_path = p, u_query = None, u_host = None, u_port = None, u_str = p\<rparr>"

definition sample_request :: "http_method \<Rightarrow> string \<Rightarrow> header_map \<Rightarrow> request" where
  "sample_request m p h = \<lparr>r_method = m, r_uri = sample_uri p, r_headers = h\<rparr>"

text \<open>The files of a list that are small enough for their length to be a 64-bit word.\<close>

lemma sample_fs_sizes:
  assumes "\<And>p bs. map_of ns p = Some (Node_File bs) \<Longrightarrow> length bs < 2 ^ 64"
    and "fs_open (sample_fs ns) p = Inr f" "fs_metadata (sample_fs ns) p = Inr meta"
    and "f_read_err f = None"
  shows "unat (m_len meta) = length (f_data f)"
  using assms
  by (auto simp: sample_fs_def sample_meta_def unat_of_nat split: option.splits node.splits)

definition hello_fs :: fs where
  "hello_fs = sample_fs [(''/w/a.txt'', Node_File ''hello'')]"

definition hello_file :: open_file where
  "hello_file = \<lparr>f_data = ''hello'', f_seek_ok = (\<lambda>_. True), f_read_err = None\<rparr>"

end
