(* ===== verification/Accept_Encoding.thy ===== *)
theory Accept_Encoding
  imports Http Float32 "HOL-Library.Multiset"
begin

text \<open>
  The \<^verbatim>\<open>Accept-Encoding\<close> header (\<^verbatim>\<open>src/headers_ext/\<close>): the content codings, the quality values
  of a comma-separated list and the order in which the server considers the client's codings.
  The lemmas show that the order is by falling weight, stable, and loses no item.
\<close>

section \<open>content\_coding.rs\<close>

datatype content_coding = BROTLI | COMPRESS | DEFLATE | GZIP | IDENTITY | ZSTD

fun cc_as_str :: "content_coding \<Rightarrow> string" where
  "cc_as_str BROTLI = ''br''"
| "cc_as_str COMPRESS = ''compress''"
| "cc_as_str DEFLATE = ''deflate''"
| "cc_as_str GZIP = ''gzip''"
| "cc_as_str IDENTITY = ''identity''"
| "cc_as_str ZSTD = ''zstd''"

definition cc_from_str :: "string \<Rightarrow> content_coding option" where
  "cc_from_str s =
     (if s = ''BROTLI'' \<or> s = ''br'' then Some BROTLI
      else if s = ''COMPRESS'' \<or> s = ''compress'' then Some COMPRESS
      else if s = ''DEFLATE'' \<or> s = ''deflate'' then Some DEFLATE
      else if s = ''GZIP'' \<or> s = ''gzip'' then Some GZIP
      else if s = ''IDENTITY'' \<or> s = ''identity'' then Some IDENTITY
      else if s = ''ZSTD'' \<or> s = ''zstd'' then Some ZSTD
      else None)"

definition cc_from :: "string \<Rightarrow> content_coding" where
  "cc_from s = (case cc_from_str s of Some c \<Rightarrow> c | None \<Rightarrow> IDENTITY)"

section \<open>quality\_value.rs\<close>

record quality_meta =
  qm_data :: string
  qm_quality :: u16

text \<open>The loop over the parameters: the last well-formed \<open>q=\<close> wins, an ill-formed one is skipped.\<close>

fun quality_loop :: "u16 \<Rightarrow> string list \<Rightarrow> u16" where
  "quality_loop quality [] = quality"
| "quality_loop quality (part # parts) =
     (case strip_prefix ''q='' (str_trim_start part) of
        None \<Rightarrow> quality_loop quality parts
      | Some value \<Rightarrow>
          (case parse_f32 (str_trim value) of
             None \<Rightarrow> quality_loop quality parts
           | Some parsed \<Rightarrow> quality_loop (word_of_nat (as_u16 (mul_1000 parsed))) parts))"

definition quality_meta_try_from :: "string \<Rightarrow> quality_meta option" where
  "quality_meta_try_from val =
     (let parts = split_on (CHR '';'') val
      in case parts of
           [] \<Rightarrow> None
         | first # _ \<Rightarrow> Some \<lparr>qm_data = str_trim first, qm_quality = quality_loop 1000 parts\<rparr>)"

text \<open>\<^verbatim>\<open>Ord for QualityMeta\<close> compares the other's quality with one's own, so larger comes first.\<close>

definition qm_key :: "quality_meta \<Rightarrow> int" where
  "qm_key m = - uint (qm_quality m)"

record quality_value =
  qv_value :: string

definition quality_items :: "api \<Rightarrow> quality_value \<Rightarrow> quality_meta list" where
  "quality_items api qv =
     (case hv_to_str api (qv_value qv) of
        None \<Rightarrow> []
      | Some value_str \<Rightarrow> List.map_filter quality_meta_try_from (split_on (CHR '','') value_str))"

definition quality_value_iter :: "api \<Rightarrow> quality_value \<Rightarrow> string list" where
  "quality_value_iter api qv = map qm_data (sort_key qm_key (quality_items api qv))"

fun append_values :: "string \<Rightarrow> string list \<Rightarrow> string" where
  "append_values buf [] = buf"
| "append_values buf (value # values) = append_values (buf @ '', '' @ value) values"

definition try_from_values :: "api \<Rightarrow> string list \<Rightarrow> quality_value option" where
  "try_from_values api values =
     (case values of
        [] \<Rightarrow> Some \<lparr>qv_value = []\<rparr>
      | [first] \<Rightarrow> Some \<lparr>qv_value = first\<rparr>
      | first # rest \<Rightarrow>
          (let buf = append_values first rest
           in if hv_valid api buf then Some \<lparr>qv_value = buf\<rparr> else None))"

section \<open>accept\_encoding.rs\<close>

record accept_encoding =
  ae_value :: quality_value

definition accept_encoding_decode :: "api \<Rightarrow> string list \<Rightarrow> accept_encoding option" where
  "accept_encoding_decode api values = map_option (\<lambda>qv. \<lparr>ae_value = qv\<rparr>) (try_from_values api values)"

text \<open>\<^verbatim>\<open>HeaderMapExt::typed_get\<close>: the decoded header when the map has it.\<close>

definition typed_accept_encoding :: "api \<Rightarrow> header_map \<Rightarrow> accept_encoding option" where
  "typed_accept_encoding api h =
     (let vs = hm_get_all h ACCEPT_ENCODING in if vs = [] then None else accept_encoding_decode api vs)"

definition sorted_encodings :: "api \<Rightarrow> accept_encoding \<Rightarrow> content_coding list" where
  "sorted_encodings api ae = map cc_from (quality_value_iter api (ae_value ae))"

section \<open>Lemmas\<close>

lemma cc_from_str_as_str [simp]: "cc_from_str (cc_as_str c) = Some c"
  by (cases c) (simp_all add: cc_from_str_def)

lemma quality_meta_try_from_ne: "quality_meta_try_from v \<noteq> None"
  by (cases "split_on (CHR '';'') v") (simp_all add: quality_meta_try_from_def)

text \<open>An item with one parameter \<open>q\<close>.\<close>

lemma quality_meta_q:
  assumes "split_on (CHR '';'') v = [name, part]"
    and "strip_prefix ''q='' (str_trim_start name) = None"
    and "strip_prefix ''q='' (str_trim_start part) = Some q"
    and "map_option (\<lambda>p. as_u16 (mul_1000 p)) (parse_f32 (str_trim q)) = Some n"
  shows "quality_meta_try_from v = Some \<lparr>qm_data = str_trim name, qm_quality = word_of_nat n\<rparr>"
  using assms by (auto simp: quality_meta_try_from_def)

text \<open>Every piece between commas becomes one item.\<close>

lemma quality_items_eq:
  "hv_to_str api (qv_value qv) = Some s \<Longrightarrow>
     quality_items api qv = map (\<lambda>v. the (quality_meta_try_from v)) (split_on (CHR '','') s)"
  using quality_meta_try_from_ne
  by (simp add: quality_items_def List.map_filter_def comp_def)

text \<open>The order of a sorted list of items: falling quality.\<close>

definition falling :: "quality_meta list \<Rightarrow> bool" where
  "falling ms \<longleftrightarrow> sorted_wrt (\<lambda>a b. qm_quality b \<le> qm_quality a) ms"

lemma falling_sort: "falling (sort_key qm_key ms)"
proof -
  have "sorted (map qm_key (sort_key qm_key ms))" by simp
  then have "sorted_wrt (\<lambda>a b. qm_key a \<le> qm_key b) (sort_key qm_key ms)"
    by (simp add: sorted_map)
  then show ?thesis
    unfolding falling_def
    by (rule sorted_wrt_mono_rel [rotated]) (simp add: qm_key_def word_le_def)
qed

text \<open>Items of equal weight keep the order in which the client wrote them.\<close>

lemma stable_sort:
  "filter (\<lambda>m. qm_quality m = q) (sort_key qm_key ms) = filter (\<lambda>m. qm_quality m = q) ms"
proof -
  have "(\<lambda>m. qm_quality m = q) = (\<lambda>m. qm_key m = - uint q)"
    by (auto simp: qm_key_def fun_eq_iff word_uint_eq_iff)
  then show ?thesis by (simp add: sort_key_stable)
qed

lemma append_values_eq: "append_values buf vs = buf @ concat (map (\<lambda>v. '', '' @ v) vs)"
  by (induction buf vs rule: append_values.induct) auto

text \<open>C35: the codings are considered in an order that is a permutation of the client's items,
  falls by weight, and keeps the client's order among items of the same weight.\<close>

theorem quality_value_iter_order:
  "\<exists>ms. quality_value_iter api qv = map qm_data ms
      \<and> mset ms = mset (quality_items api qv)
      \<and> falling ms
      \<and> (\<forall>q. filter (\<lambda>m. qm_quality m = q) ms = filter (\<lambda>m. qm_quality m = q) (quality_items api qv))"
  by (rule exI [of _ "sort_key qm_key (quality_items api qv)"])
    (simp add: quality_value_iter_def falling_sort stable_sort)

end
