(* ===== verification/Body.thy ===== *)
theory Body
  imports Samples Accept_Encoding
begin

text \<open>
  Response bodies. \<^verbatim>\<open>hyper::Body\<close> is a value the server builds and hyper polls after the handler has
  returned: empty, a buffer, one of the server's two file streams, or an encoder of
  \<^verbatim>\<open>async_compression\<close> around another body, kept symbolic as its coding and level.
\<close>

datatype compression_level = Fastest | Best | Default_Level

datatype level = Level_Fastest | Level_Best | Level_Precise int

fun into_algorithm_level :: "compression_level \<Rightarrow> int \<Rightarrow> level" where
  "into_algorithm_level Fastest d = Level_Fastest"
| "into_algorithm_level Best d = Level_Best"
| "into_algorithm_level Default_Level d = Level_Precise d"

record mem_file_temp_opts =
  mo_file_path :: string
  mo_content_type :: string
  mo_last_modified :: "http_date option"

text \<open>
  \<^verbatim>\<open>MemCacheFileStream\<close>: a \<^verbatim>\<open>FileStream\<close> with the options of the entry to make and the buffer of the
  bytes read so far together with its capacity.
\<close>

record 'r mem_cache_file_stream = "'r file_stream" +
  mem_opts :: "mem_file_temp_opts option"
  mem_buf :: "(bytes \<times> nat) option"

datatype body =
    Empty_Body
  | Full_Body bytes
  | File_Body "file_take file_stream"
  | Cursor_Body "cursor_take file_stream"
  | Caching_Body "file_take mem_cache_file_stream"
  | Encoded_Body content_coding level body

type_synonym resp = "body response"

definition new_response :: "'b \<Rightarrow> 'b response" where
  "new_response b = \<lparr>resp_status = OK, resp_headers = [], resp_body = b\<rparr>"

definition empty_response :: "status \<Rightarrow> resp" where
  "empty_response st = (new_response Empty_Body)\<lparr>resp_status := st\<rparr>"

lemma new_response_simps [simp]:
  "resp_status (new_response b) = OK"
  "resp_headers (new_response b) = []"
  "resp_body (new_response b) = b"
  by (simp_all add: new_response_def)

lemma empty_response_simps [simp]:
  "resp_status (empty_response st) = st"
  "resp_headers (empty_response st) = []"
  "resp_body (empty_response st) = Empty_Body"
  by (simp_all add: empty_response_def)

end
