(* ===== verification/Conditional_Headers.thy ===== *)
theory Conditional_Headers
  imports Body
begin

text \<open>
  Conditional requests and byte ranges: \<^verbatim>\<open>src/conditional_headers.rs\<close> and \<open>bytes_range\<close> of
  \<^verbatim>\<open>src/response.rs\<close>. Positions are 64-bit words with the wrap-around of a release build.
\<close>

section \<open>conditional\_headers.rs\<close>

type_synonym range = "(bound \<times> bound) list"

record conditional_headers =
  if_modified_since :: "http_date option"
  if_unmodified_since :: "http_date option"
  if_range :: "string option"
  range_header :: "range option"

definition conditionals_new :: "api \<Rightarrow> header_map \<Rightarrow> conditional_headers" where
  "conditionals_new api headers =
     \<lparr>if_modified_since = typed_if_modified_since api headers,
      if_unmodified_since = typed_if_unmodified_since api headers,
      if_range = typed_if_range api headers,
      range_header = typed_range api headers\<rparr>"

datatype conditional_body = NoBody resp | WithBody "range option"

definition unmodified_ok :: "api \<Rightarrow> conditional_headers \<Rightarrow> http_date option \<Rightarrow> bool" where
  "unmodified_ok api self last_modified =
     (case if_unmodified_since self of
        None \<Rightarrow> True
      | Some since \<Rightarrow>
          (case last_modified of None \<Rightarrow> False | Some time \<Rightarrow> precondition_passes api since time))"

definition not_modified :: "api \<Rightarrow> conditional_headers \<Rightarrow> http_date option \<Rightarrow> bool" where
  "not_modified api self last_modified =
     (case if_modified_since self of
        None \<Rightarrow> False
      | Some since \<Rightarrow>
          (case last_modified of None \<Rightarrow> False | Some time \<Rightarrow> \<not> is_modified_since api since time))"

definition can_range :: "api \<Rightarrow> conditional_headers \<Rightarrow> http_date option \<Rightarrow> bool" where
  "can_range api self last_modified =
     (case if_range self of
        None \<Rightarrow> True
      | Some ir \<Rightarrow> \<not> if_range_is_modified api ir last_modified)"

definition conditionals_check ::
  "api \<Rightarrow> conditional_headers \<Rightarrow> http_date option \<Rightarrow> conditional_body" where
  "conditionals_check api self last_modified =
     (if \<not> unmodified_ok api self last_modified then NoBody (empty_response PRECONDITION_FAILED)
      else if not_modified api self last_modified then NoBody (empty_response NOT_MODIFIED)
      else if \<not> can_range api self last_modified then WithBody None
      else WithBody (range_header self))"

section \<open>response.rs: bytes\_range\<close>

datatype bad_range_error = BadRangeError

type_synonym range_result = "(bad_range_error, u64 \<times> u64) result"

definition resolve_bounds :: "u64 \<Rightarrow> bound \<times> bound \<Rightarrow> range_result" where
  "resolve_bounds max_len r =
     (case r of
        (Unbounded, Unbounded) \<Rightarrow> Inr (0, max_len)
      | (Included a, Included b) \<Rightarrow>
          if b < a then Inl (Err BadRangeError)
          else Inr (a, if b = max_len then b else b + 1)
      | (Included a, Unbounded) \<Rightarrow> Inr (a, max_len)
      | (Unbounded, Included b) \<Rightarrow>
          if max_len < b then Inr (0, max_len) else Inr (max_len - b, max_len)
      | _ \<Rightarrow> Inl (Panic ''unreachable''))"

definition clamp_range :: "u64 \<Rightarrow> u64 \<times> u64 \<Rightarrow> range_result" where
  "clamp_range max_len r =
     (case r of (start, end') \<Rightarrow>
        if start < end' \<and> end' \<le> max_len then Inr (start, end')
        else if start < end' \<and> start \<le> max_len then Inr (start, max_len)
        else Inl (Err BadRangeError))"

definition bytes_range :: "range option \<Rightarrow> u64 \<Rightarrow> range_result" where
  "bytes_range rng max_len =
     (case rng of
        None \<Rightarrow> Inr (0, max_len)
      | Some bounds \<Rightarrow>
          (case bounds of
             [] \<Rightarrow> Inl (Err BadRangeError)
           | r # _ \<Rightarrow>
               (case resolve_bounds max_len r of
                  Inl e \<Rightarrow> Inl e
                | Inr se \<Rightarrow> clamp_range max_len se)))"

section \<open>Lemmas\<close>

lemma clamp_range_bounds:
  "clamp_range max_len se = Inr (s, e) \<Longrightarrow> s \<le> e \<and> e \<le> max_len"
  by (auto simp: clamp_range_def split: prod.splits if_splits)

lemma bytes_range_le:
  "bytes_range rng max_len = Inr (s, e) \<Longrightarrow> s \<le> e \<and> e \<le> max_len"
  by (auto simp: bytes_range_def clamp_range_bounds
      split: option.splits list.splits sum.splits)

lemma bytes_range_unat:
  assumes "bytes_range rng max_len = Inr (s, e)"
  shows "unat s \<le> unat e" "unat e \<le> unat max_len" "unat (e - s) = unat e - unat s"
  using bytes_range_le [OF assms] by (simp_all add: word_le_nat_alt unat_sub)

text \<open>\<open>b + 1\<close> as a number: exact but for the largest word.\<close>

lemma unat_plus_one: "(b :: u64) \<noteq> - 1 \<Longrightarrow> unat (b + 1) = unat b + 1"
  using unatSuc [of b] by (simp add: add_eq_0_iff add.commute)

section \<open>The meaning of a byte range\<close>

text \<open>
  The positions, as numbers, that RFC 9110 (section 14.1.2) selects from a representation of
  \<open>n\<close> bytes, from the first to behind the last; none if the range cannot be satisfied.
\<close>

fun selected :: "nat \<Rightarrow> bound \<times> bound \<Rightarrow> (nat \<times> nat) option" where
  "selected n (Included a, Included b) =
     (if a \<le> b \<and> unat a < n then Some (unat a, min (unat b + 1) n) else None)"
| "selected n (Included a, Unbounded) = (if unat a < n then Some (unat a, n) else None)"
| "selected n (Unbounded, Included b) =
     (if b \<noteq> 0 \<and> 0 < n then Some (n - min (unat b) n, n) else None)"
| "selected n (Unbounded, Unbounded) = (if 0 < n then Some (0, n) else None)"
| "selected n _ = None"

text \<open>The ranges the header parser gives, but for the two on which the code and the RFC part.\<close>

fun regular_range :: "u64 \<Rightarrow> bound \<times> bound \<Rightarrow> bool" where
  "regular_range n (Included a, Included b) = (b \<noteq> - 1 \<and> (a = n \<longrightarrow> b \<le> n))"
| "regular_range n (Included a, Unbounded) = True"
| "regular_range n (Unbounded, Included b) = True"
| "regular_range n (Unbounded, Unbounded) = True"
| "regular_range n _ = False"

definition range_of :: "(nat \<times> nat) option \<Rightarrow> range_result" where
  "range_of r = (case r of None \<Rightarrow> Inl (Err BadRangeError) | Some (s, e) \<Rightarrow> Inr (of_nat s, of_nat e))"

lemma clamp_closed:
  assumes "a \<le> b" "b \<noteq> - 1" "a = n \<longrightarrow> b \<le> n"
  shows "clamp_range n (a, if b = n then b else b + 1) = range_of (selected (unat n) (Included a, Included b))"
proof -
  have b1: "unat (b + 1) = unat b + 1" using assms(2) by (rule unat_plus_one)
  have an: "a < n \<longleftrightarrow> unat a < unat n" by (simp add: word_less_nat_alt)
  show ?thesis
  proof (cases n b rule: linorder_cases)
    case less
    then have "unat n < unat b" by (simp add: word_less_nat_alt)
    moreover from less assms have "a \<noteq> n" by auto
    moreover have "a < b + 1" using assms(1) b1 by (simp add: word_less_nat_alt word_le_nat_alt)
    moreover have "\<not> b + 1 \<le> n" using less b1 by (simp add: word_less_nat_alt word_le_nat_alt)
    ultimately show ?thesis
      using less assms(1) an by (auto simp: clamp_range_def range_of_def)
  next
    case equal
    then show ?thesis using assms(1) an by (auto simp: clamp_range_def range_of_def)
  next
    case greater
    moreover from greater have "b \<noteq> n" by simp
    moreover have "unat b < unat n" "unat a < unat n" using greater assms(1)
      by (simp_all add: word_less_nat_alt word_le_nat_alt)
    moreover have "a < b + 1" using assms(1) b1 by (simp add: word_less_nat_alt word_le_nat_alt)
    moreover have "b + 1 \<le> n" using greater b1 by (simp add: word_less_nat_alt word_le_nat_alt)
    moreover have "word_of_nat (unat b + 1) = b + 1" by simp
    ultimately show ?thesis
      using greater assms(1) by (simp add: clamp_range_def range_of_def min_absorb1 Suc_leI)
  qed
qed

lemma clamp_open:
  "clamp_range n (a, n) = range_of (selected (unat n) (Included a, Unbounded))"
  by (simp add: clamp_range_def range_of_def word_less_nat_alt)

lemma clamp_suffix:
  "(case resolve_bounds n (Unbounded, Included b) of Inl e \<Rightarrow> Inl e | Inr se \<Rightarrow> clamp_range n se)
     = range_of (selected (unat n) (Unbounded, Included b))"
proof (cases "n < b")
  case True
  then have "unat n < unat b" "b \<noteq> 0" by (auto simp: word_less_nat_alt)
  with True show ?thesis
    by (simp add: resolve_bounds_def clamp_range_def range_of_def word_gt_0 unat_gt_0)
next
  case False
  then have b: "unat b \<le> unat n" "unat (n - b) = unat n - unat b"
    by (simp_all add: word_less_nat_alt unat_sub word_le_nat_alt)
  moreover have "n - b < n \<longleftrightarrow> b \<noteq> 0 \<and> 0 < unat n"
    using b unat_gt_0 [of b] by (auto simp: word_less_nat_alt unat_eq_zero)
  moreover have "word_of_nat (unat n - unat b) = n - b"
    by (simp add: b(2) [symmetric])
  ultimately show ?thesis
    using False by (simp add: resolve_bounds_def clamp_range_def range_of_def)
qed

lemma bytes_range_first:
  "bytes_range (Some (r # rs)) n =
     (case resolve_bounds n r of Inl e \<Rightarrow> Inl e | Inr se \<Rightarrow> clamp_range n se)"
  by (simp add: bytes_range_def)

text \<open>
  What the \<^verbatim>\<open>headers\<close> crate documents of the ranges it parses: their bounds are inclusive or missing. The
  branch of \<open>bytes_range\<close> for the other bounds is then never taken.
\<close>

definition inclusive_ranges :: "api \<Rightarrow> bool" where
  "inclusive_ranges api \<longleftrightarrow>
     (\<forall>h rs a b n. typed_range api h = Some rs \<longrightarrow> (a, b) \<in> set rs \<longrightarrow> a \<noteq> Excluded n \<and> b \<noteq> Excluded n)"

lemma resolve_bounds_reachable:
  assumes "\<And>n. a \<noteq> Excluded n" "\<And>n. b \<noteq> Excluded n"
  shows "resolve_bounds len (a, b) \<noteq> Inl (Panic msg)"
  using assms by (cases a; cases b) (auto simp: resolve_bounds_def)

lemma bytes_range_reachable:
  assumes "inclusive_ranges api" "conditionals_check api (conditionals_new api h) m = WithBody rng"
  shows "bytes_range rng n \<noteq> Inl (Panic msg)"
proof -
  have "rng = None \<or> rng = typed_range api h"
    using assms(2) by (auto simp: conditionals_check_def conditionals_new_def split: if_splits)
  moreover have "clamp_range n se \<noteq> Inl (Panic msg)" for se
    by (simp add: clamp_range_def split: prod.splits)
  moreover have "resolve_bounds n r \<noteq> Inl (Panic msg)" if "Some (r # rs) = typed_range api h" for r rs
  proof (cases r)
    case (Pair a b)
    with that assms(1) have "a \<noteq> Excluded k \<and> b \<noteq> Excluded k" for k
      unfolding inclusive_ranges_def by (metis list.set_intros(1))
    then show ?thesis
      unfolding Pair by (intro resolve_bounds_reachable) simp_all
  qed
  ultimately show ?thesis
    by (auto simp: bytes_range_def split: option.splits list.splits sum.splits)
qed

lemma conditionals_check_NoBody:
  "conditionals_check api c m = NoBody r \<Longrightarrow> resp_status r \<in> {NOT_MODIFIED, PRECONDITION_FAILED}"
  by (auto simp: conditionals_check_def split: if_splits)

text \<open>C13: on every other range the server answers with exactly the bytes RFC 9110 selects,
  and reports a bad range when there are none; only the first range of a header counts.\<close>

theorem bytes_range_rfc:
  assumes "regular_range n r"
  shows "bytes_range (Some (r # rs)) n = range_of (selected (unat n) r)"
  using assms
proof (cases "(n, r)" rule: regular_range.cases)
  case (1 m a b)
  then show ?thesis
    using assms clamp_closed [of a b n]
    by (cases "a \<le> b") (auto simp: bytes_range_first resolve_bounds_def range_of_def)
next
  case (2 m a)
  then show ?thesis by (simp add: bytes_range_first resolve_bounds_def clamp_open)
next
  case (3 m b)
  then show ?thesis by (simp add: bytes_range_first clamp_suffix)
next
  case (4 m)
  then show ?thesis by (simp add: bytes_range_first resolve_bounds_def clamp_open [of m 0])
qed simp_all

theorem bytes_range_rfc_witness:
  "regular_range 10 (Included 2, Included 99)
   \<and> bytes_range (Some [(Included 2, Included 99), (Unbounded, Unbounded)]) 10 = Inr (2, 10)"
  using bytes_range_rfc [of 10 "(Included 2, Included 99)" "[(Unbounded, Unbounded)]"]
  by (simp add: range_of_def)

end
