(* ===== verification/Mem_Cache.thy ===== *)
theory Mem_Cache
  imports Conditional_Headers
begin

text \<open>
  The in-memory file cache: \<^verbatim>\<open>src/mem_cache/cache.rs\<close> and \<^verbatim>\<open>src/mem_cache/stream.rs\<close>. The store is
  \<open>None\<close> until it is initialised (\<^verbatim>\<open>OnceLock\<close>); an entry may vanish at any time by the eviction
  policy of the cache library, which the steps of theory \<open>Cache_Run\<close> make explicit.
\<close>

section \<open>Replies to a range of some content\<close>

text \<open>
  The tail \<^verbatim>\<open>response_body\<close> of \<^verbatim>\<open>src/response.rs\<close> and of \<^verbatim>\<open>MemFile\<close> have in common: status and
  headers of a reply with the bytes from \<open>start\<close> to \<open>end\<close> of a content of \<open>len\<close> bytes.
\<close>

definition bad_range_reply :: "api \<Rightarrow> u64 \<Rightarrow> resp" where
  "bad_range_reply api len =
     insert_header CONTENT_RANGE (content_range_unsatisfied api len)
       (empty_response RANGE_NOT_SATISFIABLE)"

definition content_headers ::
  "api \<Rightarrow> u64 \<Rightarrow> string \<Rightarrow> http_date option \<Rightarrow> resp \<Rightarrow> resp" where
  "content_headers api len content_type modified resp =
     (let resp = insert_header CONTENT_LENGTH (content_length_value api len) resp;
          resp = insert_header CONTENT_TYPE content_type resp;
          resp = insert_header ACCEPT_RANGES ''bytes'' resp
      in case modified of
           None \<Rightarrow> resp
         | Some last_modified \<Rightarrow>
             insert_header LAST_MODIFIED (last_modified_value api last_modified) resp)"

definition content_reply ::
  "api \<Rightarrow> u64 \<Rightarrow> u64 \<Rightarrow> u64 \<Rightarrow> string \<Rightarrow> http_date option \<Rightarrow> body \<Rightarrow> resp" where
  "content_reply api len start end' content_type modified body =
     (let sub_len = end' - start; resp = new_response body
      in if sub_len \<noteq> len then
           (case content_range_bytes api start end' len of
              None \<Rightarrow> bad_range_reply api len
            | Some content_range \<Rightarrow>
                content_headers api sub_len content_type modified
                  (insert_header CONTENT_RANGE content_range
                    (resp\<lparr>resp_status := PARTIAL_CONTENT\<rparr>)))
         else content_headers api len content_type modified resp)"

section \<open>cache.rs\<close>

record mem_cache_opts =
  max_file_size :: u64

definition mem_cache_opts_new :: "u64 \<Rightarrow> mem_cache_opts" where
  "mem_cache_opts_new n = \<lparr>max_file_size = 1024 * 1024 * n\<rparr>"

record mem_file =
  mf_data :: bytes
  mf_buf_size :: nat
  mf_content_type :: string
  mf_last_modified :: "http_date option"

type_synonym store = "(string \<rightharpoonup> mem_file) option"

definition mem_file_response_body ::
  "api \<Rightarrow> mem_file \<Rightarrow> header_map \<Rightarrow> (status, resp) result" where
  "mem_file_response_body api self headers =
     (let conditionals = conditionals_new api headers;
          modified = mf_last_modified self
      in case conditionals_check api conditionals modified of
           NoBody resp \<Rightarrow> Inr resp
         | WithBody rng \<Rightarrow>
             (let mem_buf = mf_data self; len = word_of_nat (length mem_buf)
              in case bytes_range rng len of
                   Inl (Panic msg) \<Rightarrow> Inl (Panic msg)
                 | Inl (Err BadRangeError) \<Rightarrow> Inr (bad_range_reply api len)
                 | Inr (start, end') \<Rightarrow>
                     (let reader = (drop (unat start) mem_buf, unat (end' - start));
                          body = Cursor_Body \<lparr>fst_reader = reader, fst_buf_size = mf_buf_size self\<rparr>
                      in Inr (content_reply api len start end' (mf_content_type self) modified body))))"

definition get_or_acquire ::
  "api \<Rightarrow> store \<Rightarrow> path \<Rightarrow> header_map \<Rightarrow> (status, resp) result option" where
  "get_or_acquire api store file_path headers_opt =
     (case to_str file_path of
        None \<Rightarrow> None
      | Some file_path_str \<Rightarrow>
          (case store of
             None \<Rightarrow> Some (Inl (Panic ''called `Option::unwrap()` on a `None` value''))
           | Some entries \<Rightarrow>
               (case entries file_path_str of
                  Some mem_file \<Rightarrow> Some (mem_file_response_body api mem_file headers_opt)
                | None \<Rightarrow>
                    if \<not> semaphore_acquire_ok api then Some (Inl (Err INTERNAL_SERVER_ERROR))
                    else None)))"

section \<open>stream.rs\<close>

definition buf_put :: "api \<Rightarrow> bytes \<times> nat \<Rightarrow> bytes \<Rightarrow> bytes \<times> nat" where
  "buf_put api b bs =
     (case b of (data, cap) \<Rightarrow>
        let data' = data @ bs
        in (data', if length data' \<le> cap then cap else bytesmut_grow api cap (length data')))"

definition mem_poll_next ::
  "api \<Rightarrow> 'r read \<Rightarrow> store \<Rightarrow> 'r mem_cache_file_stream
     \<Rightarrow> (io_error, bytes poll \<times> 'r mem_cache_file_stream \<times> store) result" where
  "mem_poll_next api read store self =
     (case read (fst_reader self) (fst_buf_size self) of
        Inl err \<Rightarrow> Inr (Failed err, self, store)
      | Inr (buf, r) \<Rightarrow>
          (let pinned = self\<lparr>fst_reader := r\<rparr>
           in if length buf = 0 then Inr (Done, pinned, store)
              else (case (mem_opts pinned, mem_buf pinned) of
                      (Some mem_file_opts, Some b) \<Rightarrow>
                        (case buf_put api b buf of (data, cap) \<Rightarrow>
                           if length data = cap then
                             (let mem_file = \<lparr>mf_data = data, mf_buf_size = fst_buf_size pinned,
                                    mf_content_type = mo_content_type mem_file_opts,
                                    mf_last_modified = mo_last_modified mem_file_opts\<rparr>
                              in case store of
                                   None \<Rightarrow> Inl (Panic ''called `Option::unwrap()` on a `None` value'')
                                 | Some entries \<Rightarrow>
                                     Inr (Item buf, pinned\<lparr>mem_buf := None\<rparr>,
                                       Some (entries(mo_file_path mem_file_opts \<mapsto> mem_file))))
                           else Inr (Item buf, pinned\<lparr>mem_buf := Some (data, cap)\<rparr>, store))
                    | _ \<Rightarrow> Inr (Item buf, pinned, store))))"

section \<open>Lemmas\<close>

lemma content_headers_simps [simp]:
  "resp_status (content_headers api l ct m r) = resp_status r"
  "resp_body (content_headers api l ct m r) = resp_body r"
  "header (content_headers api l ct m r) CONTENT_LENGTH = Some (content_length_value api l)"
  "header (content_headers api l ct m r) CONTENT_TYPE = Some ct"
  "header (content_headers api l ct m r) CONTENT_RANGE = header r CONTENT_RANGE"
  "header (content_headers api l ct m r) CONTENT_ENCODING = header r CONTENT_ENCODING"
  by (simp_all add: content_headers_def Let_def split: option.splits)

lemma bad_range_reply_simps [simp]:
  "resp_status (bad_range_reply api l) = RANGE_NOT_SATISFIABLE"
  "resp_body (bad_range_reply api l) = Empty_Body"
  by (simp_all add: bad_range_reply_def)

text \<open>A full reply is a 200, a partial one a 206 with its range; both carry the body's length.\<close>

lemma content_reply_full:
  assumes "end' - start = len"
  shows "resp_status (content_reply api len start end' ct m b) = OK"
    and "resp_body (content_reply api len start end' ct m b) = b"
    and "header (content_reply api len start end' ct m b) CONTENT_LENGTH = Some (content_length_value api len)"
  using assms by (simp_all add: content_reply_def Let_def)

lemma content_reply_partial:
  assumes "end' - start \<noteq> len" "content_range_bytes api start end' len = Some cr"
  shows "resp_status (content_reply api len start end' ct m b) = PARTIAL_CONTENT"
    and "resp_body (content_reply api len start end' ct m b) = b"
    and "header (content_reply api len start end' ct m b) CONTENT_LENGTH
           = Some (content_length_value api (end' - start))"
    and "header (content_reply api len start end' ct m b) CONTENT_RANGE = Some cr"
  using assms by (simp_all add: content_reply_def Let_def)

lemma content_reply_invalid:
  assumes "end' - start \<noteq> len" "content_range_bytes api start end' len = None"
  shows "content_reply api len start end' ct m b = bad_range_reply api len"
  using assms by (simp add: content_reply_def Let_def)

text \<open>The statuses a content can be answered with.\<close>

definition content_statuses :: "status set" where
  "content_statuses = {OK, PARTIAL_CONTENT, NOT_MODIFIED, PRECONDITION_FAILED, RANGE_NOT_SATISFIABLE}"

lemma content_reply_status: "resp_status (content_reply api len s e ct m b) \<in> content_statuses"
  by (simp add: content_reply_def content_statuses_def Let_def split: option.splits)

lemma mem_file_response_total:
  assumes "inclusive_ranges api"
  shows "outcome {} (\<lambda>r. resp_status r \<in> content_statuses) (mem_file_response_body api f h)"
proof (cases "conditionals_check api (conditionals_new api h) (mf_last_modified f)")
  case (NoBody r)
  with conditionals_check_NoBody [OF NoBody] show ?thesis
    by (auto simp: mem_file_response_body_def content_statuses_def Let_def)
next
  case (WithBody rng)
  have "resp_status (bad_range_reply api n) \<in> content_statuses" for n
    by (simp add: content_statuses_def)
  with WithBody bytes_range_reachable [OF assms WithBody] show ?thesis
    by (auto simp: mem_file_response_body_def Let_def content_reply_status
        split: sum.splits abort.splits bad_range_error.splits)
qed

text \<open>The stream under a caching stream.\<close>

definition plain_stream :: "'r mem_cache_file_stream \<Rightarrow> 'r file_stream" where
  "plain_stream s = \<lparr>fst_reader = fst_reader s, fst_buf_size = fst_buf_size s\<rparr>"

text \<open>C36: a caching stream gives the client exactly what a plain file stream over the same
  reader gives, poll by poll, as long as the store is there.\<close>

theorem mem_poll_next_refines:
  "\<exists>s' entries'. mem_poll_next api read (Some entries) s
       = Inr (fst (poll_next read (plain_stream s)), s', Some entries')
     \<and> plain_stream s' = snd (poll_next read (plain_stream s))"
  by (auto simp: mem_poll_next_def poll_next_def plain_stream_def Let_def
      split: sum.splits prod.splits option.splits)

end
