(* ===== verification/Ip_Addr.thy ===== *)
theory Ip_Addr
  imports Rust_Str "HOL-Library.Code_Target_Numeral"
begin

text \<open>
  IP addresses as Rust's standard library reads and prints them: \<^verbatim>\<open>str::parse::<IpAddr>\<close> and
  \<^verbatim>\<open>Display\<close> of \<^verbatim>\<open>IpAddr\<close> and \<^verbatim>\<open>SocketAddr\<close>. The server uses them for the address to bind to, the trusted
  proxies and the request log.
\<close>

datatype ip_addr = V4 u8 u8 u8 u8 | V6 "u16 list"

record socket_addr =
  sa_ip :: ip_addr
  sa_port :: u16

section \<open>Reading\<close>

text \<open>A reader takes a value off the front of a string.\<close>

type_synonym 'a reader = "string \<Rightarrow> ('a \<times> string) option"

definition to_digit :: "nat \<Rightarrow> char \<Rightarrow> nat option" where
  "to_digit radix c =
     (let n = of_char c;
          d = (if 48 \<le> n \<and> n \<le> 57 then n - 48
               else if 65 \<le> n \<and> n \<le> 90 then n - 55
               else if 97 \<le> n \<and> n \<le> 122 then n - 87
               else radix)
      in if d < radix then Some d else None)"

definition is_radix_digit :: "nat \<Rightarrow> char \<Rightarrow> bool" where
  "is_radix_digit radix c \<longleftrightarrow> to_digit radix c \<noteq> None"

definition radix_val :: "nat \<Rightarrow> string \<Rightarrow> nat" where
  "radix_val radix = foldl (\<lambda>n c. radix * n + the (to_digit radix c)) 0"

definition read_number :: "nat \<Rightarrow> nat \<Rightarrow> bool \<Rightarrow> nat \<Rightarrow> nat reader" where
  "read_number radix max_digits allow_zero_prefix limit s =
     (let ds = takeWhile (is_radix_digit radix) s; n = radix_val radix ds
      in if ds = [] \<or> max_digits < length ds then None
         else if \<not> allow_zero_prefix \<and> hd ds = CHR ''0'' \<and> 1 < length ds then None
         else if limit < n then None
         else Some (n, drop (length ds) s))"

definition read_given_char :: "char \<Rightarrow> string \<Rightarrow> string option" where
  "read_given_char c s = (case s of x # xs \<Rightarrow> if x = c then Some xs else None | [] \<Rightarrow> None)"

definition read_separator :: "char \<Rightarrow> nat \<Rightarrow> 'a reader \<Rightarrow> 'a reader" where
  "read_separator sep i inner s =
     (if 0 < i then Option.bind (read_given_char sep s) inner else inner s)"

fun read_octets :: "nat \<Rightarrow> nat \<Rightarrow> nat list reader" where
  "read_octets i 0 s = Some ([], s)"
| "read_octets i (Suc n) s =
     (case read_separator (CHR ''.'') i (read_number 10 3 False 255) s of
        None \<Rightarrow> None
      | Some (v, s') \<Rightarrow> map_option (\<lambda>(vs, r). (v # vs, r)) (read_octets (Suc i) n s'))"

definition read_ipv4_addr :: "nat list reader" where
  "read_ipv4_addr s = read_octets 0 4 s"

text \<open>
  Up to \<open>n\<close> groups of an IPv6 address, the first of them at index \<open>i\<close>; an embedded IPv4 address ends them
  and stands for two. The flag tells whether there was one.
\<close>

fun read_groups :: "nat \<Rightarrow> nat \<Rightarrow> string \<Rightarrow> u16 list \<times> bool \<times> string" where
  "read_groups i 0 s = ([], False, s)"
| "read_groups i (Suc n) s =
     (case (if 0 < n then read_separator (CHR '':'') i read_ipv4_addr s else None) of
        Some ([a, b, c, d], s') \<Rightarrow> ([word_of_nat (256 * a + b), word_of_nat (256 * c + d)], True, s')
      | _ \<Rightarrow>
          (case read_separator (CHR '':'') i (read_number 16 4 True 65535) s of
             None \<Rightarrow> ([], False, s)
           | Some (g, s') \<Rightarrow>
               (case read_groups (Suc i) n s' of (gs, v4, r) \<Rightarrow> (word_of_nat g # gs, v4, r))))"

definition read_ipv6_addr :: "u16 list reader" where
  "read_ipv6_addr s =
     (case read_groups 0 8 s of (head, head_ipv4, s1) \<Rightarrow>
        if length head = 8 then Some (head, s1)
        else if head_ipv4 then None
        else
          (case Option.bind (read_given_char (CHR '':'') s1) (read_given_char (CHR '':'')) of
             None \<Rightarrow> None
           | Some s2 \<Rightarrow>
               (case read_groups 0 (8 - (length head + 1)) s2 of (tail, _, s3) \<Rightarrow>
                  Some (head @ replicate (8 - length head - length tail) 0 @ tail, s3))))"

definition parse_ip_addr :: "string \<Rightarrow> ip_addr option" where
  "parse_ip_addr s =
     (case (case read_ipv4_addr s of
              Some ([a, b, c, d], r) \<Rightarrow>
                Some (V4 (word_of_nat a) (word_of_nat b) (word_of_nat c) (word_of_nat d), r)
            | _ \<Rightarrow> map_option (\<lambda>(gs, r). (V6 gs, r)) (read_ipv6_addr s)) of
        Some (ip, r) \<Rightarrow> if r = [] then Some ip else None
      | None \<Rightarrow> None)"

section \<open>Printing\<close>

definition hex_char :: "nat \<Rightarrow> char" where
  "hex_char d = (if d < 10 then char_of (48 + d) else char_of (87 + d))"

fun hex_str :: "nat \<Rightarrow> string" where
  "hex_str n = (if n < 16 then [hex_char n] else hex_str (n div 16) @ [hex_char (n mod 16)])"

declare hex_str.simps [simp del]

definition show_v4 :: "u8 \<Rightarrow> u8 \<Rightarrow> u8 \<Rightarrow> u8 \<Rightarrow> string" where
  "show_v4 a b c d = join_on (CHR ''.'') (map (\<lambda>w. nat_str (unat w)) [a, b, c, d])"

text \<open>Start and length of the first longest run of zero groups.\<close>

fun zero_run :: "nat \<Rightarrow> nat \<times> nat \<Rightarrow> nat \<times> nat \<Rightarrow> u16 list \<Rightarrow> nat \<times> nat" where
  "zero_run i current longest [] = longest"
| "zero_run i current longest (g # gs) =
     (if g = 0 then
        (let c = (if snd current = 0 then (i, 1) else (fst current, snd current + 1))
         in zero_run (Suc i) c (if snd longest < snd c then c else longest) gs)
      else zero_run (Suc i) (0, 0) longest gs)"

definition show_groups :: "u16 list \<Rightarrow> string" where
  "show_groups gs = join_on (CHR '':'') (map (\<lambda>g. hex_str (unat g)) gs)"

definition show_v6 :: "u16 list \<Rightarrow> string" where
  "show_v6 gs =
     (if take 5 gs = [0, 0, 0, 0, 0] \<and> gs ! 5 = 0xFFFF then
        (let a = unat (gs ! 6); b = unat (gs ! 7)
         in ''::ffff:'' @ join_on (CHR ''.'') (map nat_str [a div 256, a mod 256, b div 256, b mod 256]))
      else
        (case zero_run 0 (0, 0) (0, 0) gs of (start, n) \<Rightarrow>
           if 1 < n then show_groups (take start gs) @ ''::'' @ show_groups (drop (start + n) gs)
           else show_groups gs))"

fun show_ip_addr :: "ip_addr \<Rightarrow> string" where
  "show_ip_addr (V4 a b c d) = show_v4 a b c d"
| "show_ip_addr (V6 gs) = show_v6 gs"

definition show_socket_addr :: "socket_addr \<Rightarrow> string" where
  "show_socket_addr a =
     (case sa_ip a of
        V4 _ _ _ _ \<Rightarrow> show_ip_addr (sa_ip a) @ '':'' @ nat_str (unat (sa_port a))
      | V6 _ \<Rightarrow> ''['' @ show_ip_addr (sa_ip a) @ '']:'' @ nat_str (unat (sa_port a)))"

section \<open>Lemmas\<close>

text \<open>An address that is read has eight groups.\<close>

lemma read_groups_length: "length (fst (read_groups i n s)) \<le> n"
proof (induction n arbitrary: i s)
  case (Suc n)
  have ih: "read_groups j n t = (gs, v, r) \<Longrightarrow> length gs \<le> n" for j t gs v r
    using Suc.IH [of j t] by simp
  show ?case
    by (auto split: option.splits list.splits prod.splits if_splits dest: ih)
qed simp

lemma parse_ip_addr_groups: "parse_ip_addr s = Some (V6 gs) \<Longrightarrow> length gs = 8"
proof -
  have "length gs = 8" if "read_ipv6_addr s = Some (gs, r)" for gs r
  proof -
    obtain hd' v s1 where h: "read_groups 0 8 s = (hd', v, s1)" by (cases "read_groups 0 8 s")
    then have "length hd' \<le> 8" using read_groups_length [of 0 8 s] by simp
    moreover have t: "length tl' \<le> 7 - length hd'" if "read_groups 0 (7 - length hd') s2 = (tl', w, s3)"
      for s2 tl' w s3
      using read_groups_length [of 0 "7 - length hd'" s2] that by simp
    ultimately show ?thesis
      using that h by (auto simp: read_ipv6_addr_def split: if_splits option.splits prod.splits dest!: t)
  qed
  then show "parse_ip_addr s = Some (V6 gs) \<Longrightarrow> length gs = 8"
    by (fastforce simp: parse_ip_addr_def split: option.splits list.splits prod.splits if_splits)
qed

lemma sample_addresses:
  "parse_ip_addr ''10.0.0.1'' = Some (V4 10 0 0 1)"
  "parse_ip_addr ''::'' = Some (V6 [0, 0, 0, 0, 0, 0, 0, 0])"
  "parse_ip_addr ''10.0.0.01'' = None" "parse_ip_addr ''10.0.0.256'' = None"
  "parse_ip_addr ''fe80::1'' = Some (V6 [0xfe80, 0, 0, 0, 0, 0, 0, 1])"
  "parse_ip_addr ''::ffff:1.2.3.4'' = Some (V6 [0, 0, 0, 0, 0, 0xffff, 0x102, 0x304])"
  "show_ip_addr (V6 [0, 0, 0, 0, 0, 0, 0, 0]) = ''::''"
  "show_ip_addr (V6 [0xfe80, 0, 0, 0, 0, 0, 0, 1]) = ''fe80::1''"
  "show_ip_addr (V6 [0, 0, 0, 0, 0, 0xffff, 0x102, 0x304]) = ''::ffff:1.2.3.4''"
  by code_simp+

end
