(* ===== verification/Handler_Opts.thy ===== *)
theory Handler_Opts
  imports Mem_Cache Ip_Addr
begin

text \<open>
  The configuration a request is handled under: the advanced settings (\<^verbatim>\<open>src/settings/mod.rs\<close>,
  \<^verbatim>\<open>src/settings/file.rs\<close>), the CORS settings (\<^verbatim>\<open>src/cors.rs\<close>) and \<^verbatim>\<open>RequestHandlerOpts\<close>
  (\<^verbatim>\<open>src/handler.rs\<close>). Regular expressions and glob patterns are their source text; what they
  match is a third-party matter.
\<close>

section \<open>Advanced settings\<close>

datatype redirects_kind = Permanent | Temporary

record headers_entry =
  he_source :: string
  he_headers :: header_map

record rewrites_entry =
  rw_source :: string
  rw_destination :: string
  rw_redirect :: "redirects_kind option"

record redirects_entry =
  rd_host :: "string option"
  rd_source :: string
  rd_destination :: string
  rd_kind :: status

record virtual_host =
  vh_host :: string
  vh_root :: path

record memory_cache_settings =
  mcs_capacity :: "u64 option"
  mcs_ttl :: "u64 option"
  mcs_tti :: "u64 option"
  mcs_max_file_size :: "u64 option"

record advanced =
  adv_headers :: "headers_entry list option"
  adv_rewrites :: "rewrites_entry list option"
  adv_redirects :: "redirects_entry list option"
  adv_virtual_hosts :: "virtual_host list option"
  adv_memory_cache :: "memory_cache_settings option"

section \<open>CORS settings\<close>

record cors =
  allowed_headers :: "string set"
  exposed_headers :: "string set"
  max_age :: "u64 option"
  allowed_methods :: "http_method set"
  origins :: "string set option"

record configured =
  cf_cors :: cors
  cf_allowed_headers :: string
  cf_exposed_headers :: string
  cf_methods_header :: string

section \<open>RequestHandlerOpts\<close>

datatype dir_list_fmt = Fmt_Html | Fmt_Json

record request_handler_opts =
  o_root_dir :: path
  o_memory_cache :: "mem_cache_opts option"
  o_compression :: bool
  o_compression_level :: compression_level
  o_compression_static :: bool
  o_dir_listing :: bool
  o_dir_listing_order :: u8
  o_dir_listing_format :: dir_list_fmt
  o_cors :: "configured option"
  o_security_headers :: bool
  o_cache_control_headers :: bool
  o_page404 :: path
  o_page50x :: path
  o_page_fallback :: bytes
  o_basic_auth :: string
  o_index_files :: "string list"
  o_log_remote_address :: bool
  o_log_forwarded_for :: bool
  o_trusted_proxies :: "ip_addr list"
  o_redirect_trailing_slash :: bool
  o_ignore_hidden_files :: bool
  o_disable_symlinks :: bool
  o_health :: bool
  o_experimental_metrics :: bool
  o_maintenance_mode :: bool
  o_maintenance_mode_status :: status
  o_maintenance_mode_file :: path
  o_advanced_opts :: "advanced option"

definition default_handler_opts :: request_handler_opts where
  "default_handler_opts =
    \<lparr>o_root_dir = ''./public'',
     o_memory_cache = None,
     o_compression = True,
     o_compression_level = Default_Level,
     o_compression_static = False,
     o_dir_listing = False,
     o_dir_listing_order = 6,
     o_dir_listing_format = Fmt_Html,
     o_cors = None,
     o_security_headers = False,
     o_cache_control_headers = True,
     o_page404 = ''./404.html'',
     o_page50x = ''./50x.html'',
     o_page_fallback = [],
     o_basic_auth = [],
     o_index_files = [''index.html''],
     o_log_remote_address = False,
     o_log_forwarded_for = False,
     o_trusted_proxies = [],
     o_redirect_trailing_slash = True,
     o_ignore_hidden_files = False,
     o_disable_symlinks = False,
     o_health = False,
     o_experimental_metrics = False,
     o_maintenance_mode = False,
     o_maintenance_mode_status = SERVICE_UNAVAILABLE,
     o_maintenance_mode_file = [],
     o_advanced_opts = None\<rparr>"

type_synonym handled = "(string, resp) result"

text \<open>
  The contract of the stages that only touch headers on the way out: they never fail, keep status and
  body, and change no header outside a set of names.
\<close>

locale response_stage =
  fixes stage :: "request_handler_opts \<Rightarrow> request \<Rightarrow> resp \<Rightarrow> handled"
    and names :: "request_handler_opts \<Rightarrow> request \<Rightarrow> string set"
  assumes stage_ok: "\<exists>r'. stage opts req r = Inr r' \<and> resp_status r' = resp_status r
      \<and> resp_body r' = resp_body r \<and> (\<forall>n. n \<notin> names opts req \<longrightarrow> header r' n = header r n)"
begin

lemma total: "\<exists>r'. stage opts req r = Inr r'"
  using stage_ok by blast

lemma keeps:
  assumes "stage opts req r = Inr r'"
  shows "resp_status r' = resp_status r" "resp_body r' = resp_body r"
    and "n \<notin> names opts req \<Longrightarrow> header r' n = header r n"
  using stage_ok [of opts req r] assms by auto

end

definition then_stage ::
  "('o \<Rightarrow> 'q \<Rightarrow> 'r \<Rightarrow> ('e, 'r) result) \<Rightarrow> ('o \<Rightarrow> 'q \<Rightarrow> 'r \<Rightarrow> ('e, 'r) result) \<Rightarrow> 'o \<Rightarrow> 'q \<Rightarrow> 'r \<Rightarrow> ('e, 'r) result"
where
  "then_stage a b opts req r = (case a opts req r of Inl e \<Rightarrow> Inl e | Inr r' \<Rightarrow> b opts req r')"

locale two_stages = first: response_stage a A + second: response_stage b B for a A b B
begin

lemma then_stage:
  "response_stage (then_stage a b) (\<lambda>opts req. A opts req \<union> B opts req)"
proof
  fix opts req r
  obtain r1 where a: "a opts req r = Inr r1" using first.total by blast
  obtain r2 where b: "b opts req r1 = Inr r2" using second.total by blast
  show "\<exists>r'. then_stage a b opts req r = Inr r' \<and> resp_status r' = resp_status r
      \<and> resp_body r' = resp_body r
      \<and> (\<forall>n. n \<notin> A opts req \<union> B opts req \<longrightarrow> header r' n = header r n)"
    using first.keeps [OF a] second.keeps [OF b] by (simp add: then_stage_def a b)
qed

end

end
