(* ===== verification/Error_Pages.thy ===== *)
theory Error_Pages
  imports Handler_Opts
begin

text \<open>
  Responses the server makes up itself: error pages (\<^verbatim>\<open>src/error_page.rs\<close>), the fallback page
  (\<^verbatim>\<open>src/fallback_page.rs\<close>), the maintenance page (\<^verbatim>\<open>src/maintenance_mode.rs\<close>) and the health and
  metrics endpoints (\<^verbatim>\<open>src/health.rs\<close>, \<^verbatim>\<open>src/metrics.rs\<close>).
\<close>

abbreviation TEXT_HTML_UTF_8 :: string where "TEXT_HTML_UTF_8 \<equiv> ''text/html; charset=utf-8''"

text \<open>The tail the made-up pages share: the length is the page's, the body is left out for HEAD.\<close>

definition page_response :: "api \<Rightarrow> http_method \<Rightarrow> status \<Rightarrow> string \<Rightarrow> resp" where
  "page_response api method status_code content =
     (let len = word_of_nat (length content) :: u64;
          body = (if \<not> is_head method then Full_Body content else Empty_Body);
          resp = (new_response body)\<lparr>resp_status := status_code\<rparr>;
          resp = insert_header CONTENT_TYPE TEXT_HTML_UTF_8 resp;
          resp = insert_header CONTENT_LENGTH (content_length_value api len) resp
      in insert_header ACCEPT_RANGES ''bytes'' resp)"

text \<open>\<^verbatim>\<open>String::from_utf8_lossy(&helpers::read_bytes_default(path)).trim()\<close> of a regular file.\<close>

definition page_content_of :: "fs \<Rightarrow> path \<Rightarrow> string" where
  "page_content_of fs p =
     (if is_file fs p then str_trim (from_utf8_lossy (read_bytes_default fs p)) else [])"

section \<open>error\_page.rs\<close>

definition statuses_4xx :: "status list" where
  "statuses_4xx = [400, 401, 402, 403, 404, 405, 406, 407, 408, 409, 410, 411, 412, 413, 414, 415, 416, 417]"

definition statuses_50x :: "status list" where
  "statuses_50x = [500, 501, 502, 503, 504, 505, 506, 507, 508]"

definition reason_or_default :: "api \<Rightarrow> status \<Rightarrow> string" where
  "reason_or_default api st = (case canonical_reason api st of None \<Rightarrow> [] | Some r \<Rightarrow> r)"

definition error_page_content :: "api \<Rightarrow> fs \<Rightarrow> status \<Rightarrow> path \<Rightarrow> path \<Rightarrow> string" where
  "error_page_content api fs status_code page404 page50x =
     (let page_content =
            (if status_code \<in> set statuses_4xx then
               (if status_code = NOT_FOUND then page_content_of fs page404 else [])
             else if status_code \<in> set statuses_50x then page_content_of fs page50x
             else [])
      in if page_content = [] then
           concat [''<html><head><title>'', status_as_str api status_code, '' '',
             reason_or_default api status_code, ''</title></head><body><center><h1>'',
             status_as_str api status_code, '' '', reason_or_default api status_code,
             ''</h1></center></body></html>'']
         else page_content)"

definition error_response ::
  "api \<Rightarrow> fs \<Rightarrow> uri \<Rightarrow> http_method \<Rightarrow> status \<Rightarrow> path \<Rightarrow> path \<Rightarrow> handled" where
  "error_response api fs u method status_code page404 page50x =
     Inr (page_response api method status_code
       (error_page_content api fs status_code page404 page50x))"

section \<open>fallback\_page.rs\<close>

definition fallback_init :: "fs \<Rightarrow> path \<Rightarrow> request_handler_opts \<Rightarrow> request_handler_opts" where
  "fallback_init fs p opts = opts\<lparr>o_page_fallback := read_bytes_default fs p\<rparr>"

definition fallback_response :: "api \<Rightarrow> bytes \<Rightarrow> resp" where
  "fallback_response api page_fallback =
     (let len = word_of_nat (length page_fallback) :: u64;
          resp = (new_response (Full_Body page_fallback))\<lparr>resp_status := OK\<rparr>;
          resp = insert_header CONTENT_LENGTH (content_length_value api len) resp;
          resp = insert_header CONTENT_TYPE TEXT_HTML_UTF_8 resp
      in insert_header ACCEPT_RANGES ''bytes'' resp)"

definition fallback_post_process :: "api \<Rightarrow> request_handler_opts \<Rightarrow> request \<Rightarrow> resp \<Rightarrow> handled" where
  "fallback_post_process api opts req resp =
     Inr (if is_get (r_method req) \<and> resp_status resp = NOT_FOUND \<and> o_page_fallback opts \<noteq> []
          then fallback_response api (o_page_fallback opts)
          else resp)"

section \<open>maintenance\_mode.rs\<close>

definition maintenance_init ::
  "bool \<Rightarrow> status \<Rightarrow> path \<Rightarrow> request_handler_opts \<Rightarrow> request_handler_opts" where
  "maintenance_init mode status file_path opts =
     opts\<lparr>o_maintenance_mode := mode, o_maintenance_mode_status := status,
          o_maintenance_mode_file := file_path\<rparr>"

definition maintenance_get_response :: "api \<Rightarrow> fs \<Rightarrow> http_method \<Rightarrow> status \<Rightarrow> path \<Rightarrow> handled" where
  "maintenance_get_response api fs method status_code file_path =
     (let body_content =
            (if is_file fs file_path then str_trim (from_utf8_lossy (read_bytes_default fs file_path))
             else concat [''<html><head><title>'', status_display api status_code,
               ''</title></head><body><center><h1>'', ''The server is in maintenance mode.'',
               ''</h1></center></body></html>''])
      in Inr (page_response api method status_code body_content))"

definition maintenance_pre_process ::
  "api \<Rightarrow> fs \<Rightarrow> request_handler_opts \<Rightarrow> request \<Rightarrow> handled option" where
  "maintenance_pre_process api fs opts req =
     (if o_maintenance_mode opts then
        Some (maintenance_get_response api fs (r_method req) (o_maintenance_mode_status opts)
          (o_maintenance_mode_file opts))
      else None)"

section \<open>health.rs\<close>

definition health_init :: "bool \<Rightarrow> request_handler_opts \<Rightarrow> request_handler_opts" where
  "health_init enabled opts = opts\<lparr>o_health := enabled\<rparr>"

definition is_health_endpoint :: "request \<Rightarrow> bool" where
  "is_health_endpoint req \<longleftrightarrow> u_path (r_uri req) = ''/health''"

definition health_pre_process :: "request_handler_opts \<Rightarrow> request \<Rightarrow> handled option" where
  "health_pre_process opts req =
     (if \<not> o_health opts then None
      else if \<not> is_health_endpoint req then None
      else (case r_method req of
              HEAD \<Rightarrow> Some (Inr (insert_header CONTENT_TYPE ''text/html'' (new_response Empty_Body)))
            | GET \<Rightarrow> Some (Inr (insert_header CONTENT_TYPE ''text/html'' (new_response (Full_Body ''OK''))))
            | _ \<Rightarrow> None))"

section \<open>metrics.rs\<close>

text \<open>\<open>registered\<close> tells whether the registry takes the collector (it refuses a second one).\<close>

definition metrics_init ::
  "bool \<Rightarrow> bool \<Rightarrow> request_handler_opts \<Rightarrow> (string, request_handler_opts) result" where
  "metrics_init registered enabled opts =
     (let opts = opts\<lparr>o_experimental_metrics := enabled\<rparr>
      in if enabled \<and> \<not> registered
         then Inl (Panic ''called `Result::unwrap()` on an `Err` value'') else Inr opts)"

definition metrics_pre_process :: "api \<Rightarrow> request_handler_opts \<Rightarrow> request \<Rightarrow> handled option" where
  "metrics_pre_process api opts req =
     (if \<not> o_experimental_metrics opts then None
      else if u_path (r_uri req) \<noteq> ''/metrics'' then None
      else if \<not> is_get (r_method req) \<and> \<not> is_head (r_method req) then None
      else (let body = (if is_get (r_method req) then Full_Body (metrics_text api) else Empty_Body)
            in Some (Inr (insert_header CONTENT_TYPE ''text/plain; charset=utf-8'' (new_response body)))))"

section \<open>Lemmas\<close>

lemma page_response_simps [simp]:
  "resp_status (page_response api m st c) = st"
  "resp_body (page_response api m st c) = (if is_head m then Empty_Body else Full_Body c)"
  "header (page_response api m st c) CONTENT_LENGTH = Some (content_length_value api (word_of_nat (length c)))"
  "header (page_response api m st c) CONTENT_TYPE = Some TEXT_HTML_UTF_8"
  "header (page_response api m st c) CONTENT_ENCODING = None"
  "header (page_response api m st c) WWW_AUTHENTICATE = None"
  "header (page_response api m st c) LOCATION = None"
  by (simp_all add: page_response_def Let_def)

lemma error_page_content_ne: "error_page_content api fs st p4 p5 \<noteq> []"
  by (simp add: error_page_content_def Let_def)

lemma error_response_simps [simp]:
  "error_response api fs u m st p4 p5 = Inr r \<longleftrightarrow>
     r = page_response api m st (error_page_content api fs st p4 p5)"
  by (auto simp: error_response_def)

end
