(* ===== verification/Compression.thy ===== *)
theory Compression
  imports Error_Pages
begin

text \<open>
  Compression on the fly (\<^verbatim>\<open>src/compression.rs\<close>) and pre-compressed files
  (\<^verbatim>\<open>src/compression_static.rs\<close>). The encoders stay symbolic: a compressed body names its coding and
  level.
\<close>

section \<open>compression.rs\<close>

definition TEXT_MIME_TYPES :: "string list" where
  "TEXT_MIME_TYPES =
     [''application/rtf'', ''application/javascript'', ''application/json'', ''application/xml'',
      ''font/ttf'', ''application/font-sfnt'', ''application/vnd.ms-fontobject'', ''application/wasm'']"

definition AVAILABLE_ENCODINGS :: "content_coding list" where
  "AVAILABLE_ENCODINGS = [DEFLATE, GZIP, BROTLI, ZSTD]"

definition compression_init ::
  "bool \<Rightarrow> compression_level \<Rightarrow> request_handler_opts \<Rightarrow> request_handler_opts" where
  "compression_init enabled level opts = opts\<lparr>o_compression := enabled, o_compression_level := level\<rparr>"

definition is_text :: "mime \<Rightarrow> bool" where
  "is_text mime \<longleftrightarrow>
     mime_type mime = ''text''
     \<or> (case mime_suffix mime of None \<Rightarrow> False | Some sfx \<Rightarrow> sfx = ''xml'' \<or> sfx = ''json'')
     \<or> mime_essence mime \<in> set TEXT_MIME_TYPES"

definition create_encoding_header :: "api \<Rightarrow> string option \<Rightarrow> content_coding \<Rightarrow> string" where
  "create_encoding_header api existing coding =
     (case existing of
        None \<Rightarrow> cc_as_str coding
      | Some val \<Rightarrow>
          (case hv_to_str api val of
             None \<Rightarrow> cc_as_str coding
           | Some str_val \<Rightarrow>
               (let v = str_val @ '', '' @ cc_as_str coding
                in if hv_valid api v then v else cc_as_str coding)))"

text \<open>What \<^verbatim>\<open>gzip\<close>, \<^verbatim>\<open>deflate\<close>, \<^verbatim>\<open>brotli\<close> and \<^verbatim>\<open>zstd\<close> do but for the encoder and its default level.\<close>

definition compress_with :: "api \<Rightarrow> content_coding \<Rightarrow> level \<Rightarrow> resp \<Rightarrow> resp" where
  "compress_with api coding level resp =
     (let body = Encoded_Body coding level (resp_body resp);
          enc_header = create_encoding_header api (header resp CONTENT_ENCODING) coding;
          resp = remove_header CONTENT_ENCODING resp;
          resp = remove_header CONTENT_LENGTH resp;
          resp = insert_header CONTENT_ENCODING enc_header resp
      in resp\<lparr>resp_body := body\<rparr>)"

definition gzip :: "api \<Rightarrow> compression_level \<Rightarrow> resp \<Rightarrow> resp" where
  "gzip api level resp = compress_with api GZIP (into_algorithm_level level 4) resp"

definition deflate :: "api \<Rightarrow> compression_level \<Rightarrow> resp \<Rightarrow> resp" where
  "deflate api level resp = compress_with api DEFLATE (into_algorithm_level level 4) resp"

definition brotli :: "api \<Rightarrow> compression_level \<Rightarrow> resp \<Rightarrow> resp" where
  "brotli api level resp = compress_with api BROTLI (into_algorithm_level level 4) resp"

definition zstd :: "api \<Rightarrow> compression_level \<Rightarrow> resp \<Rightarrow> resp" where
  "zstd api level resp = compress_with api ZSTD (into_algorithm_level level 3) resp"

fun first_available :: "content_coding list \<Rightarrow> content_coding option" where
  "first_available [] = None"
| "first_available (encoding # rest) =
     (if encoding \<in> set AVAILABLE_ENCODINGS then Some encoding else first_available rest)"

definition get_preferred_encoding :: "api \<Rightarrow> header_map \<Rightarrow> content_coding option" where
  "get_preferred_encoding api headers =
     (case typed_accept_encoding api headers of
        None \<Rightarrow> None
      | Some accept_encoding \<Rightarrow> first_available (sorted_encodings api accept_encoding))"

definition get_encodings :: "api \<Rightarrow> header_map \<Rightarrow> content_coding list" where
  "get_encodings api headers =
     (case typed_accept_encoding api headers of
        None \<Rightarrow> []
      | Some accept_encoding \<Rightarrow>
          filter (\<lambda>encoding. encoding \<in> set AVAILABLE_ENCODINGS) (sorted_encodings api accept_encoding))"

definition auto_compress ::
  "api \<Rightarrow> http_method \<Rightarrow> header_map \<Rightarrow> compression_level \<Rightarrow> resp \<Rightarrow> handled" where
  "auto_compress api method headers level resp =
     (if is_head method \<or> is_options method then Inr resp
      else
        (case get_preferred_encoding api headers of
           None \<Rightarrow> Inr resp
         | Some encoding \<Rightarrow>
             if (case typed_content_type api (resp_headers resp) of
                   None \<Rightarrow> False
                 | Some content_type \<Rightarrow> \<not> is_text content_type) then Inr resp
             else if encoding = GZIP then Inr (gzip api level resp)
             else if encoding = DEFLATE then Inr (deflate api level resp)
             else if encoding = BROTLI then Inr (brotli api level resp)
             else if encoding = ZSTD then Inr (zstd api level resp)
             else Inr resp))"

definition compression_post_process ::
  "api \<Rightarrow> fs \<Rightarrow> request_handler_opts \<Rightarrow> request \<Rightarrow> resp \<Rightarrow> handled" where
  "compression_post_process api fs opts req resp =
     (if \<not> o_compression opts then Inr resp
      else if header resp CONTENT_ENCODING \<noteq> None then Inr resp
      else
        (let resp = insert_header VARY ACCEPT_ENCODING resp
         in case auto_compress api (r_method req) (r_headers req) (o_compression_level opts) resp of
              Inr resp \<Rightarrow> Inr resp
            | Inl (Panic msg) \<Rightarrow> Inl (Panic msg)
            | Inl (Err _) \<Rightarrow>
                error_response api fs (r_uri req) (r_method req) INTERNAL_SERVER_ERROR
                  (o_page404 opts) (o_page50x opts)))"

text \<open>\<^verbatim>\<open>CompressableBody\<close>: the body's items with every error turned into \<^verbatim>\<open>InvalidData\<close>.\<close>

definition compressable_poll_next :: "bytes poll \<Rightarrow> bytes poll" where
  "compressable_poll_next item = (case item of Failed _ \<Rightarrow> Failed InvalidData | _ \<Rightarrow> item)"

section \<open>compression\_static.rs\<close>

record compressed_file_variant =
  cv_file_path :: path
  cv_metadata :: metadata
  cv_encoding :: content_coding

definition compression_static_init :: "bool \<Rightarrow> request_handler_opts \<Rightarrow> request_handler_opts" where
  "compression_static_init enabled opts = opts\<lparr>o_compression_static := enabled\<rparr>"

definition compression_static_post_process ::
  "request_handler_opts \<Rightarrow> request \<Rightarrow> resp \<Rightarrow> handled" where
  "compression_static_post_process opts req resp =
     (if \<not> o_compression_static opts then Inr resp
      else Inr (insert_header VARY ACCEPT_ENCODING resp))"

fun comp_ext :: "content_coding \<Rightarrow> string option" where
  "comp_ext GZIP = Some ''gz''"
| "comp_ext DEFLATE = Some ''gz''"
| "comp_ext BROTLI = Some ''br''"
| "comp_ext ZSTD = Some ''zst''"
| "comp_ext COMPRESS = None"
| "comp_ext IDENTITY = None"

fun precompressed_loop :: "fs \<Rightarrow> path \<Rightarrow> content_coding list \<Rightarrow> compressed_file_variant option" where
  "precompressed_loop fs file_path [] = None"
| "precompressed_loop fs file_path (encoding # rest) =
     (case comp_ext encoding of
        None \<Rightarrow> precompressed_loop fs file_path rest
      | Some ext \<Rightarrow>
          (case Option.bind (file_name file_path) to_str of
             None \<Rightarrow> precompressed_loop fs file_path rest
           | Some comp_name \<Rightarrow>
               (let p = with_file_name file_path (comp_name @ ''.'' @ ext)
                in case try_metadata fs p of
                     Inl _ \<Rightarrow> precompressed_loop fs file_path rest
                   | Inr (metadata, is_directory) \<Rightarrow>
                       if is_directory then precompressed_loop fs file_path rest
                       else Some \<lparr>cv_file_path = p, cv_metadata = metadata, cv_encoding = encoding\<rparr>)))"

definition precompressed_variant ::
  "api \<Rightarrow> fs \<Rightarrow> path \<Rightarrow> header_map \<Rightarrow> compressed_file_variant option" where
  "precompressed_variant api fs file_path headers =
     precompressed_loop fs file_path (get_encodings api headers)"

section \<open>Lemmas\<close>

interpretation static_vary: response_stage compression_static_post_process "\<lambda>_ _. {VARY}"
  by unfold_locales (simp add: compression_static_post_process_def)

lemma compress_with_simps [simp]:
  "resp_status (compress_with api c l r) = resp_status r"
  "resp_body (compress_with api c l r) = Encoded_Body c l (resp_body r)"
  "header (compress_with api c l r) n =
     (if n = CONTENT_ENCODING then Some (create_encoding_header api (header r CONTENT_ENCODING) c)
      else if n = CONTENT_LENGTH then None else header r n)"
  by (simp_all add: compress_with_def Let_def)

lemma first_available_find:
  "first_available cs = List.find (\<lambda>c. c \<in> set AVAILABLE_ENCODINGS) cs"
  by (induction cs rule: first_available.induct) simp_all

lemma first_available_filter:
  "first_available cs = (case filter (\<lambda>c. c \<in> set AVAILABLE_ENCODINGS) cs of [] \<Rightarrow> None | c # _ \<Rightarrow> Some c)"
  by (induction cs rule: first_available.induct) simp_all

lemma get_preferred_encoding_hd:
  "get_preferred_encoding api h = (case get_encodings api h of [] \<Rightarrow> None | c # _ \<Rightarrow> Some c)"
  by (simp add: get_preferred_encoding_def get_encodings_def first_available_filter split: option.splits)

lemma get_encodings_available: "c \<in> set (get_encodings api h) \<Longrightarrow> c \<in> set AVAILABLE_ENCODINGS"
  by (auto simp: get_encodings_def split: option.splits)

lemma find_falling:
  assumes "falling ms" "List.find P ms = Some m" "m' \<in> set ms" "P m'"
  shows "qm_quality m' \<le> qm_quality m"
  using assms
proof (induction ms)
  case (Cons x ms)
  then show ?case
    by (cases "P x") (auto simp: falling_def)
qed simp

lemma find_map: "List.find P (map f xs) = map_option f (List.find (P \<circ> f) xs)"
  by (induction xs) auto

lemma sorted_encodings_items:
  "sorted_encodings api ae = map (\<lambda>m. cc_from (qm_data m)) (sort_key qm_key (quality_items api (ae_value ae)))"
  by (simp add: sorted_encodings_def quality_value_iter_def)

lemma find_SomeD: "List.find P xs = Some x \<Longrightarrow> x \<in> set xs \<and> P x"
  by (induction xs) (auto split: if_splits)

text \<open>The variant of a file for one coding: a sibling with the coding's extension that is no directory.\<close>

definition variant_of :: "fs \<Rightarrow> path \<Rightarrow> content_coding \<Rightarrow> compressed_file_variant option" where
  "variant_of fs fp c =
     (case (comp_ext c, file_name fp) of
        (Some ext, Some name) \<Rightarrow>
          (let p = with_file_name fp (name @ ''.'' @ ext)
           in case fs_metadata fs p of
                Inr meta \<Rightarrow>
                  if utf8_valid name \<and> m_type meta \<noteq> FT_Dir
                  then Some \<lparr>cv_file_path = p, cv_metadata = meta, cv_encoding = c\<rparr> else None
              | Inl _ \<Rightarrow> None)
      | _ \<Rightarrow> None)"

lemma precompressed_loop_Cons:
  "precompressed_loop fs fp (c # cs) =
     (case variant_of fs fp c of Some v \<Rightarrow> Some v | None \<Rightarrow> precompressed_loop fs fp cs)"
  by (auto simp: variant_of_def to_str_def try_metadata_def Let_def split: option.splits sum.splits)

lemma precompressed_loop_eq:
  "precompressed_loop fs fp cs =
     (case List.map_filter (variant_of fs fp) cs of [] \<Rightarrow> None | v # _ \<Rightarrow> Some v)"
  by (induction cs)
    (simp_all add: precompressed_loop_Cons List.map_filter_def split: option.splits
      del: precompressed_loop.simps(2))

lemma auto_compress_cases:
  "auto_compress api m h level r = Inr r \<or>
     (\<exists>c d. get_preferred_encoding api h = Some c \<and> \<not> is_head m \<and> \<not> is_options m
        \<and> auto_compress api m h level r = Inr (compress_with api c (into_algorithm_level level d) r))"
proof (cases "is_head m \<or> is_options m")
  case False
  then show ?thesis
    by (cases "get_preferred_encoding api h")
      (auto simp: auto_compress_def gzip_def deflate_def brotli_def zstd_def)
qed (simp add: auto_compress_def)

section \<open>Properties\<close>

lemma sample_encodings:
  "get_encodings sample_api [(ACCEPT_ENCODING, v)] =
     filter (\<lambda>c. c \<in> set AVAILABLE_ENCODINGS) (map (\<lambda>m. cc_from (qm_data m)) (sort_key qm_key
       (if visible v then List.map_filter quality_meta_try_from (split_on (CHR '','') v) else [])))"
  by (simp add: get_encodings_def typed_accept_encoding_def accept_encoding_decode_def
      try_from_values_def hm_get_all_def sorted_encodings_items quality_items_def)

lemma sample_splits:
  "split_on (CHR '','') ''br;q=0.5, gzip'' = [''br;q=0.5'', '' gzip'']"
  "split_on (CHR '','') ''gzip;q=0'' = [''gzip;q=0'']"
  "split_on (CHR '','') ''gzip;q=0.25, br;q=0.251'' = [''gzip;q=0.25'', '' br;q=0.251'']"
  "split_on (CHR '','') ''deflate'' = [''deflate'']" "visible ''deflate''"
  "visible ''br;q=0.5, gzip''" "visible ''gzip;q=0''" "visible ''gzip;q=0.25, br;q=0.251''"
  by code_simp+

lemma sample_weights:
  "map_option (\<lambda>p. as_u16 (mul_1000 p)) (parse_f32 (str_trim ''0'')) = Some 0"
  "map_option (\<lambda>p. as_u16 (mul_1000 p)) (parse_f32 (str_trim ''0.5'')) = Some 500"
  "map_option (\<lambda>p. as_u16 (mul_1000 p)) (parse_f32 (str_trim ''0.25'')) = Some 250"
  "map_option (\<lambda>p. as_u16 (mul_1000 p)) (parse_f32 (str_trim ''0.251'')) = Some 250"
  by code_simp+

lemma sample_parts:
  "split_on (CHR '';'') ''br;q=0.5'' = [''br'', ''q=0.5'']"
  "split_on (CHR '';'') ''gzip;q=0'' = [''gzip'', ''q=0'']"
  "split_on (CHR '';'') ''gzip;q=0.25'' = [''gzip'', ''q=0.25'']"
  "split_on (CHR '';'') '' br;q=0.251'' = ['' br'', ''q=0.251'']"
  "split_on (CHR '';'') '' gzip'' = ['' gzip'']"
  "split_on (CHR '';'') ''deflate'' = [''deflate'']"
  "map (\<lambda>s. strip_prefix ''q='' (str_trim_start s)) [''br'', '' br'', ''gzip'', '' gzip'', ''deflate'']
     = [None, None, None, None, None]"
  "map (\<lambda>s. strip_prefix ''q='' (str_trim_start s)) [''q=0.5'', ''q=0'', ''q=0.25'', ''q=0.251'']
     = [Some ''0.5'', Some ''0'', Some ''0.25'', Some ''0.251'']"
  "map str_trim [''br'', '' br'', ''gzip'', '' gzip'', ''deflate''] = [''br'', ''br'', ''gzip'', ''gzip'', ''deflate'']"
  by code_simp+

lemma sample_items:
  "quality_meta_try_from ''br;q=0.5'' = Some \<lparr>qm_data = ''br'', qm_quality = 500\<rparr>"
  "quality_meta_try_from '' gzip'' = Some \<lparr>qm_data = ''gzip'', qm_quality = 1000\<rparr>"
  "quality_meta_try_from ''deflate'' = Some \<lparr>qm_data = ''deflate'', qm_quality = 1000\<rparr>"
  "quality_meta_try_from ''gzip;q=0'' = Some \<lparr>qm_data = ''gzip'', qm_quality = 0\<rparr>"
  "quality_meta_try_from ''gzip;q=0.25'' = Some \<lparr>qm_data = ''gzip'', qm_quality = 250\<rparr>"
  "quality_meta_try_from '' br;q=0.251'' = Some \<lparr>qm_data = ''br'', qm_quality = 250\<rparr>"
  using sample_parts sample_weights
    quality_meta_q [of "''br;q=0.5''" "''br''" "''q=0.5''" "''0.5''" 500]
    quality_meta_q [of "''gzip;q=0''" "''gzip''" "''q=0''" "''0''" 0]
    quality_meta_q [of "''gzip;q=0.25''" "''gzip''" "''q=0.25''" "''0.25''" 250]
    quality_meta_q [of "'' br;q=0.251''" "'' br''" "''q=0.251''" "''0.251''" 250]
  by (simp_all add: quality_meta_try_from_def)

lemmas sample_eval = get_preferred_encoding_hd sample_encodings sample_splits sample_items
  List.map_filter_def qm_key_def cc_from_def cc_from_str_def AVAILABLE_ENCODINGS_def

text \<open>C27: the coding used for a response is one the server has, is among the client's items, and no
  other item with an available coding has a larger weight.\<close>

theorem preferred_encoding_best:
  assumes "typed_accept_encoding api h = Some ae" "get_preferred_encoding api h = Some c"
  shows "c \<in> {DEFLATE, GZIP, BROTLI, ZSTD}
    \<and> (\<exists>m \<in> set (quality_items api (ae_value ae)). cc_from (qm_data m) = c
      \<and> (\<forall>m' \<in> set (quality_items api (ae_value ae)).
           cc_from (qm_data m') \<in> set AVAILABLE_ENCODINGS \<longrightarrow> qm_quality m' \<le> qm_quality m))"
proof -
  let ?ms = "sort_key qm_key (quality_items api (ae_value ae))"
  let ?P = "\<lambda>m. cc_from (qm_data m) \<in> set AVAILABLE_ENCODINGS"
  obtain m where m: "List.find ?P ?ms = Some m" "c = cc_from (qm_data m)"
    using assms
    by (auto simp: get_preferred_encoding_def first_available_find sorted_encodings_items find_map comp_def)
  then have "m \<in> set (quality_items api (ae_value ae))" "?P m"
    by (auto dest!: find_SomeD)
  moreover have "qm_quality m' \<le> qm_quality m"
    if "m' \<in> set (quality_items api (ae_value ae))" "?P m'" for m'
    using find_falling [OF falling_sort m(1), of m'] that by simp
  ultimately show ?thesis
    using m(2) by (auto simp: AVAILABLE_ENCODINGS_def)
qed

theorem preferred_encoding_best_witness:
  "GZIP \<in> {DEFLATE, GZIP, BROTLI, ZSTD}
    \<and> get_preferred_encoding sample_api [(ACCEPT_ENCODING, ''br;q=0.5, gzip'')] = Some GZIP"
proof -
  let ?h = "[(ACCEPT_ENCODING, ''br;q=0.5, gzip'')]"
  let ?ae = "\<lparr>ae_value = \<lparr>qv_value = ''br;q=0.5, gzip''\<rparr>\<rparr>"
  have "typed_accept_encoding sample_api ?h = Some ?ae"
    by (simp add: typed_accept_encoding_def accept_encoding_decode_def try_from_values_def hm_get_all_def)
  moreover have "get_preferred_encoding sample_api ?h = Some GZIP"
    by (simp add: sample_eval del: split_on.simps)
  ultimately show ?thesis
    using preferred_encoding_best [of sample_api ?h ?ae GZIP] by simp
qed

text \<open>C28: compression on the fly either leaves the response as it is but for \<^verbatim>\<open>Vary\<close>, or wraps the
  body in an encoder of the preferred coding, names that coding in \<^verbatim>\<open>Content-Encoding\<close>, drops
  \<^verbatim>\<open>Content-Length\<close> and keeps the status and every other header; it never fails.\<close>

theorem compression_effect:
  "\<exists>r'. compression_post_process api fs opts req r = Inr r' \<and>
     (r' = r \<or> r' = insert_header VARY ACCEPT_ENCODING r
      \<or> (\<exists>c l. get_preferred_encoding api (r_headers req) = Some c
           \<and> \<not> is_head (r_method req) \<and> \<not> is_options (r_method req)
           \<and> resp_status r' = resp_status r
           \<and> resp_body r' = Encoded_Body c l (resp_body r)
           \<and> resp_headers r' = hm_insert CONTENT_ENCODING (cc_as_str c)
                (hm_remove CONTENT_LENGTH (hm_remove CONTENT_ENCODING
                  (hm_insert VARY ACCEPT_ENCODING (resp_headers r))))))"
proof -
  let ?r = "insert_header VARY ACCEPT_ENCODING r"
  consider "compression_post_process api fs opts req r = Inr r"
    | "compression_post_process api fs opts req r = Inr ?r"
    | c d where "get_preferred_encoding api (r_headers req) = Some c" "header r CONTENT_ENCODING = None"
      "\<not> is_head (r_method req)" "\<not> is_options (r_method req)"
      "compression_post_process api fs opts req r
        = Inr (compress_with api c (into_algorithm_level (o_compression_level opts) d) ?r)"
    using auto_compress_cases [of api "r_method req" "r_headers req" "o_compression_level opts" ?r]
    by (cases "o_compression opts"; cases "header r CONTENT_ENCODING")
      (auto simp: compression_post_process_def Let_def)
  then show ?thesis
  proof cases
    case (3 c d)
    then show ?thesis
      by (simp add: compress_with_def create_encoding_header_def insert_header_def remove_header_def Let_def)
  qed simp_all
qed

text \<open>The pre-compressed file served is the one for the first coding, in the client's order of
  preference, that has a regular sibling with its extension.\<close>

theorem precompressed_variant_first:
  "precompressed_variant api fs fp h =
     (case List.map_filter (variant_of fs fp) (get_encodings api h) of [] \<Rightarrow> None | v # _ \<Rightarrow> Some v)"
  by (simp add: precompressed_variant_def precompressed_loop_eq)

section \<open>Deviations\<close>

text \<open>A coding the client rules out by a weight of zero is used all the same.\<close>

lemma refused_coding_used:
  "get_preferred_encoding sample_api [(ACCEPT_ENCODING, ''gzip;q=0'')] = Some GZIP"
  by (simp add: sample_eval del: split_on.simps)

text \<open>A client that prefers \<open>br\<close> by a thousandth gets \<open>gzip\<close>.\<close>

lemma small_preference_lost:
  "get_preferred_encoding sample_api [(ACCEPT_ENCODING, ''gzip;q=0.25, br;q=0.251'')] = Some GZIP"
  by (simp add: sample_eval del: split_on.simps)

text \<open>A client that takes \<open>deflate\<close> gets a gzip file labelled \<open>deflate\<close>.\<close>

lemma deflate_variant_is_gz:
  "map_option (\<lambda>v. (cv_file_path v, cv_encoding v))
     (precompressed_variant sample_api (sample_fs [(''/w/a.txt.gz'', Node_File ''z'')]) ''/w/a.txt''
       [(ACCEPT_ENCODING, ''deflate'')]) = Some (''/w/a.txt.gz'', DEFLATE)"
proof -
  have "get_encodings sample_api [(ACCEPT_ENCODING, ''deflate'')] = [DEFLATE]"
    by (simp add: sample_eval del: split_on.simps)
  moreover have "with_file_name ''/w/a.txt'' ''a.txt.gz'' = ''/w/a.txt.gz''"
    "file_name ''/w/a.txt'' = Some ''a.txt''" "to_str ''a.txt'' = Some ''a.txt''"
    by code_simp+
  ultimately show ?thesis
    by (simp add: precompressed_variant_def try_metadata_def sample_fs_def sample_meta_def)
qed

text \<open>A partial response keeps its range of the plain bytes while its body gets compressed.\<close>

lemma partial_response_compressed:
  assumes "get_preferred_encoding api h = Some GZIP" "typed_content_type api (resp_headers r) = Some mt"
    and "is_text mt" "header r CONTENT_RANGE = Some cr" "header r CONTENT_ENCODING = None"
  shows "\<exists>r'. auto_compress api GET h level r = Inr r' \<and> resp_status r' = resp_status r
     \<and> header r' CONTENT_RANGE = Some cr \<and> header r' CONTENT_ENCODING = Some ''gzip''"
  using assms
  by (simp add: auto_compress_def gzip_def is_head_def is_options_def create_encoding_header_def)

end
