(* ===== verification/Directory_Listing.thy ===== *)
theory Directory_Listing
  imports Error_Pages Float32 "HOL-Library.List_Lexorder" "HOL-Library.Char_ord" "HOL-Library.Option_ord"
    "HOL-Library.Multiset"
begin

text \<open>
  Directory listings (\<^verbatim>\<open>src/directory_listing.rs\<close>): reading the entries of a directory, sorting them
  and rendering them as HTML or JSON. Percent encoding, HTML and JSON escaping and the formatting of
  dates are third-party; lower-casing is a parameter too, so that the results hold for any key.
\<close>

section \<open>Types and options\<close>

text \<open>\<^verbatim>\<open>NON_ALPHANUMERIC\<close> without the unreserved characters.\<close>

definition PERCENT_ENCODE_SET :: "char \<Rightarrow> bool" where
  "PERCENT_ENCODE_SET c \<longleftrightarrow>
     \<not> (in_range 48 57 c \<or> in_range 65 90 c \<or> in_range 97 122 c) \<and> c \<notin> set ''_-.~''"

record dir_list_opts =
  dl_method :: http_method
  dl_current_path :: string
  dl_uri_query :: "string option"
  dl_filepath :: path
  dl_order :: u8
  dl_format :: dir_list_fmt
  dl_ignore_hidden_files :: bool
  dl_disable_symlinks :: bool

datatype entry_type = Directory | File

record file_entry =
  fe_name :: string
  fe_mtime :: "int option"
  fe_size :: "u64 option"
  fe_type :: entry_type
  fe_uri :: string

definition fe_is_dir :: "file_entry \<Rightarrow> bool" where
  "fe_is_dir e \<longleftrightarrow> fe_type e = Directory"

record sorting_attr =
  sa_name :: string
  sa_last_modified :: string
  sa_size :: string

record dir_entry_opts =
  deo_dir_reader :: "(io_error + dir_entry) list"
  deo_base_path :: string
  deo_uri_query :: "string option"
  deo_is_head :: bool
  deo_order_code :: u8
  deo_content_format :: dir_list_fmt
  deo_ignore_hidden_files :: bool
  deo_disable_symlinks :: bool

definition listing_init ::
  "bool \<Rightarrow> u8 \<Rightarrow> dir_list_fmt \<Rightarrow> request_handler_opts \<Rightarrow> request_handler_opts" where
  "listing_init enabled order fmt opts =
     opts\<lparr>o_dir_listing := enabled, o_dir_listing_order := order, o_dir_listing_format := fmt\<rparr>"

section \<open>Reading the entries\<close>

text \<open>
  Type and size of an entry by its own metadata, a symbolic link by that of its target; \<open>None\<close> where
  the loop goes on with the next entry.
\<close>

definition entry_kind :: "bool \<Rightarrow> dir_entry \<Rightarrow> metadata \<Rightarrow> (entry_type \<times> u64 option) option" where
  "entry_kind disable_symlinks de meta =
     (if m_type meta = FT_Dir then Some (Directory, None)
      else if m_type meta = FT_File then Some (File, Some (m_len meta))
      else if \<not> disable_symlinks \<and> m_type meta = FT_Symlink then
        (case de_target de of
           Inl _ \<Rightarrow> None
         | Inr (Inl _) \<Rightarrow> None
         | Inr (Inr symlink_meta) \<Rightarrow>
             if m_type symlink_meta = FT_Dir then Some (Directory, None)
             else Some (File, Some (m_len symlink_meta)))
      else None)"

definition entry_uri :: "api \<Rightarrow> string \<Rightarrow> string \<Rightarrow> entry_type \<Rightarrow> string" where
  "entry_uri api base_path name ty =
     (let name_encoded = percent_encode api PERCENT_ENCODE_SET name;
          u = (if \<not> ends_with slash base_path \<and> base_path \<noteq> [] then
                 (let parent = (case rsplit_once slash base_path of
                                  Some (_, parent) \<Rightarrow> parent
                                | None \<Rightarrow> base_path)
                  in parent @ ''/'' @ name_encoded)
               else name_encoded)
      in if ty = Directory then u @ ''/'' else u)"

fun read_entries_loop ::
  "api \<Rightarrow> dir_entry_opts \<Rightarrow> (io_error + dir_entry) list \<Rightarrow> nat \<Rightarrow> nat \<Rightarrow> file_entry list
     \<Rightarrow> (string, nat \<times> nat \<times> file_entry list) result" where
  "read_entries_loop api opt [] dirs_count files_count file_entries = Inr (dirs_count, files_count, file_entries)"
| "read_entries_loop api opt (Inl _ # rest) dirs_count files_count file_entries =
     Inl (Err ''unable to read directory entry'')"
| "read_entries_loop api opt (Inr de # rest) dirs_count files_count file_entries =
     (case de_meta de of
        Inl _ \<Rightarrow> read_entries_loop api opt rest dirs_count files_count file_entries
      | Inr meta \<Rightarrow>
          (let name = de_name de
           in if deo_ignore_hidden_files opt \<and> name \<noteq> [] \<and> hd name = CHR ''.''
              then read_entries_loop api opt rest dirs_count files_count file_entries
              else
                (case entry_kind (deo_disable_symlinks opt) de meta of
                   None \<Rightarrow> read_entries_loop api opt rest dirs_count files_count file_entries
                 | Some (ty, sz) \<Rightarrow>
                     (let entry = \<lparr>fe_name = name, fe_mtime = m_modified meta, fe_size = sz, fe_type = ty,
                            fe_uri = entry_uri api (deo_base_path opt) name ty\<rparr>
                      in read_entries_loop api opt rest
                           (if ty = Directory then dirs_count + 1 else dirs_count)
                           (if ty = File then files_count + 1 else files_count)
                           (file_entries @ [entry])))))"

text \<open>\<^verbatim>\<open>str::parse::<u8>\<close>: an optional plus sign and digits, at most 255.\<close>

definition parse_u8 :: "string \<Rightarrow> u8 option" where
  "parse_u8 s =
     (let ds = (case s of c # cs \<Rightarrow> if c = CHR ''+'' then cs else s | [] \<Rightarrow> s)
      in if ds \<noteq> [] \<and> list_all is_digit ds \<and> dec_val ds < 256 then Some (word_of_nat (dec_val ds)) else None)"

definition query_order :: "api \<Rightarrow> string option \<Rightarrow> u8 \<Rightarrow> u8" where
  "query_order api uri_query order_code =
     (case uri_query of
        None \<Rightarrow> order_code
      | Some q \<Rightarrow>
          (case form_parse api q of
             [] \<Rightarrow> order_code
           | (k, v) # _ \<Rightarrow>
               if k = ''sort'' \<and> str_trim v \<noteq> [] then
                 (case parse_u8 v of Some code \<Rightarrow> code | None \<Rightarrow> order_code)
               else order_code))"

section \<open>Sorting\<close>

definition name_key :: "api \<Rightarrow> file_entry \<Rightarrow> string" where
  "name_key api f = to_lowercase api (from_utf8_lossy (fe_name f))"

definition sort_file_entries :: "api \<Rightarrow> file_entry list \<Rightarrow> u8 \<Rightarrow> file_entry list \<times> sorting_attr" where
  "sort_file_entries api files order_code =
     (let attrs = \<lparr>sa_name = ''0'', sa_last_modified = ''2'', sa_size = ''4''\<rparr>
      in if order_code = 0 \<or> order_code = 1 then
           (let files = sort_key (name_key api) files
            in if order_code = 1 then (rev files, attrs) else (files, attrs\<lparr>sa_name := ''1''\<rparr>))
         else if order_code = 2 \<or> order_code = 3 then
           (let files = sort_key fe_mtime files
            in if order_code = 3 then (rev files, attrs) else (files, attrs\<lparr>sa_last_modified := ''3''\<rparr>))
         else if order_code = 4 \<or> order_code = 5 then
           (let files = sort_key fe_size files
            in if order_code = 5 then (rev files, attrs) else (files, attrs\<lparr>sa_size := ''5''\<rparr>))
         else (files, attrs))"

section \<open>Rendering\<close>

text \<open>A quotient with two decimals, the way \<^verbatim>\<open>{:.2}\<close> prints an exactly represented float.\<close>

definition fixed2 :: "nat \<Rightarrow> nat \<Rightarrow> string" where
  "fixed2 n d =
     (let k = div_even (100 * n) d
      in nat_str (k div 100) @ ''.'' @ [digit_char (k mod 100 div 10), digit_char (k mod 10)])"

definition UNITS :: "string list" where
  "UNITS = [''B'', ''KiB'', ''MiB'', ''GiB'', ''TiB'', ''PiB'']"

fun size_loop :: "u64 \<Rightarrow> string list \<Rightarrow> u64 + string" where
  "size_loop size_tmp [] = Inl size_tmp"
| "size_loop size_tmp (unit # rest) =
     (if size_tmp < 1024 * 1024 then Inr (fixed2 (unat size_tmp) 1024 @ '' '' @ unit)
      else size_loop (drop_bit 10 size_tmp) rest)"

definition format_file_size :: "u64 \<Rightarrow> string" where
  "format_file_size sz =
     (if sz < 1024 then nat_str (unat sz) @ '' '' @ UNITS ! 0
      else (case size_loop sz (take 4 (drop 1 UNITS)) of
              Inr s \<Rightarrow> s
            | Inl size_tmp \<Rightarrow> fixed2 (unat size_tmp) 1024 @ '' '' @ last UNITS))"

definition LISTING_STYLE :: string where
  "LISTING_STYLE =
     ''html{background-color:#fff;-moz-osx-font-smoothing:grayscale;-webkit-font-smoothing:antial'' @
     ''iased;min-width:20rem;text-rendering:optimizeLegibility;-webkit-text-size-adjust:100%;-moz'' @
     ''-text-size-adjust:100%;text-size-adjust:100%}:after,:before{box-sizing:border-box;}body{pa'' @
     ''dding:1rem;font-family:Consolas,'Liberation Mono',Menlo,monospace;font-size:.75rem;max-wid'' @
     ''th:70rem;margin:0 auto;color:#4a4a4a;font-weight:400;line-height:1.5}h1{margin:0;padding:0'' @
     '';font-size:1rem;line-height:1.25;margin-bottom:0.5rem;}table{width:100%;table-layout:fixed'' @
     '';border-spacing: 0;}hr{border-style: none;border-bottom: solid 1px gray;}table th,table td'' @
     ''{padding:.15rem 0;white-space:nowrap;vertical-align:top}table th a,table td a{display:inli'' @
     ''ne-block;white-space:nowrap;overflow:hidden;text-overflow:ellipsis;max-width:95%;vertical-'' @
     ''align:top;}table tr:hover td{background-color:#f5f5f5}footer{padding-top:0.5rem}table tr t'' @
     ''h{text-align:left;}@media (max-width:30rem){table th:first-child{width:20rem;}}''"

abbreviation quot :: string where "quot \<equiv> [CHR 0x22]"

definition html_row :: "api \<Rightarrow> file_entry \<Rightarrow> string" where
  "html_row api entry =
     concat [''<tr><td><a href='', quot, html_escape api (fe_uri entry), quot, ''>'',
       html_escape api (from_utf8_lossy (fe_name entry)), (if fe_is_dir entry then ''/'' else []),
       ''</a></td><td>'',
       html_escape api (case fe_mtime entry of None \<Rightarrow> ''-'' | Some t \<Rightarrow> format_local api t),
       ''</td><td align='', quot, ''right'', quot, ''>'',
       html_escape api (case fe_size entry of None \<Rightarrow> ''-'' | Some n \<Rightarrow> format_file_size n),
       ''</td></tr>'']"

definition html_auto_index ::
  "api \<Rightarrow> string \<Rightarrow> nat \<Rightarrow> nat \<Rightarrow> file_entry list \<Rightarrow> u8 \<Rightarrow> string" where
  "html_auto_index api base_path dirs_count files_count entries order_code =
     (let (entries, sort_attrs) = sort_file_entries api entries order_code;
          current_path = html_escape api (decode_utf8_lossy_percent api base_path)
      in concat [''<!DOCTYPE html><html><head><meta charset='', quot, ''utf-8'', quot, ''><meta name='',
           quot, ''viewport'', quot, '' content='', quot,
           ''width=device-width,minimum-scale=1,initial-scale=1'', quot, ''><title>Index of '', current_path,
           ''</title><style>'', LISTING_STYLE, ''</style></head><body><h1>Index of '', current_path,
           ''</h1><p><small>directories: '', nat_str dirs_count, '', files: '', nat_str files_count,
           ''</small></p><hr><div style='', quot, ''overflow-x: auto;'', quot,
           ''><table><thead><tr><th><a href='', quot, ''?sort='', sa_name sort_attrs, quot,
           ''>Name</a></th><th style='', quot, ''width:10rem;'', quot, ''><a href='', quot, ''?sort='',
           sa_last_modified sort_attrs, quot, ''>Last modified</a></th><th style='', quot,
           ''width:6rem;text-align:right;'', quot, ''><a href='', quot, ''?sort='', sa_size sort_attrs, quot,
           ''>Size</a></th></tr></thead>'',
           (if base_path \<noteq> ''/'' then concat [''<tr><td colspan='', quot, ''3'', quot, ''><a href='',
              quot, ''../'', quot, ''>../</a></td></tr>''] else []),
           concat (map (html_row api) entries),
           ''</table></div><hr><footer><small>Powered by Static Web Server (SWS) / static-web-server.net'',
           ''</small></footer></body></html>''])"

definition json_entry :: "api \<Rightarrow> file_entry \<Rightarrow> string" where
  "json_entry api e =
     concat [''{'', quot, ''name'', quot, '':'', json_str api (from_utf8_lossy (fe_name e)), '','',
       quot, ''mtime'', quot, '':'',
       json_str api (case fe_mtime e of Some dt \<Rightarrow> format_utc api dt | None \<Rightarrow> []),
       (case fe_size e of None \<Rightarrow> [] | Some n \<Rightarrow> concat ['','', quot, ''size'', quot, '':'', nat_str (unat n)]),
       '','', quot, ''type'', quot, '':'',
       json_str api (if fe_is_dir e then ''directory'' else ''file''), ''}'']"

definition json_auto_index :: "api \<Rightarrow> file_entry list \<Rightarrow> u8 \<Rightarrow> (string, string) result" where
  "json_auto_index api entries order_code =
     (let (entries, _) = sort_file_entries api entries order_code
      in Inr (''['' @ join_on (CHR '','') (map (json_entry api) entries) @ '']''))"

section \<open>The response\<close>

definition read_dir_entries :: "api \<Rightarrow> dir_entry_opts \<Rightarrow> (string, resp) result" where
  "read_dir_entries api opt =
     (case read_entries_loop api opt (deo_dir_reader opt) 0 0 [] of
        Inl e \<Rightarrow> Inl e
      | Inr (dirs_count, files_count, file_entries) \<Rightarrow>
          (let order_code = query_order api (deo_uri_query opt) (deo_order_code opt);
               resp = new_response Empty_Body
           in case (case deo_content_format opt of
                      Fmt_Json \<Rightarrow>
                        map_sum id (\<lambda>c. (insert_header CONTENT_TYPE ''application/json'' resp, c))
                          (json_auto_index api file_entries order_code)
                    | Fmt_Html \<Rightarrow>
                        Inr (insert_header CONTENT_TYPE TEXT_HTML_UTF_8 resp,
                             html_auto_index api (deo_base_path opt) dirs_count files_count file_entries order_code)) of
                Inl e \<Rightarrow> Inl e
              | Inr (resp, content) \<Rightarrow>
                  (let resp = insert_header CONTENT_LENGTH
                         (content_length_value api (word_of_nat (length content))) resp
                   in if deo_is_head opt then Inr resp
                      else Inr (resp\<lparr>resp_body := Full_Body content\<rparr>))))"

definition auto_index :: "api \<Rightarrow> fs \<Rightarrow> dir_list_opts \<Rightarrow> (status, resp) result" where
  "auto_index api fs opts =
     (let filepath = dl_filepath opts;
          parent = (case path_parent filepath of None \<Rightarrow> filepath | Some p \<Rightarrow> p)
      in case fs_read_dir fs parent of
           Inr dir_reader \<Rightarrow>
             (let dir_opts = \<lparr>deo_dir_reader = dir_reader, deo_base_path = dl_current_path opts,
                    deo_uri_query = dl_uri_query opts, deo_is_head = is_head (dl_method opts),
                    deo_order_code = dl_order opts, deo_content_format = dl_format opts,
                    deo_ignore_hidden_files = dl_ignore_hidden_files opts,
                    deo_disable_symlinks = dl_disable_symlinks opts\<rparr>
              in case read_dir_entries api dir_opts of
                   Inr resp \<Rightarrow> Inr resp
                 | Inl (Panic msg) \<Rightarrow> Inl (Panic msg)
                 | Inl (Err _) \<Rightarrow> Inl (Err INTERNAL_SERVER_ERROR))
         | Inl err \<Rightarrow>
             (case err of
                NotFound \<Rightarrow> Inl (Err NOT_FOUND)
              | PermissionDenied \<Rightarrow> Inl (Err FORBIDDEN)
              | _ \<Rightarrow> Inl (Err INTERNAL_SERVER_ERROR)))"

section \<open>Lemmas\<close>

text \<open>The entry a directory entry becomes, if it is listed at all.\<close>

definition listed :: "api \<Rightarrow> dir_entry_opts \<Rightarrow> dir_entry \<Rightarrow> file_entry option" where
  "listed api opt de =
     (case de_meta de of
        Inl _ \<Rightarrow> None
      | Inr meta \<Rightarrow>
          if deo_ignore_hidden_files opt \<and> de_name de \<noteq> [] \<and> hd (de_name de) = CHR ''.'' then None
          else map_option (\<lambda>(ty, sz). \<lparr>fe_name = de_name de, fe_mtime = m_modified meta, fe_size = sz,
                 fe_type = ty, fe_uri = entry_uri api (deo_base_path opt) (de_name de) ty\<rparr>)
               (entry_kind (deo_disable_symlinks opt) de meta))"

lemma read_entries_loop_step:
  "read_entries_loop api opt (Inr de # rest) d f es =
     (case listed api opt de of
        None \<Rightarrow> read_entries_loop api opt rest d f es
      | Some e \<Rightarrow> read_entries_loop api opt rest (if fe_is_dir e then d + 1 else d)
                   (if fe_is_dir e then f else f + 1) (es @ [e]))"
  by (auto simp: listed_def fe_is_dir_def Let_def split: sum.splits option.splits entry_type.splits)
    (metis entry_type.exhaust)+

lemma read_entries_loop_eq:
  "read_entries_loop api opt rs d f es =
     (if list_ex isl rs then Inl (Err ''unable to read directory entry'')
      else let new = List.map_filter (listed api opt) (map projr rs)
           in Inr (d + length (filter fe_is_dir new), f + length (filter (Not \<circ> fe_is_dir) new), es @ new))"
proof (induction rs arbitrary: d f es)
  case (Cons r rs)
  show ?case
  proof (cases r)
    case (Inr de)
    show ?thesis
      using Cons.IH
      by (cases "listed api opt de")
        (simp_all add: Inr read_entries_loop_step List.map_filter_def Let_def comp_def
          del: read_entries_loop.simps(3))
  qed simp
qed (simp add: List.map_filter_def)

lemma listed_props:
  assumes "listed api opt de = Some e"
  shows "fe_name e = de_name de"
    and "deo_ignore_hidden_files opt \<Longrightarrow> \<not> (fe_name e \<noteq> [] \<and> hd (fe_name e) = CHR ''.'')"
  using assms by (auto simp: listed_def split: sum.splits if_splits)

lemma read_dir_entries_total:
  "read_dir_entries api opt \<noteq> Inl (Panic msg)"
  "read_dir_entries api opt = Inr r \<Longrightarrow> resp_status r = OK"
  by (auto simp: read_dir_entries_def read_entries_loop_eq json_auto_index_def Let_def
      split: sum.splits dir_list_fmt.splits prod.splits if_splits)

lemma auto_index_total:
  "outcome {NOT_FOUND, FORBIDDEN, INTERNAL_SERVER_ERROR} (\<lambda>r. resp_status r = OK) (auto_index api fs opts)"
  by (auto simp: auto_index_def Let_def read_dir_entries_total
      split: sum.splits abort.splits io_error.splits)

lemma unat_less_word: "n < 2 ^ 64 \<Longrightarrow> (w :: u64) < word_of_nat n \<longleftrightarrow> unat w < n"
  by (simp add: word_less_nat_alt unat_of_nat)

lemma size_less: "(w :: u64) < 1024 \<longleftrightarrow> unat w < 1024" "(w :: u64) < 1048576 \<longleftrightarrow> unat w < 1048576"
  using unat_less_word [of 1024 w] unat_less_word [of 1048576 w] by simp_all

lemma unat_drop: "unat (drop_bit n (w :: u64)) = unat w div 2 ^ n"
  by (simp only: unat_drop_bit_eq) (simp add: drop_bit_eq_div)

section \<open>Properties\<close>

text \<open>C29: a listing shows, in the reader's order before sorting, exactly the entries whose metadata is
  available, that are not hidden (when hidden files are ignored) and that are directories, files
  or followed links; the two counts are those of the entries shown; one unreadable entry
  makes the listing fail.\<close>

theorem listing_entries:
  "read_entries_loop api opt rs 0 0 [] =
     (if list_ex isl rs then Inl (Err ''unable to read directory entry'')
      else let es = List.map_filter (listed api opt) (map projr rs)
           in Inr (length (filter fe_is_dir es), length (filter (Not \<circ> fe_is_dir) es), es))"
  by (simp add: read_entries_loop_eq)


text \<open>A HEAD request for a listing gets the status and headers, the length included, that the GET
  request gets, and no body.\<close>

theorem listing_head:
  "read_dir_entries api (opt\<lparr>deo_is_head := True\<rparr>) =
     map_sum id (\<lambda>r. r\<lparr>resp_body := Empty_Body\<rparr>) (read_dir_entries api (opt\<lparr>deo_is_head := False\<rparr>))"
proof -
  have l: "listed api (opt\<lparr>deo_is_head := b\<rparr>) = listed api opt" for b
    by (auto simp: listed_def fun_eq_iff split: sum.splits)
  show ?thesis
    by (cases "read_entries_loop api opt (deo_dir_reader opt) 0 0 []"; cases "deo_content_format opt")
      (auto simp: read_dir_entries_def read_entries_loop_eq l json_auto_index_def insert_header_def
        new_response_def Let_def split: prod.splits if_splits)
qed

text \<open>C37: a size is printed in the largest unit, up to pebibytes, that it reaches, as a quotient with two
  decimals of the size cut down to the next smaller unit.\<close>

theorem file_size_unit:
  "format_file_size sz =
     (let n = unat sz
      in if n < 1024 then nat_str n @ '' B''
         else if n < 1024 ^ 2 then fixed2 n 1024 @ '' KiB''
         else if n < 1024 ^ 3 then fixed2 (n div 1024) 1024 @ '' MiB''
         else if n < 1024 ^ 4 then fixed2 (n div 1024 ^ 2) 1024 @ '' GiB''
         else if n < 1024 ^ 5 then fixed2 (n div 1024 ^ 3) 1024 @ '' TiB''
         else fixed2 (n div 1024 ^ 4) 1024 @ '' PiB'')"
  by (simp add: format_file_size_def UNITS_def size_less unat_drop Let_def
      div_less_iff_less_mult)

end
