(* ===== verification/File_Response.thy ===== *)
theory File_Response
  imports Mem_Cache
begin

text \<open>
  \<^verbatim>\<open>response_body\<close> of \<^verbatim>\<open>src/response.rs\<close>: an open file, its metadata and the request's conditions
  become a response. The lemmas say which bytes the body of a response gives when it is
  read to the end, and that a cached copy of a file is answered like the file.
\<close>

section \<open>response.rs\<close>

definition file_modified :: "api \<Rightarrow> metadata \<Rightarrow> http_date option" where
  "file_modified api meta =
     (case m_modified meta of
        None \<Rightarrow> None
      | Some t \<Rightarrow> if t \<noteq> 0 then Some (last_modified_from api t) else None)"

definition file_body ::
  "api \<Rightarrow> file_take file_stream \<Rightarrow> path \<Rightarrow> u64 \<Rightarrow> string \<Rightarrow> http_date option
     \<Rightarrow> mem_cache_opts option \<Rightarrow> body" where
  "file_body api stream path len content_type modified memory_cache =
     (case memory_cache of
        Some mem_cache_opts \<Rightarrow>
          if len \<le> max_file_size mem_cache_opts then
            (case to_str path of
               Some path_str \<Rightarrow>
                 Caching_Body
                   \<lparr>fst_reader = fst_reader stream, fst_buf_size = fst_buf_size stream,
                    mem_opts = Some \<lparr>mo_file_path = path_str, mo_content_type = content_type,
                                     mo_last_modified = modified\<rparr>,
                    mem_buf = Some ([], bytesmut_capacity api (unat len))\<rparr>
             | None \<Rightarrow> File_Body stream)
          else File_Body stream
      | None \<Rightarrow> File_Body stream)"

definition response_body ::
  "api \<Rightarrow> open_file \<Rightarrow> path \<Rightarrow> metadata \<Rightarrow> conditional_headers \<Rightarrow> mem_cache_opts option
     \<Rightarrow> (status, resp) result" where
  "response_body api file path meta conditionals memory_cache =
     (let len = m_len meta; modified = file_modified api meta
      in case conditionals_check api conditionals modified of
           NoBody resp \<Rightarrow> Inr resp
         | WithBody rng \<Rightarrow>
             (let buf_size = unat (optimal_buf_size meta)
              in case bytes_range rng len of
                   Inl (Panic msg) \<Rightarrow> Inl (Panic msg)
                 | Inl (Err BadRangeError) \<Rightarrow> Inr (bad_range_reply api len)
                 | Inr (start, end') \<Rightarrow>
                     if \<not> f_seek_ok file start then Inl (Err INTERNAL_SERVER_ERROR)
                     else
                       (let sub_len = end' - start;
                            reader = (((f_read_err file, drop (unat start) (f_data file)), []), unat sub_len);
                            content_type = mime_from_path api path;
                            body = file_body api \<lparr>fst_reader = reader, fst_buf_size = buf_size\<rparr>
                                     path len content_type modified memory_cache
                        in Inr (content_reply api len start end' content_type modified body))))"

lemma response_body_total:
  assumes "inclusive_ranges api"
  shows "outcome {INTERNAL_SERVER_ERROR} (\<lambda>r. resp_status r \<in> content_statuses)
    (response_body api f p meta (conditionals_new api h) mc)"
proof (cases "conditionals_check api (conditionals_new api h) (file_modified api meta)")
  case (NoBody r)
  with conditionals_check_NoBody [OF NoBody] show ?thesis
    by (auto simp: response_body_def content_statuses_def Let_def)
next
  case (WithBody rng)
  have "resp_status (bad_range_reply api n) \<in> content_statuses" for n
    by (simp add: content_statuses_def)
  with WithBody bytes_range_reachable [OF assms WithBody] show ?thesis
    by (auto simp: response_body_def Let_def content_reply_status
        split: sum.splits abort.splits bad_range_error.splits)
qed

section \<open>Reading a body to the end\<close>

text \<open>
  What hyper sends for a body, polling at most \<open>fuel\<close> times; \<open>enc\<close> stands for the encoders. A
  caching stream is read as the plain stream it refines (\<open>mem_poll_next_refines\<close>).
\<close>

fun body_bytes ::
  "(content_coding \<Rightarrow> level \<Rightarrow> bytes \<Rightarrow> bytes) \<Rightarrow> nat \<Rightarrow> body \<Rightarrow> (io_error + bytes) option" where
  "body_bytes enc fuel Empty_Body = Some (Inr [])"
| "body_bytes enc fuel (Full_Body bs) = Some (Inr bs)"
| "body_bytes enc fuel (File_Body s) = drain file_take_read fuel s"
| "body_bytes enc fuel (Cursor_Body s) = drain cursor_take_read fuel s"
| "body_bytes enc fuel (Caching_Body s) = drain file_take_read fuel (plain_stream s)"
| "body_bytes enc fuel (Encoded_Body c l b) = map_option (map_sum id (enc c l)) (body_bytes enc fuel b)"

text \<open>The part of some content a range reply promises.\<close>

definition subrange :: "u64 \<Rightarrow> u64 \<Rightarrow> bytes \<Rightarrow> bytes" where
  "subrange s e bs = take (unat (e - s)) (drop (unat s) bs)"

lemma length_subrange: "length (subrange s e bs) \<le> unat (e - s)"
  by (simp add: subrange_def)

lemma body_bytes_file_body:
  assumes "0 < n \<or> subrange s e bs = []" "unat (e - s) < fuel"
  shows "body_bytes enc fuel
      (file_body api \<lparr>fst_reader = (((None, drop (unat s) bs), []), unat (e - s)), fst_buf_size = n\<rparr>
        p l ct m mc) = Some (Inr (subrange s e bs))"
proof -
  let ?s = "\<lparr>fst_reader = (((None :: io_error option, drop (unat s) bs), []), unat (e - s)), fst_buf_size = n\<rparr>"
  have "drain file_take_read fuel ?s = Some (Inr (subrange s e bs))"
    using file_take.drain_rest [of ?s fuel] assms by (auto simp: subrange_def)
  then show ?thesis
    by (auto simp: file_body_def plain_stream_def split: option.splits)
qed

lemma body_bytes_cursor:
  assumes "0 < n \<or> subrange s e bs = []" "unat (e - s) < fuel"
  shows "body_bytes enc fuel
      (Cursor_Body \<lparr>fst_reader = (drop (unat s) bs, unat (e - s)), fst_buf_size = n\<rparr>)
        = Some (Inr (subrange s e bs))"
  using cursor_take.drain_rest
    [of "\<lparr>fst_reader = (drop (unat s) bs, unat (e - s)), fst_buf_size = n\<rparr>" fuel] assms
  by (auto simp: subrange_def)

lemma buf_size_enough:
  assumes "unat (m_len meta) = length (f_data file)"
  shows "0 < unat (optimal_buf_size meta) \<or> subrange s e (f_data file) = []"
proof (cases "m_len meta = 0")
  case True
  with assms show ?thesis by (simp add: subrange_def)
next
  case False
  then show ?thesis
    using optimal_buf_size_pos [of meta] by (simp add: word_gt_0 unat_gt_0)
qed

text \<open>A file whose metadata tells its size and which can be read.\<close>

definition sound_file :: "open_file \<Rightarrow> metadata \<Rightarrow> bool" where
  "sound_file file meta \<longleftrightarrow> f_read_err file = None \<and> unat (m_len meta) = length (f_data file)"

lemma body_bytes_file:
  assumes "sound_file file meta" "unat (e - s) < fuel"
  shows "body_bytes enc fuel
      (file_body api
        \<lparr>fst_reader = (((f_read_err file, drop (unat s) (f_data file)), []), unat (e - s)),
         fst_buf_size = unat (optimal_buf_size meta)\<rparr> p l ct m mc)
        = Some (Inr (subrange s e (f_data file)))"
  using assms by (simp add: sound_file_def body_bytes_file_body [OF buf_size_enough])

section \<open>Properties\<close>

text \<open>C10: for a request whose conditions hold and whose range is good, the body gives exactly the
  range's bytes of the file, \<^verbatim>\<open>Content-Length\<close> is their number, and the status is 200 for the
  whole file and 206 otherwise; with or without the cache.\<close>

theorem response_body_range:
  assumes "conditionals_check api conds (file_modified api meta) = WithBody rng"
    and "bytes_range rng (m_len meta) = Inr (s, e)"
    and "sound_file file meta" "f_seek_ok file s"
    and "content_range_bytes api s e (m_len meta) \<noteq> None"
  shows "\<exists>resp. response_body api file path meta conds mc = Inr resp
      \<and> resp_status resp = (if e - s = m_len meta then OK else PARTIAL_CONTENT)
      \<and> header resp CONTENT_LENGTH = Some (content_length_value api (e - s))
      \<and> body_bytes enc (Suc (unat (e - s))) (resp_body resp) = Some (Inr (subrange s e (f_data file)))
      \<and> length (subrange s e (f_data file)) = unat (e - s)"
proof -
  have "length (subrange s e (f_data file)) = unat (e - s)"
    using bytes_range_unat [OF assms(2)] assms(3) by (simp add: subrange_def sound_file_def)
  moreover obtain cr where "content_range_bytes api s e (m_len meta) = Some cr"
    using assms(5) by auto
  ultimately show ?thesis
    using assms(1-4) body_bytes_file [OF assms(3) lessI, where api = api and p = path and
        l = "m_len meta" and ct = "mime_from_path api path" and m = "file_modified api meta" and
        mc = mc and enc = enc and s = s and e = e]
    by (cases "e - s = m_len meta")
      (auto simp: response_body_def Let_def content_reply_full content_reply_partial)
qed

theorem response_body_range_witness:
  "\<exists>resp. response_body sample_api hello_file ''/w/a.txt'' (sample_meta (Node_File ''hello''))
        (conditionals_new sample_api [(''range'', ''bytes=1-2'')]) None = Inr resp
     \<and> resp_status resp = PARTIAL_CONTENT
     \<and> header resp CONTENT_LENGTH = Some (nat_str 2)
     \<and> body_bytes (\<lambda>_ _ b. b) 3 (resp_body resp) = Some (Inr ''el'')"
  using response_body_range [of sample_api "conditionals_new sample_api [(''range'', ''bytes=1-2'')]"
      "sample_meta (Node_File ''hello'')" "Some [(Included 1, Included 2)]" 1 3 hello_file
      "''/w/a.txt''" None "\<lambda>_ _ b. b"]
  by (simp add: conditionals_new_def conditionals_check_def unmodified_ok_def not_modified_def
      can_range_def sample_meta_def bytes_range_def resolve_bounds_def clamp_range_def
      sound_file_def subrange_def file_modified_def hello_file_def)

text \<open>Two results a client cannot tell apart, given what the bodies give within \<open>fuel\<close> polls.\<close>

fun same_reply ::
  "(content_coding \<Rightarrow> level \<Rightarrow> bytes \<Rightarrow> bytes) \<Rightarrow> nat \<Rightarrow> (status, resp) result \<Rightarrow> (status, resp) result \<Rightarrow> bool"
where
  "same_reply enc fuel (Inr r1) (Inr r2) =
     (resp_status r1 = resp_status r2 \<and> resp_headers r1 = resp_headers r2
      \<and> body_bytes enc fuel (resp_body r1) = body_bytes enc fuel (resp_body r2))"
| "same_reply enc fuel (Inl e1) (Inl e2) = (e1 = e2)"
| "same_reply enc fuel _ _ = False"

lemma same_reply_refl: "same_reply enc fuel r r"
  by (cases r) auto

lemma same_reply_content:
  assumes "body_bytes enc fuel b1 = body_bytes enc fuel b2"
  shows "same_reply enc fuel (Inr (content_reply api l s e ct m b1)) (Inr (content_reply api l s e ct m b2))"
  using assms
  by (auto simp: content_reply_def content_headers_def insert_header_def Let_def split: option.splits)

text \<open>The cache entry that a complete read of a file makes.\<close>

definition entry_of :: "api \<Rightarrow> open_file \<Rightarrow> path \<Rightarrow> metadata \<Rightarrow> mem_file" where
  "entry_of api file path meta =
     \<lparr>mf_data = f_data file, mf_buf_size = unat (optimal_buf_size meta),
      mf_content_type = mime_from_path api path, mf_last_modified = file_modified api meta\<rparr>"

lemma entry_reply_same:
  assumes "sound_file file meta" "\<forall>n. f_seek_ok file n" "length (f_data file) < fuel"
  shows "same_reply enc fuel
      (mem_file_response_body api (entry_of api file path meta) headers)
      (response_body api file path meta (conditionals_new api headers) mc)"
proof -
  have "length (f_data file) = unat (m_len meta)"
    using assms(1) by (simp add: sound_file_def)
  then have len: "word_of_nat (length (f_data file)) = m_len meta"
    by simp
  show ?thesis
  proof (cases "conditionals_check api (conditionals_new api headers) (file_modified api meta)")
    case (NoBody r)
    then show ?thesis
      by (simp add: mem_file_response_body_def response_body_def entry_of_def Let_def)
  next
    case (WithBody rng)
    have "same_reply enc fuel
        (Inr (content_reply api (m_len meta) s e ct m
          (Cursor_Body \<lparr>fst_reader = (drop (unat s) (f_data file), unat (e - s)),
             fst_buf_size = unat (optimal_buf_size meta)\<rparr>)))
        (Inr (content_reply api (m_len meta) s e ct m (file_body api
          \<lparr>fst_reader = (((f_read_err file, drop (unat s) (f_data file)), []), unat (e - s)),
           fst_buf_size = unat (optimal_buf_size meta)\<rparr> path l ct m mc)))"
      if "bytes_range rng (m_len meta) = Inr (s, e)" for s e ct m l
    proof (rule same_reply_content)
      have "unat (e - s) < fuel"
        using bytes_range_unat [OF that] assms(1,3) by (simp add: sound_file_def)
      with assms(1) show "body_bytes enc fuel (Cursor_Body \<lparr>fst_reader =
          (drop (unat s) (f_data file), unat (e - s)), fst_buf_size = unat (optimal_buf_size meta)\<rparr>)
        = body_bytes enc fuel (file_body api \<lparr>fst_reader =
          (((f_read_err file, drop (unat s) (f_data file)), []), unat (e - s)),
           fst_buf_size = unat (optimal_buf_size meta)\<rparr> path l ct m mc)"
        by (simp only: body_bytes_file)
          (rule body_bytes_cursor, auto simp: sound_file_def buf_size_enough)
    qed
    with WithBody assms(2) show ?thesis
      by (auto simp: mem_file_response_body_def response_body_def entry_of_def Let_def len
          same_reply_refl split: sum.splits abort.splits bad_range_error.splits)
  qed
qed

end
