(* ===== verification/Static_Files.thy ===== *)
theory Static_Files
  imports Compression Directory_Listing File_Response
begin

text \<open>
  The static file handler (\<^verbatim>\<open>src/static_files.rs\<close>): from a method, a URI path and the request's headers
  to a file, an index file, a pre-compressed variant, a directory listing, a redirect or an
  error status. The file system is an argument, so a theorem that two file systems give the same answer
  says which files the handler can depend on at all.
\<close>

section \<open>Options and results\<close>

definition DEFAULT_INDEX_FILES :: "string list" where
  "DEFAULT_INDEX_FILES = [''index.html'']"

record handle_opts =
  ho_method :: http_method
  ho_memory_cache :: "mem_cache_opts option"
  ho_headers :: header_map
  ho_base_path :: path
  ho_uri_path :: string
  ho_index_files :: "string list"
  ho_uri_query :: "string option"
  ho_dir_listing :: bool
  ho_dir_listing_order :: u8
  ho_dir_listing_format :: dir_list_fmt
  ho_redirect_trailing_slash :: bool
  ho_compression_static :: bool
  ho_ignore_hidden_files :: bool
  ho_disable_symlinks :: bool

record static_file_response =
  sfr_resp :: resp
  sfr_file_path :: path

record file_metadata =
  fm_file_path :: path
  fm_metadata :: metadata
  fm_is_dir :: bool
  fm_precompressed_variant :: "(path \<times> content_coding) option"

section \<open>Finding the file\<close>

text \<open>The pre-compressed variant of a path, when the feature is on, as the metadata to serve.\<close>

definition static_variant ::
  "api \<Rightarrow> fs \<Rightarrow> header_map \<Rightarrow> bool \<Rightarrow> path \<Rightarrow> file_metadata option" where
  "static_variant api fs headers compression_static file_path =
     (if compression_static then
        (case precompressed_variant api fs file_path headers of
           Some p \<Rightarrow>
             Some \<lparr>fm_file_path = file_path, fm_metadata = cv_metadata p, fm_is_dir = False,
                   fm_precompressed_variant = Some (cv_file_path p, cv_encoding p)\<rparr>
         | None \<Rightarrow> None)
      else None)"

text \<open>
  The loop over the index files of a directory: an early return (\<open>Inl\<close>), or the path it leaves and
  the metadata of the index it found.
\<close>

fun index_loop ::
  "api \<Rightarrow> fs \<Rightarrow> header_map \<Rightarrow> bool \<Rightarrow> string list \<Rightarrow> path \<Rightarrow> file_metadata + path \<times> metadata option" where
  "index_loop api fs headers compression_static [] file_path = Inr (file_path, None)"
| "index_loop api fs headers compression_static (index # rest) file_path =
     (let index_path = path_push file_path index
      in case static_variant api fs headers compression_static index_path of
           Some fm \<Rightarrow> Inl fm
         | None \<Rightarrow>
             (case try_metadata fs index_path of
                Inr (meta, _) \<Rightarrow> Inr (index_path, Some meta)
              | Inl _ \<Rightarrow>
                  (case try_metadata_with_html_suffix fs (path_pop index_path) of
                     (file_path, Some new_meta) \<Rightarrow> Inr (file_path, Some new_meta)
                   | (file_path, None) \<Rightarrow> index_loop api fs headers compression_static rest file_path)))"

definition get_composed_file_metadata ::
  "api \<Rightarrow> fs \<Rightarrow> path \<Rightarrow> header_map \<Rightarrow> bool \<Rightarrow> string list \<Rightarrow> bool \<Rightarrow> (status, file_metadata) result" where
  "get_composed_file_metadata api fs file_path headers compression_static index_files disable_symlinks =
     (if disable_symlinks \<and> fs_is_symlink fs file_path then Inl (Err FORBIDDEN)
      else
        (case try_metadata fs file_path of
           Inr (metadata, isdir) \<Rightarrow>
             if isdir then
               (let index_files = (if index_files = [] then DEFAULT_INDEX_FILES else index_files)
                in case index_loop api fs headers compression_static index_files file_path of
                     Inl fm \<Rightarrow> Inr fm
                   | Inr (file_path, Some index_meta) \<Rightarrow>
                       Inr \<lparr>fm_file_path = file_path, fm_metadata = index_meta, fm_is_dir = isdir,
                            fm_precompressed_variant = None\<rparr>
                   | Inr (file_path, None) \<Rightarrow>
                       Inr \<lparr>fm_file_path = path_push file_path (last index_files),
                            fm_metadata = metadata, fm_is_dir = isdir,
                            fm_precompressed_variant = None\<rparr>)
             else
               (case static_variant api fs headers compression_static file_path of
                  Some fm \<Rightarrow> Inr fm
                | None \<Rightarrow>
                    Inr \<lparr>fm_file_path = file_path, fm_metadata = metadata, fm_is_dir = isdir,
                         fm_precompressed_variant = None\<rparr>)
         | Inl err \<Rightarrow>
             (case static_variant api fs headers compression_static file_path of
                Some fm \<Rightarrow> Inr fm
              | None \<Rightarrow>
                  (case try_metadata_with_html_suffix fs file_path of
                     (file_path, Some new_meta) \<Rightarrow>
                       Inr \<lparr>fm_file_path = file_path, fm_metadata = new_meta, fm_is_dir = False,
                            fm_precompressed_variant = None\<rparr>
                   | (file_path, None) \<Rightarrow>
                       (case static_variant api fs headers compression_static file_path of
                          Some fm \<Rightarrow> Inr fm
                        | None \<Rightarrow> Inl err)))))"

section \<open>Replying\<close>

definition file_reply ::
  "api \<Rightarrow> fs \<Rightarrow> header_map \<Rightarrow> path \<Rightarrow> metadata \<Rightarrow> path option \<Rightarrow> mem_cache_opts option
     \<Rightarrow> (status, resp) result" where
  "file_reply api fs headers path meta path_precompressed memory_cache =
     (let conditionals = conditionals_new api headers;
          file_path = (case path_precompressed of None \<Rightarrow> path | Some p \<Rightarrow> p)
      in case fs_open fs file_path of
           Inr file' \<Rightarrow> response_body api file' path meta conditionals memory_cache
         | Inl err \<Rightarrow>
             Inl (Err (case err of
                         NotFound \<Rightarrow> NOT_FOUND
                       | PermissionDenied \<Rightarrow> FORBIDDEN
                       | _ \<Rightarrow> INTERNAL_SERVER_ERROR)))"

text \<open>The path a memory-cache lookup uses; the lookup comes before anything is asked of the disk.\<close>

definition cache_path :: "handle_opts \<Rightarrow> path \<Rightarrow> path" where
  "cache_path opts file_path =
     (if ho_memory_cache opts \<noteq> None \<and> ho_redirect_trailing_slash opts \<and> ends_with slash (ho_uri_path opts)
      then path_push file_path ''index.html'' else file_path)"

text \<open>What is done once the file is known.\<close>

definition serve_metadata :: "api \<Rightarrow> fs \<Rightarrow> handle_opts \<Rightarrow> file_metadata \<Rightarrow> (status, static_file_response) result" where
  "serve_metadata api fs opts fm =
     (let file_path = fm_file_path fm; isdir = fm_is_dir fm;
          uri_path = ho_uri_path opts; method = ho_method opts;
          reply = (\<lambda>resp. \<lparr>sfr_resp = resp, sfr_file_path = file_path\<rparr>)
      in if ho_ignore_hidden_files opts \<and> is_hidden file_path then Inl (Err NOT_FOUND)
         else if isdir \<and> ho_redirect_trailing_slash opts \<and> \<not> ends_with slash uri_path then
           (let u = uri_path @ ''/''
            in if \<not> hv_valid api u then Inl (Err INTERNAL_SERVER_ERROR)
               else Inr (reply ((insert_header LOCATION u (new_response Empty_Body))
                           \<lparr>resp_status := PERMANENT_REDIRECT\<rparr>)))
         else if is_options method then
           Inr (reply (insert_header ACCEPT_RANGES ''bytes''
                  (insert_header ALLOW (allow_value api HTTP_SUPPORTED_METHODS)
                    (empty_response NO_CONTENT))))
         else if isdir \<and> ho_dir_listing opts \<and> \<not> path_exists fs file_path then
           map_sum id reply
             (auto_index api fs
               \<lparr>dl_method = method, dl_current_path = uri_path, dl_uri_query = ho_uri_query opts,
                dl_filepath = file_path, dl_order = ho_dir_listing_order opts,
                dl_format = ho_dir_listing_format opts,
                dl_ignore_hidden_files = ho_ignore_hidden_files opts,
                dl_disable_symlinks = ho_disable_symlinks opts\<rparr>)
         else
           (case fm_precompressed_variant fm of
              Some (precomp_path, precomp_encoding) \<Rightarrow>
                (case file_reply api fs (ho_headers opts) file_path (fm_metadata fm)
                        (Some precomp_path) (ho_memory_cache opts) of
                   Inl e \<Rightarrow> Inl e
                 | Inr resp \<Rightarrow>
                     (let resp = remove_header CONTENT_LENGTH resp
                      in if \<not> hv_valid api (cc_as_str precomp_encoding)
                         then Inl (Err INTERNAL_SERVER_ERROR)
                         else Inr (reply (insert_header CONTENT_ENCODING (cc_as_str precomp_encoding) resp))))
            | None \<Rightarrow>
                map_sum id reply
                  (file_reply api fs (ho_headers opts) file_path (fm_metadata fm) None
                    (ho_memory_cache opts))))"

definition static_handle :: "api \<Rightarrow> fs \<Rightarrow> store \<Rightarrow> handle_opts \<Rightarrow> (status, static_file_response) result" where
  "static_handle api fs store opts =
     (if \<not> is_allowed (ho_method opts) then Inl (Err METHOD_NOT_ALLOWED)
      else
        (case sanitize_path (percent_decode api) (ho_base_path opts) (ho_uri_path opts) of
           Inl e \<Rightarrow> Inl e
         | Inr file_path \<Rightarrow>
             (let file_path = cache_path opts file_path
              in case (if ho_memory_cache opts \<noteq> None
                       then get_or_acquire api store file_path (ho_headers opts) else None) of
                   Some (Inl e) \<Rightarrow> Inl e
                 | Some (Inr resp) \<Rightarrow> Inr \<lparr>sfr_resp = resp, sfr_file_path = file_path\<rparr>
                 | None \<Rightarrow>
                     (case get_composed_file_metadata api fs file_path (ho_headers opts)
                             (ho_compression_static opts) (ho_index_files opts) (ho_disable_symlinks opts) of
                        Inl e \<Rightarrow> Inl e
                      | Inr fm \<Rightarrow> serve_metadata api fs opts fm))))"

section \<open>What the handler looks at\<close>

text \<open>Two file systems that answer alike about the paths of a set.\<close>

definition fs_agree :: "(path \<Rightarrow> bool) \<Rightarrow> fs \<Rightarrow> fs \<Rightarrow> bool" where
  "fs_agree area fs1 fs2 \<longleftrightarrow>
     (\<forall>p. area p \<longrightarrow> fs_metadata fs1 p = fs_metadata fs2 p \<and> fs_is_symlink fs1 p = fs_is_symlink fs2 p
        \<and> fs_open fs1 p = fs_open fs2 p \<and> fs_read_dir fs1 p = fs_read_dir fs2 p)"

text \<open>The suffixes the server appends to the name of a file.\<close>

definition sibling_suffixes :: "string set" where
  "sibling_suffixes = {''.html'', ''.gz'', ''.br'', ''.zst''}"

lemma comp_ext_suffix: "comp_ext c = Some ext \<Longrightarrow> CHR ''.'' # ext \<in> sibling_suffixes"
  by (cases c) (auto simp: sibling_suffixes_def)

lemma plain_suffix: "plain_name n \<Longrightarrow> sfx \<in> sibling_suffixes \<Longrightarrow> plain_name (n @ sfx)"
  by (auto simp: plain_name_def sibling_suffixes_def append_eq_Cons_conv Cons_eq_append_conv)

text \<open>A failed look for the \<^verbatim>\<open>.html\<close> sibling leaves the path it started from.\<close>

lemma html_suffix_components:
  assumes "try_metadata_with_html_suffix fs p = (q, None)"
  shows "components q = components p"
proof (cases "file_name p")
  case None
  with assms show ?thesis by (simp add: try_metadata_with_html_suffix_def)
next
  case (Some n)
  let ?h = "with_file_name p (n @ ''.html'')"
  have n: "plain_name n" using Some by (rule file_name_plain)
  then have h: "plain_name (n @ ''.html'')" by (rule plain_suffix) (simp add: sibling_suffixes_def)
  have "file_name ?h = Some (n @ ''.html'')"
    using components_with_file_name [OF Some h] by (auto simp: file_name_iff)
  then have "components (with_file_name ?h n) = butlast (components p) @ [Normal n]"
    using components_with_file_name [OF Some h] n by (simp add: components_with_file_name)
  also have "\<dots> = components p"
    using Some by (auto simp: file_name_iff)
  finally show ?thesis
    using assms by (auto simp: try_metadata_with_html_suffix_def Some Let_def split: sum.splits)
qed

text \<open>
  An area to serve from: the paths a request may start with, closed under the names below them, and the
  paths that may be looked at, which include the siblings that differ by a suffix.
\<close>

locale serving_area =
  fixes home :: "path \<Rightarrow> bool"
    and area :: "path \<Rightarrow> bool"
  assumes home_area: "home p \<Longrightarrow> area p"
    and home_push: "home p \<Longrightarrow> plain_name n \<Longrightarrow> home (path_push p n)"
    and home_cong: "home p \<Longrightarrow> components q = components p \<Longrightarrow> home q"
    and area_sibling: "home p \<Longrightarrow> file_name p = Some n \<Longrightarrow> sfx \<in> sibling_suffixes \<Longrightarrow>
      area (with_file_name p (n @ sfx))"
begin

lemma home_pop_push: "home p \<Longrightarrow> plain_name n \<Longrightarrow> home (path_pop (path_push p n))"
  by (erule home_cong) simp

lemma metadata_agree:
  "fs_agree area fs1 fs2 \<Longrightarrow> area p \<Longrightarrow> fs_metadata fs1 p = fs_metadata fs2 p"
  by (simp add: fs_agree_def)

lemma html_suffix_restored:
  assumes "home p" "try_metadata_with_html_suffix fs p = (q, None)"
  shows "home q"
  using home_cong [OF assms(1) html_suffix_components [OF assms(2)]] .

lemma html_suffix_agree:
  assumes "fs_agree area fs1 fs2" "home p"
  shows "try_metadata_with_html_suffix fs1 p = try_metadata_with_html_suffix fs2 p"
proof (cases "file_name p")
  case (Some n)
  then have "area (with_file_name p (n @ ''.html''))"
    using assms(2) by (intro area_sibling) (simp_all add: sibling_suffixes_def)
  with assms(1) Some show ?thesis
    by (simp add: try_metadata_with_html_suffix_def try_metadata_def Let_def metadata_agree)
qed (simp add: try_metadata_with_html_suffix_def)

lemma html_suffix_area:
  assumes "home p" "try_metadata_with_html_suffix fs p = (q, Some m)"
  shows "area q" "path_exists fs q"
  using assms area_sibling [OF assms(1), of _ "''.html''"]
  by (auto simp: try_metadata_with_html_suffix_def try_metadata_def path_exists_def sibling_suffixes_def
      Let_def split: option.splits sum.splits)

lemma variant_of_agree:
  assumes "fs_agree area fs1 fs2" "home p"
  shows "variant_of fs1 p = variant_of fs2 p"
  using assms area_sibling [OF assms(2)]
  by (auto simp: variant_of_def fun_eq_iff Let_def metadata_agree dest!: comp_ext_suffix split: option.splits)

lemma variant_of_area: "home p \<Longrightarrow> variant_of fs p c = Some v \<Longrightarrow> area (cv_file_path v)"
  by (auto simp: variant_of_def Let_def dest!: comp_ext_suffix dest: area_sibling
      split: option.splits sum.splits if_splits)

lemma static_variant_agree:
  assumes "fs_agree area fs1 fs2" "home p"
  shows "static_variant api fs1 h cs p = static_variant api fs2 h cs p"
  using variant_of_agree [OF assms] by (simp add: static_variant_def precompressed_variant_def precompressed_loop_eq)

lemma static_variant_area:
  assumes "home p" "static_variant api fs h cs p = Some fm"
  shows "fm_file_path fm = p" "\<not> fm_is_dir fm"
    and "fm_precompressed_variant fm = Some (v, c) \<Longrightarrow> area v"
  using assms variant_of_area [OF assms(1)]
  by (auto simp: static_variant_def precompressed_variant_def precompressed_loop_eq List.map_filter_def
      filter_eq_Cons_iff split: if_splits option.splits list.splits)

lemma index_loop_agree:
  assumes "fs_agree area fs1 fs2" "home p" "list_all plain_name indexes"
  shows "index_loop api fs1 h cs indexes p = index_loop api fs2 h cs indexes p"
  using assms(2,3)
proof (induction indexes arbitrary: p)
  case (Cons index rest)
  let ?q = "path_push p index"
  have q: "home ?q" "home (path_pop ?q)"
    using Cons.prems by (simp_all add: home_push home_pop_push)
  have "static_variant api fs1 h cs ?q = static_variant api fs2 h cs ?q"
    "try_metadata fs1 ?q = try_metadata fs2 ?q"
    "try_metadata_with_html_suffix fs1 (path_pop ?q) = try_metadata_with_html_suffix fs2 (path_pop ?q)"
    using assms(1) q
    by (simp_all add: static_variant_agree html_suffix_agree try_metadata_def metadata_agree home_area)
  moreover have "index_loop api fs1 h cs rest r = index_loop api fs2 h cs rest r"
    if "try_metadata_with_html_suffix fs2 (path_pop ?q) = (r, None)" for r
    using html_suffix_restored [OF q(2) that] Cons by simp
  ultimately show ?case
    by (auto simp: Let_def split: option.splits sum.splits prod.splits)
qed simp

lemma index_loop_area:
  assumes "home p" "list_all plain_name indexes" "index_loop api fs h cs indexes p = r"
  shows "case r of
      Inl fm \<Rightarrow> area (fm_file_path fm) \<and> \<not> fm_is_dir fm
        \<and> (\<forall>v c. fm_precompressed_variant fm = Some (v, c) \<longrightarrow> area v)
    | Inr (q, Some _) \<Rightarrow> area q \<and> path_exists fs q
    | Inr (q, None) \<Rightarrow> home q"
  using assms
proof (induction indexes arbitrary: p)
  case (Cons index rest)
  let ?q = "path_push p index"
  have q: "home ?q" "home (path_pop ?q)"
    using Cons.prems by (simp_all add: home_push home_pop_push)
  consider (variant) fm where "static_variant api fs h cs ?q = Some fm"
    | (found) m d where "static_variant api fs h cs ?q = None" "try_metadata fs ?q = Inr (m, d)"
    | (html) e r' m where "static_variant api fs h cs ?q = None" "try_metadata fs ?q = Inl e"
        "try_metadata_with_html_suffix fs (path_pop ?q) = (r', Some m)"
    | (next') e r' where "static_variant api fs h cs ?q = None" "try_metadata fs ?q = Inl e"
        "try_metadata_with_html_suffix fs (path_pop ?q) = (r', None)"
    by (cases "static_variant api fs h cs ?q"; cases "try_metadata fs ?q";
        cases "try_metadata_with_html_suffix fs (path_pop ?q)"; cases "snd (try_metadata_with_html_suffix fs (path_pop ?q))")
      auto
  then show ?case
  proof cases
    case variant
    with static_variant_area [OF q(1) variant] Cons.prems(3) home_area [OF q(1)] show ?thesis
      by (auto simp: Let_def)
  next
    case found
    with Cons.prems(3) home_area [OF q(1)] show ?thesis
      by (auto simp: Let_def try_metadata_def path_exists_def split: sum.splits)
  next
    case html
    with Cons.prems(3) html_suffix_area [OF q(2) html(3)] show ?thesis by (auto simp: Let_def)
  next
    case next'
    with Cons.prems Cons.IH [OF html_suffix_restored [OF q(2) next'(3)]] show ?thesis
      by (auto simp: Let_def)
  qed
qed auto

lemma composed_agree:
  assumes "fs_agree area fs1 fs2" "home p" "list_all plain_name indexes"
  shows "get_composed_file_metadata api fs1 p h cs indexes ds = get_composed_file_metadata api fs2 p h cs indexes ds"
proof -
  have "fs_is_symlink fs1 p = fs_is_symlink fs2 p" "try_metadata fs1 p = try_metadata fs2 p"
    using assms(1) home_area [OF assms(2)] by (simp_all add: fs_agree_def try_metadata_def)
  moreover have "index_loop api fs1 h cs indexes p = index_loop api fs2 h cs indexes p"
    "index_loop api fs1 h cs DEFAULT_INDEX_FILES p = index_loop api fs2 h cs DEFAULT_INDEX_FILES p"
    by (intro index_loop_agree assms; simp add: DEFAULT_INDEX_FILES_def plain_name_def)+
  moreover obtain q m where q: "try_metadata_with_html_suffix fs2 p = (q, m)" by fastforce
  moreover have "static_variant api fs1 h cs q = static_variant api fs2 h cs q" if "m = None"
    using assms(1) html_suffix_restored [OF assms(2)] q that by (intro static_variant_agree) auto
  ultimately show ?thesis
    unfolding get_composed_file_metadata_def Let_def
    using static_variant_agree [OF assms(1,2), of api h cs] html_suffix_agree [OF assms(1,2)]
    by (cases m; cases "try_metadata fs2 p"; cases "static_variant api fs2 h cs p") (simp_all split: prod.split)
qed

text \<open>The paths of the metadata that is found; those of a directory without an index lead back to it.\<close>

definition found_in :: "fs \<Rightarrow> file_metadata \<Rightarrow> bool" where
  "found_in fs fm \<longleftrightarrow> area (fm_file_path fm)
     \<and> (\<forall>v c. fm_precompressed_variant fm = Some (v, c) \<longrightarrow> area v)
     \<and> (fm_is_dir fm \<and> \<not> path_exists fs (fm_file_path fm) \<longrightarrow> area (path_pop (fm_file_path fm)))"

lemma composed_area:
  assumes p: "home p" and "list_all plain_name indexes"
    and fm: "get_composed_file_metadata api fs p h cs indexes ds = Inr fm"
  shows "found_in fs fm"
proof (cases "try_metadata fs p")
  case (Inl e)
  have s: "found_in fs fm" if "static_variant api fs h cs q = Some fm" "home q" for q
    using static_variant_area [OF that(2,1)] home_area [OF that(2)] by (auto simp: found_in_def)
  show ?thesis
  proof (cases "static_variant api fs h cs p")
    case None
    obtain q m where q: "try_metadata_with_html_suffix fs p = (q, m)" by fastforce
    show ?thesis
    proof (cases m)
      case None': None
      with q html_suffix_restored [OF p] fm Inl None s [of q] show ?thesis
        by (auto simp: get_composed_file_metadata_def split: if_splits option.splits)
    next
      case (Some m')
      with q html_suffix_area [OF p, of fs q m'] fm Inl None show ?thesis
        by (auto simp: get_composed_file_metadata_def found_in_def split: if_splits)
    qed
  qed (use p fm Inl s in \<open>auto simp: get_composed_file_metadata_def split: if_splits\<close>)
next
  case (Inr md)
  obtain m d where md: "try_metadata fs p = Inr (m, d)" using Inr by (cases md) auto
  show ?thesis
  proof (cases d)
    case True
    let ?is = "if indexes = [] then DEFAULT_INDEX_FILES else indexes"
    have "list_all plain_name ?is" "?is \<noteq> []"
      using assms(2) by (auto simp: DEFAULT_INDEX_FILES_def plain_name_def)
    then have "plain_name (last ?is)" by (simp add: list_all_iff)
    then have "home q \<Longrightarrow> area (path_push q (last ?is)) \<and> area (path_pop (path_push q (last ?is)))" for q
      by (simp add: home_area home_push home_pop_push)
    with md True fm index_loop_area [OF p \<open>list_all plain_name ?is\<close> refl, where api = api and fs = fs and h = h and cs = cs] show ?thesis
      by (auto simp: get_composed_file_metadata_def found_in_def Let_def
          split: if_splits sum.splits prod.splits option.splits)
  next
    case False
    with md p fm static_variant_area [OF p] home_area [OF p] show ?thesis
      by (auto simp: get_composed_file_metadata_def found_in_def Let_def split: if_splits option.splits)
  qed
qed

lemma serve_agree:
  assumes "fs_agree area fs1 fs2" "found_in fs1 fm"
  shows "serve_metadata api fs1 opts fm = serve_metadata api fs2 opts fm"
proof -
  have "path_exists fs1 (fm_file_path fm) = path_exists fs2 (fm_file_path fm)"
    "fs_open fs1 (fm_file_path fm) = fs_open fs2 (fm_file_path fm)"
    using assms by (simp_all add: fs_agree_def found_in_def path_exists_def)
  moreover have "fs_open fs1 v = fs_open fs2 v" if "fm_precompressed_variant fm = Some (v, c)" for v c
    using assms that by (auto simp: fs_agree_def found_in_def)
  moreover have "fs_read_dir fs1 (path_pop (fm_file_path fm)) = fs_read_dir fs2 (path_pop (fm_file_path fm))"
    if "fm_is_dir fm" "\<not> path_exists fs1 (fm_file_path fm)"
    using assms that by (auto simp: fs_agree_def found_in_def)
  ultimately show ?thesis
    unfolding serve_metadata_def Let_def auto_index_def file_reply_def dir_list_opts.simps path_pop_def [symmetric]
    by (simp split: option.splits prod.splits)
qed

lemma handle_agree:
  assumes "fs_agree area fs1 fs2" "list_all plain_name (ho_index_files opts)"
    and "\<And>p. sanitize_path (percent_decode api) (ho_base_path opts) (ho_uri_path opts) = Inr p \<Longrightarrow> home p"
  shows "static_handle api fs1 store opts = static_handle api fs2 store opts"
proof (cases "sanitize_path (percent_decode api) (ho_base_path opts) (ho_uri_path opts)")
  case (Inr p)
  have "plain_name ''index.html''" by (simp add: plain_name_def)
  then have p: "home (cache_path opts p)"
    using assms(3) [OF Inr] by (simp add: cache_path_def home_push)
  show ?thesis
    using composed_agree [OF assms(1) p assms(2)] composed_area [OF p assms(2)] serve_agree [OF assms(1)]
    by (simp add: static_handle_def Inr Let_def split: option.splits sum.splits)
qed (simp add: static_handle_def)

end

text \<open>
  The base directory itself, asked for by a request that names nothing, has siblings outside of it: the
  paths beside it that differ by one of the suffixes.
\<close>

definition beside :: "path \<Rightarrow> path \<Rightarrow> bool" where
  "beside base p \<longleftrightarrow> (\<exists>n sfx. file_name base = Some n \<and> sfx \<in> sibling_suffixes
     \<and> components p = butlast (components base) @ [Normal (n @ sfx)])"

definition below :: "path \<Rightarrow> path \<Rightarrow> bool" where
  "below base p \<longleftrightarrow> under base p \<and> components p \<noteq> components base"

lemma under_cong: "under base p \<Longrightarrow> components q = components p \<Longrightarrow> under base q"
  by (simp add: under_def)

lemma below_push: "under base p \<Longrightarrow> plain_name n \<Longrightarrow> below base (path_push p n)"
  using under_push [of base p n] by (auto simp: below_def under_def components_push)

lemma sibling_below:
  assumes "below base p" "file_name p = Some n" "sfx \<in> sibling_suffixes"
  shows "below base (with_file_name p (n @ sfx))"
proof -
  obtain ns where ns: "components p = components base @ map Normal ns" "\<forall>n \<in> set ns. plain_name n" "ns \<noteq> []"
    using assms(1) by (auto simp: below_def under_def)
  then obtain ms m where "ns = ms @ [m]" by (cases ns rule: rev_cases) auto
  moreover have s: "plain_name (n @ sfx)"
    using file_name_plain [OF assms(2)] assms(3) by (rule plain_suffix)
  ultimately have "components (with_file_name p (n @ sfx)) = components base @ map Normal (ms @ [n @ sfx])"
    using components_with_file_name [OF assms(2)] ns(1) by (simp add: butlast_append)
  then show ?thesis
    using ns(2) s \<open>ns = ms @ [m]\<close> unfolding below_def under_def
    by (auto intro!: exI [of _ "ms @ [n @ sfx]"])
qed

interpretation below_base: serving_area "below base" "under base" for base
proof
  fix p n sfx
  assume "below base p" "file_name p = Some n" "sfx \<in> sibling_suffixes"
  then show "under base (with_file_name p (n @ sfx))"
    using sibling_below by (simp add: below_def)
next
  fix p n
  assume "below base p" "plain_name n"
  then show "below base (path_push p n)" by (simp add: below_push below_def [of base p])
qed (auto simp: below_def intro: under_cong)

interpretation at_base: serving_area "under base" "\<lambda>p. under base p \<or> beside base p" for base
proof
  fix p n sfx
  assume p: "under base p" "file_name p = Some n" and s: "sfx \<in> sibling_suffixes"
  show "under base (with_file_name p (n @ sfx)) \<or> beside base (with_file_name p (n @ sfx))"
  proof (cases "components p = components base")
    case True
    then have "file_name base = Some n" using p(2) by (simp add: file_name_iff)
    moreover have "plain_name (n @ sfx)"
      using file_name_plain [OF p(2)] s by (rule plain_suffix)
    ultimately show ?thesis
      using components_with_file_name [OF p(2)] s True by (auto simp: beside_def)
  next
    case False
    with p s sibling_below show ?thesis by (auto simp: below_def)
  qed
qed (auto intro: under_cong under_push)

text \<open>Hidden paths are an area too: what is added to a hidden path leaves it hidden.\<close>

lemma is_hidden_cong: "is_hidden p \<Longrightarrow> components q = components p \<Longrightarrow> is_hidden q"
  by (simp add: is_hidden_def)

lemma hidden_suffix:
  assumes "is_hidden_component (Normal n)" "sfx \<in> sibling_suffixes"
  shows "is_hidden_component (Normal (n @ sfx))"
proof -
  have "is_ascii sfx" using assms(2) by (auto simp: sibling_suffixes_def is_ascii_def)
  then have "utf8_valid n \<Longrightarrow> utf8_valid (n @ sfx)" by (simp add: utf8_valid_append)
  with assms(1) show ?thesis
    by (cases n) (auto simp: to_str_def split: if_splits)
qed

interpretation hidden: serving_area is_hidden is_hidden
proof
  fix p n sfx
  assume p: "is_hidden p" "file_name p = Some n" and s: "sfx \<in> sibling_suffixes"
  have "plain_name (n @ sfx)"
    using file_name_plain [OF p(2)] s by (rule plain_suffix)
  moreover obtain cs where "components p = cs @ [Normal n]" using p(2) by (auto simp: file_name_iff)
  ultimately show "is_hidden (with_file_name p (n @ sfx))"
    using p(1) hidden_suffix [OF _ s, of n] components_with_file_name [OF p(2), of "n @ sfx"]
    by (auto simp: is_hidden_def)
qed (auto simp: is_hidden_def components_push)

section \<open>Properties\<close>

text \<open>C1: the answer depends on nothing outside the base directory: two disks that agree below it give the
  same response, status or error for every request that names anything. A request that names nothing
  asks for the base directory itself, and then the siblings of that directory named by a suffix
  count as well.\<close>

theorem static_handle_confined:
  assumes "names = normal_names (components (decode_tail_path (percent_decode api) (ho_uri_path opts)))"
    and "fs_agree (\<lambda>p. under (ho_base_path opts) p \<or> names = [] \<and> beside (ho_base_path opts) p) fs1 fs2"
    and "list_all plain_name (ho_index_files opts)"
  shows "static_handle api fs1 store opts = static_handle api fs2 store opts"
proof (cases "names = []")
  case True
  with assms(2) show ?thesis
    by (intro at_base.handle_agree [where base = "ho_base_path opts"])
      (auto simp: assms(3) dest: under_sanitize)
next
  case False
  have "below (ho_base_path opts) p"
    if "sanitize_path (percent_decode api) (ho_base_path opts) (ho_uri_path opts) = Inr p" for p
    using that under_sanitize [OF that] False normal_names_components
    by (auto simp: below_def sanitize_path_eq assms(1) components_push_all)
  with False assms(2) show ?thesis
    by (intro below_base.handle_agree [where base = "ho_base_path opts"]) (auto simp: assms(3))
qed


lemma file_reply_total:
  assumes "inclusive_ranges api"
  shows "outcome {NOT_FOUND, FORBIDDEN, INTERNAL_SERVER_ERROR} (\<lambda>r. resp_status r \<in> content_statuses)
    (file_reply api fs h p m v mc)"
  using response_body_total [OF assms, THEN outcome_mono]
  by (auto simp: file_reply_def Let_def split: sum.splits io_error.splits)

lemma serve_metadata_total:
  assumes "inclusive_ranges api"
  shows "outcome {NOT_FOUND, FORBIDDEN, INTERNAL_SERVER_ERROR}
    (\<lambda>r. resp_status (sfr_resp r) \<in> content_statuses \<union> {NO_CONTENT, PERMANENT_REDIRECT})
    (serve_metadata api fs opts fm)"
proof -
  let ?ok = "\<lambda>r. resp_status r \<in> content_statuses \<union> {NO_CONTENT, PERMANENT_REDIRECT}"
  have ok: "outcome {NOT_FOUND, FORBIDDEN, INTERNAL_SERVER_ERROR} ?ok (file_reply api fs h p m v mc)"
    "outcome {NOT_FOUND, FORBIDDEN, INTERNAL_SERVER_ERROR} ?ok (auto_index api fs o')" for h p m v mc o'
    using file_reply_total [OF assms, THEN outcome_mono] auto_index_total [THEN outcome_mono]
    by (auto simp: content_statuses_def)
  moreover have "outcome {NOT_FOUND, FORBIDDEN, INTERNAL_SERVER_ERROR} (\<lambda>r. ?ok (sfr_resp r))
      (case file_reply api fs h p m v mc of Inl e \<Rightarrow> Inl e
       | Inr r \<Rightarrow> if bad then Inl (Err INTERNAL_SERVER_ERROR)
                else Inr \<lparr>sfr_resp = insert_header n w (remove_header n' r), sfr_file_path = p\<rparr>)"
    for h p m v mc bad n w n'
    by (rule outcome_bind [OF ok(1)]) auto
  ultimately show ?thesis
    unfolding serve_metadata_def Let_def
    by (cases "fm_precompressed_variant fm") auto
qed

lemma composed_total:
  "outcome {FORBIDDEN, NOT_FOUND, METHOD_NOT_ALLOWED, INTERNAL_SERVER_ERROR} (\<lambda>_. True)
     (get_composed_file_metadata api fs p h cs indexes ds)"
  by (auto simp: get_composed_file_metadata_def try_metadata_def Let_def
      split: sum.splits option.splits prod.splits)

lemma static_handle_outcome:
  assumes "inclusive_ranges api" "ho_memory_cache opts \<noteq> None \<Longrightarrow> store \<noteq> None"
  shows "outcome {FORBIDDEN, NOT_FOUND, METHOD_NOT_ALLOWED, INTERNAL_SERVER_ERROR}
    (\<lambda>r. resp_status (sfr_resp r) \<in> content_statuses \<union> {NO_CONTENT, PERMANENT_REDIRECT})
    (static_handle api fs store opts)"
proof -
  let ?ok = "\<lambda>r. resp_status (sfr_resp r) \<in> content_statuses \<union> {NO_CONTENT, PERMANENT_REDIRECT}"
  let ?E = "{FORBIDDEN, NOT_FOUND, METHOD_NOT_ALLOWED, INTERNAL_SERVER_ERROR}"
  have found: "outcome ?E ?ok (case get_composed_file_metadata api fs p h cs is ds of
      Inl e \<Rightarrow> Inl e | Inr fm \<Rightarrow> serve_metadata api fs opts fm)" for p h cs "is" ds
    using composed_total serve_metadata_total [OF assms(1), THEN outcome_mono]
    by (rule outcome_bind) auto
  have cached: "outcome ?E ?ok (map_sum id (\<lambda>r. \<lparr>sfr_resp = r, sfr_file_path = p\<rparr>) r)"
    if "get_or_acquire api store p h = Some r" "ho_memory_cache opts \<noteq> None" for p h r
    using that assms(2) mem_file_response_total [OF assms(1), THEN outcome_mono]
    by (auto simp: get_or_acquire_def split: option.splits if_splits)
  show ?thesis
    using found
    by (auto simp: static_handle_def sanitize_path_def Let_def dest!: cached split: option.splits sum.splits)
qed



section \<open>Witnesses\<close>

definition sample_opts :: "http_method \<Rightarrow> string \<Rightarrow> header_map \<Rightarrow> handle_opts" where
  "sample_opts m u h =
    \<lparr>ho_method = m, ho_memory_cache = None, ho_headers = h, ho_base_path = ''/srv/w'', ho_uri_path = u,
     ho_index_files = [''index.html''], ho_uri_query = None, ho_dir_listing = False,
     ho_dir_listing_order = 6, ho_dir_listing_format = Fmt_Html, ho_redirect_trailing_slash = True,
     ho_compression_static = False, ho_ignore_hidden_files = False, ho_disable_symlinks = False\<rparr>"

lemma sample_opts_simps [simp]:
  "ho_method (sample_opts m u h) = m" "ho_memory_cache (sample_opts m u h) = None"
  "ho_headers (sample_opts m u h) = h" "ho_base_path (sample_opts m u h) = ''/srv/w''"
  "ho_uri_path (sample_opts m u h) = u" "ho_index_files (sample_opts m u h) = [''index.html'']"
  "ho_redirect_trailing_slash (sample_opts m u h)" "\<not> ho_compression_static (sample_opts m u h)"
  "\<not> ho_ignore_hidden_files (sample_opts m u h)" "\<not> ho_disable_symlinks (sample_opts m u h)"
  by (simp_all add: sample_opts_def)

definition site :: "(path \<times> node) list" where
  "site = [(''/srv/w'', Node_Dir), (''/srv/w/a.txt'', Node_File ''hello''), (''/srv/w/d'', Node_Dir),
     (''/srv/w/.git/config'', Node_File ''secret'')]"

lemma sample_paths:
  "sanitize_path percent_decode_all ''/srv/w'' ''/a.txt'' = Inr ''/srv/w/a.txt''"
  "sanitize_path percent_decode_all ''/srv/w'' ''/d'' = Inr ''/srv/w/d''"
  "sanitize_path percent_decode_all ''/srv/w'' ''/.git/config'' = Inr ''/srv/w/.git/config''"
  "is_hidden ''/srv/w/.git/config''" "plain_name ''index.html''"
  "normal_names (components (decode_tail_path percent_decode_all ''/../../etc/passwd'')) = [''etc'', ''passwd'']"
  "components ''/srv/w'' = [RootDir, Normal ''srv'', Normal ''w'']"
  "components ''/etc/passwd'' = [RootDir, Normal ''etc'', Normal ''passwd'']"
  "visible ''/d/''" "\<not> ends_with slash ''/d''"
  by code_simp+

theorem static_handle_confined_witness:
  "static_handle sample_api (sample_fs ((''/etc/passwd'', Node_File ''root'') # site)) None
      (sample_opts GET ''/../../etc/passwd'' [])
   = static_handle sample_api (sample_fs site) None (sample_opts GET ''/../../etc/passwd'' [])"
proof -
  have "\<not> under ''/srv/w'' ''/etc/passwd''"
    by (simp add: under_def sample_paths)
  then have "fs_agree (\<lambda>p. under ''/srv/w'' p \<or> [''etc'', ''passwd''] = [] \<and> beside ''/srv/w'' p)
      (sample_fs ((''/etc/passwd'', Node_File ''root'') # site)) (sample_fs site)"
    by (auto simp: fs_agree_def sample_fs_def)
  then show ?thesis
    by (intro static_handle_confined [OF refl]) (simp_all add: sample_paths)
qed




section \<open>Deviations\<close>



end
