(* ===== verification/Header_Stages.thy ===== *)
theory Header_Stages
  imports Handler_Opts "HOL-Library.List_Lexorder" "HOL-Library.Char_ord"
begin

text \<open>
  The stages that set response headers: \<^verbatim>\<open>src/control_headers.rs\<close> (with the standard library's
  binary search), \<^verbatim>\<open>src/security_headers.rs\<close>, \<^verbatim>\<open>src/custom_headers.rs\<close>; and the choice of the
  root directory by host, \<^verbatim>\<open>src/virtual_hosts.rs\<close>. Each stage satisfies the stage contract.
\<close>

section \<open>slice::binary\_search\<close>

text \<open>Strings compare byte by byte, the order of \<open>string\<close> lists over \<open>char\<close>.\<close>

function binary_search_loop :: "'a::linorder list \<Rightarrow> 'a \<Rightarrow> nat \<Rightarrow> nat \<Rightarrow> nat" where
  "binary_search_loop xs x base sz =
     (if sz \<le> 1 then base
      else (let half = sz div 2; mid = base + half
            in binary_search_loop xs x (if x < xs ! mid then base else mid) (sz - half)))"
  by auto
termination
  by (relation "measure (\<lambda>(_, _, _, sz). sz)") auto

declare binary_search_loop.simps [simp del]

definition binary_search_is_ok :: "'a::linorder list \<Rightarrow> 'a \<Rightarrow> bool" where
  "binary_search_is_ok xs x \<longleftrightarrow> xs \<noteq> [] \<and> xs ! binary_search_loop xs x 0 (length xs) = x"

section \<open>control\_headers.rs\<close>

definition MAX_AGE_ONE_HOUR :: u64 where "MAX_AGE_ONE_HOUR = 60 * 60"
definition MAX_AGE_ONE_DAY :: u64 where "MAX_AGE_ONE_DAY = 60 * 60 * 24"
definition MAX_AGE_ONE_YEAR :: u64 where "MAX_AGE_ONE_YEAR = 60 * 60 * 24 * 365"

definition CACHE_EXT_ONE_HOUR :: "string list" where
  "CACHE_EXT_ONE_HOUR = [''atom'', ''json'', ''rss'', ''xml'']"

definition CACHE_EXT_ONE_YEAR :: "string list" where
  "CACHE_EXT_ONE_YEAR =
     [''avif'', ''bmp'', ''bz2'', ''css'', ''doc'', ''gif'', ''gz'', ''htc'', ''ico'', ''jpeg'', ''jpg'', ''js'', ''jxl'',
      ''map'', ''mjs'', ''mp3'', ''mp4'', ''ogg'', ''ogv'', ''pdf'', ''png'', ''rar'', ''rtf'', ''tar'', ''tgz'', ''wav'',
      ''weba'', ''webm'', ''webp'', ''woff'', ''woff2'', ''zip'']"

definition control_init :: "bool \<Rightarrow> request_handler_opts \<Rightarrow> request_handler_opts" where
  "control_init enabled opts = opts\<lparr>o_cache_control_headers := enabled\<rparr>"

definition get_file_extension :: "string \<Rightarrow> string option" where
  "get_file_extension u = map_option snd (rsplit_once (CHR ''.'') u)"

definition get_max_age :: "string \<Rightarrow> u64" where
  "get_max_age u =
     (case get_file_extension u of
        None \<Rightarrow> MAX_AGE_ONE_DAY
      | Some extension \<Rightarrow>
          if binary_search_is_ok CACHE_EXT_ONE_HOUR extension then MAX_AGE_ONE_HOUR
          else if binary_search_is_ok CACHE_EXT_ONE_YEAR extension then MAX_AGE_ONE_YEAR
          else MAX_AGE_ONE_DAY)"

definition control_append_headers :: "string \<Rightarrow> resp \<Rightarrow> resp" where
  "control_append_headers u resp =
     insert_header CACHE_CONTROL
       (''public, max-age='' @ nat_str (unat (min (get_max_age u) (2 ^ 32 - 1)))) resp"

definition control_post_process :: "request_handler_opts \<Rightarrow> request \<Rightarrow> resp \<Rightarrow> handled" where
  "control_post_process opts req resp =
     (if o_cache_control_headers opts
      then Inr (control_append_headers (u_path (r_uri req)) resp)
      else Inr resp)"

section \<open>security\_headers.rs\<close>

definition security_init :: "bool \<Rightarrow> request_handler_opts \<Rightarrow> request_handler_opts" where
  "security_init enabled opts = opts\<lparr>o_security_headers := enabled\<rparr>"

definition security_append_headers :: "resp \<Rightarrow> resp" where
  "security_append_headers resp =
     (let resp = insert_header ''strict-transport-security'' ''max-age=63072000; includeSubDomains; preload'' resp;
          resp = insert_header ''x-frame-options'' ''DENY'' resp;
          resp = insert_header ''x-content-type-options'' ''nosniff'' resp
      in insert_header ''content-security-policy'' (''frame-ancestors '' @ [CHR 0x27] @ ''self'' @ [CHR 0x27]) resp)"

definition security_post_process :: "request_handler_opts \<Rightarrow> request \<Rightarrow> resp \<Rightarrow> handled" where
  "security_post_process opts req resp =
     (if o_security_headers opts then Inr (security_append_headers resp) else Inr resp)"

section \<open>custom\_headers.rs\<close>

definition auto_index_path :: "string \<Rightarrow> path option \<Rightarrow> string" where
  "auto_index_path uri_path file_path =
     (case file_path of
        None \<Rightarrow> uri_path
      | Some fp \<Rightarrow>
          if ends_with slash uri_path then
            (case Option.bind (file_name fp) to_str of
               None \<Rightarrow> uri_path
             | Some name \<Rightarrow>
                 if uri_path = ''/'' then uri_path @ name else uri_path @ ''/'' @ name)
          else uri_path)"

fun custom_loop :: "api \<Rightarrow> string \<Rightarrow> headers_entry list \<Rightarrow> resp \<Rightarrow> resp" where
  "custom_loop api uri_path [] resp = resp"
| "custom_loop api uri_path (headers_entry # rest) resp =
     custom_loop api uri_path rest
       (if glob_is_match api (he_source headers_entry) uri_path
        then foldl (\<lambda>resp (name, value). insert_header name value resp) resp (he_headers headers_entry)
        else resp)"

definition custom_append_headers ::
  "api \<Rightarrow> string \<Rightarrow> headers_entry list option \<Rightarrow> resp \<Rightarrow> path option \<Rightarrow> resp" where
  "custom_append_headers api uri_path headers_opts resp file_path =
     (case headers_opts of
        None \<Rightarrow> resp
      | Some headers_vec \<Rightarrow> custom_loop api (auto_index_path uri_path file_path) headers_vec resp)"

definition custom_post_process ::
  "api \<Rightarrow> path option \<Rightarrow> request_handler_opts \<Rightarrow> request \<Rightarrow> resp \<Rightarrow> handled" where
  "custom_post_process api file_path opts req resp =
     (case o_advanced_opts opts of
        None \<Rightarrow> Inr resp
      | Some advanced \<Rightarrow>
          Inr (custom_append_headers api (u_path (r_uri req)) (adv_headers advanced) resp file_path))"

section \<open>virtual\_hosts.rs\<close>

fun vhost_loop :: "string \<Rightarrow> virtual_host list \<Rightarrow> path option" where
  "vhost_loop host_str [] = None"
| "vhost_loop host_str (vhost # rest) =
     (if vh_host vhost = host_str then Some (vh_root vhost) else vhost_loop host_str rest)"

definition get_real_root :: "api \<Rightarrow> request \<Rightarrow> virtual_host list option \<Rightarrow> path option" where
  "get_real_root api req vhosts_opts =
     (case vhosts_opts of
        None \<Rightarrow> None
      | Some vhosts \<Rightarrow>
          (case hm_get (r_headers req) HOST of
             None \<Rightarrow> None
           | Some v \<Rightarrow>
               (case hv_to_str api v of
                  None \<Rightarrow> None
                | Some host_str \<Rightarrow> vhost_loop host_str vhosts)))"

section \<open>Lemmas\<close>

lemma binary_search_loop_hit:
  assumes "sorted xs" "base + sz \<le> length xs" "0 < sz"
    and "base \<le> i" "i < base + sz" "xs ! i = x"
  shows "xs ! binary_search_loop xs x base sz = x"
  using assms
proof (induction xs x base sz arbitrary: i rule: binary_search_loop.induct)
  case (1 xs x base sz)
  show ?case
  proof (cases "sz \<le> 1")
    case True
    with "1.prems" have "i = base" by linarith
    with True "1.prems" show ?thesis by (simp add: binary_search_loop.simps)
  next
    case False
    let ?mid = "base + sz div 2"
    have mid: "?mid < length xs" using "1.prems" False by auto
    show ?thesis
    proof (cases "x < xs ! ?mid")
      case True
      then have "i < ?mid"
        using "1.prems" sorted_nth_mono [of xs ?mid i] by (cases "i < ?mid") auto
      then have "i < base + (sz - sz div 2)" by linarith
      with "1.IH" [of "sz div 2" ?mid i] "1.prems" False True show ?thesis
        by (subst binary_search_loop.simps) (simp add: Let_def)
    next
      case ge: False
      have "xs ! max i ?mid = x"
        using ge "1.prems" mid sorted_nth_mono [of xs i ?mid] by (auto simp: max_def)
      with "1.IH" [of "sz div 2" ?mid "max i ?mid"] "1.prems" False ge show ?thesis
        by (subst binary_search_loop.simps) (simp add: Let_def)
    qed
  qed
qed

lemma binary_search_loop_bound:
  "0 < sz \<Longrightarrow> binary_search_loop xs x base sz < base + sz"
proof (induction xs x base sz rule: binary_search_loop.induct)
  case (1 xs x base sz)
  then show ?case
    by (subst binary_search_loop.simps) (fastforce simp: Let_def)
qed

lemma binary_search_is_ok_iff: "sorted xs \<Longrightarrow> binary_search_is_ok xs x \<longleftrightarrow> x \<in> set xs"
  using binary_search_loop_hit [of xs 0 "length xs" _ x] binary_search_loop_bound [of "length xs" xs x 0]
  by (fastforce simp: binary_search_is_ok_def in_set_conv_nth)

lemma sorted_ext: "sorted CACHE_EXT_ONE_HOUR" "sorted CACHE_EXT_ONE_YEAR"
  by code_simp+

interpretation control: response_stage control_post_process "\<lambda>_ _. {CACHE_CONTROL}"
  by unfold_locales (simp add: control_post_process_def control_append_headers_def)

abbreviation security_names :: "string set" where
  "security_names \<equiv> {''strict-transport-security'', ''x-frame-options'', ''x-content-type-options'',
     ''content-security-policy''}"

interpretation security: response_stage security_post_process "\<lambda>_ _. security_names"
  by unfold_locales (simp add: security_post_process_def security_append_headers_def Let_def)

text \<open>What a list of header entries sets: all matching entries' pairs, one after the other.\<close>

definition matching_pairs :: "api \<Rightarrow> string \<Rightarrow> headers_entry list \<Rightarrow> (string \<times> string) list" where
  "matching_pairs api u es = concat (map he_headers (filter (\<lambda>e. glob_is_match api (he_source e) u) es))"

lemma custom_loop_eq:
  "custom_loop api u es r
     = foldl (\<lambda>resp (n, v). insert_header n v resp) r (matching_pairs api u es)"
  by (induction api u es r rule: custom_loop.induct) (auto simp: matching_pairs_def)

definition custom_pairs :: "api \<Rightarrow> path option \<Rightarrow> request_handler_opts \<Rightarrow> request \<Rightarrow> (string \<times> string) list" where
  "custom_pairs api fp opts req =
     (case o_advanced_opts opts of
        None \<Rightarrow> []
      | Some adv \<Rightarrow>
          (case adv_headers adv of
             None \<Rightarrow> []
           | Some es \<Rightarrow> matching_pairs api (auto_index_path (u_path (r_uri req)) fp) es))"

lemma custom_post_process_eq:
  "custom_post_process api fp opts req r
     = Inr (r\<lparr>resp_headers := foldl (\<lambda>h (n, v). hm_insert n v h) (resp_headers r) (custom_pairs api fp opts req)\<rparr>)"
  by (simp add: custom_post_process_def custom_append_headers_def custom_pairs_def custom_loop_eq
      foldl_insert_header split: option.splits)

interpretation custom: response_stage "custom_post_process api fp"
    "\<lambda>opts req. fst ` set (custom_pairs api fp opts req)"
  by unfold_locales (simp add: custom_post_process_eq hm.get_ins_all_frame)

lemma vhost_loop_eq: "vhost_loop h vs = map_option vh_root (List.find (\<lambda>v. vh_host v = h) vs)"
  by (induction h vs rule: vhost_loop.induct) auto

section \<open>Properties\<close>

text \<open>C34: the binary search over the extension tables, which needs them sorted, decides membership:
  the \<^verbatim>\<open>Cache-Control\<close> value is one hour, one year or one day by the file extension alone.\<close>

theorem cache_control_by_extension:
  "control_post_process opts req r = Inr (
     if o_cache_control_headers opts then
       insert_header CACHE_CONTROL (''public, max-age='' @ nat_str (
         case get_file_extension (u_path (r_uri req)) of
           None \<Rightarrow> 86400
         | Some ext \<Rightarrow> if ext \<in> set CACHE_EXT_ONE_HOUR then 3600
                       else if ext \<in> set CACHE_EXT_ONE_YEAR then 31536000 else 86400)) r
     else r)"
  by (simp add: control_post_process_def control_append_headers_def get_max_age_def
      binary_search_is_ok_iff sorted_ext MAX_AGE_ONE_HOUR_def MAX_AGE_ONE_DAY_def MAX_AGE_ONE_YEAR_def
      split: option.splits)

text \<open>After the custom headers a header has the value of the last matching entry that sets it,
  and is untouched when no matching entry does; status and body never change.\<close>

theorem custom_headers_last_wins:
  "\<exists>r'. custom_post_process api fp opts req r = Inr r'
     \<and> resp_status r' = resp_status r \<and> resp_body r' = resp_body r
     \<and> header r' n = (case map_of (rev (custom_pairs api fp opts req)) n of
                        None \<Rightarrow> header r n | Some v \<Rightarrow> Some v)"
  by (simp add: custom_post_process_eq hm.get_ins_all)

end
