(* ===== verification/Cors.thy ===== *)
theory Cors
  imports Error_Pages
begin

text \<open>
  Cross-origin requests (\<^verbatim>\<open>src/cors.rs\<close>): building the settings, with the panics on ill-formed
  values, the check of a request and the two stages of the pipeline.
\<close>

section \<open>Building the settings\<close>

text \<open>\<^verbatim>\<open>splitn(2, pat)\<close>: the parts before and behind the first occurrence of a pattern.\<close>

fun split_once_str :: "string \<Rightarrow> string \<Rightarrow> (string \<times> string) option" where
  "split_once_str pat [] = (if pat = [] then Some ([], []) else None)"
| "split_once_str pat (c # cs) =
     (case strip_prefix pat (c # cs) of
        Some rest \<Rightarrow> Some ([], rest)
      | None \<Rightarrow> map_option (\<lambda>(a, b). (c # a, b)) (split_once_str pat cs))"

fun collect_results :: "('a \<Rightarrow> ('e, 'b) result) \<Rightarrow> 'a list \<Rightarrow> ('e, 'b set) result" where
  "collect_results f [] = Inr {}"
| "collect_results f (x # xs) =
     (case f x of
        Inl e \<Rightarrow> Inl e
      | Inr y \<Rightarrow> (case collect_results f xs of Inl e \<Rightarrow> Inl e | Inr ys \<Rightarrow> Inr (insert y ys)))"

definition cors_new_empty :: cors where
  "cors_new_empty =
     \<lparr>allowed_headers = {}, exposed_headers = {}, max_age = None, allowed_methods = {}, origins = None\<rparr>"

definition into_origin :: "api \<Rightarrow> string \<Rightarrow> (string, string) result" where
  "into_origin api s =
     (case split_once_str ''://'' s of
        None \<Rightarrow> Inl (Panic ''cors::into_origin: missing url scheme'')
      | Some (scheme, rest) \<Rightarrow>
          (case origin_to_string api scheme rest of
             None \<Rightarrow> Inl (Panic ''cors::into_origin: invalid Origin'')
           | Some origin \<Rightarrow>
               if hv_valid api origin then Inr origin
               else Inl (Panic ''cors: Origin is always a valid HeaderValue'')))"

definition allow_methods :: "api \<Rightarrow> string list \<Rightarrow> cors \<Rightarrow> (string, cors) result" where
  "allow_methods api methods self =
     (case collect_results (\<lambda>m. case method_from_bytes api m of
             None \<Rightarrow> Inl (Panic ''cors: illegal method'') | Some v \<Rightarrow> Inr v) methods of
        Inl e \<Rightarrow> Inl e
      | Inr ms \<Rightarrow> Inr (self\<lparr>allowed_methods := allowed_methods self \<union> ms\<rparr>))"

definition allow_any_origin :: "cors \<Rightarrow> cors" where
  "allow_any_origin self = self\<lparr>origins := None\<rparr>"

definition allow_origins :: "api \<Rightarrow> string list \<Rightarrow> cors \<Rightarrow> (string, cors) result" where
  "allow_origins api hosts self =
     (case collect_results (into_origin api) hosts of
        Inl e \<Rightarrow> Inl e
      | Inr os \<Rightarrow>
          Inr (self\<lparr>origins := Some ((case origins self of None \<Rightarrow> {} | Some s \<Rightarrow> s) \<union> os)\<rparr>))"

definition header_name :: "api \<Rightarrow> string \<Rightarrow> (string, string) result" where
  "header_name api h =
     (case header_name_from_bytes api h of
        None \<Rightarrow> Inl (Panic ''cors: illegal Header'')
      | Some n \<Rightarrow> Inr n)"

definition allow_headers :: "api \<Rightarrow> string list \<Rightarrow> cors \<Rightarrow> (string, cors) result" where
  "allow_headers api headers self =
     (case collect_results (header_name api) headers of
        Inl e \<Rightarrow> Inl e
      | Inr hs \<Rightarrow> Inr (self\<lparr>allowed_headers := allowed_headers self \<union> hs\<rparr>))"

definition expose_headers :: "api \<Rightarrow> string list \<Rightarrow> cors \<Rightarrow> (string, cors) result" where
  "expose_headers api headers self =
     (case collect_results (header_name api) headers of
        Inl e \<Rightarrow> Inl e
      | Inr hs \<Rightarrow> Inr (self\<lparr>exposed_headers := exposed_headers self \<union> hs\<rparr>))"

definition cors_build :: "api \<Rightarrow> cors option \<Rightarrow> configured option" where
  "cors_build api c =
     (case c of
        None \<Rightarrow> None
      | Some cors \<Rightarrow>
          Some \<lparr>cf_cors = cors,
                cf_allowed_headers = header_list_value api (allowed_headers cors),
                cf_exposed_headers = header_list_value api (exposed_headers cors),
                cf_methods_header = method_list_value api (allowed_methods cors)\<rparr>)"

definition header_names_or_default :: "string \<Rightarrow> string list" where
  "header_names_or_default s =
     (if s = [] then [''origin'', ''content-type''] else map str_trim (split_on (CHR '','') s))"

definition with_cors :: "(string, cors) result \<Rightarrow> (cors \<Rightarrow> (string, cors) result) \<Rightarrow> (string, cors) result" where
  "with_cors r f = (case r of Inl e \<Rightarrow> Inl e | Inr c \<Rightarrow> f c)"

definition cors_new ::
  "api \<Rightarrow> string \<Rightarrow> string \<Rightarrow> string \<Rightarrow> (string, configured option) result" where
  "cors_new api origins_str allow_headers_str expose_headers_str =
     (if origins_str = [] then Inr (cors_build api None)
      else
        (let allow_headers_vec = header_names_or_default allow_headers_str;
             expose_headers_vec = header_names_or_default expose_headers_str;
             hosts = map str_trim (split_on (CHR '','') origins_str)
         in if origins_str \<noteq> ''*'' \<and> hosts = [] then Inr (cors_build api None)
            else
              (case with_cors (with_cors (with_cors
                      (if origins_str = ''*'' then Inr (allow_any_origin cors_new_empty)
                       else allow_origins api hosts cors_new_empty)
                      (allow_headers api allow_headers_vec))
                      (expose_headers api expose_headers_vec))
                      (allow_methods api [''GET'', ''HEAD'', ''OPTIONS'']) of
                 Inl e \<Rightarrow> Inl e
               | Inr c \<Rightarrow> Inr (cors_build api (Some c)))))"

definition cors_init ::
  "api \<Rightarrow> string \<Rightarrow> string \<Rightarrow> string \<Rightarrow> request_handler_opts \<Rightarrow> (string, request_handler_opts) result" where
  "cors_init api allow_origins' allow_headers' expose_headers' opts =
     (case cors_new api (str_trim allow_origins') (str_trim allow_headers') (str_trim expose_headers') of
        Inl e \<Rightarrow> Inl e
      | Inr c \<Rightarrow> Inr (opts\<lparr>o_cors := c\<rparr>))"

section \<open>Checking a request\<close>

datatype validated = Preflight string | Simple string | NotCors

datatype forbidden = Forbidden_Origin | Forbidden_Method | Forbidden_Header

abbreviation ACRM :: string where "ACRM \<equiv> ''access-control-request-method''"
abbreviation ACRH :: string where "ACRH \<equiv> ''access-control-request-headers''"
abbreviation ACAO :: string where "ACAO \<equiv> ''access-control-allow-origin''"
abbreviation ACAH :: string where "ACAH \<equiv> ''access-control-allow-headers''"
abbreviation ACEH :: string where "ACEH \<equiv> ''access-control-expose-headers''"
abbreviation ACAM :: string where "ACAM \<equiv> ''access-control-allow-methods''"
abbreviation ACMA :: string where "ACMA \<equiv> ''access-control-max-age''"

definition is_method_allowed :: "api \<Rightarrow> configured \<Rightarrow> string \<Rightarrow> bool" where
  "is_method_allowed api self h =
     (case method_from_bytes api h of
        None \<Rightarrow> False
      | Some method \<Rightarrow> method \<in> allowed_methods (cf_cors self))"

definition is_header_allowed :: "api \<Rightarrow> configured \<Rightarrow> string \<Rightarrow> bool" where
  "is_header_allowed api self h =
     (if h = [] then False
      else (case header_name_from_bytes api h of
              None \<Rightarrow> False
            | Some n \<Rightarrow> n \<in> allowed_headers (cf_cors self)))"

definition is_origin_allowed :: "configured \<Rightarrow> string \<Rightarrow> bool" where
  "is_origin_allowed self origin =
     (if origin = [] then False
      else (case origins (cf_cors self) of
              Some allowed \<Rightarrow> origin \<in> allowed
            | None \<Rightarrow> True))"

definition append_preflight_headers :: "configured \<Rightarrow> header_map \<Rightarrow> header_map" where
  "append_preflight_headers self headers =
     (let headers = hm_insert ACAH (cf_allowed_headers self) headers;
          headers = hm_insert ACEH (cf_exposed_headers self) headers;
          headers = hm_insert ACAM (cf_methods_header self) headers
      in case max_age (cf_cors self) of
           None \<Rightarrow> headers
         | Some age \<Rightarrow> hm_insert ACMA (nat_str (unat age)) headers)"

fun headers_loop :: "api \<Rightarrow> configured \<Rightarrow> string list \<Rightarrow> bool" where
  "headers_loop api self [] = True"
| "headers_loop api self (h # hs) =
     (if \<not> is_header_allowed api self (str_trim h) then False else headers_loop api self hs)"

definition cors_check_request ::
  "api \<Rightarrow> configured \<Rightarrow> http_method \<Rightarrow> header_map \<Rightarrow> forbidden + (header_map \<times> validated)" where
  "cors_check_request api self method headers =
     (case hm_get headers ORIGIN of
        None \<Rightarrow> Inr ([], NotCors)
      | Some origin \<Rightarrow>
          if method = OPTIONS then
            if \<not> is_origin_allowed self origin then Inl Forbidden_Origin
            else
              (case hm_get headers ACRM of
                 None \<Rightarrow> Inl Forbidden_Method
               | Some req_method \<Rightarrow>
                   if \<not> is_method_allowed api self req_method then Inl Forbidden_Method
                   else
                     (let granted = hm_insert ACAO origin (append_preflight_headers self [])
                      in case hm_get headers ACRH of
                           None \<Rightarrow> Inr (granted, Preflight origin)
                         | Some req_headers \<Rightarrow>
                             (case hv_to_str api req_headers of
                                None \<Rightarrow> Inl Forbidden_Header
                              | Some s \<Rightarrow>
                                  if headers_loop api self (split_on (CHR '','') s)
                                  then Inr (granted, Preflight origin)
                                  else Inl Forbidden_Header)))
          else if is_origin_allowed self origin
          then Inr (hm_insert ACAO origin (append_preflight_headers self []), Simple origin)
          else Inl Forbidden_Origin)"

section \<open>The stages\<close>

definition cors_pre_process ::
  "api \<Rightarrow> fs \<Rightarrow> request_handler_opts \<Rightarrow> request \<Rightarrow> handled option" where
  "cors_pre_process api fs opts req =
     (case o_cors opts of
        None \<Rightarrow> None
      | Some cors \<Rightarrow>
          (case cors_check_request api cors (r_method req) (r_headers req) of
             Inr (_, state) \<Rightarrow> None
           | Inl err \<Rightarrow>
               Some (error_response api fs (r_uri req) (r_method req) FORBIDDEN
                 (o_page404 opts) (o_page50x opts))))"

definition cors_post_process :: "api \<Rightarrow> request_handler_opts \<Rightarrow> request \<Rightarrow> resp \<Rightarrow> handled" where
  "cors_post_process api opts req resp =
     (case o_cors opts of
        None \<Rightarrow> Inr resp
      | Some cors \<Rightarrow>
          (case cors_check_request api cors (r_method req) (r_headers req) of
             Inl _ \<Rightarrow> Inr resp
           | Inr (headers, _) \<Rightarrow>
               if headers = [] then Inr resp
               else Inr (remove_header ALLOW
                 (foldl (\<lambda>r (k, v). insert_header k v r) resp headers))))"

section \<open>Lemmas\<close>

lemma headers_loop_iff:
  "headers_loop api self hs \<longleftrightarrow> list_all (\<lambda>h. is_header_allowed api self (str_trim h)) hs"
  by (induction hs) auto

lemma collect_results_Inr:
  "collect_results f xs = Inr S \<Longrightarrow> Inr ` S = f ` set xs"
  by (induction xs arbitrary: S) (auto split: sum.splits)

definition cors_names :: "string set" where
  "cors_names = {ACAO, ACAH, ACEH, ACAM, ACMA, ALLOW}"

lemma preflight_names:
  "fst ` set (hm_insert ACAO o' (append_preflight_headers c [])) \<subseteq> cors_names"
  by (auto simp: append_preflight_headers_def cors_names_def Let_def split: option.splits)

lemma cors_headers_names:
  "cors_check_request api c m h = Inr (hs, v) \<Longrightarrow> fst ` set hs \<subseteq> cors_names"
  using preflight_names [of "the (hm_get h ORIGIN)" c]
  by (auto simp: cors_check_request_def Let_def split: option.splits if_splits)

lemma map_of_rev_None: "n \<notin> fst ` set kvs \<Longrightarrow> map_of (rev kvs) n = None"
  by (simp add: map_of_eq_None_iff)

interpretation cors_stage: response_stage "cors_post_process api" "\<lambda>_ _. cors_names"
proof
  fix opts req and r :: resp
  show "\<exists>r'. cors_post_process api opts req r = Inr r' \<and> resp_status r' = resp_status r
      \<and> resp_body r' = resp_body r \<and> (\<forall>n. n \<notin> cors_names \<longrightarrow> header r' n = header r n)"
  proof (cases "o_cors opts")
    case (Some c)
    show ?thesis
    proof (cases "cors_check_request api c (r_method req) (r_headers req)")
      case (Inr x)
      then obtain hs v where x: "cors_check_request api c (r_method req) (r_headers req) = Inr (hs, v)"
        by (cases x) auto
      have "n \<notin> cors_names \<Longrightarrow> n \<noteq> ALLOW \<and> map_of (rev hs) n = None" for n
        using cors_headers_names [OF x] map_of_rev_None [of n hs] by (auto simp: cors_names_def)
      then show ?thesis
        by (auto simp: cors_post_process_def Some x)
    qed (simp add: cors_post_process_def Some)
  qed (simp add: cors_post_process_def)
qed

text \<open>The origin that a check grants.\<close>

definition granted_origin :: "api \<Rightarrow> configured \<Rightarrow> http_method \<Rightarrow> header_map \<Rightarrow> string option" where
  "granted_origin api c m h =
     (case cors_check_request api c m h of
        Inr (_, Preflight origin) \<Rightarrow> Some origin
      | Inr (_, Simple origin) \<Rightarrow> Some origin
      | _ \<Rightarrow> None)"

lemma preflight_lookup:
  "map_of (rev (hm_insert ACAO origin (append_preflight_headers c []))) ACAO = Some origin"
  "hm_insert ACAO origin (append_preflight_headers c []) \<noteq> []"
  by (simp_all add: append_preflight_headers_def Let_def split: option.splits)

section \<open>Properties\<close>

text \<open>C26: a preflight request is granted exactly when its origin is allowed, the method it asks for
  is present and allowed, and each header it lists is allowed.\<close>

theorem cors_preflight_iff:
  "granted_origin api c OPTIONS h = Some origin \<longleftrightarrow>
     hm_get h ORIGIN = Some origin \<and> is_origin_allowed c origin
     \<and> (case hm_get h ACRM of None \<Rightarrow> False | Some m \<Rightarrow> is_method_allowed api c m)
     \<and> (case hm_get h ACRH of
          None \<Rightarrow> True
        | Some v \<Rightarrow>
            (case hv_to_str api v of
               None \<Rightarrow> False
             | Some s \<Rightarrow> list_all (\<lambda>x. is_header_allowed api c (str_trim x)) (split_on (CHR '','') s)))"
  by (auto simp: granted_origin_def cors_check_request_def headers_loop_iff Let_def
      split: option.splits if_splits)


lemma keep_origins:
  "allow_headers api hs c = Inr c' \<Longrightarrow> origins c' = origins c"
  "expose_headers api hs c = Inr c' \<Longrightarrow> origins c' = origins c"
  "allow_methods api ms c = Inr c' \<Longrightarrow> origins c' = origins c"
  by (auto simp: allow_headers_def expose_headers_def allow_methods_def split: sum.splits)

lemma with_cors_Inr: "with_cors r f = Inr c' \<longleftrightarrow> (\<exists>c. r = Inr c \<and> f c = Inr c')"
  by (cases r) (auto simp: with_cors_def)

lemma cors_new_start:
  assumes "cors_new api origins_str ahs ehs = Inr (Some c)"
  shows "\<exists>c0. (if origins_str = ''*'' then Inr (allow_any_origin cors_new_empty)
      else allow_origins api (map str_trim (split_on (CHR '','') origins_str)) cors_new_empty) = Inr c0
    \<and> origins (cf_cors c) = origins c0"
proof -
  obtain c1 where "with_cors (with_cors (with_cors
        (if origins_str = ''*'' then Inr (allow_any_origin cors_new_empty)
         else allow_origins api (map str_trim (split_on (CHR '','') origins_str)) cors_new_empty)
        (allow_headers api (header_names_or_default ahs)))
        (expose_headers api (header_names_or_default ehs)))
        (allow_methods api [''GET'', ''HEAD'', ''OPTIONS'']) = Inr c1" "cf_cors c = c1"
    using assms unfolding cors_new_def cors_build_def Let_def
    by (auto simp del: split_on.simps split: if_splits sum.splits)
  then show ?thesis
    unfolding with_cors_Inr by (metis keep_origins)
qed

text \<open>When the configured origins are a list, a request's origin is allowed exactly when it is one
  of them; only \<open>*\<close> allows every (non-empty) origin.\<close>

theorem cors_new_origins:
  assumes "cors_new api origins_str ahs ehs = Inr (Some c)"
  shows "is_origin_allowed c origin \<longleftrightarrow> origin \<noteq> [] \<and>
     (origins_str = ''*'' \<or>
      (\<exists>host \<in> set (split_on (CHR '','') origins_str). into_origin api (str_trim host) = Inr origin))"
proof -
  let ?hosts = "map str_trim (split_on (CHR '','') origins_str)"
  show ?thesis
  proof (cases "origins_str = ''*''")
    case True
    then show ?thesis
      using cors_new_start [OF assms]
      by (auto simp: is_origin_allowed_def allow_any_origin_def)
  next
    case False
    then obtain os where os: "collect_results (into_origin api) ?hosts = Inr os"
      "origins (cf_cors c) = Some os"
      using cors_new_start [OF assms]
      by (auto simp: allow_origins_def cors_new_empty_def split: sum.splits)
    have eq: "Inr ` os = into_origin api ` set ?hosts"
      using collect_results_Inr [OF os(1)] .
    have "origin \<in> os \<longleftrightarrow> (Inr origin :: string abort + string) \<in> Inr ` os" by blast
    also have "\<dots> \<longleftrightarrow> (\<exists>host \<in> set (split_on (CHR '','') origins_str). into_origin api (str_trim host) = Inr origin)"
      unfolding eq by (force simp: image_iff)
    finally have "origin \<in> os \<longleftrightarrow>
      (\<exists>host \<in> set (split_on (CHR '','') origins_str). into_origin api (str_trim host) = Inr origin)" .
    with os(2) False show ?thesis by (auto simp: is_origin_allowed_def)
  qed
qed

section \<open>A sample configuration\<close>

text \<open>One configured origin, with the default headers.\<close>

definition sample_configured :: configured where
  "sample_configured =
    \<lparr>cf_cors = \<lparr>allowed_headers = {''origin'', ''content-type''}, exposed_headers = {''origin'', ''content-type''},
       max_age = None, allowed_methods = {GET, HEAD, OPTIONS}, origins = Some {''http://a.org''}\<rparr>,
     cf_allowed_headers = ''content-type, origin'', cf_exposed_headers = ''content-type, origin'',
     cf_methods_header = ''OPTIONS, HEAD, GET''\<rparr>"

lemma sample_cors_eval:
  "split_on (CHR '','') ''http://a.org'' = [''http://a.org'']"
  "str_trim ''http://a.org'' = ''http://a.org''"
  "visible ''http://a.org''"
  "split_once_str ''://'' ''http://a.org'' = Some (''http'', ''a.org'')"
  by code_simp+

lemma sample_configured_new:
  "cors_new sample_api ''http://a.org'' [] [] = Inr (Some sample_configured)"
  by (simp add: cors_new_def sample_cors_eval header_names_or_default_def with_cors_def allow_origins_def
      allow_headers_def expose_headers_def allow_methods_def into_origin_def header_name_def cors_new_empty_def
      cors_build_def sample_configured_def del: split_on.simps split_once_str.simps)

theorem cors_new_origins_witness:
  "is_origin_allowed sample_configured ''http://a.org''
   \<and> \<not> is_origin_allowed sample_configured ''http://b.org''"
  using cors_new_origins [OF sample_configured_new, of "''http://a.org''"]
    cors_new_origins [OF sample_configured_new, of "''http://b.org''"]
  by (simp add: sample_cors_eval into_origin_def del: split_on.simps split_once_str.simps)


end
