(* ===== verification/Basic_Auth.thy ===== *)
theory Basic_Auth
  imports Error_Pages
begin

text \<open>The \<^verbatim>\<open>Basic\<close> authorization scheme (\<^verbatim>\<open>src/basic_auth.rs\<close>); \<open>bcrypt_verify\<close> is the bcrypt crate's.\<close>

definition basic_auth_init :: "string \<Rightarrow> request_handler_opts \<Rightarrow> request_handler_opts" where
  "basic_auth_init credentials opts = opts\<lparr>o_basic_auth := str_trim credentials\<rparr>"

definition basic_check_request ::
  "api \<Rightarrow> header_map \<Rightarrow> string \<Rightarrow> string \<Rightarrow> (status, unit) result" where
  "basic_check_request api headers userid password =
     (case typed_authorization_basic api headers of
        None \<Rightarrow> Inl (Err UNAUTHORIZED)
      | Some (username, pw) \<Rightarrow>
          if username \<noteq> userid then Inl (Err UNAUTHORIZED)
          else (case bcrypt_verify api pw password of
                  Some valid \<Rightarrow> if valid then Inr () else Inl (Err UNAUTHORIZED)
                | None \<Rightarrow> Inl (Err UNAUTHORIZED)))"

definition REALM :: string where
  "REALM = ''Basic realm='' @ [CHR 0x22] @ ''Static Web Server'' @ [CHR 0x22] @ '', charset='' @ [CHR 0x22]
     @ ''UTF-8'' @ [CHR 0x22]"

definition basic_auth_pre_process ::
  "api \<Rightarrow> fs \<Rightarrow> request_handler_opts \<Rightarrow> request \<Rightarrow> handled option" where
  "basic_auth_pre_process api fs opts req =
     (if o_basic_auth opts = [] then None
      else if is_options (r_method req) then None
      else
        (case split_once (CHR '':'') (o_basic_auth opts) of
           Some (user_id, password) \<Rightarrow>
             (case basic_check_request api (r_headers req) user_id password of
                Inr _ \<Rightarrow> None
              | Inl err \<Rightarrow>
                  (case error_response api fs (r_uri req) (r_method req) UNAUTHORIZED
                          (o_page404 opts) (o_page50x opts) of
                     Inr resp \<Rightarrow> Some (Inr (insert_header WWW_AUTHENTICATE REALM resp))
                   | Inl e \<Rightarrow> Some (Inl e)))
         | None \<Rightarrow>
             Some (error_response api fs (r_uri req) (r_method req) INTERNAL_SERVER_ERROR
               (o_page404 opts) (o_page50x opts))))"

section \<open>Properties\<close>

text \<open>The credentials of a request are those of the configuration.\<close>

definition authorized :: "api \<Rightarrow> string \<Rightarrow> header_map \<Rightarrow> bool" where
  "authorized api cred headers \<longleftrightarrow>
     (\<exists>user hash pw. split_once (CHR '':'') cred = Some (user, hash)
        \<and> typed_authorization_basic api headers = Some (user, pw)
        \<and> bcrypt_verify api pw hash = Some True)"

lemma basic_check_request_eq:
  "basic_check_request api h user hash =
     (if \<exists>pw. typed_authorization_basic api h = Some (user, pw) \<and> bcrypt_verify api pw hash = Some True
      then Inr () else Inl (Err UNAUTHORIZED))"
  by (auto simp: basic_check_request_def split: option.splits)

lemma basic_auth_pre_process_eq:
  "basic_auth_pre_process api fs opts req =
     (if o_basic_auth opts = [] \<or> r_method req = OPTIONS
         \<or> authorized api (o_basic_auth opts) (r_headers req) then None
      else if split_once (CHR '':'') (o_basic_auth opts) = None then
        Some (Inr (page_response api (r_method req) INTERNAL_SERVER_ERROR
          (error_page_content api fs INTERNAL_SERVER_ERROR (o_page404 opts) (o_page50x opts))))
      else
        Some (Inr (insert_header WWW_AUTHENTICATE REALM
          (page_response api (r_method req) UNAUTHORIZED
            (error_page_content api fs UNAUTHORIZED (o_page404 opts) (o_page50x opts))))))"
proof (cases "o_basic_auth opts = [] \<or> r_method req = OPTIONS")
  case True
  then show ?thesis by (auto simp: basic_auth_pre_process_def is_options_def)
next
  case False
  show ?thesis
  proof (cases "split_once (CHR '':'') (o_basic_auth opts)")
    case None
    with False show ?thesis
      by (simp add: basic_auth_pre_process_def is_options_def authorized_def error_response_def del: split_once_None)
  next
    case (Some c)
    obtain user hash where c: "c = (user, hash)" by fastforce
    have "authorized api (o_basic_auth opts) (r_headers req) \<longleftrightarrow>
        basic_check_request api (r_headers req) user hash = Inr ()"
      by (simp add: authorized_def basic_check_request_eq Some c)
    with False Some c show ?thesis
      by (simp add: basic_auth_pre_process_def is_options_def error_response_def basic_check_request_eq)
  qed
qed

end
