(* ===== verification/Redirects.thy ===== *)
theory Redirects
  imports Error_Pages
begin

text \<open>
  URL redirects (\<^verbatim>\<open>src/redirects.rs\<close>) and rewrites (\<^verbatim>\<open>src/rewrites.rs\<close>). Matching and capturing are
  the regex crate's, substitution the aho-corasick crate's, parsing and building URIs the http
  crate's. A rewrite changes the request in place: the stage returns the request with its result.
\<close>

section \<open>redirects.rs\<close>

definition replace_placeholders :: "api \<Rightarrow> string \<Rightarrow> string \<Rightarrow> string \<Rightarrow> (string, string) result" where
  "replace_placeholders api orig_uri regex dest_uri =
     (case re_captures api regex orig_uri of
        None \<Rightarrow> Inl (Err ''regex didn't match, extracting captures failed'')
      | Some regex_caps \<Rightarrow>
          (let caps_range = [0..<length regex_caps];
               caps = map (\<lambda>i. case regex_caps ! i of Some s \<Rightarrow> s | None \<Rightarrow> []) caps_range;
               patterns = map (\<lambda>i. ''$'' @ nat_str i) caps_range
           in if \<not> ac_new api patterns then Inl (Err ''failed creating Aho-Corasick matcher'')
              else (case ac_try_replace_all api patterns dest_uri caps of
                      Some dest \<Rightarrow> Inr dest
                    | None \<Rightarrow> Inl (Err ''failed replacing captures''))))"

definition handle_error :: "api \<Rightarrow> fs \<Rightarrow> string abort \<Rightarrow> request_handler_opts \<Rightarrow> request \<Rightarrow> handled option" where
  "handle_error api fs err opts req =
     (case err of
        Panic msg \<Rightarrow> Some (Inl (Panic msg))
      | Err _ \<Rightarrow>
          Some (error_response api fs (r_uri req) (r_method req) INTERNAL_SERVER_ERROR
            (o_page404 opts) (o_page50x opts)))"

fun redirection_loop :: "api \<Rightarrow> string \<Rightarrow> string \<Rightarrow> redirects_entry list \<Rightarrow> redirects_entry option" where
  "redirection_loop api uri_host uri_path [] = None"
| "redirection_loop api uri_host uri_path (e # es) =
     (if (case rd_host e of None \<Rightarrow> False | Some host \<Rightarrow> host \<noteq> uri_host)
      then redirection_loop api uri_host uri_path es
      else if re_is_match api (rd_source e) uri_path then Some e
      else redirection_loop api uri_host uri_path es)"

definition get_redirection ::
  "api \<Rightarrow> string \<Rightarrow> string \<Rightarrow> redirects_entry list option \<Rightarrow> redirects_entry option" where
  "get_redirection api uri_host uri_path redirects_opts =
     (case redirects_opts of
        None \<Rightarrow> None
      | Some redirects_vec \<Rightarrow> redirection_loop api uri_host uri_path redirects_vec)"

definition request_host :: "api \<Rightarrow> request \<Rightarrow> string" where
  "request_host api req =
     (let u = r_uri req;
          host = (case Option.bind (hm_get (r_headers req) HOST) (hv_to_str api) of None \<Rightarrow> [] | Some h \<Rightarrow> h);
          uri_host = (case u_host u of None \<Rightarrow> host | Some h \<Rightarrow> h)
      in case u_port u of
           None \<Rightarrow> uri_host
         | Some uri_port \<Rightarrow> uri_host @ '':'' @ nat_str (unat uri_port))"

definition redirect_to :: "string \<Rightarrow> status \<Rightarrow> resp" where
  "redirect_to loc st = (insert_header LOCATION loc (new_response Empty_Body))\<lparr>resp_status := st\<rparr>"

definition redirects_pre_process ::
  "api \<Rightarrow> fs \<Rightarrow> request_handler_opts \<Rightarrow> request \<Rightarrow> handled option" where
  "redirects_pre_process api fs opts req =
     (case Option.bind (o_advanced_opts opts) adv_redirects of
        None \<Rightarrow> None
      | Some redirects \<Rightarrow>
          (let uri_path = u_path (r_uri req)
           in case get_redirection api (request_host api req) uri_path (Some redirects) of
                None \<Rightarrow> None
              | Some matched \<Rightarrow>
                  (case replace_placeholders api uri_path (rd_source matched) (rd_destination matched) of
                     Inl err \<Rightarrow> handle_error api fs err opts req
                   | Inr dest \<Rightarrow>
                       if hv_valid api dest then Some (Inr (redirect_to dest (rd_kind matched)))
                       else handle_error api fs (Err ''invalid header value from current uri'') opts req)))"

section \<open>rewrites.rs\<close>

fun rewrite_loop :: "api \<Rightarrow> string \<Rightarrow> rewrites_entry list \<Rightarrow> rewrites_entry option" where
  "rewrite_loop api uri_path [] = None"
| "rewrite_loop api uri_path (e # es) =
     (if re_is_match api (rw_source e) uri_path then Some e else rewrite_loop api uri_path es)"

definition rewrite_uri_path :: "api \<Rightarrow> string \<Rightarrow> rewrites_entry list option \<Rightarrow> rewrites_entry option" where
  "rewrite_uri_path api uri_path rewrites_opts =
     (case rewrites_opts of None \<Rightarrow> None | Some rewrites_vec \<Rightarrow> rewrite_loop api uri_path rewrites_vec)"

definition or_else :: "'a option \<Rightarrow> 'a option \<Rightarrow> 'a option" where
  "or_else a b = (case a of None \<Rightarrow> b | Some _ \<Rightarrow> a)"

definition merge_uris :: "api \<Rightarrow> uri \<Rightarrow> string \<Rightarrow> (string, uri) result" where
  "merge_uris api orig_uri new_uri =
     (case uri_parse api new_uri of
        None \<Rightarrow> Inl (Err ''invalid uri'')
      | Some parts \<Rightarrow>
          (let scheme = or_else (u_scheme parts) (u_scheme orig_uri);
               authority = or_else (u_authority parts) (u_authority orig_uri);
               path_and_query = or_else (u_path_and_query parts) (u_path_and_query orig_uri);
               with_query = (case path_and_query of
                   None \<Rightarrow> Some None
                 | Some pq \<Rightarrow>
                     (case (pq_query pq, u_query orig_uri) of
                        (None, Some q) \<Rightarrow> map_option Some (pq_parse api (pq_str pq @ ''?'' @ q))
                      | _ \<Rightarrow> Some (Some pq)))
           in case with_query of
                None \<Rightarrow> Inl (Err ''invalid path and query'')
              | Some pq \<Rightarrow>
                  (case uri_from_parts api scheme authority pq of
                     None \<Rightarrow> Inl (Err ''invalid uri parts'')
                   | Some u \<Rightarrow> Inr u)))"

definition adjust_host :: "api \<Rightarrow> request \<Rightarrow> request" where
  "adjust_host api req =
     (case u_host (r_uri req) of
        None \<Rightarrow> req
      | Some h \<Rightarrow>
          (let host = (case u_port (r_uri req) of None \<Rightarrow> h | Some port \<Rightarrow> h @ '':'' @ nat_str (unat port))
           in if hv_valid api host then req\<lparr>r_headers := hm_insert HOST host (r_headers req)\<rparr> else req))"

fun redirects_kind_status :: "redirects_kind \<Rightarrow> status" where
  "redirects_kind_status Permanent = MOVED_PERMANENTLY"
| "redirects_kind_status Temporary = FOUND"

definition rewrites_pre_process ::
  "api \<Rightarrow> fs \<Rightarrow> request_handler_opts \<Rightarrow> request \<Rightarrow> request \<times> handled option" where
  "rewrites_pre_process api fs opts req =
     (case Option.bind (o_advanced_opts opts) adv_rewrites of
        None \<Rightarrow> (req, None)
      | Some rewrites \<Rightarrow>
          (let uri_path = u_path (r_uri req)
           in case rewrite_uri_path api uri_path (Some rewrites) of
                None \<Rightarrow> (req, None)
              | Some matched \<Rightarrow>
                  (case replace_placeholders api uri_path (rw_source matched) (rw_destination matched) of
                     Inl err \<Rightarrow> (req, handle_error api fs err opts req)
                   | Inr dest \<Rightarrow>
                       (case rw_redirect matched of
                          Some redirect_type \<Rightarrow>
                            (req, if hv_valid api dest
                                  then Some (Inr (redirect_to dest (redirects_kind_status redirect_type)))
                                  else handle_error api fs (Err ''invalid header value from current uri'') opts req)
                        | None \<Rightarrow>
                            (case merge_uris api (r_uri req) dest of
                               Inl err \<Rightarrow> (req, handle_error api fs err opts req)
                             | Inr u \<Rightarrow> (adjust_host api (req\<lparr>r_uri := u\<rparr>), None))))))"

section \<open>Lemmas\<close>

lemma redirection_loop_find:
  "redirection_loop api h p es =
     List.find (\<lambda>e. (rd_host e = None \<or> rd_host e = Some h) \<and> re_is_match api (rd_source e) p) es"
  by (induction es) (auto split: option.splits)

lemma rewrite_loop_find: "rewrite_loop api p es = List.find (\<lambda>e. re_is_match api (rw_source e) p) es"
  by (induction es) auto

lemma replace_placeholders_no_panic: "replace_placeholders api u re d \<noteq> Inl (Panic msg)"
  by (simp add: replace_placeholders_def Let_def split: option.splits)

lemma merge_uris_no_panic: "merge_uris api u n \<noteq> Inl (Panic msg)"
  by (simp add: merge_uris_def Let_def split: option.splits)

section \<open>Properties\<close>

abbreviation error_500 :: "api \<Rightarrow> fs \<Rightarrow> request_handler_opts \<Rightarrow> request \<Rightarrow> resp" where
  "error_500 api fs opts req \<equiv> page_response api (r_method req) INTERNAL_SERVER_ERROR
     (error_page_content api fs INTERNAL_SERVER_ERROR (o_page404 opts) (o_page50x opts))"

text \<open>The redirect taken is the first rule whose host, if it has one, is the request's and whose
  pattern matches the path; the response has the rule's status and the destination with its
  placeholders replaced, or is a 500 page when that cannot be built; no rule, no redirect.\<close>

theorem redirect_first_match:
  assumes "Option.bind (o_advanced_opts opts) adv_redirects = Some rules"
  shows "redirects_pre_process api fs opts req =
    (case List.find (\<lambda>e. (rd_host e = None \<or> rd_host e = Some (request_host api req))
                        \<and> re_is_match api (rd_source e) (u_path (r_uri req))) rules of
       None \<Rightarrow> None
     | Some e \<Rightarrow> Some (Inr (
         case replace_placeholders api (u_path (r_uri req)) (rd_source e) (rd_destination e) of
           Inr dest \<Rightarrow> if hv_valid api dest then redirect_to dest (rd_kind e) else error_500 api fs opts req
         | Inl _ \<Rightarrow> error_500 api fs opts req)))"
  using assms replace_placeholders_no_panic
  by (auto simp: redirects_pre_process_def get_redirection_def redirection_loop_find handle_error_def
      error_response_def split: option.splits sum.splits abort.splits)

theorem redirect_first_match_witness:
  "redirects_pre_process sample_api hello_fs
     (default_handler_opts\<lparr>o_advanced_opts := Some \<lparr>adv_headers = None, adv_rewrites = None,
        adv_redirects = Some
          [\<lparr>rd_host = Some ''a.org'', rd_source = ''/old'', rd_destination = ''/x'', rd_kind = 302\<rparr>,
           \<lparr>rd_host = None, rd_source = ''/old'', rd_destination = ''/new'', rd_kind = 301\<rparr>],
        adv_virtual_hosts = None, adv_memory_cache = None\<rparr>\<rparr>)
     (sample_request GET ''/old'' [(HOST, ''b.org'')]) = Some (Inr (redirect_to ''/new'' 301))"
proof -
  let ?o = "default_handler_opts\<lparr>o_advanced_opts := Some \<lparr>adv_headers = None, adv_rewrites = None,
        adv_redirects = Some
          [\<lparr>rd_host = Some ''a.org'', rd_source = ''/old'', rd_destination = ''/x'', rd_kind = 302\<rparr>,
           \<lparr>rd_host = None, rd_source = ''/old'', rd_destination = ''/new'', rd_kind = 301\<rparr>],
        adv_virtual_hosts = None, adv_memory_cache = None\<rparr>\<rparr>"
  have "visible ''/new''" "visible ''b.org''" by code_simp+
  then show ?thesis
    using redirect_first_match [of ?o _ sample_api hello_fs "sample_request GET ''/old'' [(HOST, ''b.org'')]"]
    by (simp add: sample_request_def sample_uri_def request_host_def replace_placeholders_def)
qed


end
