(* ===== verification/Handler.thy ===== *)
theory Handler
  imports Static_Files Header_Stages Cors Basic_Auth Redirects
begin

text \<open>
  The request handler (\<^verbatim>\<open>RequestHandler::handle\<close> of \<^verbatim>\<open>src/handler.rs\<close>): the stages that may answer a request
  before a file is looked for, the static file handler, and the stages that finish the response, in
  the order of the code. A rewrite changes the request for all stages after it.
\<close>

section \<open>handler.rs\<close>

definition real_root :: "api \<Rightarrow> request_handler_opts \<Rightarrow> request \<Rightarrow> path" where
  "real_root api opts req =
     (case o_advanced_opts opts of
        None \<Rightarrow> o_root_dir opts
      | Some advanced \<Rightarrow>
          (case get_real_root api req (adv_virtual_hosts advanced) of
             Some root \<Rightarrow> root
           | None \<Rightarrow> o_root_dir opts))"

definition static_opts :: "request_handler_opts \<Rightarrow> path \<Rightarrow> request \<Rightarrow> handle_opts" where
  "static_opts opts base_path req =
    \<lparr>ho_method = r_method req,
     ho_memory_cache = o_memory_cache opts,
     ho_headers = r_headers req,
     ho_base_path = base_path,
     ho_uri_path = u_path (r_uri req),
     ho_index_files = o_index_files opts,
     ho_uri_query = u_query (r_uri req),
     ho_dir_listing = o_dir_listing opts,
     ho_dir_listing_order = o_dir_listing_order opts,
     ho_dir_listing_format = o_dir_listing_format opts,
     ho_redirect_trailing_slash = o_redirect_trailing_slash opts,
     ho_compression_static = o_compression_static opts,
     ho_ignore_hidden_files = o_ignore_hidden_files opts,
     ho_disable_symlinks = o_disable_symlinks opts\<rparr>"

definition static_stage ::
  "api \<Rightarrow> fs \<Rightarrow> store \<Rightarrow> request_handler_opts \<Rightarrow> request \<Rightarrow> (string, resp \<times> path option) result" where
  "static_stage api fs store opts req =
     (case static_handle api fs store (static_opts opts (real_root api opts req) req) of
        Inr r \<Rightarrow> Inr (sfr_resp r, Some (sfr_file_path r))
      | Inl (Panic msg) \<Rightarrow> Inl (Panic msg)
      | Inl (Err status) \<Rightarrow>
          (case error_response api fs (r_uri req) (r_method req) status (o_page404 opts) (o_page50x opts) of
             Inl e \<Rightarrow> Inl e
           | Inr resp \<Rightarrow> Inr (resp, None)))"

definition post_stages ::
  "api \<Rightarrow> fs \<Rightarrow> path option \<Rightarrow> request_handler_opts \<Rightarrow> request \<Rightarrow> resp \<Rightarrow> handled" where
  "post_stages api fs file_path =
     then_stage (fallback_post_process api)
       (then_stage (cors_post_process api)
         (then_stage compression_static_post_process
           (then_stage (compression_post_process api fs)
             (then_stage control_post_process
               (then_stage security_post_process
                 (custom_post_process api file_path))))))"

definition handle :: "api \<Rightarrow> fs \<Rightarrow> store \<Rightarrow> request_handler_opts \<Rightarrow> request \<Rightarrow> handled" where
  "handle api fs store opts req =
     (if \<not> is_allowed (r_method req) then
        error_response api fs (r_uri req) (r_method req) METHOD_NOT_ALLOWED (o_page404 opts) (o_page50x opts)
      else case health_pre_process opts req of Some result \<Rightarrow> result | None \<Rightarrow>
      (case metrics_pre_process api opts req of Some result \<Rightarrow> result | None \<Rightarrow>
      (case cors_pre_process api fs opts req of Some result \<Rightarrow> result | None \<Rightarrow>
      (case basic_auth_pre_process api fs opts req of Some response \<Rightarrow> response | None \<Rightarrow>
      (case maintenance_pre_process api fs opts req of Some response \<Rightarrow> response | None \<Rightarrow>
      (case redirects_pre_process api fs opts req of Some result \<Rightarrow> result | None \<Rightarrow>
      (case rewrites_pre_process api fs opts req of (_, Some result) \<Rightarrow> result | (req, None) \<Rightarrow>
      (case static_stage api fs store opts req of
         Inl e \<Rightarrow> Inl e
       | Inr (resp, file_path) \<Rightarrow> post_stages api fs file_path opts req resp))))))))"

section \<open>The stages before the file\<close>

text \<open>A stage that answers at all answers with a response.\<close>

lemma handle_error_ok: "handle_error api fs (Err e) opts req = Some h \<Longrightarrow> \<exists>r. h = Inr r"
  by (simp add: handle_error_def error_response_def) blast

lemma pre_stage_ok:
  "health_pre_process opts req = Some h \<Longrightarrow> \<exists>r. h = Inr r"
  "metrics_pre_process api opts req = Some h \<Longrightarrow> \<exists>r. h = Inr r"
  "cors_pre_process api fs opts req = Some h \<Longrightarrow> \<exists>r. h = Inr r"
  "basic_auth_pre_process api fs opts req = Some h \<Longrightarrow> \<exists>r. h = Inr r"
  "maintenance_pre_process api fs opts req = Some h \<Longrightarrow> \<exists>r. h = Inr r"
  by (auto simp: health_pre_process_def metrics_pre_process_def cors_pre_process_def
      basic_auth_pre_process_def maintenance_pre_process_def maintenance_get_response_def
      error_response_def Let_def split: if_splits http_method.splits option.splits sum.splits prod.splits)

lemma redirects_ok: "redirects_pre_process api fs opts req = Some h \<Longrightarrow> \<exists>r. h = Inr r"
  using replace_placeholders_no_panic
  by (auto simp: redirects_pre_process_def handle_error_def error_response_def Let_def
      split: option.splits sum.splits abort.splits if_splits)

lemma rewrites_ok: "rewrites_pre_process api fs opts req = (q, Some h) \<Longrightarrow> \<exists>r. h = Inr r"
  using replace_placeholders_no_panic merge_uris_no_panic
  by (auto simp: rewrites_pre_process_def handle_error_def error_response_def Let_def
      split: option.splits sum.splits abort.splits if_splits)

section \<open>The stages after the file\<close>

interpretation security_custom: two_stages security_post_process "\<lambda>_ _. security_names"
    "custom_post_process api fp" "\<lambda>opts req. fst ` set (custom_pairs api fp opts req)" for api fp
  by unfold_locales

interpretation security_custom_stage: response_stage
    "then_stage security_post_process (custom_post_process api fp)"
    "\<lambda>opts req. security_names \<union> fst ` set (custom_pairs api fp opts req)" for api fp
  by (rule security_custom.then_stage)

interpretation last_stages: two_stages control_post_process "\<lambda>_ _. {CACHE_CONTROL}"
    "then_stage security_post_process (custom_post_process api fp)"
    "\<lambda>opts req. security_names \<union> fst ` set (custom_pairs api fp opts req)" for api fp
  by unfold_locales

interpretation last_stage: response_stage
    "then_stage control_post_process (then_stage security_post_process (custom_post_process api fp))"
    "\<lambda>opts req. {CACHE_CONTROL} \<union> (security_names \<union> fst ` set (custom_pairs api fp opts req))" for api fp
  by (rule last_stages.then_stage)

lemma compression_keeps:
  "\<exists>r'. compression_post_process api fs opts req r = Inr r' \<and> resp_status r' = resp_status r
     \<and> (resp_body r' = resp_body r \<or> (\<exists>c l. resp_body r' = Encoded_Body c l (resp_body r)))
     \<and> (\<forall>n. n \<notin> {VARY, CONTENT_ENCODING, CONTENT_LENGTH} \<longrightarrow> header r' n = header r n)"
proof -
  let ?r = "insert_header VARY ACCEPT_ENCODING r"
  show ?thesis
    using auto_compress_cases [of api "r_method req" "r_headers req" "o_compression_level opts" ?r]
    by (cases "o_compression opts"; cases "header r CONTENT_ENCODING")
      (auto simp: compression_post_process_def Let_def)
qed

definition stage_names :: "api \<Rightarrow> path option \<Rightarrow> request_handler_opts \<Rightarrow> request \<Rightarrow> string set" where
  "stage_names api fp opts req =
     cors_names \<union> {VARY, CONTENT_ENCODING, CONTENT_LENGTH, CACHE_CONTROL} \<union> security_names
       \<union> fst ` set (custom_pairs api fp opts req)"

text \<open>The response the last stages start from: the fallback page in place of a 404.\<close>

definition after_fallback :: "api \<Rightarrow> request_handler_opts \<Rightarrow> request \<Rightarrow> resp \<Rightarrow> resp" where
  "after_fallback api opts req r = projr (fallback_post_process api opts req r)"

lemma post_stages_steps:
  obtains r1 r2 r3 r4 where
    "cors_post_process api opts req (after_fallback api opts req r) = Inr r1"
    "compression_static_post_process opts req r1 = Inr r2"
    "compression_post_process api fs opts req r2 = Inr r3"
    "then_stage control_post_process (then_stage security_post_process (custom_post_process api fp)) opts req r3 = Inr r4"
    "post_stages api fs fp opts req r = Inr r4"
proof -
  let ?r0 = "after_fallback api opts req r"
  have f: "fallback_post_process api opts req r = Inr ?r0"
    by (simp add: after_fallback_def fallback_post_process_def)
  obtain r1 where r1: "cors_post_process api opts req ?r0 = Inr r1"
    using cors_stage.total by blast
  obtain r2 where r2: "compression_static_post_process opts req r1 = Inr r2"
    using static_vary.total by blast
  obtain r3 where r3: "compression_post_process api fs opts req r2 = Inr r3"
    using compression_keeps [of api fs opts req r2] by blast
  obtain r4 where r4: "then_stage control_post_process
      (then_stage security_post_process (custom_post_process api fp)) opts req r3 = Inr r4"
    using last_stage.total by blast
  have "post_stages api fs fp opts req r = Inr r4"
    using r4 by (simp add: post_stages_def then_stage_def [of "fallback_post_process api"]
        then_stage_def [of "cors_post_process api"] then_stage_def [of compression_static_post_process]
        then_stage_def [of "compression_post_process api fs"] f r1 r2 r3)
  with that r1 r2 r3 r4 show thesis by blast
qed

lemma post_stages_keep:
  assumes r0_def: "r0 = after_fallback api opts req r"
  shows "\<exists>r'. post_stages api fs fp opts req r = Inr r' \<and> resp_status r' = resp_status r0
     \<and> (resp_body r' = resp_body r0 \<or> (\<exists>c l. resp_body r' = Encoded_Body c l (resp_body r0)))
     \<and> {n. header r' n \<noteq> header r0 n} \<subseteq> stage_names api fp opts req"
proof -
  obtain r1 r2 r3 r4 where r1: "cors_post_process api opts req r0 = Inr r1"
    and r2: "compression_static_post_process opts req r1 = Inr r2"
    and c: "compression_post_process api fs opts req r2 = Inr r3"
    and r4: "then_stage control_post_process
      (then_stage security_post_process (custom_post_process api fp)) opts req r3 = Inr r4"
    and post: "post_stages api fs fp opts req r = Inr r4"
    unfolding r0_def by (rule post_stages_steps)
  have r3: "resp_status r3 = resp_status r2"
    "resp_body r3 = resp_body r2 \<or> (\<exists>c l. resp_body r3 = Encoded_Body c l (resp_body r2))"
    "\<And>n. n \<notin> {VARY, CONTENT_ENCODING, CONTENT_LENGTH} \<Longrightarrow> header r3 n = header r2 n"
    using compression_keeps [of api fs opts req r2] c by auto
  have "header r4 n = header r0 n" if "n \<notin> stage_names api fp opts req" for n
    using that last_stage.keeps(3) [OF r4, of n] r3(3) [of n] static_vary.keeps(3) [OF r2, of n]
      cors_stage.keeps(3) [OF r1, of n] by (auto simp: stage_names_def)
  with post show ?thesis
    using last_stage.keeps(1,2) [OF r4] r3(1,2) static_vary.keeps(1,2) [OF r2] cors_stage.keeps(1,2) [OF r1]
    by auto
qed

section \<open>What the handler looks at\<close>

definition served_roots :: "request_handler_opts \<Rightarrow> path set" where
  "served_roots opts = insert (o_root_dir opts)
     (case o_advanced_opts opts of
        None \<Rightarrow> {}
      | Some adv \<Rightarrow> (case adv_virtual_hosts adv of None \<Rightarrow> {} | Some vs \<Rightarrow> vh_root ` set vs))"

text \<open>The paths of the configured roots and the pages named in the configuration.\<close>

definition readable :: "request_handler_opts \<Rightarrow> path \<Rightarrow> bool" where
  "readable opts p \<longleftrightarrow> (\<exists>b \<in> served_roots opts. under b p \<or> beside b p)
     \<or> p \<in> {o_page404 opts, o_page50x opts, o_maintenance_mode_file opts}"

lemma real_root_served: "real_root api opts req \<in> served_roots opts"
  by (auto simp: real_root_def served_roots_def get_real_root_def vhost_loop_eq
      dest!: find_SomeD split: option.splits)

lemma fs_agree_mono: "fs_agree area fs1 fs2 \<Longrightarrow> (\<And>p. area' p \<Longrightarrow> area p) \<Longrightarrow> fs_agree area' fs1 fs2"
  by (simp add: fs_agree_def)

lemma page_agree: "fs_agree area fs1 fs2 \<Longrightarrow> area p \<Longrightarrow>
    is_file fs1 p = is_file fs2 p \<and> read_bytes_default fs1 p = read_bytes_default fs2 p"
  by (simp add: fs_agree_def is_file_def read_bytes_default_def fs_read_def)

lemma error_response_agree:
  assumes "fs_agree (readable opts) fs1 fs2"
  shows "error_response api fs1 u m st (o_page404 opts) (o_page50x opts)
    = error_response api fs2 u m st (o_page404 opts) (o_page50x opts)"
  using page_agree [OF assms, of "o_page404 opts"] page_agree [OF assms, of "o_page50x opts"]
  by (simp add: error_response_def error_page_content_def page_content_of_def readable_def Let_def)

lemma pre_stages_agree:
  assumes "fs_agree (readable opts) fs1 fs2"
  shows "cors_pre_process api fs1 opts req = cors_pre_process api fs2 opts req"
    and "basic_auth_pre_process api fs1 opts req = basic_auth_pre_process api fs2 opts req"
    and "maintenance_pre_process api fs1 opts req = maintenance_pre_process api fs2 opts req"
    and "redirects_pre_process api fs1 opts req = redirects_pre_process api fs2 opts req"
    and "rewrites_pre_process api fs1 opts req = rewrites_pre_process api fs2 opts req"
    and "compression_post_process api fs1 opts req = compression_post_process api fs2 opts req"
proof -
  note page = error_response_agree [OF assms]
  have err: "handle_error api fs1 e opts q = handle_error api fs2 e opts q" for e q
    unfolding handle_error_def page ..
  show "redirects_pre_process api fs1 opts req = redirects_pre_process api fs2 opts req"
    unfolding redirects_pre_process_def err ..
  show "rewrites_pre_process api fs1 opts req = rewrites_pre_process api fs2 opts req"
    unfolding rewrites_pre_process_def err ..
  show "cors_pre_process api fs1 opts req = cors_pre_process api fs2 opts req"
    unfolding cors_pre_process_def page ..
  show "basic_auth_pre_process api fs1 opts req = basic_auth_pre_process api fs2 opts req"
    unfolding basic_auth_pre_process_def page ..
  show "compression_post_process api fs1 opts req = compression_post_process api fs2 opts req"
    unfolding compression_post_process_def fun_eq_iff page by simp
  show "maintenance_pre_process api fs1 opts req = maintenance_pre_process api fs2 opts req"
    using page_agree [OF assms, of "o_maintenance_mode_file opts"]
    by (simp add: maintenance_pre_process_def maintenance_get_response_def readable_def)
qed

lemma static_stage_agree:
  assumes "fs_agree (readable opts) fs1 fs2" "list_all plain_name (o_index_files opts)"
  shows "static_stage api fs1 store opts req = static_stage api fs2 store opts req"
proof -
  let ?b = "real_root api opts req"
  have "fs_agree (\<lambda>p. under ?b p \<or> beside ?b p) fs1 fs2"
    using assms(1) by (rule fs_agree_mono) (use real_root_served in \<open>auto simp: readable_def\<close>)
  then have "static_handle api fs1 store (static_opts opts ?b req)
      = static_handle api fs2 store (static_opts opts ?b req)"
    by (rule at_base.handle_agree) (auto simp: static_opts_def assms(2) dest: under_sanitize)
  then show ?thesis
    unfolding static_stage_def error_response_agree [OF assms(1)] by simp
qed

lemma handle_answers:
  assumes "inclusive_ranges api" "o_memory_cache opts \<noteq> None \<Longrightarrow> store \<noteq> None"
  shows "\<exists>r. handle api fs store opts req = Inr r"
proof -
  have "\<exists>r fp. static_stage api fs store opts q = Inr (r, fp)" for q
    using static_handle_outcome [OF assms(1), of "static_opts opts (real_root api opts q) q" store fs] assms(2)
    by (auto simp: static_stage_def static_opts_def error_response_def split: sum.splits)
  moreover have "\<exists>r'. post_stages api fs fp opts q r = Inr r'" for fp q r
    using post_stages_keep [OF refl] by blast
  ultimately have "\<exists>r'. (case static_stage api fs store opts q of Inl e \<Rightarrow> Inl e
      | Inr (resp, fp) \<Rightarrow> post_stages api fs fp opts q resp) = Inr r'" for q
    by (metis (no_types, lifting) case_prod_conv sum.case(2))
  then show ?thesis
    using pre_stage_ok redirects_ok rewrites_ok
    by (auto simp: handle_def error_response_def split: option.splits prod.splits)
qed

section \<open>Properties\<close>


text \<open>C2: the response depends on nothing but the files of the configured roots and virtual hosts, with their
  siblings named by a suffix, and the error and maintenance pages named in the configuration.\<close>

theorem handle_confined:
  assumes "fs_agree (readable opts) fs1 fs2" "list_all plain_name (o_index_files opts)"
  shows "handle api fs1 store opts req = handle api fs2 store opts req"
proof -
  have post: "post_stages api fs1 fp opts q r = post_stages api fs2 fp opts q r" for fp q r
    unfolding post_stages_def then_stage_def pre_stages_agree [OF assms(1)] ..
  show ?thesis
    unfolding handle_def error_response_agree [OF assms(1)] pre_stages_agree [OF assms(1)]
      static_stage_agree [OF assms] post ..
qed



section \<open>Witnesses\<close>

lemma sample_inclusive: "inclusive_ranges sample_api"
  by (auto simp: inclusive_ranges_def split: option.splits if_splits)


theorem handle_confined_witness:
  "handle sample_api (sample_fs ((''/etc/passwd'', Node_File ''root'') # site)) None
      (default_handler_opts\<lparr>o_root_dir := ''/srv/w''\<rparr>) (sample_request GET ''/../../etc/passwd'' [])
   = handle sample_api (sample_fs site) None
      (default_handler_opts\<lparr>o_root_dir := ''/srv/w''\<rparr>) (sample_request GET ''/../../etc/passwd'' [])"
proof (rule handle_confined)
  let ?o = "default_handler_opts\<lparr>o_root_dir := ''/srv/w''\<rparr>"
  have "\<not> readable ?o ''/etc/passwd''"
    by (auto simp: readable_def served_roots_def default_handler_opts_def under_def beside_def sample_paths)
  then show "fs_agree (readable ?o) (sample_fs ((''/etc/passwd'', Node_File ''root'') # site)) (sample_fs site)"
    by (auto simp: fs_agree_def sample_fs_def)
  show "list_all plain_name (o_index_files ?o)"
    by (simp add: default_handler_opts_def sample_paths)
qed


end
