(* ===== verification/Stage_Relations.thy ===== *)
theory Stage_Relations
  imports Handler
begin

text \<open>
  Comparing two runs of the request handler. A stage carries a relation \<open>R\<close> between the responses it is given
  into a relation \<open>S\<close> between those it returns, for requests related by \<open>Q\<close>; stages that do so compose, and so
  do the stages that may answer by themselves. The theories that compare HEAD with GET and a filled with an
  empty cache instantiate the relations.
\<close>

named_theorems carries_intros \<comment> \<open>stages that carry a relation, and their composition\<close>

abbreviation rel_handled :: "('a \<Rightarrow> 'b \<Rightarrow> bool) \<Rightarrow> ('e, 'a) result \<Rightarrow> ('e, 'b) result \<Rightarrow> bool" where
  "rel_handled R \<equiv> rel_sum (=) R"

definition carries ::
  "('q \<Rightarrow> 'q \<Rightarrow> bool) \<Rightarrow> ('r \<Rightarrow> 'r \<Rightarrow> bool) \<Rightarrow> ('r \<Rightarrow> 'r \<Rightarrow> bool) \<Rightarrow> 'o
     \<Rightarrow> ('o \<Rightarrow> 'q \<Rightarrow> 'r \<Rightarrow> ('e, 'r) result) \<Rightarrow> bool" where
  "carries Q R S opts stage \<longleftrightarrow>
     (\<forall>q1 q2 r1 r2. Q q1 q2 \<longrightarrow> R r1 r2 \<longrightarrow> rel_handled S (stage opts q1 r1) (stage opts q2 r2))"

lemma carriesI:
  "(\<And>q1 q2 r1 r2. Q q1 q2 \<Longrightarrow> R r1 r2 \<Longrightarrow> rel_handled S (stage opts q1 r1) (stage opts q2 r2)) \<Longrightarrow>
     carries Q R S opts stage"
  by (simp add: carries_def)

lemma carriesD:
  "carries Q R S opts stage \<Longrightarrow> Q q1 q2 \<Longrightarrow> R r1 r2 \<Longrightarrow> rel_handled S (stage opts q1 r1) (stage opts q2 r2)"
  by (simp add: carries_def)

lemma carries_then [carries_intros]:
  assumes "carries Q R S opts a" "carries Q S T opts b"
  shows "carries Q R T opts (then_stage a b)"
proof (rule carriesI)
  fix q1 q2 r1 r2
  assume "Q q1 q2" "R r1 r2"
  with carriesD [OF assms(1)] have "rel_handled S (a opts q1 r1) (a opts q2 r2)" .
  then show "rel_handled T (then_stage a b opts q1 r1) (then_stage a b opts q2 r2)"
    using carriesD [OF assms(2) \<open>Q q1 q2\<close>] by cases (auto simp: then_stage_def)
qed

text \<open>A stage that may answer, in front of the rest.\<close>

lemma rel_answer:
  assumes "rel_option S a b" "S x y"
  shows "S (case a of Some r \<Rightarrow> r | None \<Rightarrow> x) (case b of Some r \<Rightarrow> r | None \<Rightarrow> y)"
  using assms by cases auto

lemma rel_answer_req:
  assumes "rel_prod Q (rel_option S) a b" "\<And>q1 q2. Q q1 q2 \<Longrightarrow> S (f q1) (g q2)"
  shows "S (case a of (_, Some r) \<Rightarrow> r | (q, None) \<Rightarrow> f q) (case b of (_, Some r) \<Rightarrow> r | (q, None) \<Rightarrow> g q)"
proof -
  obtain q1 o1 q2 o2 where "a = (q1, o1)" "b = (q2, o2)" by (cases a, cases b) auto
  with assms show ?thesis by (cases o1; cases o2) auto
qed

lemma rel_handled_refl: "(\<And>x. R x x) \<Longrightarrow> rel_handled R r r"
  by (cases r) auto

lemma rel_option_refl': "(\<And>x. R x x) \<Longrightarrow> rel_option R a a"
  by (cases a) auto

end
