(* ===== verification/Cache_Run.thy ===== *)
theory Cache_Run
  imports File_Response
begin

text \<open>
  Runs of the server with the in-memory cache over a file system that does not change: responses
  are started, their bodies polled in any order or dropped by the client, and entries evicted
  by the cache library. The invariant says that the store only ever holds complete copies.
\<close>

record cache_state =
  cs_store :: store
  cs_streams :: "file_take mem_cache_file_stream list"

text \<open>What happens to the bodies under way and to the store between requests.\<close>

inductive body_step :: "api \<Rightarrow> cache_state \<Rightarrow> cache_state \<Rightarrow> bool" for api where
  poll: "i < length (cs_streams st) \<Longrightarrow>
      mem_poll_next api file_take_read (cs_store st) (cs_streams st ! i) = Inr (item, s', store') \<Longrightarrow>
      body_step api st (st\<lparr>cs_store := store', cs_streams := (cs_streams st)[i := s']\<rparr>)"
| drop_stream: "i < length (cs_streams st) \<Longrightarrow>
      body_step api st (st\<lparr>cs_streams := take i (cs_streams st) @ drop (Suc i) (cs_streams st)\<rparr>)"
| evict: "cs_store st = Some entries \<Longrightarrow>
      body_step api st (st\<lparr>cs_store := Some (entries(k := None))\<rparr>)"

inductive cache_step :: "api \<Rightarrow> fs \<Rightarrow> mem_cache_opts \<Rightarrow> cache_state \<Rightarrow> cache_state \<Rightarrow> bool"
  for api fs opts where
  serve: "fs_open fs path = Inr file \<Longrightarrow> fs_metadata fs path = Inr meta \<Longrightarrow>
      response_body api file path meta conds (Some opts) = Inr resp \<Longrightarrow>
      resp_body resp = Caching_Body s \<Longrightarrow>
      cache_step api fs opts st (st\<lparr>cs_streams := s # cs_streams st\<rparr>)"
| body: "body_step api st st' \<Longrightarrow> cache_step api fs opts st st'"

inductive cache_reach :: "api \<Rightarrow> fs \<Rightarrow> mem_cache_opts \<Rightarrow> cache_state \<Rightarrow> bool" for api fs opts where
  start: "cache_reach api fs opts \<lparr>cs_store = Some Map.empty, cs_streams = []\<rparr>"
| step: "cache_reach api fs opts st \<Longrightarrow> cache_step api fs opts st st' \<Longrightarrow> cache_reach api fs opts st'"

section \<open>The invariant\<close>

text \<open>Files that can be read have the size their metadata tells.\<close>

definition steady :: "fs \<Rightarrow> bool" where
  "steady fs \<longleftrightarrow> (\<forall>p file meta. fs_open fs p = Inr file \<longrightarrow> fs_metadata fs p = Inr meta \<longrightarrow>
     f_read_err file = None \<longrightarrow> unat (m_len meta) = length (f_data file))"

definition complete_entry :: "api \<Rightarrow> fs \<Rightarrow> string \<Rightarrow> mem_file \<Rightarrow> bool" where
  "complete_entry api fs p mf \<longleftrightarrow> (\<exists>file meta. fs_open fs p = Inr file \<and> fs_metadata fs p = Inr meta
     \<and> sound_file file meta \<and> mf = entry_of api file p meta)"

definition store_ok :: "api \<Rightarrow> fs \<Rightarrow> store \<Rightarrow> bool" where
  "store_ok api fs store \<longleftrightarrow>
     (\<exists>entries. store = Some entries \<and> (\<forall>p mf. entries p = Some mf \<longrightarrow> complete_entry api fs p mf))"

definition left :: "file_take \<Rightarrow> bytes" where
  "left r = (case r of (((_, rest), buf), limit) \<Rightarrow> take limit (buf @ rest))"

definition read_err :: "file_take \<Rightarrow> io_error option" where
  "read_err r = fst (fst (fst r))"

definition broken :: "file_take \<Rightarrow> bool" where
  "broken r \<longleftrightarrow> read_err r \<noteq> None \<and> snd (fst r) = []"

text \<open>
  A stream that still fills its buffer reads a stretch of its file, and the buffer has
  room for all of the file; or its file cannot be read, and it never gets a byte.
\<close>

definition filling :: "api \<Rightarrow> fs \<Rightarrow> file_take mem_cache_file_stream \<Rightarrow> mem_file_temp_opts \<Rightarrow> bytes \<Rightarrow> nat \<Rightarrow> bool"
where
  "filling api fs s mo data cap \<longleftrightarrow>
     (\<exists>file meta a. fs_open fs (mo_file_path mo) = Inr file
        \<and> fs_metadata fs (mo_file_path mo) = Inr meta
        \<and> mo_content_type mo = mime_from_path api (mo_file_path mo)
        \<and> mo_last_modified mo = file_modified api meta
        \<and> fst_buf_size s = unat (optimal_buf_size meta)
        \<and> unat (m_len meta) \<le> cap
        \<and> (broken (fst_reader s)
           \<or> f_read_err file = None \<and> read_err (fst_reader s) = None
             \<and> (\<exists>n. data @ left (fst_reader s) = take n (drop a (f_data file)))))"

definition stream_ok :: "api \<Rightarrow> fs \<Rightarrow> file_take mem_cache_file_stream \<Rightarrow> bool" where
  "stream_ok api fs s \<longleftrightarrow>
     (\<forall>mo data cap. mem_opts s = Some mo \<longrightarrow> mem_buf s = Some (data, cap) \<longrightarrow> filling api fs s mo data cap)"

definition cache_inv :: "api \<Rightarrow> fs \<Rightarrow> cache_state \<Rightarrow> bool" where
  "cache_inv api fs st \<longleftrightarrow> store_ok api fs (cs_store st) \<and> (\<forall>s \<in> set (cs_streams st). stream_ok api fs s)"

lemma left_eq: "left r = (case r of (r, limit) \<Rightarrow> take limit (case r of (r, buf) \<Rightarrow> buf @ snd r))"
  by (auto simp: left_def split: prod.splits)

lemma file_take_cases:
  obtains err rest buf limit where "(r :: file_take) = (((err, rest), buf), limit)"
  by (metis prod.exhaust)

lemma file_take_read_left:
  assumes "file_take_read r n = Inr (bs, r')" "read_err r = None"
  shows "left r = bs @ left r'" "read_err r' = None"
proof -
  obtain rest buf limit where r: "r = (((None, rest), buf), limit)"
    using assms(2) by (cases r rule: file_take_cases) (simp add: read_err_def)
  show "left r = bs @ left r'" "read_err r' = None"
    using file_take.read_ok [of r n] assms(1)
    by (auto simp: left_eq read_err_def r simp del: take_read.simps buf_read.simps
        split: prod.splits)
qed

lemma file_take_read_broken:
  assumes "file_take_read r n = Inr (bs, r')" "broken r"
  shows "bs = []" "broken r'"
proof -
  obtain e rest limit where r: "r = (((Some e, rest), []), limit)"
    using assms(2) by (cases r rule: file_take_cases) (auto simp: broken_def read_err_def)
  show "bs = []" "broken r'"
    using assms by (auto simp: r broken_def split: if_splits)
qed

text \<open>A new stream is in order, whatever the range of the request.\<close>

lemma response_body_stream:
  assumes "response_body api file path meta conds mc = Inr resp"
  shows "resp_body resp = Empty_Body \<or> (\<exists>a n. resp_body resp = file_body api
      \<lparr>fst_reader = (((f_read_err file, drop a (f_data file)), []), n),
       fst_buf_size = unat (optimal_buf_size meta)\<rparr>
      path (m_len meta) (mime_from_path api path) (file_modified api meta) mc)"
  using assms
  by (auto simp: response_body_def Let_def content_reply_def conditionals_check_def
      split: if_splits sum.splits abort.splits bad_range_error.splits option.splits) blast+

lemma stream_ok_serve:
  assumes "\<And>n. n \<le> bytesmut_capacity api n"
    and "fs_open fs path = Inr file" "fs_metadata fs path = Inr meta"
    and "response_body api file path meta conds (Some opts) = Inr resp"
    and "resp_body resp = Caching_Body s"
  shows "stream_ok api fs s"
  using assms(1) [of "unat (m_len meta)"] assms(2,3,5) response_body_stream [OF assms(4)]
  by (auto simp: stream_ok_def filling_def file_body_def broken_def read_err_def left_def to_str_def
      split: if_splits option.splits)

text \<open>A full buffer holds the whole file.\<close>

lemma full_buffer:
  assumes "data @ rest = take n (drop a bs)" "length bs \<le> length data"
  shows "data = bs"
proof -
  have "length data + length rest \<le> length bs - a" "length data + length rest \<le> n"
    using arg_cong [OF assms(1), of length] by simp_all
  with assms(2) have "length rest = 0" "a = 0 \<or> length bs = 0" "length bs \<le> n" by arith+
  with assms(1) show ?thesis by auto
qed

lemma filling_mem_buf [simp]:
  "filling api fs (s\<lparr>mem_buf := b\<rparr>) mo data cap = filling api fs s mo data cap"
  by (simp add: filling_def)

lemma filling_done:
  assumes "filling api fs s mo data cap"
    and "file_take_read (fst_reader s) (fst_buf_size s) = Inr ([], r)"
  shows "filling api fs (s\<lparr>fst_reader := r\<rparr>) mo data cap"
  using assms file_take_read_left [OF assms(2)] file_take_read_broken [OF assms(2)]
  unfolding filling_def by fastforce

lemma filling_item:
  assumes "filling api fs s mo data cap" "steady fs"
    and "file_take_read (fst_reader s) (fst_buf_size s) = Inr (buf, r)" "buf \<noteq> []"
  shows "buf_put api (data, cap) buf = (data @ buf, cap)"
    and "filling api fs (s\<lparr>fst_reader := r\<rparr>) mo (data @ buf) cap"
    and "length (data @ buf) = cap \<Longrightarrow> complete_entry api fs (mo_file_path mo)
       \<lparr>mf_data = data @ buf, mf_buf_size = fst_buf_size s, mf_content_type = mo_content_type mo,
        mf_last_modified = mo_last_modified mo\<rparr>"
proof -
  obtain f meta a where f: "fs_open fs (mo_file_path mo) = Inr f"
      "fs_metadata fs (mo_file_path mo) = Inr meta"
      "mo_content_type mo = mime_from_path api (mo_file_path mo)"
      "mo_last_modified mo = file_modified api meta"
      "fst_buf_size s = unat (optimal_buf_size meta)" "unat (m_len meta) \<le> cap"
    and r: "broken (fst_reader s) \<or> f_read_err f = None \<and> read_err (fst_reader s) = None
      \<and> (\<exists>n. data @ left (fst_reader s) = take n (drop a (f_data f)))"
    using assms(1) unfolding filling_def by blast
  from r file_take_read_broken [OF assms(3)] assms(4) obtain n where
    ok: "f_read_err f = None" "read_err (fst_reader s) = None"
      "data @ left (fst_reader s) = take n (drop a (f_data f))"
    by blast
  then have n: "(data @ buf) @ left r = take n (drop a (f_data f))" "read_err r = None"
    using file_take_read_left [OF assms(3)] by simp_all
  have sz: "unat (m_len meta) = length (f_data f)"
    using assms(2) f(1,2) ok(1) by (auto simp: steady_def)
  have "length ((data @ buf) @ left r) \<le> length (f_data f)"
    unfolding n(1) by simp
  with f(6) sz show "buf_put api (data, cap) buf = (data @ buf, cap)"
    by (simp add: buf_put_def)
  show "filling api fs (s\<lparr>fst_reader := r\<rparr>) mo (data @ buf) cap"
    unfolding filling_def using f ok(1) n by auto
  assume "length (data @ buf) = cap"
  then have "data @ buf = f_data f"
    using full_buffer [OF n(1)] f(6) sz by simp
  with f ok(1) sz show "complete_entry api fs (mo_file_path mo)
       \<lparr>mf_data = data @ buf, mf_buf_size = fst_buf_size s, mf_content_type = mo_content_type mo,
        mf_last_modified = mo_last_modified mo\<rparr>"
    by (auto simp: complete_entry_def entry_of_def sound_file_def)
qed

lemma stream_ok_poll:
  assumes "steady fs" "stream_ok api fs s" "store_ok api fs store"
    and p: "mem_poll_next api file_take_read store s = Inr (item, s', store')"
  shows "stream_ok api fs s' \<and> store_ok api fs store'"
proof (cases "file_take_read (fst_reader s) (fst_buf_size s)")
  case (Inl e)
  with assms show ?thesis by (auto simp: mem_poll_next_def)
next
  case (Inr x)
  then obtain buf r where r: "file_take_read (fst_reader s) (fst_buf_size s) = Inr (buf, r)"
    by (cases x) auto
  show ?thesis
  proof (cases "\<exists>mo b. mem_opts s = Some mo \<and> mem_buf s = Some b")
    case False
    then show ?thesis
      using assms(2-4) r
      by (auto simp: mem_poll_next_def Let_def stream_ok_def split: if_splits option.splits)
  next
    case True
    then obtain mo data cap where m: "mem_opts s = Some mo" "mem_buf s = Some (data, cap)"
      by auto
    with assms(2) have fl: "filling api fs s mo data cap" by (simp add: stream_ok_def)
    show ?thesis
    proof (cases "buf = []")
      case True
      with p r m filling_done [OF fl] assms(3) show ?thesis
        by (auto simp: mem_poll_next_def stream_ok_def)
    next
      case False
      note item = filling_item [OF fl assms(1) r False]
      from p r m False item assms(3) show ?thesis
        by (auto simp: mem_poll_next_def stream_ok_def store_ok_def Let_def split: if_splits)
    qed
  qed
qed

lemma body_step_inv:
  assumes "body_step api st st'" "cache_inv api fs st" "steady fs"
  shows "cache_inv api fs st'"
  using assms(1)
proof cases
  case (poll i item s' store')
  then have "stream_ok api fs (cs_streams st ! i)" "store_ok api fs (cs_store st)"
    using assms(2) by (auto simp: cache_inv_def)
  with poll stream_ok_poll [OF assms(3)] have "stream_ok api fs s'" "store_ok api fs store'"
    by blast+
  with poll assms(2) show ?thesis
    using set_update_subset_insert [of "cs_streams st" i s'] by (auto simp: cache_inv_def)
next
  case (drop_stream i)
  then show ?thesis
    using assms(2) by (auto simp: cache_inv_def dest: in_set_takeD in_set_dropD)
next
  case (evict entries k)
  then show ?thesis
    using assms(2) by (auto simp: cache_inv_def store_ok_def)
qed

lemma cache_step_inv:
  assumes "cache_step api fs opts st st'" "cache_inv api fs st"
    and "steady fs" "\<And>n. n \<le> bytesmut_capacity api n"
  shows "cache_inv api fs st'"
  using assms(1)
proof cases
  case (serve path f meta conds resp s)
  then show ?thesis
    using assms(2,4) stream_ok_serve by (fastforce simp: cache_inv_def)
next
  case body
  then show ?thesis using assms(2,3) by (rule body_step_inv)
qed

text \<open>A run: one file is served and its body read to the end.\<close>

definition hello_stream :: "file_take mem_cache_file_stream" where
  "hello_stream = \<lparr>fst_reader = (((None, ''hello''), []), 5), fst_buf_size = 5,
     mem_opts = Some \<lparr>mo_file_path = ''/w/a.txt'', mo_content_type = ''text/plain'', mo_last_modified = None\<rparr>,
     mem_buf = Some ([], 5)\<rparr>"

lemma steady_hello: "steady hello_fs"
  unfolding steady_def hello_fs_def
  by (auto simp: sample_fs_def sample_meta_def split: if_splits)

lemma hello_response:
  "\<exists>resp. response_body sample_api hello_file ''/w/a.txt'' (sample_meta (Node_File ''hello''))
       (conditionals_new sample_api []) (Some \<lparr>max_file_size = 100\<rparr>) = Inr resp \<and> resp_body resp = Caching_Body hello_stream"
proof -
  have "sample_mime ''/w/a.txt'' = ''text/plain''" "utf8_valid ''/w/a.txt''"
    by code_simp+
  then show ?thesis
    by (simp add: response_body_def conditionals_new_def conditionals_check_def unmodified_ok_def
      not_modified_def can_range_def sample_meta_def bytes_range_def file_modified_def file_body_def
      optimal_buf_size_def get_block_size_def DEFAULT_READ_BUF_SIZE_def content_reply_def to_str_def
      hello_stream_def hello_file_def Let_def)
qed

definition hello_cached :: cache_state where
  "hello_cached =
     \<lparr>cs_store = Some (Map.empty(''/w/a.txt'' \<mapsto> \<lparr>mf_data = ''hello'', mf_buf_size = 5,
         mf_content_type = ''text/plain'', mf_last_modified = None\<rparr>)),
      cs_streams = [hello_stream\<lparr>fst_reader := (((None, []), []), 0), mem_buf := None\<rparr>]\<rparr>"

lemma hello_poll:
  "body_step sample_api \<lparr>cs_store = Some Map.empty, cs_streams = [hello_stream]\<rparr> hello_cached"
proof -
  let ?st = "\<lparr>cs_store = Some Map.empty, cs_streams = [hello_stream]\<rparr>"
  have "mem_poll_next sample_api file_take_read (cs_store ?st) (cs_streams ?st ! 0)
      = Inr (Item ''hello'', hello_stream\<lparr>fst_reader := (((None, []), []), 0), mem_buf := None\<rparr>, cs_store hello_cached)"
    by (simp add: mem_poll_next_def hello_stream_def hello_cached_def BUF_READER_CAPACITY_def buf_put_def)
  then show ?thesis
    using body_step.poll [of 0 ?st sample_api] by (simp add: hello_cached_def)
qed

lemma run_hello: "cache_reach sample_api hello_fs \<lparr>max_file_size = 100\<rparr> hello_cached"
proof -
  let ?st0 = "\<lparr>cs_store = Some Map.empty, cs_streams = []\<rparr>"
  obtain resp where "response_body sample_api hello_file ''/w/a.txt'' (sample_meta (Node_File ''hello''))
       (conditionals_new sample_api []) (Some \<lparr>max_file_size = 100\<rparr>) = Inr resp"
     "resp_body resp = Caching_Body hello_stream"
    using hello_response by blast
  then have "cache_step sample_api hello_fs \<lparr>max_file_size = 100\<rparr> ?st0
      \<lparr>cs_store = Some Map.empty, cs_streams = [hello_stream]\<rparr>"
    using cache_step.serve [of hello_fs "''/w/a.txt''" hello_file "sample_meta (Node_File ''hello'')" sample_api
        "conditionals_new sample_api []" "\<lparr>max_file_size = 100\<rparr>" resp hello_stream ?st0]
    by (simp add: hello_fs_def hello_file_def sample_fs_def)
  from cache_reach.step [OF cache_reach.step [OF cache_reach.start this] cache_step.body [OF hello_poll]] show ?thesis .
qed



end
