(* ===== verification/Regular_Fs.thy ===== *)
theory Regular_Fs
  imports Static_Files Cache_Run
begin

text \<open>
  What the comparisons of whole runs take from the operating system, and what the static file handler makes of
  it: the metadata it hands to the reply is that of the file it opens, although the two are looked up one after
  the other and, for a directory without an index, by different paths.
\<close>

text \<open>
  What POSIX says of paths and files: a path that can be opened has metadata; redundant slashes and dots before
  the last name make no difference; a directory opens and cannot be read; a file can be sought in.
\<close>

definition spelling_blind :: "fs \<Rightarrow> bool" where
  "spelling_blind fs \<longleftrightarrow> (\<forall>d d' n. plain_name n \<longrightarrow> components d = components d' \<longrightarrow>
     fs_metadata fs (path_push d n) = fs_metadata fs (path_push d' n))"

definition regular :: "fs \<Rightarrow> bool" where
  "regular fs \<longleftrightarrow> steady fs \<and> spelling_blind fs
     \<and> (\<forall>p f. fs_open fs p = Inr f \<longrightarrow> path_exists fs p \<and> (\<forall>n. f_seek_ok f n))
     \<and> (\<forall>p f m. fs_open fs p = Inr f \<longrightarrow> fs_metadata fs p = Inr m \<longrightarrow> m_type m = FT_Dir \<longrightarrow> f_read_err f \<noteq> None)"

lemma regularD:
  assumes "regular fs"
  shows "steady fs" "spelling_blind fs"
    and "fs_open fs p = Inr f \<Longrightarrow> path_exists fs p"
    and "fs_open fs p = Inr f \<Longrightarrow> f_seek_ok f n"
    and "fs_open fs p = Inr f \<Longrightarrow> fs_metadata fs p = Inr m \<Longrightarrow> m_type m = FT_Dir \<Longrightarrow> f_read_err f \<noteq> None"
  using assms by (auto simp: regular_def)

section \<open>The metadata belongs to the file\<close>

lemma static_variant_Some:
  "static_variant api fs h cs p = Some fm \<Longrightarrow> cs \<and> fm_precompressed_variant fm \<noteq> None"
  by (auto simp: static_variant_def split: if_splits option.splits)

lemma html_suffix_metadata:
  "try_metadata_with_html_suffix fs p = (q, Some m) \<Longrightarrow> fs_metadata fs q = Inr m"
  by (auto simp: try_metadata_with_html_suffix_def try_metadata_def Let_def split: option.splits sum.splits)

text \<open>An index loop that finds nothing has looked for the last name in the directory.\<close>

lemma index_loop_misses:
  assumes "index_loop api fs h cs indexes p = r" "list_all plain_name indexes"
  shows "case r of
      Inl fm \<Rightarrow> cs \<and> fm_precompressed_variant fm \<noteq> None
    | Inr (q, Some m) \<Rightarrow> fs_metadata fs q = Inr m
    | Inr (q, None) \<Rightarrow> components q = components p \<and> (indexes \<noteq> [] \<longrightarrow>
        (\<exists>d. components d = components p \<and> \<not> path_exists fs (path_push d (last indexes))))"
  using assms
proof (induction indexes arbitrary: p)
  case (Cons index rest)
  let ?q = "path_push p index"
  obtain q m where q: "try_metadata_with_html_suffix fs (path_pop ?q) = (q, m)" by fastforce
  consider (variant) fm where "static_variant api fs h cs ?q = Some fm"
    | (found) md where "static_variant api fs h cs ?q = None" "try_metadata fs ?q = Inr md"
    | (miss) e where "static_variant api fs h cs ?q = None" "try_metadata fs ?q = Inl e"
    by (cases "static_variant api fs h cs ?q"; cases "try_metadata fs ?q") auto
  then show ?case
  proof cases
    case variant
    with Cons.prems(1) static_variant_Some [OF variant] show ?thesis by (auto simp: Let_def)
  next
    case (found md)
    with Cons.prems show ?thesis by (cases md) (auto simp: Let_def try_metadata_def split: sum.splits)
  next
    case miss: (miss e)
    show ?thesis
    proof (cases m)
      case (Some m')
      with Cons.prems(1) miss q html_suffix_metadata [of fs "path_pop ?q" q m'] show ?thesis by (auto simp: Let_def)
    next
      case None
      have c: "components q = components p"
        using html_suffix_components [of fs "path_pop ?q" q] q None Cons.prems(2) by simp
      have r: "index_loop api fs h cs rest q = r"
        using Cons.prems(1) miss q None by (simp add: Let_def)
      have "\<not> path_exists fs ?q"
        using miss(2) by (auto simp: try_metadata_def path_exists_def)
      then have here: "\<exists>d. components d = components p \<and> \<not> path_exists fs (path_push d index)"
        by blast
      show ?thesis
      proof (cases "rest = []")
        case True
        with r c here show ?thesis by auto
      next
        case False
        with Cons.IH [OF r] Cons.prems(2) c show ?thesis by (auto split: sum.splits option.splits)
      qed
    qed
  qed
qed auto

lemma composed_metadata:
  assumes "regular fs" "list_all plain_name indexes"
    and fm: "get_composed_file_metadata api fs p h cs indexes ds = Inr fm"
  shows "if fm_precompressed_variant fm = None
    then \<forall>f. fs_open fs (fm_file_path fm) = Inr f \<longrightarrow> fs_metadata fs (fm_file_path fm) = Inr (fm_metadata fm)
    else cs"
proof -
  define ixs where "ixs = (if indexes = [] then DEFAULT_INDEX_FILES else indexes)"
  have idx: "list_all plain_name ixs" "ixs \<noteq> []"
    using assms(2) by (auto simp: ixs_def DEFAULT_INDEX_FILES_def plain_name_def)
  have lost: False if miss: "index_loop api fs h cs ixs p = Inr (q, None)"
    and op: "fs_open fs (path_push q (last ixs)) = Inr f" for q f
  proof -
    obtain d where "components d = components q" "\<not> path_exists fs (path_push d (last ixs))"
      using index_loop_misses [OF miss idx(1)] idx(2) by simp metis
    moreover have "plain_name (last ixs)" using idx by (simp add: list_all_iff)
    ultimately show False
      using regularD(2) [OF assms(1)] regularD(3) [OF assms(1) op]
      unfolding spelling_blind_def path_exists_def by metis
  qed
  obtain q mq where q: "try_metadata_with_html_suffix fs p = (q, mq)" by fastforce
  consider (variant) p' where "static_variant api fs h cs p' = Some fm"
    | (html) m where "mq = Some m" "fm = \<lparr>fm_file_path = q, fm_metadata = m, fm_is_dir = False,
        fm_precompressed_variant = None\<rparr>"
    | (dir) m where "try_metadata fs p = Inr (m, True)"
    | (plain) m d where "try_metadata fs p = Inr (m, d)" "fm = \<lparr>fm_file_path = p, fm_metadata = m, fm_is_dir = d,
        fm_precompressed_variant = None\<rparr>"
    using fm q by (cases "try_metadata fs p"; cases mq)
      (auto simp: get_composed_file_metadata_def split: if_splits option.splits)
  then show ?thesis
  proof cases
    case dir
    have ?thesis if r: "index_loop api fs h cs ixs p = r" for r
      using fm lost index_loop_misses [OF r idx(1)] r dir
      by (cases r) (auto simp: get_composed_file_metadata_def Let_def ixs_def [symmetric] split: if_splits option.splits)
    then show ?thesis by blast
  next
    case variant
    then show ?thesis using static_variant_Some [OF variant] by auto
  qed (use q html_suffix_metadata [of fs p q] in \<open>auto simp: try_metadata_def split: sum.splits\<close>)
qed

section \<open>A regular file system\<close>

text \<open>Paths by their components, so that spelling makes no difference.\<close>

fun component_str :: "component \<Rightarrow> string" where
  "component_str RootDir = []"
| "component_str CurDir = ''.''"
| "component_str ParentDir = ''..''"
| "component_str (Normal s) = s"

definition by_components :: "fs \<Rightarrow> fs" where
  "by_components fs = (let canon = (\<lambda>p. join_on slash (map component_str (components p)))
     in \<lparr>fs_metadata = fs_metadata fs \<circ> canon, fs_is_symlink = fs_is_symlink fs \<circ> canon,
         fs_open = fs_open fs \<circ> canon, fs_read_dir = fs_read_dir fs \<circ> canon\<rparr>)"

lemma by_components_regular: "regular (by_components hello_fs)"
  using steady_hello
  by (auto simp: regular_def steady_def spelling_blind_def by_components_def components_push Let_def path_exists_def
      hello_fs_def sample_fs_def sample_meta_def split: if_splits)

end
