(* ===== verification/Replies.thy ===== *)
theory Replies
  imports Handler Regular_Fs
begin

text \<open>
  The responses of the request handler by where they come from: the stages in front of the file answer with a page
  they hold in memory; the static file handler with such a page, with an open file or with a cache entry; the
  stages after the file set headers and may wrap the body in an encoder.
\<close>

abbreviation all_resp :: "(resp \<Rightarrow> bool) \<Rightarrow> ('e, resp) result \<Rightarrow> bool" where
  "all_resp P \<equiv> pred_sum (\<lambda>_. True) P"

text \<open>A body in memory whose length the header tells, if it tells one; a HEAD response has the header alone.\<close>

definition page_like :: "api \<Rightarrow> http_method \<Rightarrow> resp \<Rightarrow> bool" where
  "page_like api m r \<longleftrightarrow> (\<exists>bs. (resp_body r = Full_Body bs \<or> resp_body r = Empty_Body \<and> bs = [])
     \<and> (is_head m \<or> header r CONTENT_LENGTH = None
        \<or> header r CONTENT_LENGTH = Some (content_length_value api (word_of_nat (length bs)))))"

lemma page_like_simps [simp]:
  "page_like api m (page_response api m st c)"
  "n \<noteq> CONTENT_LENGTH \<Longrightarrow> page_like api m (insert_header n v r) \<longleftrightarrow> page_like api m r"
  "page_like api m (new_response Empty_Body)" "page_like api m (new_response (Full_Body bs))"
  "page_like api m (r\<lparr>resp_status := st\<rparr>) \<longleftrightarrow> page_like api m r"
  "page_like api m (empty_response st)"
  by (auto simp: page_like_def empty_response_def)

lemma error_page_like [simp]: "all_resp (page_like api m) (error_response api fs u m st p4 p5)"
  by (simp add: error_response_def)

lemma handle_error_page_like:
  "handle_error api fs e opts req = Some h \<Longrightarrow> all_resp (page_like api (r_method req)) h"
  by (cases e) (auto simp: handle_error_def)

lemma pre_stage_page_like:
  "health_pre_process opts req = Some h \<Longrightarrow> all_resp (page_like api (r_method req)) h"
  "metrics_pre_process api opts req = Some h \<Longrightarrow> all_resp (page_like api (r_method req)) h"
  "cors_pre_process api fs opts req = Some h \<Longrightarrow> all_resp (page_like api (r_method req)) h"
  "basic_auth_pre_process api fs opts req = Some h \<Longrightarrow> all_resp (page_like api (r_method req)) h"
  "maintenance_pre_process api fs opts req = Some h \<Longrightarrow> all_resp (page_like api (r_method req)) h"
  by (auto simp: health_pre_process_def metrics_pre_process_def cors_pre_process_def
      basic_auth_pre_process_def maintenance_pre_process_def maintenance_get_response_def error_response_def
      Let_def split: if_splits http_method.splits option.splits sum.splits prod.splits)

lemma redirects_page_like:
  "redirects_pre_process api fs opts req = Some h \<Longrightarrow> all_resp (page_like api (r_method req)) h"
  by (auto simp: redirects_pre_process_def redirect_to_def Let_def intro: handle_error_page_like
      split: option.splits sum.splits abort.splits if_splits)

lemma rewrites_page_like:
  assumes "rewrites_pre_process api fs opts req = (q, r)"
  shows "r_method q = r_method req" "r = Some h \<Longrightarrow> all_resp (page_like api (r_method req)) h"
  using assms
  by (auto simp: rewrites_pre_process_def redirect_to_def adjust_host_def Let_def intro: handle_error_page_like
      split: option.splits sum.splits abort.splits if_splits)

text \<open>Where a response comes from: a stage in front of the file, or the file and the stages after it.\<close>

lemma handle_reply:
  assumes "handle api fs store opts req = Inr resp"
  obtains (page) "page_like api (r_method req) resp"
  | (served) q r fp where "r_method q = r_method req" "static_stage api fs store opts q = Inr (r, fp)"
      "post_stages api fs fp opts q r = Inr resp"
proof -
  obtain q a where rw: "rewrites_pre_process api fs opts req = (q, a)" by fastforce
  with assms show thesis
    using that rewrites_page_like [OF rw]
    by (auto simp: handle_def error_response_def dest!: pre_stage_page_like [where api = api] redirects_page_like
       split: if_splits option.splits prod.splits sum.splits)
qed

lemma map_sum_id_Inr: "map_sum id f x = Inr r \<longleftrightarrow> (\<exists>y. x = Inr y \<and> r = f y)"
  by (cases x) auto

lemma auto_index_page_like: "all_resp (page_like api (dl_method opts)) (auto_index api fs opts)"
  by (auto simp: auto_index_def read_dir_entries_def map_sum_id_Inr page_like_def Let_def
      split: sum.splits abort.splits io_error.splits dir_list_fmt.splits)

text \<open>What the static file handler answers with.\<close>

definition entry_reply :: "api \<Rightarrow> store \<Rightarrow> header_map \<Rightarrow> resp \<Rightarrow> bool" where
  "entry_reply api store h r \<longleftrightarrow> (\<exists>entries p mf. store = Some entries \<and> entries p = Some mf
     \<and> mem_file_response_body api mf h = Inr r)"

definition open_reply :: "api \<Rightarrow> fs \<Rightarrow> handle_opts \<Rightarrow> path \<Rightarrow> resp \<Rightarrow> bool" where
  "open_reply api fs opts p r \<longleftrightarrow> (\<exists>f meta. fs_open fs p = Inr f \<and> fs_metadata fs p = Inr meta
     \<and> response_body api f p meta (conditionals_new api (ho_headers opts)) (ho_memory_cache opts) = Inr r
     \<and> (ho_ignore_hidden_files opts \<longrightarrow> \<not> is_hidden p))"

lemma serve_metadata_cases:
  assumes "serve_metadata api fs opts fm = Inr r"
  obtains (page) "page_like api (ho_method opts) (sfr_resp r)"
  | (variant) "fm_precompressed_variant fm \<noteq> None" "header (sfr_resp r) CONTENT_LENGTH = None"
  | (opened) f where "fm_precompressed_variant fm = None" "sfr_file_path r = fm_file_path fm"
      "fs_open fs (fm_file_path fm) = Inr f"
      "response_body api f (fm_file_path fm) (fm_metadata fm) (conditionals_new api (ho_headers opts))
         (ho_memory_cache opts) = Inr (sfr_resp r)"
      "ho_ignore_hidden_files opts \<longrightarrow> \<not> is_hidden (fm_file_path fm)"
proof (cases "ho_ignore_hidden_files opts \<and> is_hidden (fm_file_path fm)
    \<or> fm_is_dir fm \<and> ho_redirect_trailing_slash opts \<and> \<not> ends_with slash (ho_uri_path opts)
    \<or> is_options (ho_method opts)
    \<or> fm_is_dir fm \<and> ho_dir_listing opts \<and> \<not> path_exists fs (fm_file_path fm)")
  case True
  have "auto_index api fs opts' = Inr y \<Longrightarrow> page_like api (dl_method opts') y" for opts' y
    using auto_index_page_like [of api opts' fs] by auto
  note listing = this
  from True assms show thesis
    by (intro page) (auto simp: serve_metadata_def Let_def map_sum_id_Inr dest!: listing split: if_splits)
next
  case False
  show thesis
  proof (cases "fm_precompressed_variant fm")
    case None
    with False assms obtain y where y: "r = \<lparr>sfr_resp = y, sfr_file_path = fm_file_path fm\<rparr>"
      "file_reply api fs (ho_headers opts) (fm_file_path fm) (fm_metadata fm) None (ho_memory_cache opts) = Inr y"
      by (auto simp: serve_metadata_def Let_def map_sum_id_Inr split: if_splits)
    then obtain f where "fs_open fs (fm_file_path fm) = Inr f"
      by (auto simp: file_reply_def split: sum.splits)
    with None False y show thesis
      by (intro opened [of f]) (auto simp: file_reply_def Let_def)
  next
    case (Some v)
    with False assms show thesis
      by (intro variant) (auto simp: serve_metadata_def Let_def split: if_splits sum.splits prod.splits)
  qed
qed

lemma static_handle_serves:
  assumes "static_handle api fs store opts = Inr r"
  obtains (entry) "entry_reply api store (ho_headers opts) (sfr_resp r)"
  | (served) p fm where "get_composed_file_metadata api fs p (ho_headers opts) (ho_compression_static opts)
        (ho_index_files opts) (ho_disable_symlinks opts) = Inr fm" "serve_metadata api fs opts fm = Inr r"
proof -
  obtain fp where fp: "is_allowed (ho_method opts)"
      "sanitize_path (percent_decode api) (ho_base_path opts) (ho_uri_path opts) = Inr fp"
    using assms by (auto simp: static_handle_def split: if_splits sum.splits)
  show thesis
  proof (cases "if ho_memory_cache opts \<noteq> None
      then get_or_acquire api store (cache_path opts fp) (ho_headers opts) else None")
    case None
    with fp assms show thesis
      by (auto simp: static_handle_def Let_def intro: served split: if_splits sum.splits)
  next
    case (Some h)
    with fp assms have "entry_reply api store (ho_headers opts) (sfr_resp r)"
      by (auto simp: static_handle_def Let_def get_or_acquire_def entry_reply_def
          split: if_splits sum.splits option.splits) blast+
    then show thesis by (rule entry)
  qed
qed

text \<open>A file that is served belongs to its metadata, unless it is served by a pre-compressed variant.\<close>

lemma static_handle_reply:
  assumes "regular fs" "list_all plain_name (ho_index_files opts)" "static_handle api fs store opts = Inr r"
  obtains (page) "page_like api (ho_method opts) (sfr_resp r)"
  | (entry) "entry_reply api store (ho_headers opts) (sfr_resp r)"
  | (opened) "open_reply api fs opts (sfr_file_path r) (sfr_resp r)"
  | (variant) "ho_compression_static opts" "header (sfr_resp r) CONTENT_LENGTH = None"
  using assms(3)
proof (cases rule: static_handle_serves)
  case (served p fm)
  note m = composed_metadata [OF assms(1,2) served(1)]
  from served(2) show ?thesis
    by (cases rule: serve_metadata_cases) (use m that in \<open>auto simp: open_reply_def\<close>)
qed (rule entry)

end
