(* ===== verification/Framing.thy ===== *)
theory Framing
  imports Replies
begin

text \<open>
  \<^verbatim>\<open>Content-Length\<close>. The server computes the header from the metadata of a file, from the size of a cache entry or
  from a page; the body is produced later, by other code. Here the two are put together for every response of
  the request handler.
\<close>

text \<open>
  A response is framed if the body, read to the end, either fails (and the connection is closed) or has
  exactly the length the header tells. A HEAD response has no body.
\<close>

definition framed ::
  "(content_coding \<Rightarrow> level \<Rightarrow> bytes \<Rightarrow> bytes) \<Rightarrow> api \<Rightarrow> http_method \<Rightarrow> resp \<Rightarrow> bool" where
  "framed enc api m r \<longleftrightarrow> is_head m \<or> header r CONTENT_LENGTH = None
     \<or> (\<exists>fuel res. body_bytes enc fuel (resp_body r) = Some res
        \<and> (\<forall>bs. res = Inr bs \<longrightarrow>
             header r CONTENT_LENGTH = Some (content_length_value api (word_of_nat (length bs)))))"

text \<open>An entry as a complete read of a file makes it.\<close>

definition sound_entry :: "mem_file \<Rightarrow> bool" where
  "sound_entry mf \<longleftrightarrow> length (mf_data mf) < 2 ^ 64 \<and> (mf_data mf = [] \<or> 0 < mf_buf_size mf)"

definition sound_store :: "store \<Rightarrow> bool" where
  "sound_store store \<longleftrightarrow> (\<forall>entries p mf. store = Some entries \<longrightarrow> entries p = Some mf \<longrightarrow> sound_entry mf)"

lemma framedI:
  assumes "body_bytes enc fuel (resp_body r) = Some res"
    and "\<And>bs. res = Inr bs \<Longrightarrow> header r CONTENT_LENGTH = Some (content_length_value api (word_of_nat (length bs)))"
  shows "framed enc api m r"
  using assms unfolding framed_def by blast

lemma framed_page: "page_like api m r \<Longrightarrow> framed enc api m r"
  unfolding page_like_def framed_def by (elim exE conjE disjE) auto

lemma subrange_length:
  assumes "bytes_range rng len = Inr (s, e)" "unat len = length bs"
  shows "word_of_nat (length (subrange s e bs)) = e - s"
  using bytes_range_unat [OF assms(1)] assms(2) by (simp add: subrange_def)

lemma steady_regular:
  "regular fs \<Longrightarrow> fs_open fs p = Inr f \<Longrightarrow> fs_metadata fs p = Inr m \<Longrightarrow> f_read_err f = None \<Longrightarrow>
     unat (m_len m) = length (f_data f)"
  by (simp add: regular_def steady_def)

text \<open>The common tail of the replies with some content: the length in the header is that of the range.\<close>

lemma content_reply_length:
  "header (content_reply api len s e ct md b) CONTENT_LENGTH = None
     \<or> header (content_reply api len s e ct md b) CONTENT_LENGTH = Some (content_length_value api (e - s))
        \<and> resp_body (content_reply api len s e ct md b) = b"
  by (auto simp: content_reply_def bad_range_reply_def Let_def split: option.splits)

lemma content_reply_framed:
  assumes "bytes_range rng len = Inr (s, e)" "unat len = length bs"
    and "body_bytes enc fuel b = Some (Inr (subrange s e bs))"
  shows "framed enc api m (content_reply api len s e ct md b)"
  using content_reply_length [of api len s e ct md b] subrange_length [OF assms(1,2)] assms(3)
  by (elim disjE conjE) (simp add: framed_def, rule framedI [of enc fuel], auto)

lemma bad_range_framed [simp]: "framed enc api m (bad_range_reply api n)"
  by (simp add: framed_def bad_range_reply_def)

lemma no_body_framed: "conditionals_check api c md = NoBody r \<Longrightarrow> framed enc api m r"
  by (auto simp: framed_def conditionals_check_def split: if_splits)

lemma entry_framed:
  assumes "sound_entry mf" "mem_file_response_body api mf h = Inr r"
  shows "framed enc api m r"
proof (cases "conditionals_check api (conditionals_new api h) (mf_last_modified mf)")
  case (NoBody r')
  with assms(2) no_body_framed [OF NoBody] show ?thesis
    by (simp add: mem_file_response_body_def Let_def)
next
  case (WithBody rng)
  let ?len = "word_of_nat (length (mf_data mf)) :: u64"
  have len: "unat ?len = length (mf_data mf)"
    using assms(1) by (simp add: sound_entry_def unat_of_nat)
  have "framed enc api m (content_reply api ?len s e ct md
      (Cursor_Body \<lparr>fst_reader = (drop (unat s) (mf_data mf), unat (e - s)), fst_buf_size = mf_buf_size mf\<rparr>))"
    if "bytes_range rng ?len = Inr (s, e)" for s e ct md
  proof -
    have "0 < mf_buf_size mf \<or> subrange s e (mf_data mf) = []"
      using assms(1) by (auto simp: sound_entry_def subrange_def)
    from content_reply_framed [OF that len body_bytes_cursor [OF this lessI]] show ?thesis .
  qed
  with WithBody assms(2) show ?thesis
    by (auto simp: mem_file_response_body_def Let_def split: sum.splits abort.splits bad_range_error.splits)
qed

text \<open>A file that cannot be read fails at the first poll, or nothing is asked of it.\<close>

lemma unreadable_body:
  "body_bytes enc (Suc 0) (file_body api \<lparr>fst_reader = (((Some err, rest), []), n), fst_buf_size = k\<rparr> p l ct md mc)
     = Some (if n = 0 then Inr [] else Inl err)"
  by (auto simp: file_body_def plain_stream_def poll_next_def split: option.splits)

lemma file_framed:
  assumes "f_read_err f = None \<Longrightarrow> unat (m_len meta) = length (f_data f)"
    and "response_body api f p meta conds mc = Inr r"
  shows "framed enc api m r"
proof (cases "conditionals_check api conds (file_modified api meta)")
  case (NoBody r')
  with assms(2) no_body_framed [OF NoBody] show ?thesis
    by (simp add: response_body_def Let_def)
next
  case (WithBody rng)
  have "framed enc api m (content_reply api (m_len meta) s e ct md (file_body api
      \<lparr>fst_reader = (((f_read_err f, drop (unat s) (f_data f)), []), unat (e - s)),
       fst_buf_size = unat (optimal_buf_size meta)\<rparr> p (m_len meta) ct md mc))"
    if rng: "bytes_range rng (m_len meta) = Inr (s, e)" for s e ct md
  proof (cases "f_read_err f")
    case None
    with assms(1) have f: "sound_file f meta" by (simp add: sound_file_def)
    then have "unat (m_len meta) = length (f_data f)" by (simp add: sound_file_def)
    with rng show ?thesis by (rule content_reply_framed [OF _ _ body_bytes_file [OF f lessI]])
  next
    case (Some err)
    let ?b = "file_body api \<lparr>fst_reader = (((f_read_err f, drop (unat s) (f_data f)), []), unat (e - s)),
       fst_buf_size = unat (optimal_buf_size meta)\<rparr> p (m_len meta) ct md mc"
    have "body_bytes enc (Suc 0) ?b = Some (if e - s = 0 then Inr [] else Inl err)"
      unfolding Some unreadable_body by (simp add: unat_eq_zero)
    then show ?thesis
      using content_reply_length [of api "m_len meta" s e ct md ?b]
      by (elim disjE conjE)
         (simp add: framed_def, rule framedI [of enc "Suc 0"], auto split: if_splits)
  qed
  with WithBody assms(2) show ?thesis
    by (auto simp: response_body_def Let_def split: sum.splits abort.splits bad_range_error.splits if_splits)
qed

lemma static_framed:
  assumes "regular fs" "list_all plain_name (ho_index_files opts)"
    and "sound_store store"
    and "static_handle api fs store opts = Inr r"
  shows "framed enc api (ho_method opts) (sfr_resp r)"
  using assms(1,2,4)
proof (cases rule: static_handle_reply)
  case page
  then show ?thesis by (rule framed_page)
next
  case entry
  then show ?thesis using assms(3) entry_framed unfolding entry_reply_def sound_store_def by blast
next
  case opened
  then obtain f meta where f: "fs_open fs (sfr_file_path r) = Inr f" "fs_metadata fs (sfr_file_path r) = Inr meta"
    "response_body api f (sfr_file_path r) meta (conditionals_new api (ho_headers opts)) (ho_memory_cache opts)
       = Inr (sfr_resp r)"
    unfolding open_reply_def by blast
  show ?thesis by (rule file_framed [OF steady_regular [OF assms(1) f(1,2)] f(3)])
next
  case variant
  then show ?thesis by (simp add: framed_def)
qed

lemma compression_length:
  assumes "compression_post_process api fs opts req r = Inr r'"
  shows "header r' CONTENT_LENGTH = None
    \<or> header r' CONTENT_LENGTH = header r CONTENT_LENGTH \<and> resp_body r' = resp_body r"
  using assms auto_compress_cases [of api "r_method req" "r_headers req" "o_compression_level opts"
      "insert_header VARY ACCEPT_ENCODING r"]
  by (auto simp: compression_post_process_def compress_with_def Let_def split: if_splits)

lemma post_framed:
  assumes "framed enc api (r_method req) r" "post_stages api fs fp opts req r = Inr r'"
    and "CONTENT_LENGTH \<notin> fst ` set (custom_pairs api fp opts req)"
  shows "framed enc api (r_method req) r'"
proof -
  let ?r0 = "after_fallback api opts req r"
  have r0: "framed enc api (r_method req) ?r0"
    using assms(1) framedI [of enc 0 "fallback_response api (o_page_fallback opts)" "Inr (o_page_fallback opts)" api]
    by (simp add: after_fallback_def fallback_post_process_def) (simp add: fallback_response_def Let_def)
  obtain r1 r2 r3 r4 where r1: "cors_post_process api opts req ?r0 = Inr r1"
    and r2: "compression_static_post_process opts req r1 = Inr r2"
    and r3: "compression_post_process api fs opts req r2 = Inr r3"
    and r4: "then_stage control_post_process
      (then_stage security_post_process (custom_post_process api fp)) opts req r3 = Inr r4"
    and "post_stages api fs fp opts req r = Inr r4"
    by (rule post_stages_steps)
  moreover from this(5) assms(2) have "r4 = r'" by simp
  moreover have "CONTENT_LENGTH \<notin> cors_names" "CONTENT_LENGTH \<notin> security_names"
    by (simp_all add: cors_names_def)
  ultimately have "header r' CONTENT_LENGTH = None
      \<or> header r' CONTENT_LENGTH = header ?r0 CONTENT_LENGTH \<and> resp_body r' = resp_body ?r0"
    using last_stage.keeps [OF r4] compression_length [OF r3] static_vary.keeps [OF r2] cors_stage.keeps [OF r1] assms(3)
    by auto
  with r0 show ?thesis by (elim disjE conjE) (simp_all add: framed_def)
qed

section \<open>Properties\<close>

text \<open>C7: every response of the request handler that tells its length tells the length of its body: if the body can
  be read to the end at all, \<^verbatim>\<open>Content-Length\<close> is the number of its bytes, for pages, listings, whole files and
  ranges, from the disk and from the cache, with any stages enabled. Only a configured
  header of that name could say otherwise.\<close>

theorem content_length_true:
  assumes "regular fs" "list_all plain_name (o_index_files opts)"
    and "sound_store store"
    and "\<And>fp q. CONTENT_LENGTH \<notin> fst ` set (custom_pairs api fp opts q)"
    and "handle api fs store opts req = Inr resp"
  shows "framed enc api (r_method req) resp"
  using assms(5)
proof (cases rule: handle_reply)
  case page
  then show ?thesis by (rule framed_page)
next
  case (served q r fp)
  have "framed enc api (r_method q) r"
  proof (cases "static_handle api fs store (static_opts opts (real_root api opts q) q)")
    case (Inl e)
    with served(2) show ?thesis
      by (cases e) (auto simp: static_stage_def error_response_def intro: framed_page)
  next
    case (Inr sr)
    with served(2) have r: "r = sfr_resp sr" by (simp add: static_stage_def)
    have "ho_method (static_opts opts (real_root api opts q) q) = r_method q" by (simp add: static_opts_def)
    with static_framed [OF assms(1) _ assms(3) Inr, where enc = enc] assms(2) r show ?thesis
      by (simp add: static_opts_def)
  qed
  with served show ?thesis using post_framed [of enc api q r fs fp opts resp] assms(4) by simp
qed

theorem content_length_true_witness:
  "\<exists>resp. handle sample_api (by_components hello_fs) None default_handler_opts (sample_request GET ''/a.txt'' []) = Inr resp
     \<and> framed (\<lambda>_ _ b. b) sample_api GET resp"
proof -
  obtain resp where "handle sample_api (by_components hello_fs) None default_handler_opts
      (sample_request GET ''/a.txt'' []) = Inr resp"
    using handle_answers [OF sample_inclusive, of default_handler_opts None "by_components hello_fs"]
    by (auto simp: default_handler_opts_def)
  with content_length_true [OF by_components_regular, of default_handler_opts None sample_api
      "sample_request GET ''/a.txt'' []" resp "\<lambda>_ _ b. b"] show ?thesis
    by (simp add: default_handler_opts_def sound_store_def custom_pairs_def sample_request_def plain_name_def)
qed

end
