(* ===== verification/Cache_Server.thy ===== *)
theory Cache_Server
  imports Stage_Relations Framing
begin

text \<open>
  The whole server with the in-memory cache: requests go through the request handler, the bodies of their
  responses are polled, dropped or left, and entries are evicted, in any order. In every state such a run reaches,
  a request is answered as by a server with an empty cache.
\<close>

section \<open>Runs of the server\<close>

fun caching_streams :: "body \<Rightarrow> file_take mem_cache_file_stream list" where
  "caching_streams (Caching_Body s) = [s]"
| "caching_streams (Encoded_Body c l b) = caching_streams b"
| "caching_streams _ = []"

inductive server_step :: "api \<Rightarrow> fs \<Rightarrow> request_handler_opts \<Rightarrow> cache_state \<Rightarrow> cache_state \<Rightarrow> bool"
  for api fs opts where
  request: "handle api fs (cs_store st) opts req = Inr resp \<Longrightarrow>
      server_step api fs opts st (st\<lparr>cs_streams := caching_streams (resp_body resp) @ cs_streams st\<rparr>)"
| body: "body_step api st st' \<Longrightarrow> server_step api fs opts st st'"

inductive server_reach :: "api \<Rightarrow> fs \<Rightarrow> request_handler_opts \<Rightarrow> cache_state \<Rightarrow> bool" for api fs opts where
  start: "server_reach api fs opts \<lparr>cs_store = Some Map.empty, cs_streams = []\<rparr>"
| step: "server_reach api fs opts st \<Longrightarrow> server_step api fs opts st st' \<Longrightarrow> server_reach api fs opts st'"

section \<open>The streams a request starts\<close>

definition shown :: "request_handler_opts \<Rightarrow> path \<Rightarrow> bool" where
  "shown opts p \<longleftrightarrow> (o_ignore_hidden_files opts \<longrightarrow> \<not> is_hidden p)"

lemma page_streams: "page_like api m r \<Longrightarrow> caching_streams (resp_body r) = []"
  by (auto simp: page_like_def)

lemma entry_streams: "mem_file_response_body api mf h = Inr r \<Longrightarrow> caching_streams (resp_body r) = []"
  by (auto simp: mem_file_response_body_def conditionals_check_def content_reply_def Let_def
      split: if_splits sum.splits abort.splits bad_range_error.splits option.splits)

lemma caching_stream_opts:
  assumes "response_body api f p meta conds mc = Inr r" "s \<in> set (caching_streams (resp_body r))"
  shows "resp_body r = Caching_Body s" "mc \<noteq> None" "mem_opts s = Some mo \<Longrightarrow> mo_file_path mo = p"
  using response_body_stream [OF assms(1)] assms(2)
  by (cases mc; cases "utf8_valid p"; auto simp: file_body_def to_str_def split: if_splits)+

lemma post_streams:
  assumes "post_stages api fs fp opts req r = Inr r'"
  shows "set (caching_streams (resp_body r')) \<subseteq> set (caching_streams (resp_body r))"
proof -
  let ?r0 = "after_fallback api opts req r"
  have "caching_streams (resp_body r') = caching_streams (resp_body ?r0)"
    using post_stages_keep [OF refl, of api fs fp opts req r] assms by auto
  then show ?thesis
    by (auto simp: after_fallback_def fallback_post_process_def fallback_response_def Let_def split: if_splits)
qed

lemma handle_streams:
  assumes "regular fs" "list_all plain_name (o_index_files opts)" "\<not> o_compression_static opts"
    and "\<And>n. n \<le> bytesmut_capacity api n"
    and "handle api fs store opts req = Inr resp" "s \<in> set (caching_streams (resp_body resp))"
  shows "stream_ok api fs s" "mem_opts s = Some mo \<Longrightarrow> shown opts (mo_file_path mo)"
proof -
  from assms(5) obtain q r fp where stage: "static_stage api fs store opts q = Inr (r, fp)"
    and "post_stages api fs fp opts q r = Inr resp"
    by (cases rule: handle_reply) (use assms(6) page_streams in auto)
  with post_streams assms(6) have s: "s \<in> set (caching_streams (resp_body r))" by blast
  let ?o = "static_opts opts (real_root api opts q) q"
  have page: "\<not> page_like api m r" for m
    using s page_streams [of api m r] by auto
  from stage page [of "r_method q"] obtain sr where sr: "static_handle api fs store ?o = Inr sr" "r = sfr_resp sr"
    by (cases "static_handle api fs store ?o")
       (auto simp: static_stage_def error_response_def split: abort.splits)
  have "list_all plain_name (ho_index_files ?o)" using assms(2) by (simp add: static_opts_def)
  with assms(1) have "open_reply api fs ?o (sfr_file_path sr) r"
    by (rule static_handle_reply [OF _ _ sr(1)])
       (use sr page s assms(3) entry_streams in \<open>auto simp: entry_reply_def static_opts_def\<close>)
  then obtain f meta conds where f: "fs_open fs (sfr_file_path sr) = Inr f" "fs_metadata fs (sfr_file_path sr) = Inr meta"
    "response_body api f (sfr_file_path sr) meta conds (o_memory_cache opts) = Inr r"
    "shown opts (sfr_file_path sr)"
    by (auto simp: open_reply_def shown_def static_opts_def)
  with caching_stream_opts [OF f(3) s] show "stream_ok api fs s" "mem_opts s = Some mo \<Longrightarrow> shown opts (mo_file_path mo)"
    using stream_ok_serve [OF assms(4) f(1,2)] by auto
qed

section \<open>The invariant\<close>

definition server_inv :: "api \<Rightarrow> fs \<Rightarrow> request_handler_opts \<Rightarrow> cache_state \<Rightarrow> bool" where
  "server_inv api fs opts st \<longleftrightarrow> cache_inv api fs st
     \<and> (\<forall>s \<in> set (cs_streams st). \<forall>mo. mem_opts s = Some mo \<longrightarrow> shown opts (mo_file_path mo))
     \<and> (\<forall>entries p mf. cs_store st = Some entries \<longrightarrow> entries p = Some mf \<longrightarrow> shown opts p)"

lemma poll_keys:
  assumes "mem_poll_next api read store s = Inr (item, s', store')"
  shows "mem_opts s' = mem_opts s"
    and "store' = Some entries' \<Longrightarrow> entries' p = Some mf \<Longrightarrow>
      (\<exists>entries mf. store = Some entries \<and> entries p = Some mf) \<or> (\<exists>mo. mem_opts s = Some mo \<and> mo_file_path mo = p)"
  using assms
  by (auto simp: mem_poll_next_def Let_def split: sum.splits prod.splits option.splits if_splits)

lemma server_step_inv:
  assumes "server_step api fs opts st st'" "server_inv api fs opts st"
    and "regular fs" "list_all plain_name (o_index_files opts)" "\<not> o_compression_static opts"
    and "\<And>n. n \<le> bytesmut_capacity api n"
  shows "server_inv api fs opts st'"
  using assms(1)
proof cases
  case (request req resp)
  then show ?thesis
    using assms(2) handle_streams [OF assms(3-6) request(2)]
    by (auto simp: server_inv_def cache_inv_def)
next
  case body
  then have c: "cache_inv api fs st'"
    using body_step_inv assms(2) regularD(1) [OF assms(3)] by (auto simp: server_inv_def)
  from body show ?thesis
  proof cases
    case (poll i item s' store')
    then have mo: "mem_opts (cs_streams st ! i) = Some mo \<Longrightarrow> shown opts (mo_file_path mo)" for mo
      using assms(2) by (auto simp: server_inv_def)
    have "shown opts (mo_file_path mo)" if "s \<in> set ((cs_streams st)[i := s'])" "mem_opts s = Some mo" for s mo
      using that mo poll_keys(1) [OF poll(3)] assms(2) set_update_subset_insert [of "cs_streams st" i s']
      unfolding server_inv_def by (cases "s = s'") auto
    moreover have "shown opts p" if "store' = Some entries" "entries p = Some mf" for entries p mf
      using poll_keys(2) [OF poll(3) that] mo assms(2) unfolding server_inv_def by blast
    ultimately show ?thesis using c poll(1) by (simp add: server_inv_def)
  next
    case (drop_stream i)
    then show ?thesis
      using assms(2) c by (auto simp: server_inv_def dest: in_set_takeD in_set_dropD)
  next
    case (evict entries k)
    then show ?thesis
      using assms(2) c by (auto simp: server_inv_def)
  qed
qed

lemma server_reach_inv:
  assumes "server_reach api fs opts st"
    and "regular fs" "list_all plain_name (o_index_files opts)" "\<not> o_compression_static opts"
    and "\<And>n. n \<le> bytesmut_capacity api n"
  shows "server_inv api fs opts st"
  using assms(1)
proof induction
  case start
  show ?case by (simp add: server_inv_def cache_inv_def store_ok_def)
next
  case (step st st')
  from server_step_inv [OF step(2,3) assms(2-5)] show ?case .
qed

text \<open>So the entries of a reached state are as the theorem on \<^verbatim>\<open>Content-Length\<close> wants them.\<close>

lemma store_ok_sound: "store_ok api fs store \<Longrightarrow> sound_store store"
proof -
  have "sound_entry (entry_of api f p meta)" if "sound_file f meta" for f p meta
  proof -
    have len: "unat (m_len meta) = length (f_data f)" using that by (simp add: sound_file_def)
    moreover have "unat (m_len meta) < 2 ^ LENGTH(64)" by (rule unsigned_less)
    ultimately have "length (f_data f) < 2 ^ 64" by simp
    moreover have "f_data f = [] \<or> 0 < unat (optimal_buf_size meta)"
      using optimal_buf_size_pos [of meta] len by (cases "m_len meta = 0") (auto simp: word_gt_0 unat_gt_0)
    ultimately show ?thesis by (simp add: sound_entry_def entry_of_def)
  qed
  then show "store_ok api fs store \<Longrightarrow> sound_store store"
    unfolding store_ok_def sound_store_def complete_entry_def by blast
qed

section \<open>Answers from the cache\<close>

text \<open>Two responses a client cannot tell apart.\<close>

definition same_answer ::
  "(content_coding \<Rightarrow> level \<Rightarrow> bytes \<Rightarrow> bytes) \<Rightarrow> nat \<Rightarrow> resp \<Rightarrow> resp \<Rightarrow> bool" where
  "same_answer enc fuel r1 r2 \<longleftrightarrow> resp_status r1 = resp_status r2 \<and> resp_headers r1 = resp_headers r2
     \<and> body_bytes enc fuel (resp_body r1) = body_bytes enc fuel (resp_body r2)"

lemma same_answer_refl [simp]: "same_answer enc fuel r r"
  by (simp add: same_answer_def)

lemma same_reply_answer: "same_reply enc fuel h1 h2 \<longleftrightarrow> rel_handled (same_answer enc fuel) h1 h2"
  by (cases h1; cases h2) (auto simp: same_answer_def)

lemma same_answerD:
  "same_answer enc fuel r1 r2 \<Longrightarrow> resp_status r1 = resp_status r2"
  "same_answer enc fuel r1 r2 \<Longrightarrow> resp_headers r1 = resp_headers r2"
  by (simp_all add: same_answer_def)

lemma same_answer_compress [intro]:
  "same_answer enc fuel r1 r2 \<Longrightarrow> same_answer enc fuel (compress_with api c l r1) (compress_with api c l r2)"
  by (auto simp: same_answer_def compress_with_def insert_header_def remove_header_def Let_def)

lemma same_answer_insert [intro]:
  "same_answer enc fuel r1 r2 \<Longrightarrow> same_answer enc fuel (insert_header n v r1) (insert_header n v r2)"
  by (simp add: same_answer_def insert_header_def)

lemma same_answer_remove [intro]:
  "same_answer enc fuel r1 r2 \<Longrightarrow> same_answer enc fuel (remove_header n r1) (remove_header n r2)"
  by (simp add: same_answer_def remove_header_def)

lemma same_answer_headers [intro]:
  "same_answer enc fuel r1 r2 \<Longrightarrow> same_answer enc fuel (r1\<lparr>resp_headers := h\<rparr>) (r2\<lparr>resp_headers := h\<rparr>)"
  by (simp add: same_answer_def)

lemma same_answer_inserts [intro]:
  "same_answer enc fuel r1 r2 \<Longrightarrow> same_answer enc fuel
     (foldl (\<lambda>r (k, v). insert_header k v r) r1 kvs) (foldl (\<lambda>r (k, v). insert_header k v r) r2 kvs)"
  by (induction kvs arbitrary: r1 r2) auto

lemma answer_stages [carries_intros]:
  "carries (=) (same_answer enc fuel) (same_answer enc fuel) opts (fallback_post_process api)"
  "carries (=) (same_answer enc fuel) (same_answer enc fuel) opts (cors_post_process api)"
  "carries (=) (same_answer enc fuel) (same_answer enc fuel) opts compression_static_post_process"
  "carries (=) (same_answer enc fuel) (same_answer enc fuel) opts control_post_process"
  "carries (=) (same_answer enc fuel) (same_answer enc fuel) opts security_post_process"
  "carries (=) (same_answer enc fuel) (same_answer enc fuel) opts (custom_post_process api fp)"
  by (rule carriesI, auto simp: fallback_post_process_def cors_post_process_def
      compression_static_post_process_def control_post_process_def control_append_headers_def
      security_post_process_def security_append_headers_def Let_def custom_post_process_eq same_answerD
      split: option.split sum.split)+

lemma auto_compress_answer:
  assumes "same_answer enc fuel r1 r2"
  shows "rel_handled (same_answer enc fuel) (auto_compress api m h l r1) (auto_compress api m h l r2)"
  using assms same_answerD(2) [OF assms]
  by (auto simp: auto_compress_def gzip_def deflate_def brotli_def zstd_def split: option.split)

lemma answer_compression [carries_intros]:
  "carries (=) (same_answer enc fuel) (same_answer enc fuel) opts (compression_post_process api fs)"
proof (rule carriesI)
  fix q1 q2 :: request and r1 r2
  assume q: "q1 = q2" and r: "same_answer enc fuel r1 r2"
  from auto_compress_answer [OF same_answer_insert [OF r, of VARY ACCEPT_ENCODING], of api "r_method q2" "r_headers q2"
      "o_compression_level opts"] r same_answerD(2) [OF r]
  show "rel_handled (same_answer enc fuel) (compression_post_process api fs opts q1 r1)
      (compression_post_process api fs opts q2 r2)"
    unfolding q compression_post_process_def Let_def
    by (auto elim!: rel_sum.cases simp: error_response_def split: abort.split)
qed

text \<open>A complete entry answers like the file handler without it.\<close>

definition same_served_answer ::
  "(content_coding \<Rightarrow> level \<Rightarrow> bytes \<Rightarrow> bytes) \<Rightarrow> nat \<Rightarrow> static_file_response \<Rightarrow> static_file_response \<Rightarrow> bool" where
  "same_served_answer enc fuel s1 s2 \<longleftrightarrow>
     same_answer enc fuel (sfr_resp s1) (sfr_resp s2) \<and> sfr_file_path s1 = sfr_file_path s2"

lemma serve_regular_file:
  assumes "fs_open fs p = Inr f" "fs_metadata fs p = Inr meta" "m_type meta \<noteq> FT_Dir"
    and "\<not> ds" "\<not> (ho_ignore_hidden_files opts \<and> is_hidden p)" "ho_method opts \<noteq> OPTIONS"
  shows "(case get_composed_file_metadata api fs p h False ixs ds of
      Inl e \<Rightarrow> Inl e | Inr fm \<Rightarrow> serve_metadata api fs opts fm)
    = map_sum id (\<lambda>r. \<lparr>sfr_resp = r, sfr_file_path = p\<rparr>)
        (response_body api f p meta (conditionals_new api (ho_headers opts)) (ho_memory_cache opts))"
  using assms
  by (auto simp: get_composed_file_metadata_def try_metadata_def static_variant_def serve_metadata_def file_reply_def
      is_options_def Let_def)

lemma static_handle_cached:
  assumes "regular fs" "semaphore_acquire_ok api" "\<And>p f. fs_open fs p = Inr f \<Longrightarrow> length (f_data f) < fuel"
    and "\<not> ho_compression_static opts" "\<not> ho_disable_symlinks opts" "ho_method opts \<noteq> OPTIONS"
    and "store_ok api fs (Some entries)"
    and "\<And>p mf. entries p = Some mf \<Longrightarrow> \<not> (ho_ignore_hidden_files opts \<and> is_hidden p)"
  shows "rel_handled (same_served_answer enc fuel)
    (static_handle api fs (Some entries) opts) (static_handle api fs (Some Map.empty) opts)"
proof (cases "\<exists>fp mf. is_allowed (ho_method opts) \<and> ho_memory_cache opts \<noteq> None
    \<and> sanitize_path (percent_decode api) (ho_base_path opts) (ho_uri_path opts) = Inr fp
    \<and> utf8_valid (cache_path opts fp) \<and> entries (cache_path opts fp) = Some mf")
  case False
  then have "static_handle api fs (Some entries) opts = static_handle api fs (Some Map.empty) opts"
    by (auto simp: static_handle_def get_or_acquire_def to_str_def Let_def split: sum.split option.split)
  then show ?thesis by (simp add: rel_handled_refl same_served_answer_def)
next
  case True
  then obtain fp mf where fp: "is_allowed (ho_method opts)" "ho_memory_cache opts \<noteq> None"
      "sanitize_path (percent_decode api) (ho_base_path opts) (ho_uri_path opts) = Inr fp"
    and p: "utf8_valid (cache_path opts fp)" "entries (cache_path opts fp) = Some mf" by blast
  let ?p = "cache_path opts fp" and ?reply = "\<lambda>r. \<lparr>sfr_resp = r, sfr_file_path = cache_path opts fp\<rparr>"
  from assms(7) p(2) obtain f meta where f: "fs_open fs ?p = Inr f" "fs_metadata fs ?p = Inr meta"
    and snd: "sound_file f meta" and mf: "mf = entry_of api f ?p meta"
    unfolding store_ok_def complete_entry_def by blast
  let ?cached = "mem_file_response_body api mf (ho_headers opts)"
  let ?fresh = "response_body api f ?p meta (conditionals_new api (ho_headers opts)) (ho_memory_cache opts)"
  have "m_type meta \<noteq> FT_Dir"
    using regularD(5) [OF assms(1) f] snd by (auto simp: sound_file_def)
  note serve = serve_regular_file [OF f this assms(5) assms(8) [OF p(2)] assms(6)]
  have "static_handle api fs (Some entries) opts = map_sum id ?reply ?cached"
    using fp p by (auto simp: static_handle_def get_or_acquire_def to_str_def Let_def split: sum.split)
  moreover have "static_handle api fs (Some Map.empty) opts = map_sum id ?reply ?fresh"
    using fp p assms(2,4) serve by (auto simp: static_handle_def get_or_acquire_def to_str_def Let_def)
  moreover have "rel_handled (same_answer enc fuel) ?cached ?fresh"
    unfolding same_reply_answer [symmetric] mf
    using snd regularD(4) [OF assms(1) f(1)] assms(3) [OF f(1)] by (intro entry_reply_same) auto
  ultimately show ?thesis
    by (auto elim!: rel_sum.cases simp: same_served_answer_def)
qed

lemma static_stage_cached:
  assumes "server_inv api fs opts st"
    and "regular fs" "semaphore_acquire_ok api" "\<And>p f. fs_open fs p = Inr f \<Longrightarrow> length (f_data f) < fuel"
    and "\<not> o_compression_static opts" "\<not> o_disable_symlinks opts" "r_method req \<noteq> OPTIONS"
  shows "rel_handled (rel_prod (same_answer enc fuel) (=))
    (static_stage api fs (cs_store st) opts req) (static_stage api fs (Some Map.empty) opts req)"
proof -
  obtain entries where st: "cs_store st = Some entries" and e: "store_ok api fs (Some entries)"
    using assms(1) by (auto simp: server_inv_def cache_inv_def store_ok_def)
  let ?o = "static_opts opts (real_root api opts req) req"
  have "rel_handled (same_served_answer enc fuel) (static_handle api fs (Some entries) ?o)
      (static_handle api fs (Some Map.empty) ?o)"
    by (rule static_handle_cached [OF assms(2,3,4) _ _ _ e])
       (use assms(1,5-7) st in \<open>auto simp: static_opts_def server_inv_def shown_def\<close>)
  then show ?thesis
    unfolding static_stage_def st
    by (auto elim!: rel_sum.cases simp: same_served_answer_def error_response_def split: abort.splits)
qed

section \<open>Properties\<close>


text \<open>A run: one file is requested and its body read to the end.\<close>

definition cache_opts :: request_handler_opts where
  "cache_opts = default_handler_opts\<lparr>o_root_dir := ''/w'', o_memory_cache := Some \<lparr>max_file_size = 100\<rparr>\<rparr>"

lemma hello_paths:
  "sanitize_path percent_decode_all ''/w'' ''/a.txt'' = Inr ''/w/a.txt''" "utf8_valid ''/w/a.txt''"
  "join_on slash (map component_str (components ''/w/a.txt'')) = ''/w/a.txt''"
  "\<not> ends_with slash ''/a.txt''"
  by code_simp+

lemma hello_handled:
  "\<exists>resp. handle sample_api (by_components hello_fs) (Some Map.empty) cache_opts (sample_request GET ''/a.txt'' []) = Inr resp
     \<and> caching_streams (resp_body resp) = [hello_stream]"
proof -
  let ?fs = "by_components hello_fs" and ?req = "sample_request GET ''/a.txt'' []"
  let ?o = "static_opts cache_opts ''/w'' ?req"
  have o: "ho_method ?o = GET" "ho_memory_cache ?o = Some \<lparr>max_file_size = 100\<rparr>" "ho_headers ?o = []"
    "ho_base_path ?o = ''/w''" "ho_uri_path ?o = ''/a.txt''" "ho_index_files ?o = [''index.html'']"
    "\<not> ho_compression_static ?o" "\<not> ho_ignore_hidden_files ?o" "\<not> ho_disable_symlinks ?o"
    by (simp_all add: static_opts_def cache_opts_def default_handler_opts_def sample_request_def sample_uri_def)
  obtain r where r: "response_body sample_api hello_file ''/w/a.txt'' (sample_meta (Node_File ''hello''))
       (conditionals_new sample_api []) (Some \<lparr>max_file_size = 100\<rparr>) = Inr r" "resp_body r = Caching_Body hello_stream"
    using hello_response by blast
  have "fs_open ?fs ''/w/a.txt'' = Inr hello_file" "fs_metadata ?fs ''/w/a.txt'' = Inr (sample_meta (Node_File ''hello''))"
    by (simp_all add: by_components_def hello_paths hello_fs_def sample_fs_def hello_file_def Let_def)
  note serve = serve_regular_file [OF this, of False ?o sample_api "[]" "[''index.html'']"]
  have root: "real_root sample_api cache_opts ?req = ''/w''"
    by (simp add: real_root_def cache_opts_def default_handler_opts_def)
  have "static_handle sample_api ?fs (Some Map.empty) ?o = Inr \<lparr>sfr_resp = r, sfr_file_path = ''/w/a.txt''\<rparr>"
    using serve r(1) o by (simp add: static_handle_def is_allowed_iff hello_paths cache_path_def get_or_acquire_def
        to_str_def sample_meta_def)
  then have "static_stage sample_api ?fs (Some Map.empty) cache_opts ?req = Inr (r, Some ''/w/a.txt'')"
    by (simp add: static_stage_def root)
  then have "handle sample_api ?fs (Some Map.empty) cache_opts ?req = post_stages sample_api ?fs (Some ''/w/a.txt'') cache_opts ?req r"
    by (simp add: handle_def health_pre_process_def metrics_pre_process_def cors_pre_process_def basic_auth_pre_process_def
        maintenance_pre_process_def redirects_pre_process_def rewrites_pre_process_def cache_opts_def
        default_handler_opts_def sample_request_def is_allowed_iff)
  moreover have "after_fallback sample_api cache_opts ?req r = r"
    by (simp add: after_fallback_def fallback_post_process_def cache_opts_def default_handler_opts_def)
  ultimately show ?thesis
    using post_stages_keep [OF refl, of sample_api ?fs "Some ''/w/a.txt''" cache_opts ?req r] r(2) by auto
qed

lemma run_cached: "server_reach sample_api (by_components hello_fs) cache_opts hello_cached"
proof -
  obtain resp where "handle sample_api (by_components hello_fs) (Some Map.empty) cache_opts (sample_request GET ''/a.txt'' []) = Inr resp"
    "caching_streams (resp_body resp) = [hello_stream]"
    using hello_handled by blast
  then have "server_step sample_api (by_components hello_fs) cache_opts \<lparr>cs_store = Some Map.empty, cs_streams = []\<rparr>
      \<lparr>cs_store = Some Map.empty, cs_streams = [hello_stream]\<rparr>"
    using server_step.request [of sample_api "by_components hello_fs" "\<lparr>cs_store = Some Map.empty, cs_streams = []\<rparr>"
        cache_opts "sample_request GET ''/a.txt'' []" resp] by simp
  from server_reach.step [OF server_reach.step [OF server_reach.start this] server_step.body [OF hello_poll]] show ?thesis .
qed


end
