(* ===== verification/Head_Get.thy ===== *)
theory Head_Get
  imports Stage_Relations
begin

text \<open>
  HEAD and GET. RFC 9110 wants a HEAD request answered with the header section of the GET response; here the
  two runs of the handler are compared stage by stage.
\<close>

definition get_head :: "request \<Rightarrow> request \<Rightarrow> bool" where
  "get_head q1 q2 \<longleftrightarrow> r_method q1 = GET \<and> r_method q2 = HEAD \<and> r_uri q1 = r_uri q2 \<and> r_headers q1 = r_headers q2"

definition same_head :: "resp \<Rightarrow> resp \<Rightarrow> bool" where
  "same_head r1 r2 \<longleftrightarrow> resp_status r1 = resp_status r2 \<and> resp_headers r1 = resp_headers r2"

definition same_head_but :: "string set \<Rightarrow> resp \<Rightarrow> resp \<Rightarrow> bool" where
  "same_head_but N r1 r2 \<longleftrightarrow>
     resp_status r1 = resp_status r2 \<and> (\<forall>n. n \<notin> N \<longrightarrow> header r1 n = header r2 n)"

lemma get_headD [dest]:
  "get_head q1 q2 \<Longrightarrow> r_method q1 = GET" "get_head q1 q2 \<Longrightarrow> r_method q2 = HEAD"
  "get_head q1 q2 \<Longrightarrow> r_uri q2 = r_uri q1" "get_head q1 q2 \<Longrightarrow> r_headers q2 = r_headers q1"
  by (auto simp: get_head_def)

lemma same_head_refl [simp]: "same_head r r"
  by (simp add: same_head_def)

lemma same_head_insert [intro]: "same_head r1 r2 \<Longrightarrow> same_head (insert_header n v r1) (insert_header n v r2)"
  by (simp add: same_head_def insert_header_def)

lemma same_head_remove [intro]: "same_head r1 r2 \<Longrightarrow> same_head (remove_header n r1) (remove_header n r2)"
  by (simp add: same_head_def remove_header_def)

lemma same_head_inserts [intro]:
  "same_head r1 r2 \<Longrightarrow>
     same_head (foldl (\<lambda>r (k, v). insert_header k v r) r1 kvs) (foldl (\<lambda>r (k, v). insert_header k v r) r2 kvs)"
  by (simp add: same_head_def foldl_insert_header)

lemma same_head_page [simp]: "same_head (page_response api m1 st c) (page_response api m2 st c)"
  by (simp add: same_head_def page_response_def insert_header_def new_response_def Let_def)

lemma same_head_error [simp]:
  "rel_handled same_head (error_response api fs u m1 st p4 p5) (error_response api fs u m2 st p4 p5)"
  by (simp add: error_response_def)

section \<open>The stages before the file\<close>

lemma same_head_handle_error [simp]:
  "r_uri q2 = r_uri q1 \<Longrightarrow>
     rel_option (rel_handled same_head) (handle_error api fs e opts q1) (handle_error api fs e opts q2)"
  by (cases e) (simp_all add: handle_error_def)

lemma endpoints_head:
  assumes "get_head q1 q2"
  shows "rel_option (rel_handled same_head) (health_pre_process opts q1) (health_pre_process opts q2)"
    and "rel_option (rel_handled same_head) (metrics_pre_process api opts q1) (metrics_pre_process api opts q2)"
  using get_headD [OF assms]
  by (auto simp: health_pre_process_def metrics_pre_process_def is_health_endpoint_def is_get_def is_head_def
      same_head_def insert_header_def Let_def)

lemma pre_stages_head:
  assumes "get_head q1 q2"
  shows "rel_option (rel_handled same_head) (cors_pre_process api fs opts q1) (cors_pre_process api fs opts q2)"
    and "rel_option (rel_handled same_head) (basic_auth_pre_process api fs opts q1) (basic_auth_pre_process api fs opts q2)"
    and "rel_option (rel_handled same_head) (maintenance_pre_process api fs opts q1) (maintenance_pre_process api fs opts q2)"
  using get_headD [OF assms]
  by (auto simp: cors_pre_process_def cors_check_request_def basic_auth_pre_process_def maintenance_pre_process_def
      maintenance_get_response_def is_options_def error_response_def Let_def simp del: split_once_None
      split: option.splits sum.splits)

lemma redirects_head:
  assumes "get_head q1 q2"
  shows "rel_option (rel_handled same_head) (redirects_pre_process api fs opts q1) (redirects_pre_process api fs opts q2)"
  using get_headD [OF assms]
  by (auto simp: redirects_pre_process_def request_host_def Let_def split: option.splits sum.splits)

lemma adjust_host_head: "get_head q1 q2 \<Longrightarrow> get_head (adjust_host api q1) (adjust_host api q2)"
  by (auto simp: adjust_host_def get_head_def Let_def split: option.splits)

lemma rewrites_head:
  assumes "get_head q1 q2"
  shows "rel_prod get_head (rel_option (rel_handled same_head))
    (rewrites_pre_process api fs opts q1) (rewrites_pre_process api fs opts q2)"
proof -
  have "get_head (q1\<lparr>r_uri := u\<rparr>) (q2\<lparr>r_uri := u\<rparr>)" for u
    using assms by (simp add: get_head_def)
  with assms get_headD [OF assms] show ?thesis
    by (auto simp: rewrites_pre_process_def Let_def intro!: adjust_host_head split: option.splits sum.splits)
qed

section \<open>The file\<close>

lemma read_dir_entries_head:
  "rel_handled same_head (read_dir_entries api (opt\<lparr>deo_is_head := b\<rparr>)) (read_dir_entries api (opt\<lparr>deo_is_head := b'\<rparr>))"
proof -
  have "listed api (opt\<lparr>deo_is_head := b\<rparr>) = listed api opt" for b
    by (auto simp: listed_def fun_eq_iff split: sum.split)
  then have "read_entries_loop api (opt\<lparr>deo_is_head := b\<rparr>) rs d f es = read_entries_loop api opt rs d f es" for b rs d f es
    by (simp add: read_entries_loop_eq)
  then show ?thesis
    by (auto simp: read_dir_entries_def same_head_def Let_def split: sum.splits dir_list_fmt.splits)
qed

lemma auto_index_head:
  "rel_handled same_head (auto_index api fs (opts\<lparr>dl_method := m1\<rparr>)) (auto_index api fs (opts\<lparr>dl_method := m2\<rparr>))"
proof (cases "fs_read_dir fs (case path_parent (dl_filepath opts) of None \<Rightarrow> dl_filepath opts | Some p \<Rightarrow> p)")
  case (Inr reader)
  let ?o = "\<lparr>deo_dir_reader = reader, deo_base_path = dl_current_path opts, deo_uri_query = dl_uri_query opts,
    deo_is_head = False, deo_order_code = dl_order opts, deo_content_format = dl_format opts,
    deo_ignore_hidden_files = dl_ignore_hidden_files opts, deo_disable_symlinks = dl_disable_symlinks opts\<rparr>"
  from read_dir_entries_head [where opt = ?o and b = "is_head m1" and b' = "is_head m2" and api = api] show ?thesis
    by cases (auto simp: auto_index_def Inr Let_def split: abort.splits)
qed (auto simp: auto_index_def Let_def split: io_error.splits)

definition same_served :: "static_file_response \<Rightarrow> static_file_response \<Rightarrow> bool" where
  "same_served s1 s2 \<longleftrightarrow> same_head (sfr_resp s1) (sfr_resp s2) \<and> sfr_file_path s1 = sfr_file_path s2"

lemma same_served_refl [simp]: "same_served s s"
  by (simp add: same_served_def)

lemma serve_metadata_head:
  assumes "ho_method opts = GET"
  shows "rel_handled same_served (serve_metadata api fs opts fm) (serve_metadata api fs (opts\<lparr>ho_method := HEAD\<rparr>) fm)"
proof -
  let ?dl = "\<lparr>dl_method = GET, dl_current_path = ho_uri_path opts, dl_uri_query = ho_uri_query opts,
    dl_filepath = fm_file_path fm, dl_order = ho_dir_listing_order opts, dl_format = ho_dir_listing_format opts,
    dl_ignore_hidden_files = ho_ignore_hidden_files opts, dl_disable_symlinks = ho_disable_symlinks opts\<rparr>"
  have "rel_handled same_head (auto_index api fs ?dl) (auto_index api fs (?dl\<lparr>dl_method := HEAD\<rparr>))"
    using auto_index_head [where opts = ?dl and ?m1.0 = GET and ?m2.0 = HEAD] by simp
  then have "rel_handled same_served
      (map_sum id (\<lambda>r. \<lparr>sfr_resp = r, sfr_file_path = fm_file_path fm\<rparr>) (auto_index api fs ?dl))
      (map_sum id (\<lambda>r. \<lparr>sfr_resp = r, sfr_file_path = fm_file_path fm\<rparr>) (auto_index api fs (?dl\<lparr>dl_method := HEAD\<rparr>)))"
    by cases (auto simp: same_served_def)
  then show ?thesis
    using assms rel_handled_refl [of same_served]
    by (cases "fm_precompressed_variant fm")
       (auto simp: serve_metadata_def is_options_def Let_def split: sum.split)
qed

lemma static_handle_head:
  assumes "ho_method opts = GET"
  shows "rel_handled same_served (static_handle api fs store opts) (static_handle api fs store (opts\<lparr>ho_method := HEAD\<rparr>))"
proof -
  have "cache_path (opts\<lparr>ho_method := HEAD\<rparr>) p = cache_path opts p" for p
    by (simp add: cache_path_def)
  then show ?thesis
    using assms serve_metadata_head [OF assms]
    by (auto simp: static_handle_def is_allowed_iff Let_def split: sum.splits option.splits)
qed

lemma static_stage_head:
  assumes "get_head q1 q2"
  shows "rel_handled (rel_prod same_head (=)) (static_stage api fs store opts q1) (static_stage api fs store opts q2)"
proof -
  let ?o = "static_opts opts (real_root api opts q1) q1"
  have "static_opts opts (real_root api opts q2) q2 = ?o\<lparr>ho_method := HEAD\<rparr>" "ho_method ?o = GET"
    using get_headD [OF assms]
    by (auto simp: static_opts_def real_root_def get_real_root_def split: option.split)
  moreover have "rel_handled same_served (static_handle api fs store ?o) (static_handle api fs store (?o\<lparr>ho_method := HEAD\<rparr>))"
    using calculation(2) by (rule static_handle_head)
  ultimately show ?thesis
    using get_headD [OF assms] unfolding static_stage_def
    by (auto elim!: rel_sum.cases simp: same_served_def error_response_def split: abort.splits)
qed

section \<open>The stages after the file\<close>

lemma cors_check_head: "cors_check_request api c HEAD h = cors_check_request api c GET h"
  by (cases "hm_get h ORIGIN") (simp_all add: cors_check_request_def)

lemma head_stages [carries_intros]:
  "o_page_fallback opts = [] \<Longrightarrow> carries get_head same_head same_head opts (fallback_post_process api)"
  "carries get_head same_head same_head opts (cors_post_process api)"
  "carries get_head same_head same_head opts compression_static_post_process"
  by (rule carriesI, auto simp: get_head_def fallback_post_process_def cors_post_process_def cors_check_head
      compression_static_post_process_def split: option.split sum.split)+

definition compression_names :: "request_handler_opts \<Rightarrow> string set" where
  "compression_names opts = (if o_compression opts then {CONTENT_ENCODING, CONTENT_LENGTH} else {})"

lemma compression_head [carries_intros]:
  "carries get_head same_head (same_head_but (compression_names opts)) opts (compression_post_process api fs)"
  by (rule carriesI)
     (auto simp: compression_post_process_def auto_compress_def compress_with_def gzip_def deflate_def brotli_def
       zstd_def compression_names_def same_head_def same_head_but_def is_head_def is_options_def Let_def
       get_head_def split: option.splits)

lemma last_stages_head [carries_intros]:
  "carries get_head (same_head_but N) (same_head_but N) opts control_post_process"
  "carries get_head (same_head_but N) (same_head_but N) opts security_post_process"
  "carries get_head (same_head_but N) (same_head_but N) opts (custom_post_process api fp)"
  by (rule carriesI, auto simp: control_post_process_def control_append_headers_def security_post_process_def
      security_append_headers_def custom_post_process_eq custom_pairs_def same_head_but_def hm.get_ins_all Let_def
      get_head_def split: option.split)+

section \<open>Properties\<close>



text \<open>
  The exceptions are real: with a fallback page a missing file is 200 for GET and 404 for HEAD; a response to
  HEAD keeps the length of the plain file where the one to GET is compressed.
\<close>

lemma head_fallback_differs:
  assumes "o_page_fallback opts \<noteq> []" "resp_status r = NOT_FOUND"
  shows "map_sum id resp_status (fallback_post_process api opts (sample_request GET p h) r) = Inr OK"
    and "map_sum id resp_status (fallback_post_process api opts (sample_request HEAD p h) r) = Inr NOT_FOUND"
  using assms by (simp_all add: fallback_post_process_def fallback_response_def sample_request_def is_get_def Let_def)

lemma head_length_differs:
  assumes "get_preferred_encoding api h = Some GZIP" "typed_content_type api (resp_headers r) = None"
  shows "map_sum id (\<lambda>r. header r CONTENT_LENGTH) (auto_compress api GET h l r) = Inr None"
    and "map_sum id (\<lambda>r. header r CONTENT_LENGTH) (auto_compress api HEAD h l r) = Inr (header r CONTENT_LENGTH)"
  using assms
  by (simp_all add: auto_compress_def gzip_def compress_with_def is_head_def is_options_def Let_def)

end
