(* ===== verification/Links.thy ===== *)
theory Links
  imports Directory_Listing
begin

text \<open>
  The links of a directory listing. A client resolves the link of an entry against the request's path and
  sends the result back; the sanitizer then has to arrive at that entry. The two pieces of code are
  written in different files and know nothing of each other.
\<close>

section \<open>Resolving a link\<close>

text \<open>
  Reference resolution of RFC 3986 for what a link of a listing can be: a first segment with a colon
  makes the reference absolute (\<open>None\<close>), anything else replaces what follows the last slash of the base.
\<close>

definition resolve_link :: "string \<Rightarrow> string \<Rightarrow> string option" where
  "resolve_link base link =
     (if CHR '':'' \<in> set (takeWhile (\<lambda>c. c \<noteq> slash) link) then None
      else case rsplit_once slash base of
             Some (dir, _) \<Rightarrow> Some (dir @ slash # link)
           | None \<Rightarrow> Some link)"

text \<open>
  What the percent-encoding library documents: encoding a name and decoding it again gives the name, slashes are
  decoded as themselves, and the characters of the set do not occur in what is encoded.
\<close>

definition percent_laws :: "api \<Rightarrow> bool" where
  "percent_laws api \<longleftrightarrow>
     percent_decode api [] = []
     \<and> (\<forall>s t. percent_decode api (s @ slash # t) = percent_decode api s @ slash # percent_decode api t)
     \<and> (\<forall>n. percent_decode api (percent_encode api PERCENT_ENCODE_SET n) = n)
     \<and> (\<forall>n. slash \<notin> set (percent_encode api PERCENT_ENCODE_SET n)
            \<and> CHR '':'' \<notin> set (percent_encode api PERCENT_ENCODE_SET n))"

text \<open>The path of the directory as a prefix of its entries' paths.\<close>

definition slashed :: "string \<Rightarrow> string" where
  "slashed p = (if ends_with slash p then p else p @ ''/'')"

lemma percent_lawsD:
  assumes "percent_laws api"
  shows "percent_decode api [] = []"
    and "percent_decode api (s @ slash # t) = percent_decode api s @ slash # percent_decode api t"
    and "percent_decode api (percent_encode api PERCENT_ENCODE_SET n) = n"
    and "slash \<notin> set (percent_encode api PERCENT_ENCODE_SET n)"
    and "CHR '':'' \<notin> set (percent_encode api PERCENT_ENCODE_SET n)"
  using assms by (auto simp: percent_laws_def)

lemma takeWhile_no_slash [simp]: "slash \<notin> set p \<Longrightarrow> takeWhile (\<lambda>c. c \<noteq> slash) (p @ slash # x) = p"
  "slash \<notin> set p \<Longrightarrow> takeWhile (\<lambda>c. c \<noteq> slash) p = p"
  by (auto simp: takeWhile_append takeWhile_eq_all_conv)

text \<open>Both forms of a link resolve to the directory's path, a slash and the encoded name.\<close>

lemma ends_with_rsplit:
  "rsplit_once slash base = Some (d, p) \<Longrightarrow> ends_with slash base \<longleftrightarrow> p = []"
  by (auto simp: rsplit_once_Some ends_with_def) (metis last_in_set)

lemma slashed_rsplit:
  "rsplit_once slash base = Some (d, p) \<Longrightarrow> slashed base = d @ slash # (if p = [] then [] else p @ ''/'')"
  by (auto simp: slashed_def ends_with_rsplit rsplit_once_Some)

lemma resolve_entry:
  assumes "percent_laws api" "rsplit_once slash base = Some (d, p)" "CHR '':'' \<notin> set p"
  shows "resolve_link base (entry_uri api base n ty)
    = Some (slashed base @ percent_encode api PERCENT_ENCODE_SET n @ (if ty = Directory then ''/'' else []))"
proof -
  let ?n = "percent_encode api PERCENT_ENCODE_SET n"
  note n = percent_lawsD(4,5) [OF assms(1), of n]
  from assms(2) have b: "base = d @ slash # p" "slash \<notin> set p" by (simp_all add: rsplit_once_Some)
  note e = ends_with_rsplit [OF assms(2)]
  show ?thesis
  proof (cases "p = []")
    case True
    with b n e assms(2) show ?thesis
      by (auto simp: resolve_link_def entry_uri_def slashed_def)
  next
    case False
    with b n e assms(2,3) show ?thesis
      by (auto simp: resolve_link_def entry_uri_def slashed_def)
  qed
qed

section \<open>Coming back\<close>

lemma normal_names_append [simp]: "normal_names (xs @ ys) = normal_names xs @ normal_names ys"
  by (simp add: normal_names_def List.map_filter_def)

lemma normal_names_segs: "normal_names (components p) = normal_names (seg_components (split_on slash p))"
  by (simp add: components_def)

lemma normal_names_slash:
  "normal_names (components (x @ slash # y)) = normal_names (components x) @ normal_names (components y)"
  by (simp add: normal_names_segs split_on_append)

text \<open>The request paths that differ by leading slashes are decoded to the same names.\<close>

lemma names_decode_tail:
  assumes "percent_laws api"
  shows "normal_names (components (decode_tail_path (percent_decode api) p))
    = normal_names (components (percent_decode api p))"
proof (induction p)
  case (Cons c p)
  then show ?case
    using percent_lawsD(1) [OF assms] percent_lawsD(2) [OF assms, of "[]" p] normal_names_slash [of "[]"]
    by (auto simp: decode_tail_path_def trim_start_by_def path_from_bytes_def)
qed (simp add: decode_tail_path_def trim_start_by_def path_from_bytes_def)

lemma sanitize_entry:
  assumes "percent_laws api" "rsplit_once slash base = Some (d, p)" "plain_name n"
    and "sanitize_path (percent_decode api) root base = Inr dir" "t = [] \<or> t = ''/''"
  shows "sanitize_path (percent_decode api) root (slashed base @ percent_encode api PERCENT_ENCODE_SET n @ t)
    = Inr (path_push dir n)"
proof -
  let ?n = "percent_encode api PERCENT_ENCODE_SET n" and ?names = "\<lambda>u. normal_names (components (percent_decode api u))"
  note laws = percent_lawsD [OF assms(1)]
  from assms(2) have b: "base = d @ slash # p" by (simp add: rsplit_once_Some)
  have slash: "?names (u @ slash # v) = ?names u @ ?names v" for u v
    by (simp add: laws(2) normal_names_slash)
  have "?names (?n @ t) = [n]"
    using assms(3,5) slash [of ?n "[]"] laws(1) laws(3) [of n] by (auto simp: components_plain)
  then have "?names (slashed base @ ?n @ t) = ?names base @ [n]"
    using slash [of d p] slash [of d] slash [of p "?n @ t"] laws(1) b
    unfolding slashed_rsplit [OF assms(2)] by auto
  with assms(4) show ?thesis
    by (auto simp: sanitize_path_eq names_decode_tail [OF assms(1)])
qed


section \<open>A percent encoder\<close>

definition hex_digit :: "nat \<Rightarrow> char" where
  "hex_digit n = (''0123456789ABCDEF'' ! n)"

definition percent_encode_all :: "(char \<Rightarrow> bool) \<Rightarrow> bytes \<Rightarrow> string" where
  "percent_encode_all encoded bs = concat (map (\<lambda>c.
     if encoded c then [CHR ''%'', hex_digit (of_char c div 16), hex_digit (of_char c mod 16)] else [c]) bs)"

definition link_api :: api where
  "link_api = sample_api\<lparr>percent_encode := percent_encode_all\<rparr>"

lemma hex_digit_val:
  assumes "n < 16"
  shows "hex_val (hex_digit n) = Some n" "hex_digit n \<noteq> slash" "hex_digit n \<noteq> CHR '':''"
proof -
  have "list_all (\<lambda>n. hex_val (hex_digit n) = Some n \<and> hex_digit n \<noteq> slash \<and> hex_digit n \<noteq> CHR '':'') [0..<16]"
    by code_simp
  with assms show "hex_val (hex_digit n) = Some n" "hex_digit n \<noteq> slash" "hex_digit n \<noteq> CHR '':''"
    by (simp_all add: list_all_iff)
qed

lemma decode_cons: "c \<noteq> CHR ''%'' \<Longrightarrow> percent_decode_all (c # cs) = c # percent_decode_all cs"
  by (cases cs; cases "tl cs") auto

lemma of_char_bound: "of_char c < (256 :: nat)"
  using of_char_mod_256 [of c, where ?'a = nat] mod_less_divisor [of 256 "of_char c"] by simp

lemma nibbles:
  fixes c :: char
  shows "hex_val (hex_digit (of_char c div 16)) = Some (of_char c div 16)"
    "hex_val (hex_digit (of_char c mod 16)) = Some (of_char c mod 16)"
    "hex_digit (of_char c div 16) \<notin> {slash, CHR '':''}" "hex_digit (of_char c mod 16) \<notin> {slash, CHR '':''}"
proof -
  have "of_char c div 16 < (16 :: nat)" "of_char c mod 16 < (16 :: nat)"
    using of_char_bound [of c] less_mult_imp_div_less [of "of_char c" 16 16] by simp_all
  then show "hex_val (hex_digit (of_char c div 16)) = Some (of_char c div 16)"
    "hex_val (hex_digit (of_char c mod 16)) = Some (of_char c mod 16)"
    "hex_digit (of_char c div 16) \<notin> {slash, CHR '':''}" "hex_digit (of_char c mod 16) \<notin> {slash, CHR '':''}"
    using hex_digit_val by auto
qed

lemma decode_hex: "percent_decode_all (CHR ''%'' # hex_digit (of_char c div 16) # hex_digit (of_char c mod 16) # cs)
    = c # percent_decode_all cs"
  by (simp add: nibbles)

lemma hex_slash: "hex_val slash = None"
  by code_simp

lemma decode_percent_slash: "percent_decode_all (CHR ''%'' # slash # t) = CHR ''%'' # slash # percent_decode_all t"
  by (cases t) (simp_all add: hex_slash decode_cons)

lemma decode_slash: "percent_decode_all (s @ slash # t) = percent_decode_all s @ slash # percent_decode_all t"
proof (induction s rule: percent_decode_all.induct, goal_cases)
  case (1 c h l cs)
  then show ?case by (auto split: option.splits)
next
  case (3 c)
  then show ?case by (cases "c = CHR ''%''") (simp_all add: decode_percent_slash decode_cons)
next
  case (4 c h)
  have "percent_decode_all (c # h # slash # t) = c # percent_decode_all (h # slash # t)"
    by (auto simp: hex_slash split: option.splits)
  then show ?case by (cases "h = CHR ''%''") (simp_all add: decode_percent_slash decode_cons del: percent_decode_all.simps(1))
qed (simp add: decode_cons)

lemma encode_set:
  "PERCENT_ENCODE_SET (CHR ''%'')" "PERCENT_ENCODE_SET slash" "PERCENT_ENCODE_SET (CHR '':'')"
  by code_simp+

lemma percent_encode_simps:
  "percent_encode_all f [] = []"
  "percent_encode_all f (c # cs) =
     (if f c then [CHR ''%'', hex_digit (of_char c div 16), hex_digit (of_char c mod 16)] else [c]) @ percent_encode_all f cs"
  by (simp_all add: percent_encode_all_def)

lemma link_api_laws: "percent_laws link_api"
proof -
  have "percent_decode_all (percent_encode_all PERCENT_ENCODE_SET n) = n" for n
  proof (induction n)
    case (Cons c n)
    have "c \<noteq> CHR ''%''" if "\<not> PERCENT_ENCODE_SET c" using that encode_set(1) by metis
    with Cons show ?case
      by (simp add: percent_encode_simps decode_hex decode_cons del: percent_decode_all.simps)
  qed (simp add: percent_encode_simps)
  moreover have "{slash, CHR '':''} \<inter> set (percent_encode_all PERCENT_ENCODE_SET n) = {}" for n
  proof (induction n)
    case (Cons c n)
    then show ?case
      using nibbles(3,4) [of c] encode_set by (cases "PERCENT_ENCODE_SET c") (auto simp: percent_encode_simps)
  qed (simp add: percent_encode_simps)
  ultimately show ?thesis
    by (simp add: percent_laws_def link_api_def decode_slash)
qed


text \<open>
  The proviso on the colon is needed: with \<^verbatim>\<open>--redirect-trailing-slash=false\<close> the links of the directory \<^verbatim>\<open>/a:b\<close>
  start with \<^verbatim>\<open>a:b/\<close>, which is an absolute URI with the scheme \<^verbatim>\<open>a\<close>.
\<close>

lemma colon_links_lost: "resolve_link ''/a:b'' (entry_uri api ''/a:b'' n ty) = None"
  by (simp add: resolve_link_def entry_uri_def rsplit_once_def ends_with_def Let_def)

end
