(* ===== verification/Logger.thy ===== *)
theory Logger
  imports Http
begin

text \<open>
  Setting up the log (\<^verbatim>\<open>src/logger.rs\<close>). Parsing a level and installing a subscriber are the tracing crates':
  the record \<open>log_env\<close> holds what they answer. The layer that \<^verbatim>\<open>configure\<close> builds is a value.
\<close>

text \<open>The levels of \<^verbatim>\<open>tracing::Level\<close>.\<close>

datatype level = LV_ERROR | LV_WARN | LV_INFO | LV_DEBUG | LV_TRACE

record log_targets =
  lt_default :: level
  lt_targets :: "(string \<times> level) list"

record log_layer =
  ll_writer :: string
  ll_span_events :: string
  ll_ansi :: bool
  ll_filter :: log_targets

record log_env =
  parse_level :: "string \<Rightarrow> level option"
  try_init :: "log_layer \<Rightarrow> bool"

definition logger_configure :: "log_env \<Rightarrow> bool \<Rightarrow> string \<Rightarrow> (string, unit) result" where
  "logger_configure env windows lvl =
     (case parse_level env lvl of
        None \<Rightarrow> Inl (Err ''failed to parse log level'')
      | Some lvl \<Rightarrow>
          (let enable_ansi = (\<not> windows);
               filtered_layer = \<lparr>ll_writer = ''stderr'', ll_span_events = ''CLOSE'', ll_ansi = enable_ansi,
                 ll_filter = \<lparr>lt_default = lvl,
                   lt_targets = [(''static_web_server::info'', LV_INFO), (''static_web_server::warn'', LV_WARN)]\<rparr>\<rparr>
           in if try_init env filtered_layer then Inr ()
              else Inl (Err ''a global default trace dispatcher has already been set'')))"

text \<open>An error gets the context \<^verbatim>\<open>failed to initialize logging\<close>, which is what it shows.\<close>

definition logger_init :: "api \<Rightarrow> log_env \<Rightarrow> bool \<Rightarrow> string \<Rightarrow> (string, unit) result" where
  "logger_init api env windows lvl =
     (case logger_configure env windows (to_lowercase api lvl) of
        Inl (Err _) \<Rightarrow> Inl (Err ''failed to initialize logging'')
      | r \<Rightarrow> r)"

text \<open>The documented names of the levels.\<close>

definition named_levels :: "log_env \<Rightarrow> bool" where
  "named_levels env \<longleftrightarrow> parse_level env ''error'' = Some LV_ERROR \<and> parse_level env ''warn'' = Some LV_WARN
    \<and> parse_level env ''info'' = Some LV_INFO \<and> parse_level env ''debug'' = Some LV_DEBUG
    \<and> parse_level env ''trace'' = Some LV_TRACE"

lemma logger_init_Inr:
  "logger_init api env windows lvl = Inr () \<longleftrightarrow>
     (\<exists>l. parse_level env (to_lowercase api lvl) = Some l
        \<and> try_init env \<lparr>ll_writer = ''stderr'', ll_span_events = ''CLOSE'', ll_ansi = (\<not> windows),
            ll_filter = \<lparr>lt_default = l,
              lt_targets = [(''static_web_server::info'', LV_INFO), (''static_web_server::warn'', LV_WARN)]\<rparr>\<rparr>)"
  by (auto simp: logger_init_def logger_configure_def Let_def split: option.splits)

end
