(* ===== verification/Settings.thy ===== *)
theory Settings
  imports Handler_Opts Logger
begin

text \<open>
  The settings of the server: the command line options (\<^verbatim>\<open>src/settings/cli.rs\<close>), the configuration file
  (\<^verbatim>\<open>src/settings/file.rs\<close>) and how \<^verbatim>\<open>Settings::read\<close> (\<^verbatim>\<open>src/settings/mod.rs\<close>) puts them together. Parsing the
  command line (clap) and TOML (toml, serde) is third-party: the record \<open>config_env\<close> holds what those
  crates, the glob and regular expression compilers and \<^verbatim>\<open>canonicalize\<close> answer.
\<close>

section \<open>cli.rs\<close>

type_synonym usize = u64

datatype commands = Generate bool bool path

record general =
  g_host :: string
  g_port :: u16
  g_fd :: "usize option"
  g_threads_multiplier :: usize
  g_max_blocking_threads :: usize
  g_root :: path
  g_page50x :: path
  g_page404 :: path
  g_page_fallback :: path
  g_log_level :: string
  g_cors_allow_origins :: string
  g_cors_allow_headers :: string
  g_cors_expose_headers :: string
  g_http2 :: bool
  g_http2_tls_cert :: "path option"
  g_http2_tls_key :: "path option"
  g_https_redirect :: bool
  g_https_redirect_host :: string
  g_https_redirect_from_port :: u16
  g_https_redirect_from_hosts :: string
  g_index_files :: string
  g_compression :: bool
  g_compression_level :: compression_level
  g_compression_static :: bool
  g_directory_listing :: bool
  g_directory_listing_order :: u8
  g_directory_listing_format :: dir_list_fmt
  g_security_headers :: bool
  g_cache_control_headers :: bool
  g_basic_auth :: string
  g_grace_period :: u8
  g_config_file :: path
  g_log_remote_address :: bool
  g_log_forwarded_for :: bool
  g_trusted_proxies :: "ip_addr list"
  g_redirect_trailing_slash :: bool
  g_ignore_hidden_files :: bool
  g_disable_symlinks :: bool
  g_health :: bool
  g_experimental_metrics :: bool
  g_maintenance_mode :: bool
  g_maintenance_mode_status :: status
  g_maintenance_mode_file :: path
  g_commands :: "commands option"
  g_version :: bool

text \<open>The values of the options that are given neither on the command line nor in the environment.\<close>

definition cli_defaults :: general where
  "cli_defaults =
    \<lparr>g_host = ''::'', g_port = 80, g_fd = None, g_threads_multiplier = 1, g_max_blocking_threads = 512,
     g_root = ''./public'', g_page50x = ''./50x.html'', g_page404 = ''./404.html'', g_page_fallback = [],
     g_log_level = ''error'',
     g_cors_allow_origins = [], g_cors_allow_headers = ''origin, content-type, authorization'',
     g_cors_expose_headers = ''origin, content-type'',
     g_http2 = False, g_http2_tls_cert = None, g_http2_tls_key = None,
     g_https_redirect = False, g_https_redirect_host = ''localhost'', g_https_redirect_from_port = 80,
     g_https_redirect_from_hosts = ''localhost'',
     g_index_files = ''index.html'',
     g_compression = True, g_compression_level = Default_Level, g_compression_static = False,
     g_directory_listing = False, g_directory_listing_order = 6, g_directory_listing_format = Fmt_Html,
     g_security_headers = False, g_cache_control_headers = True, g_basic_auth = [], g_grace_period = 0,
     g_config_file = ''./config.toml'',
     g_log_remote_address = False, g_log_forwarded_for = False, g_trusted_proxies = [],
     g_redirect_trailing_slash = True, g_ignore_hidden_files = False, g_disable_symlinks = False,
     g_health = False, g_experimental_metrics = False,
     g_maintenance_mode = False, g_maintenance_mode_status = SERVICE_UNAVAILABLE, g_maintenance_mode_file = [],
     g_commands = None, g_version = False\<rparr>"

definition value_parser_pathbuf :: "string \<Rightarrow> (string, path) result" where
  "value_parser_pathbuf s = Inr s"

text \<open>\<^verbatim>\<open>str::parse::<u16>\<close>: an optional plus sign and digits whose value fits.\<close>

definition parse_u16 :: "string \<Rightarrow> u16 option" where
  "parse_u16 s =
     (let ds = (case s of c # cs \<Rightarrow> if c = CHR ''+'' then cs else s | [] \<Rightarrow> [])
      in if ds = [] \<or> \<not> list_all is_digit ds \<or> 65535 < dec_val ds then None
         else Some (word_of_nat (dec_val ds)))"

definition value_parser_status_code :: "(u16 \<Rightarrow> status option) \<Rightarrow> string \<Rightarrow> (string, status) result" where
  "value_parser_status_code status_from_u16 s =
     (case parse_u16 s of
        Some code \<Rightarrow>
          (case status_from_u16 code of
             Some st \<Rightarrow> Inr st
           | None \<Rightarrow> Inl (Err ''invalid status code''))
      | None \<Rightarrow> Inl (Err ''invalid digit found in string''))"

section \<open>file.rs\<close>

datatype log_level = LL_Error | LL_Warn | LL_Info | LL_Debug | LL_Trace

fun log_level_name :: "log_level \<Rightarrow> string" where
  "log_level_name LL_Error = ''error''"
| "log_level_name LL_Warn = ''warn''"
| "log_level_name LL_Info = ''info''"
| "log_level_name LL_Debug = ''debug''"
| "log_level_name LL_Trace = ''trace''"

record file_redirects =
  fr_host :: "string option"
  fr_source :: string
  fr_destination :: string
  fr_kind :: redirects_kind

record file_virtual_hosts =
  fv_host :: string
  fv_root :: "path option"

record file_advanced =
  fa_headers :: "headers_entry list option"
  fa_rewrites :: "rewrites_entry list option"
  fa_redirects :: "file_redirects list option"
  fa_virtual_hosts :: "file_virtual_hosts list option"
  fa_memory_cache :: "memory_cache_settings option"

record file_general =
  f_host :: "string option"
  f_port :: "u16 option"
  f_root :: "path option"
  f_log_level :: "log_level option"
  f_cache_control_headers :: "bool option"
  f_compression :: "bool option"
  f_compression_level :: "compression_level option"
  f_compression_static :: "bool option"
  f_page404 :: "path option"
  f_page50x :: "path option"
  f_http2 :: "bool option"
  f_http2_tls_cert :: "path option"
  f_http2_tls_key :: "path option"
  f_https_redirect :: "bool option"
  f_https_redirect_host :: "string option"
  f_https_redirect_from_port :: "u16 option"
  f_https_redirect_from_hosts :: "string option"
  f_security_headers :: "bool option"
  f_cors_allow_origins :: "string option"
  f_cors_allow_headers :: "string option"
  f_cors_expose_headers :: "string option"
  f_index_files :: "string option"
  f_directory_listing :: "bool option"
  f_directory_listing_order :: "u8 option"
  f_directory_listing_format :: "dir_list_fmt option"
  f_basic_auth :: "string option"
  f_fd :: "usize option"
  f_threads_multiplier :: "usize option"
  f_max_blocking_threads :: "usize option"
  f_grace_period :: "u8 option"
  f_page_fallback :: "path option"
  f_log_remote_address :: "bool option"
  f_log_forwarded_for :: "bool option"
  f_trusted_proxies :: "ip_addr list option"
  f_redirect_trailing_slash :: "bool option"
  f_ignore_hidden_files :: "bool option"
  f_disable_symlinks :: "bool option"
  f_health :: "bool option"
  f_experimental_metrics :: "bool option"
  f_maintenance_mode :: "bool option"
  f_maintenance_mode_status :: "u16 option"
  f_maintenance_mode_file :: "path option"
  f_memory_cache :: "bool option"

record file_settings =
  toml_general :: "file_general option"
  toml_advanced :: "file_advanced option"

text \<open>\<^verbatim>\<open>serde_ignored::Path\<close>, the place of a key that no setting has taken.\<close>

datatype ignored_path =
    IP_Root
  | IP_Seq ignored_path nat
  | IP_Map ignored_path string
  | IP_Some ignored_path
  | IP_NewtypeStruct ignored_path
  | IP_NewtypeVariant ignored_path

fun stringify :: "string \<Rightarrow> ignored_path \<Rightarrow> string" where
  "stringify dst IP_Root = dst"
| "stringify dst (IP_Seq parent index) =
     (let dst = stringify dst parent
      in (if dst \<noteq> [] then dst @ ''.'' else dst) @ nat_str index)"
| "stringify dst (IP_Map parent key) =
     (let dst = stringify dst parent
      in (if dst \<noteq> [] then dst @ ''.'' else dst) @ key)"
| "stringify dst (IP_Some parent) = stringify dst parent"
| "stringify dst (IP_NewtypeStruct parent) = stringify dst parent"
| "stringify dst (IP_NewtypeVariant parent) = stringify dst parent"

text \<open>
  What the third-party crates answer: \<open>'t\<close> is \<^verbatim>\<open>toml::Value\<close>; a deserialization gives the settings and the
  places of the unknown keys.
\<close>

record 't config_env =
  toml_parse :: "string \<Rightarrow> 't option"
  toml_deserialize :: "'t \<Rightarrow> (file_settings \<times> ignored_path list) option"
  canonicalize :: "path \<Rightarrow> path option"
  status_from_u16 :: "u16 \<Rightarrow> status option"
  tracing :: log_env

text \<open>\<^verbatim>\<open>Path::extension\<close>.\<close>

definition path_extension :: "path \<Rightarrow> string option" where
  "path_extension p =
     (case file_name p of
        None \<Rightarrow> None
      | Some name \<Rightarrow>
          (case rsplit_once (CHR ''.'') name of
             Some (before, after) \<Rightarrow> if before = [] then None else Some after
           | None \<Rightarrow> None))"

definition read_toml_file :: "'t config_env \<Rightarrow> fs \<Rightarrow> path \<Rightarrow> (string, 't) result" where
  "read_toml_file env fs p =
     (case read_file fs p of
        Inl e \<Rightarrow> Inl e
      | Inr toml_str \<Rightarrow>
          (case toml_parse env toml_str of
             Some v \<Rightarrow> Inr v
           | None \<Rightarrow> Inl (Err ''could not parse input as TOML'')))"

text \<open>The second component is the set of warnings printed for unknown keys.\<close>

definition file_settings_read ::
  "'t config_env \<Rightarrow> fs \<Rightarrow> path \<Rightarrow> (string, file_settings \<times> string set) result" where
  "file_settings_read env fs config_file =
     (case path_extension config_file of
        None \<Rightarrow> Inl (Err ''configuration file should be in toml format. E.g `config.toml`'')
      | Some ext \<Rightarrow>
          if ext = [] \<or> ext \<noteq> ''toml''
          then Inl (Err ''configuration file should be in toml format. E.g `config.toml`'')
          else
            (case read_toml_file env fs config_file of
               Inl e \<Rightarrow> Inl e
             | Inr toml \<Rightarrow>
                 (case toml_deserialize env toml of
                    None \<Rightarrow> Inl (Err ''error during toml configuration file deserialization'')
                  | Some (manifest, ignored) \<Rightarrow> Inr (manifest, set (map (stringify []) ignored)))))"

section \<open>mod.rs\<close>

text \<open>\<^verbatim>\<open>trim_start_matches\<close> and \<^verbatim>\<open>replace\<close> of \<^verbatim>\<open>str\<close> with a non-empty pattern.\<close>

function trim_start_matches :: "string \<Rightarrow> string \<Rightarrow> string" where
  "trim_start_matches pat s =
     (if pat \<noteq> [] \<and> prefix pat s then trim_start_matches pat (drop (length pat) s) else s)"
  by pat_completeness auto
termination
  by (relation "measure (\<lambda>(pat, s). length s)") (auto simp: prefix_def)

declare trim_start_matches.simps [simp del]

function str_replace :: "string \<Rightarrow> string \<Rightarrow> string \<Rightarrow> string" where
  "str_replace pat new [] = []"
| "str_replace pat new (c # cs) =
     (if pat \<noteq> [] \<and> prefix pat (c # cs) then new @ str_replace pat new (drop (length pat) (c # cs))
      else c # str_replace pat new cs)"
  by pat_completeness auto
termination
  by (relation "measure (\<lambda>(pat, new, s). length s)") (auto simp: prefix_def)

declare str_replace.simps [simp del]

record settings =
  s_general :: general
  s_advanced :: "advanced option"

definition read_file_settings ::
  "'t config_env \<Rightarrow> fs \<Rightarrow> path \<Rightarrow> (string, (file_settings \<times> path) option) result" where
  "read_file_settings env fs config_file =
     (if is_file fs config_file then
        (case canonicalize env config_file of
           None \<Rightarrow> Inl (Err ''unable to resolve toml config file path'')
         | Some file_path_resolved \<Rightarrow>
             (case file_settings_read env fs file_path_resolved of
                Inl e \<Rightarrow> Inl e
              | Inr (settings, _) \<Rightarrow> Inr (Some (settings, file_path_resolved))))
      else Inr None)"

text \<open>An option of the file, where it is present, replaces the value so far.\<close>

definition keep :: "'a option \<Rightarrow> 'a \<Rightarrow> 'a" where
  "keep v d = (case v of Some x \<Rightarrow> x | None \<Rightarrow> d)"

definition keep_opt :: "'a option \<Rightarrow> 'a option \<Rightarrow> 'a option" where
  "keep_opt v d = (case v of Some x \<Rightarrow> Some x | None \<Rightarrow> d)"

definition merge_general ::
  "api \<Rightarrow> 't config_env \<Rightarrow> general \<Rightarrow> file_general \<Rightarrow> (string, general) result" where
  "merge_general api env opts f =
     (let http2 = keep (f_http2 f) (g_http2 opts);
          merged = opts
            \<lparr>g_host := keep (f_host f) (g_host opts),
             g_port := keep (f_port f) (g_port opts),
             g_root := keep (f_root f) (g_root opts),
             g_log_level := keep (map_option (\<lambda>l. to_lowercase api (log_level_name l)) (f_log_level f)) (g_log_level opts),
             g_cache_control_headers := keep (f_cache_control_headers f) (g_cache_control_headers opts),
             g_compression := keep (f_compression f) (g_compression opts),
             g_compression_level := keep (f_compression_level f) (g_compression_level opts),
             g_compression_static := keep (f_compression_static f) (g_compression_static opts),
             g_page404 := keep (f_page404 f) (g_page404 opts),
             g_page50x := keep (f_page50x f) (g_page50x opts),
             g_http2 := http2,
             g_http2_tls_cert := keep_opt (f_http2_tls_cert f) (g_http2_tls_cert opts),
             g_http2_tls_key := keep_opt (f_http2_tls_key f) (g_http2_tls_key opts),
             g_https_redirect := keep (f_https_redirect f) (g_https_redirect opts),
             g_https_redirect_host := keep (f_https_redirect_host f) (g_https_redirect_host opts),
             g_https_redirect_from_port := keep (f_https_redirect_from_port f) (g_https_redirect_from_port opts),
             g_https_redirect_from_hosts := keep (f_https_redirect_from_hosts f) (g_https_redirect_from_hosts opts),
             g_security_headers :=
               (case f_security_headers f of
                  Some v \<Rightarrow> v
                | None \<Rightarrow> if http2 then True else g_security_headers opts),
             g_cors_allow_origins := keep (f_cors_allow_origins f) (g_cors_allow_origins opts),
             g_cors_allow_headers := keep (f_cors_allow_headers f) (g_cors_allow_headers opts),
             g_cors_expose_headers := keep (f_cors_expose_headers f) (g_cors_expose_headers opts),
             g_directory_listing := keep (f_directory_listing f) (g_directory_listing opts),
             g_directory_listing_order := keep (f_directory_listing_order f) (g_directory_listing_order opts),
             g_directory_listing_format := keep (f_directory_listing_format f) (g_directory_listing_format opts),
             g_basic_auth := keep (f_basic_auth f) (g_basic_auth opts),
             g_fd := keep_opt (f_fd f) (g_fd opts),
             g_threads_multiplier := keep (f_threads_multiplier f) (g_threads_multiplier opts),
             g_max_blocking_threads := keep (f_max_blocking_threads f) (g_max_blocking_threads opts),
             g_grace_period := keep (f_grace_period f) (g_grace_period opts),
             g_page_fallback := keep (f_page_fallback f) (g_page_fallback opts),
             g_log_remote_address := keep (f_log_remote_address f) (g_log_remote_address opts),
             g_log_forwarded_for := keep (f_log_forwarded_for f) (g_log_forwarded_for opts),
             g_trusted_proxies := keep (f_trusted_proxies f) (g_trusted_proxies opts),
             g_redirect_trailing_slash := keep (f_redirect_trailing_slash f) (g_redirect_trailing_slash opts),
             g_ignore_hidden_files := keep (f_ignore_hidden_files f) (g_ignore_hidden_files opts),
             g_disable_symlinks := keep (f_disable_symlinks f) (g_disable_symlinks opts),
             g_health := keep (f_health f) (g_health opts),
             g_experimental_metrics := keep (f_experimental_metrics f) (g_experimental_metrics opts),
             g_index_files := keep (f_index_files f) (g_index_files opts),
             g_maintenance_mode := keep (f_maintenance_mode f) (g_maintenance_mode opts),
             g_maintenance_mode_file := keep (f_maintenance_mode_file f) (g_maintenance_mode_file opts)\<rparr>
      in case f_maintenance_mode_status f of
           None \<Rightarrow> Inr merged
         | Some v \<Rightarrow>
             (case status_from_u16 env v of
                Some st \<Rightarrow> Inr (merged\<lparr>g_maintenance_mode_status := st\<rparr>)
              | None \<Rightarrow> Inl (Err ''invalid HTTP status code'')))"

text \<open>A list of fallible steps; the first error ends it.\<close>

fun map_results :: "('a \<Rightarrow> ('e, 'b) result) \<Rightarrow> 'a list \<Rightarrow> ('e, 'b list) result" where
  "map_results f [] = Inr []"
| "map_results f (x # xs) =
     (case f x of
        Inl e \<Rightarrow> Inl e
      | Inr y \<Rightarrow> (case map_results f xs of Inl e \<Rightarrow> Inl e | Inr ys \<Rightarrow> Inr (y # ys)))"

definition map_option_results ::
  "('a list \<Rightarrow> ('e, 'b) result) \<Rightarrow> 'a list option \<Rightarrow> ('e, 'b option) result" where
  "map_option_results f o' =
     (case o' of None \<Rightarrow> Inr None | Some xs \<Rightarrow> map_sum id Some (f xs))"

definition compile_header :: "api \<Rightarrow> headers_entry \<Rightarrow> (string, headers_entry) result" where
  "compile_header api e =
     (if glob_valid api (he_source e) then Inr \<lparr>he_source = he_source e, he_headers = he_headers e\<rparr>
      else Inl (Err (''can not compile glob pattern for header source: '' @ he_source e)))"

text \<open>The regular expression for the glob of a rewrite or redirect, whose groups become capturing.\<close>

definition capture_pattern :: "string \<Rightarrow> string" where
  "capture_pattern re =
     str_replace ''.*.*'' ''.*''
       (str_replace ''?:'' [] (str_replace ''?:.*'' ''.*'' (trim_start_matches ''(?-u)'' re)))"

definition compile_source :: "api \<Rightarrow> string \<Rightarrow> string \<Rightarrow> (string, string) result" where
  "compile_source api what source =
     (case glob_to_regex api source of
        None \<Rightarrow> Inl (Err (''can not compile glob pattern for '' @ what @ '' source: '' @ source))
      | Some re \<Rightarrow>
          (let pattern = capture_pattern re
           in if regex_valid api pattern then Inr pattern
              else Inl (Err (''can not compile regex pattern equivalent for '' @ what @ '' source: '' @ pattern))))"

definition compile_rewrite :: "api \<Rightarrow> rewrites_entry \<Rightarrow> (string, rewrites_entry) result" where
  "compile_rewrite api e =
     map_sum id (\<lambda>source. \<lparr>rw_source = source, rw_destination = rw_destination e, rw_redirect = rw_redirect e\<rparr>)
       (compile_source api ''rewrite'' (rw_source e))"

fun kind_as_u16 :: "redirects_kind \<Rightarrow> u16" where
  "kind_as_u16 Permanent = 301"
| "kind_as_u16 Temporary = 302"

definition compile_redirect ::
  "api \<Rightarrow> 't config_env \<Rightarrow> file_redirects \<Rightarrow> (string, redirects_entry) result" where
  "compile_redirect api env e =
     (case compile_source api ''redirect'' (fr_source e) of
        Inl err \<Rightarrow> Inl err
      | Inr source \<Rightarrow>
          (case status_from_u16 env (kind_as_u16 (fr_kind e)) of
             None \<Rightarrow> Inl (Err (''invalid redirect status code: '' @ nat_str (unat (kind_as_u16 (fr_kind e)))))
           | Some st \<Rightarrow>
               Inr \<lparr>rd_host = fr_host e, rd_source = source, rd_destination = fr_destination e, rd_kind = st\<rparr>))"

fun compile_vhosts :: "fs \<Rightarrow> file_virtual_hosts list \<Rightarrow> (string, virtual_host list) result" where
  "compile_vhosts fs [] = Inr []"
| "compile_vhosts fs (e # es) =
     (case fv_root e of
        None \<Rightarrow> compile_vhosts fs es
      | Some root \<Rightarrow>
          (case get_valid_dirpath fs root of
             Inl _ \<Rightarrow> Inl (Err ''root directory for virtual host was not found or inaccessible'')
           | Inr root_dir \<Rightarrow>
               (case compile_vhosts fs es of
                  Inl err \<Rightarrow> Inl err
                | Inr vs \<Rightarrow> Inr (\<lparr>vh_host = fv_host e, vh_root = root_dir\<rparr> # vs))))"

definition compile_advanced ::
  "api \<Rightarrow> 't config_env \<Rightarrow> fs \<Rightarrow> file_advanced \<Rightarrow> (string, advanced) result" where
  "compile_advanced api env fs a =
     (case map_option_results (map_results (compile_header api)) (fa_headers a) of
        Inl e \<Rightarrow> Inl e
      | Inr headers_entries \<Rightarrow>
     (case map_option_results (map_results (compile_rewrite api)) (fa_rewrites a) of
        Inl e \<Rightarrow> Inl e
      | Inr rewrites_entries \<Rightarrow>
     (case map_option_results (map_results (compile_redirect api env)) (fa_redirects a) of
        Inl e \<Rightarrow> Inl e
      | Inr redirects_entries \<Rightarrow>
     (case map_option_results (compile_vhosts fs) (fa_virtual_hosts a) of
        Inl e \<Rightarrow> Inl e
      | Inr vhosts_entries \<Rightarrow>
          Inr \<lparr>adv_headers = headers_entries, adv_rewrites = rewrites_entries,
               adv_redirects = redirects_entries, adv_virtual_hosts = vhosts_entries,
               adv_memory_cache = fa_memory_cache a\<rparr>))))"

definition start_logger :: "api \<Rightarrow> 't config_env \<Rightarrow> bool \<Rightarrow> general \<Rightarrow> (string, general) result" where
  "start_logger api env log_init g =
     (if log_init then map_sum id (\<lambda>_. g) (logger_init api (tracing env) False (g_log_level g)) else Inr g)"

text \<open>\<open>opts\<close> is what clap makes of the command line and the environment.\<close>

definition settings_read ::
  "api \<Rightarrow> 't config_env \<Rightarrow> fs \<Rightarrow> bool \<Rightarrow> general \<Rightarrow> (string, settings) result" where
  "settings_read api env fs log_init opts =
     (case read_file_settings env fs (g_config_file opts) of
        Inl e \<Rightarrow> Inl e
      | Inr None \<Rightarrow> map_sum id (\<lambda>g. \<lparr>s_general = g, s_advanced = None\<rparr>) (start_logger api env log_init opts)
      | Inr (Some (settings, config_file_resolved)) \<Rightarrow>
          (case (case toml_general settings of
                   None \<Rightarrow> Inr opts
                 | Some general \<Rightarrow> merge_general api env opts general) of
             Inl e \<Rightarrow> Inl e
           | Inr g \<Rightarrow>
               (case start_logger api env log_init (g\<lparr>g_config_file := config_file_resolved\<rparr>) of
                  Inl e \<Rightarrow> Inl e
                | Inr g \<Rightarrow>
                    (case toml_advanced settings of
                       None \<Rightarrow> Inr \<lparr>s_general = g, s_advanced = None\<rparr>
                     | Some advanced \<Rightarrow>
                         map_sum id (\<lambda>a. \<lparr>s_general = g, s_advanced = Some a\<rparr>)
                           (compile_advanced api env fs advanced)))))"

section \<open>Lemmas\<close>

lemma keep_simps [simp]: "keep (Some x) d = x" "keep None d = d" "keep v (keep v d) = keep v d"
  by (cases v; simp add: keep_def)+

lemma keep_opt_simps [simp]: "keep_opt (Some x) e = Some x" "keep_opt None e = e" "keep_opt v (keep_opt v e) = keep_opt v e"
  by (cases v; simp add: keep_opt_def)+

lemma map_results_Inr: "map_results f xs = Inr ys \<Longrightarrow> list_all2 (\<lambda>x y. f x = Inr y) xs ys"
  by (induction xs arbitrary: ys) (auto split: sum.splits)

lemma compile_source_valid: "compile_source api w g = Inr re \<Longrightarrow> regex_valid api re"
  by (auto simp: compile_source_def Let_def split: option.splits if_splits)

lemma compile_header_Inr: "compile_header api e = Inr e' \<longleftrightarrow> e' = e \<and> glob_valid api (he_source e)"
  by (auto simp: compile_header_def)

section \<open>Properties\<close>


text \<open>Every level a configuration file can name is accepted: only a second subscriber stops the log.\<close>

lemma file_log_level_accepted:
  assumes "merge_general api env g f = Inr g'" "f_log_level f = Some l" "named_levels (tracing env)"
    and "\<And>l. to_lowercase api (log_level_name l) = log_level_name l" "\<And>layer. try_init (tracing env) layer"
  shows "start_logger api env True g' = Inr g'"
proof -
  have "g_log_level g' = log_level_name l"
    using assms(1,2,4) by (auto simp: merge_general_def Let_def split: option.splits)
  moreover have "parse_level (tracing env) (log_level_name l) \<noteq> None"
    using assms(3) by (cases l) (simp_all add: named_levels_def)
  ultimately have "logger_init api (tracing env) False (g_log_level g') = Inr ()"
    using assms(4,5) by (auto simp: logger_init_Inr)
  then show ?thesis by (simp add: start_logger_def)
qed

definition rewrite_compiled :: "api \<Rightarrow> rewrites_entry \<Rightarrow> rewrites_entry \<Rightarrow> bool" where
  "rewrite_compiled api e r \<longleftrightarrow>
     compile_source api ''rewrite'' (rw_source e) = Inr (rw_source r) \<and> regex_valid api (rw_source r)
     \<and> rw_destination r = rw_destination e \<and> rw_redirect r = rw_redirect e"

definition redirect_compiled :: "api \<Rightarrow> 't config_env \<Rightarrow> file_redirects \<Rightarrow> redirects_entry \<Rightarrow> bool" where
  "redirect_compiled api env e r \<longleftrightarrow>
     compile_source api ''redirect'' (fr_source e) = Inr (rd_source r) \<and> regex_valid api (rd_source r)
     \<and> rd_host r = fr_host e \<and> rd_destination r = fr_destination e
     \<and> status_from_u16 env (kind_as_u16 (fr_kind e)) = Some (rd_kind r)"

definition vhosts_compiled :: "fs \<Rightarrow> file_virtual_hosts list \<Rightarrow> virtual_host list \<Rightarrow> bool" where
  "vhosts_compiled fs es vs \<longleftrightarrow>
     map (\<lambda>v. (vh_host v, Some (vh_root v))) vs = filter (\<lambda>e. snd e \<noteq> None) (map (\<lambda>e. (fv_host e, fv_root e)) es)
     \<and> list_all (\<lambda>v. is_dir fs (vh_root v)) vs"

lemma compile_vhosts_Inr: "compile_vhosts fs es = Inr vs \<Longrightarrow> vhosts_compiled fs es vs"
  unfolding vhosts_compiled_def
proof (induction es arbitrary: vs)
  case (Cons e es)
  then show ?case
    by (cases "fv_root e") (auto simp: get_valid_dirpath_def split: sum.splits if_splits)
qed simp

lemma compile_rewrite_Inr: "compile_rewrite api e = Inr r \<Longrightarrow> rewrite_compiled api e r"
  by (cases "compile_source api ''rewrite'' (rw_source e)")
    (auto simp: compile_rewrite_def rewrite_compiled_def dest: compile_source_valid)

lemma compile_redirect_Inr: "compile_redirect api env e = Inr r \<Longrightarrow> redirect_compiled api env e r"
  by (auto simp: compile_redirect_def redirect_compiled_def dest: compile_source_valid
      split: sum.splits option.splits)

lemma map_option_results_rel:
  "map_option_results f o' = Inr r \<Longrightarrow> (\<And>xs y. f xs = Inr y \<Longrightarrow> P xs y) \<Longrightarrow> rel_option P o' r"
  by (cases o'; cases "f (the o')") (auto simp: map_option_results_def)

lemma map_results_rel:
  "map_results f xs = Inr ys \<Longrightarrow> (\<And>x y. f x = Inr y \<Longrightarrow> P x y) \<Longrightarrow> list_all2 P xs ys"
  by (rule list_all2_mono [OF map_results_Inr])

text \<open>C20: compiling the advanced settings keeps every entry in its place: the headers as they are, the
  rewrites and redirects with a valid regular expression for their glob and the same destination, the
  virtual hosts that have a root, which is a directory at that time; the first bad entry is an error.\<close>

theorem advanced_compiled:
  assumes "compile_advanced api env fs a = Inr adv"
  shows "adv_headers adv = fa_headers a
     \<and> rel_option (list_all2 (rewrite_compiled api)) (fa_rewrites a) (adv_rewrites adv)
     \<and> rel_option (list_all2 (redirect_compiled api env)) (fa_redirects a) (adv_redirects adv)
     \<and> rel_option (vhosts_compiled fs) (fa_virtual_hosts a) (adv_virtual_hosts adv)
     \<and> adv_memory_cache adv = fa_memory_cache a"
proof -
  have h: "map_option_results (map_results (compile_header api)) (fa_headers a) = Inr (adv_headers adv)"
    and w: "map_option_results (map_results (compile_rewrite api)) (fa_rewrites a) = Inr (adv_rewrites adv)"
    and r: "map_option_results (map_results (compile_redirect api env)) (fa_redirects a) = Inr (adv_redirects adv)"
    and v: "map_option_results (compile_vhosts fs) (fa_virtual_hosts a) = Inr (adv_virtual_hosts adv)"
    and m: "adv_memory_cache adv = fa_memory_cache a"
    using assms by (auto simp: compile_advanced_def split: sum.splits)
  have "rel_option (list_all2 (=)) (fa_headers a) (adv_headers adv)"
    using h by (rule map_option_results_rel) (erule map_results_rel, simp add: compile_header_Inr)
  moreover have "rel_option (list_all2 (rewrite_compiled api)) (fa_rewrites a) (adv_rewrites adv)"
    using w by (rule map_option_results_rel) (erule map_results_rel, rule compile_rewrite_Inr)
  moreover have "rel_option (list_all2 (redirect_compiled api env)) (fa_redirects a) (adv_redirects adv)"
    using r by (rule map_option_results_rel) (erule map_results_rel, rule compile_redirect_Inr)
  moreover have "rel_option (vhosts_compiled fs) (fa_virtual_hosts a) (adv_virtual_hosts adv)"
    using v by (rule map_option_results_rel) (rule compile_vhosts_Inr)
  ultimately show ?thesis
    using m by (simp add: list.rel_eq option.rel_eq)
qed

section \<open>Witnesses\<close>

definition no_general :: file_general where
  "no_general =
    \<lparr>f_host = None, f_port = None, f_root = None, f_log_level = None, f_cache_control_headers = None,
     f_compression = None, f_compression_level = None, f_compression_static = None, f_page404 = None,
     f_page50x = None, f_http2 = None, f_http2_tls_cert = None, f_http2_tls_key = None,
     f_https_redirect = None, f_https_redirect_host = None, f_https_redirect_from_port = None,
     f_https_redirect_from_hosts = None, f_security_headers = None, f_cors_allow_origins = None,
     f_cors_allow_headers = None, f_cors_expose_headers = None, f_index_files = None,
     f_directory_listing = None, f_directory_listing_order = None, f_directory_listing_format = None,
     f_basic_auth = None, f_fd = None, f_threads_multiplier = None, f_max_blocking_threads = None,
     f_grace_period = None, f_page_fallback = None, f_log_remote_address = None, f_log_forwarded_for = None,
     f_trusted_proxies = None, f_redirect_trailing_slash = None, f_ignore_hidden_files = None,
     f_disable_symlinks = None, f_health = None, f_experimental_metrics = None, f_maintenance_mode = None,
     f_maintenance_mode_status = None, f_maintenance_mode_file = None, f_memory_cache = None\<rparr>"

definition sample_env :: "unit config_env" where
  "sample_env =
    \<lparr>toml_parse = (\<lambda>_. Some ()), toml_deserialize = (\<lambda>_. None), canonicalize = Some,
     status_from_u16 = (\<lambda>n. if 100 \<le> n \<and> n < 1000 then Some (unat n) else None),
     tracing = \<lparr>parse_level = map_of [(''error'', LV_ERROR), (''warn'', LV_WARN), (''info'', LV_INFO), (''debug'', LV_DEBUG),
       (''trace'', LV_TRACE)], try_init = (\<lambda>_. True)\<rparr>\<rparr>"


theorem advanced_compiled_witness:
  "\<exists>adv. compile_advanced sample_api sample_env (sample_fs [(''/w'', Node_Dir)])
        \<lparr>fa_headers = None,
         fa_rewrites = Some [\<lparr>rw_source = ''(?-u)^/(?:.*)$'', rw_destination = ''/new/$1'', rw_redirect = None\<rparr>],
         fa_redirects = None,
         fa_virtual_hosts = Some [\<lparr>fv_host = ''a.org'', fv_root = Some ''/w''\<rparr>, \<lparr>fv_host = ''b.org'', fv_root = None\<rparr>],
         fa_memory_cache = None\<rparr> = Inr adv
     \<and> map_option (map rw_source) (adv_rewrites adv) = Some [''^/(.*)$'']
     \<and> map_option (map vh_root) (adv_virtual_hosts adv) = Some [''/w'']"
proof -
  let ?rw = "\<lparr>rw_source = ''(?-u)^/(?:.*)$'', rw_destination = ''/new/$1'', rw_redirect = None\<rparr>"
  let ?a = "\<lparr>fa_headers = None, fa_rewrites = Some [?rw], fa_redirects = None,
     fa_virtual_hosts = Some [\<lparr>fv_host = ''a.org'', fv_root = Some ''/w''\<rparr>, \<lparr>fv_host = ''b.org'', fv_root = None\<rparr>],
     fa_memory_cache = None\<rparr>"
  have re: "capture_pattern ''(?-u)^/(?:.*)$'' = ''^/(.*)$''" by code_simp
  obtain adv where adv: "compile_advanced sample_api sample_env (sample_fs [(''/w'', Node_Dir)]) ?a = Inr adv"
    by (simp add: compile_advanced_def map_option_results_def compile_rewrite_def compile_source_def re
        get_valid_dirpath_def path_exists_def is_dir_def sample_fs_def sample_meta_def)
  with advanced_compiled [OF adv] show ?thesis
    by (auto simp: rewrite_compiled_def compile_source_def re vhosts_compiled_def option_rel_Some1
        list_all2_Cons1)
qed

end
