(* ===== verification/Cli.thy ===== *)
theory Cli
  imports Settings Directory_Listing
begin

text \<open>
  The table of command line arguments that \<^verbatim>\<open>src/settings/cli.rs\<close> declares, one entry per \<^verbatim>\<open>#[arg]\<close> attribute in the
  order of the struct, and the version output of \<^verbatim>\<open>src/settings/cli_output.rs\<close>. What clap does with the table is
  third-party; that the table is fit for it, and agrees with the struct, is stated here.
\<close>

section \<open>The arguments\<close>

text \<open>The types of the fields.\<close>

datatype arg_type =
  T_String | T_Path | T_U8 | T_U16 | T_Usize | T_Bool | T_Level | T_Format | T_Status | T_Ips

text \<open>
  An attribute: identifier, short name, environment variable, default value, the value of a bare flag, and what is
  said of other arguments: conflicts, \<^verbatim>\<open>required_if_eq\<close>, \<^verbatim>\<open>requires_if\<close> (value, argument) and
  \<^verbatim>\<open>default_value_if\<close> (argument, value, default).
\<close>

record arg_spec =
  a_id :: string
  a_type :: arg_type
  a_short :: "char option"
  a_env :: "string option"
  a_default :: "string option"
  a_missing :: "string option"
  a_conflicts :: "string list"
  a_required_if :: "(string \<times> string) list"
  a_requires_if :: "(string \<times> string) list"
  a_default_if :: "(string \<times> string \<times> string) list"

definition arg :: "arg_type \<Rightarrow> string \<Rightarrow> string \<Rightarrow> arg_spec" where
  "arg ty name env = \<lparr>a_id = name, a_type = ty, a_short = None, a_env = Some env, a_default = None, a_missing = None,
     a_conflicts = [], a_required_if = [], a_requires_if = [], a_default_if = []\<rparr>"

definition flag :: "string \<Rightarrow> string \<Rightarrow> string \<Rightarrow> arg_spec" where
  "flag name env dflt = (arg T_Bool name env)\<lparr>a_default := Some dflt, a_missing := Some ''true''\<rparr>"

definition args_listen :: "arg_spec list" where
  "args_listen =
    [(arg T_String ''host'' ''SERVER_HOST'')\<lparr>a_short := Some (CHR ''a''), a_default := Some ''::''\<rparr>,
     (arg T_U16 ''port'' ''SERVER_PORT'')\<lparr>a_short := Some (CHR ''p''), a_default := Some ''80''\<rparr>,
     (arg T_Usize ''fd'' ''SERVER_LISTEN_FD'')
       \<lparr>a_short := Some (CHR ''f''), a_conflicts := [''host'', ''port'', ''https_redirect'']\<rparr>,
     (arg T_Usize ''threads_multiplier'' ''SERVER_THREADS_MULTIPLIER'')
       \<lparr>a_short := Some (CHR ''n''), a_default := Some ''1''\<rparr>,
     (arg T_Usize ''max_blocking_threads'' ''SERVER_MAX_BLOCKING_THREADS'')
       \<lparr>a_short := Some (CHR ''b''), a_default := Some ''512''\<rparr>]"

definition args_pages :: "arg_spec list" where
  "args_pages =
    [(arg T_Path ''root'' ''SERVER_ROOT'')\<lparr>a_short := Some (CHR ''d''), a_default := Some ''./public''\<rparr>,
     (arg T_Path ''page50x'' ''SERVER_ERROR_PAGE_50X'')\<lparr>a_default := Some ''./50x.html''\<rparr>,
     (arg T_Path ''page404'' ''SERVER_ERROR_PAGE_404'')\<lparr>a_default := Some ''./404.html''\<rparr>,
     (arg T_Path ''page_fallback'' ''SERVER_FALLBACK_PAGE'')\<lparr>a_default := Some ''''\<rparr>,
     (arg T_String ''log_level'' ''SERVER_LOG_LEVEL'')\<lparr>a_short := Some (CHR ''g''), a_default := Some ''error''\<rparr>]"

definition args_cors :: "arg_spec list" where
  "args_cors =
    [(arg T_String ''cors_allow_origins'' ''SERVER_CORS_ALLOW_ORIGINS'')
       \<lparr>a_short := Some (CHR ''c''), a_default := Some ''''\<rparr>,
     (arg T_String ''cors_allow_headers'' ''SERVER_CORS_ALLOW_HEADERS'')
       \<lparr>a_short := Some (CHR ''j''), a_default := Some ''origin, content-type, authorization''\<rparr>,
     (arg T_String ''cors_expose_headers'' ''SERVER_CORS_EXPOSE_HEADERS'')
       \<lparr>a_default := Some ''origin, content-type''\<rparr>]"

definition args_tls :: "arg_spec list" where
  "args_tls =
    [(flag ''http2'' ''SERVER_HTTP2_TLS'' ''false'')\<lparr>a_short := Some (CHR ''t'')\<rparr>,
     (arg T_Path ''http2_tls_cert'' ''SERVER_HTTP2_TLS_CERT'')\<lparr>a_required_if := [(''http2'', ''true'')]\<rparr>,
     (arg T_Path ''http2_tls_key'' ''SERVER_HTTP2_TLS_KEY'')\<lparr>a_required_if := [(''http2'', ''true'')]\<rparr>,
     (flag ''https_redirect'' ''SERVER_HTTPS_REDIRECT'' ''false'')\<lparr>a_requires_if := [(''true'', ''http2'')]\<rparr>,
     (arg T_String ''https_redirect_host'' ''SERVER_HTTPS_REDIRECT_HOST'')
       \<lparr>a_default := Some ''localhost'', a_requires_if := [(''true'', ''https_redirect'')]\<rparr>,
     (arg T_U16 ''https_redirect_from_port'' ''SERVER_HTTPS_REDIRECT_FROM_PORT'')
       \<lparr>a_default := Some ''80'', a_requires_if := [(''true'', ''https_redirect'')]\<rparr>,
     (arg T_String ''https_redirect_from_hosts'' ''SERVER_HTTPS_REDIRECT_FROM_HOSTS'')
       \<lparr>a_default := Some ''localhost'', a_requires_if := [(''true'', ''https_redirect'')]\<rparr>]"

definition args_content :: "arg_spec list" where
  "args_content =
    [(arg T_String ''index_files'' ''SERVER_INDEX_FILES'')\<lparr>a_default := Some ''index.html''\<rparr>,
     (flag ''compression'' ''SERVER_COMPRESSION'' ''true'')\<lparr>a_short := Some (CHR ''x'')\<rparr>,
     (arg T_Level ''compression_level'' ''SERVER_COMPRESSION_LEVEL'')\<lparr>a_default := Some ''default''\<rparr>,
     flag ''compression_static'' ''SERVER_COMPRESSION_STATIC'' ''false'',
     (flag ''directory_listing'' ''SERVER_DIRECTORY_LISTING'' ''false'')\<lparr>a_short := Some (CHR ''z'')\<rparr>,
     (arg T_U8 ''directory_listing_order'' ''SERVER_DIRECTORY_LISTING_ORDER'')
       \<lparr>a_default := Some ''6'', a_requires_if := [(''true'', ''directory_listing'')]\<rparr>,
     (arg T_Format ''directory_listing_format'' ''SERVER_DIRECTORY_LISTING_FORMAT'')
       \<lparr>a_default := Some ''html'', a_requires_if := [(''true'', ''directory_listing'')]\<rparr>]"

definition args_headers :: "arg_spec list" where
  "args_headers =
    [(flag ''security_headers'' ''SERVER_SECURITY_HEADERS'' ''false'')\<lparr>a_default_if := [(''http2'', ''true'', ''true'')]\<rparr>,
     (flag ''cache_control_headers'' ''SERVER_CACHE_CONTROL_HEADERS'' ''true'')\<lparr>a_short := Some (CHR ''e'')\<rparr>,
     (arg T_String ''basic_auth'' ''SERVER_BASIC_AUTH'')\<lparr>a_default := Some ''''\<rparr>,
     (arg T_U8 ''grace_period'' ''SERVER_GRACE_PERIOD'')\<lparr>a_short := Some (CHR ''q''), a_default := Some ''0''\<rparr>]"

definition args_config :: "arg_spec list" where
  "args_config =
    [(arg T_Path ''config_file'' ''SERVER_CONFIG_FILE'')\<lparr>a_short := Some (CHR ''w''), a_default := Some ''./config.toml''\<rparr>,
     flag ''log_remote_address'' ''SERVER_LOG_REMOTE_ADDRESS'' ''false'',
     flag ''log_forwarded_for'' ''SERVER_LOG_FORWARDED_FOR'' ''false'',
     arg T_Ips ''trusted_proxies'' ''SERVER_TRUSTED_PROXIES'',
     flag ''redirect_trailing_slash'' ''SERVER_REDIRECT_TRAILING_SLASH'' ''true'',
     flag ''ignore_hidden_files'' ''SERVER_IGNORE_HIDDEN_FILES'' ''false'',
     flag ''disable_symlinks'' ''SERVER_DISABLE_SYMLINKS'' ''false'',
     flag ''health'' ''SERVER_HEALTH'' ''false'',
     flag ''experimental_metrics'' ''SERVER_EXPERIMENTAL_METRICS'' ''false'',
     flag ''maintenance_mode'' ''SERVER_MAINTENANCE_MODE'' ''false'',
     (arg T_Status ''maintenance_mode_status'' ''SERVER_MAINTENANCE_MODE_STATUS'')
       \<lparr>a_default := Some ''503'', a_requires_if := [(''true'', ''maintenance_mode'')]\<rparr>,
     (arg T_Path ''maintenance_mode_file'' ''SERVER_MAINTENANCE_MODE_FILE'')
       \<lparr>a_default := Some '''', a_requires_if := [(''true'', ''maintenance_mode'')]\<rparr>]"

definition arg_version :: arg_spec where
  "arg_version = \<lparr>a_id = ''version'', a_type = T_Bool, a_short = Some (CHR ''V''), a_env = None,
     a_default = Some ''false'', a_missing = Some ''true'',
     a_conflicts = [], a_required_if = [], a_requires_if = [], a_default_if = []\<rparr>"

definition cli_args :: "arg_spec list" where
  "cli_args = args_listen @ args_pages @ args_cors @ args_tls @ args_content @ args_headers @ args_config @ [arg_version]"

section \<open>Values\<close>

datatype cli_val =
    V_String string | V_Path path | V_Num nat | V_Bool bool | V_Level compression_level | V_Format dir_list_fmt
  | V_Status status | V_Ips "ip_addr list" | V_None

text \<open>\<^verbatim>\<open>str::parse::<usize>\<close>.\<close>

definition parse_usize :: "string \<Rightarrow> usize option" where
  "parse_usize s =
     (let ds = (case s of c # cs \<Rightarrow> if c = CHR ''+'' then cs else s | [] \<Rightarrow> [])
      in if ds = [] \<or> \<not> list_all is_digit ds \<or> 2 ^ 64 \<le> dec_val ds then None
         else Some (word_of_nat (dec_val ds)))"

text \<open>The value parsers: those of the standard library, the two of the file and the names of the enumerations.\<close>

fun parse_value :: "(u16 \<Rightarrow> status option) \<Rightarrow> arg_type \<Rightarrow> string \<Rightarrow> cli_val option" where
  "parse_value st T_String s = Some (V_String s)"
| "parse_value st T_Path s = (case value_parser_pathbuf s of Inr p \<Rightarrow> Some (V_Path p) | Inl _ \<Rightarrow> None)"
| "parse_value st T_U8 s = map_option (V_Num \<circ> unat) (parse_u8 s)"
| "parse_value st T_U16 s = map_option (V_Num \<circ> unat) (parse_u16 s)"
| "parse_value st T_Usize s = map_option (V_Num \<circ> unat) (parse_usize s)"
| "parse_value st T_Bool s = (if s = ''true'' then Some (V_Bool True) else if s = ''false'' then Some (V_Bool False) else None)"
| "parse_value st T_Level s =
     map_option V_Level (map_of [(''fastest'', Fastest), (''best'', Best), (''default'', Default_Level)] s)"
| "parse_value st T_Format s = map_option V_Format (map_of [(''html'', Fmt_Html), (''json'', Fmt_Json)] s)"
| "parse_value st T_Status s = (case value_parser_status_code st s of Inr c \<Rightarrow> Some (V_Status c) | Inl _ \<Rightarrow> None)"
| "parse_value st T_Ips s = map_option V_Ips (those (map parse_ip_addr (split_on (CHR '','') s)))"

text \<open>An argument without a default is an absent option or an empty list.\<close>

definition default_val :: "(u16 \<Rightarrow> status option) \<Rightarrow> arg_spec \<Rightarrow> cli_val option" where
  "default_val st a = (case a_default a of None \<Rightarrow> Some (if a_type a = T_Ips then V_Ips [] else V_None) | Some s \<Rightarrow> parse_value st (a_type a) s)"

text \<open>The fields of the struct, but for the subcommand, by name.\<close>

definition optional :: "('a \<Rightarrow> cli_val) \<Rightarrow> 'a option \<Rightarrow> cli_val" where
  "optional f x = (case x of None \<Rightarrow> V_None | Some y \<Rightarrow> f y)"

definition field_vals :: "general \<Rightarrow> (string \<times> cli_val) list" where
  "field_vals g =
    [(''host'', V_String (g_host g)), (''port'', V_Num (unat (g_port g))), (''fd'', optional (V_Num \<circ> unat) (g_fd g)),
     (''threads_multiplier'', V_Num (unat (g_threads_multiplier g))),
     (''max_blocking_threads'', V_Num (unat (g_max_blocking_threads g))),
     (''root'', V_Path (g_root g)), (''page50x'', V_Path (g_page50x g)), (''page404'', V_Path (g_page404 g)),
     (''page_fallback'', V_Path (g_page_fallback g)), (''log_level'', V_String (g_log_level g)),
     (''cors_allow_origins'', V_String (g_cors_allow_origins g)), (''cors_allow_headers'', V_String (g_cors_allow_headers g)),
     (''cors_expose_headers'', V_String (g_cors_expose_headers g)),
     (''http2'', V_Bool (g_http2 g)), (''http2_tls_cert'', optional V_Path (g_http2_tls_cert g)),
     (''http2_tls_key'', optional V_Path (g_http2_tls_key g)), (''https_redirect'', V_Bool (g_https_redirect g)),
     (''https_redirect_host'', V_String (g_https_redirect_host g)),
     (''https_redirect_from_port'', V_Num (unat (g_https_redirect_from_port g))),
     (''https_redirect_from_hosts'', V_String (g_https_redirect_from_hosts g)),
     (''index_files'', V_String (g_index_files g)), (''compression'', V_Bool (g_compression g)),
     (''compression_level'', V_Level (g_compression_level g)), (''compression_static'', V_Bool (g_compression_static g)),
     (''directory_listing'', V_Bool (g_directory_listing g)),
     (''directory_listing_order'', V_Num (unat (g_directory_listing_order g))),
     (''directory_listing_format'', V_Format (g_directory_listing_format g)),
     (''security_headers'', V_Bool (g_security_headers g)), (''cache_control_headers'', V_Bool (g_cache_control_headers g)),
     (''basic_auth'', V_String (g_basic_auth g)), (''grace_period'', V_Num (unat (g_grace_period g))),
     (''config_file'', V_Path (g_config_file g)), (''log_remote_address'', V_Bool (g_log_remote_address g)),
     (''log_forwarded_for'', V_Bool (g_log_forwarded_for g)),
     (''trusted_proxies'', V_Ips (g_trusted_proxies g)),
     (''redirect_trailing_slash'', V_Bool (g_redirect_trailing_slash g)),
     (''ignore_hidden_files'', V_Bool (g_ignore_hidden_files g)), (''disable_symlinks'', V_Bool (g_disable_symlinks g)),
     (''health'', V_Bool (g_health g)), (''experimental_metrics'', V_Bool (g_experimental_metrics g)),
     (''maintenance_mode'', V_Bool (g_maintenance_mode g)),
     (''maintenance_mode_status'', V_Status (g_maintenance_mode_status g)),
     (''maintenance_mode_file'', V_Path (g_maintenance_mode_file g)), (''version'', V_Bool (g_version g))]"

section \<open>The version\<close>

text \<open>What the build records about itself, and the lines printed for \<^verbatim>\<open>--version\<close>.\<close>

record build_info =
  bi_version :: string
  bi_commit_date :: string
  bi_commit_hash :: string
  bi_target :: string
  bi_rust_version :: string
  bi_license :: string
  bi_homepage :: string
  bi_authors :: string

definition display_version :: "build_info \<Rightarrow> string list" where
  "display_version b =
    [''Version:      '' @ bi_version b,
     ''Built:        '' @ bi_commit_date b,
     ''Git commit:   '' @ bi_commit_hash b,
     ''Build target: '' @ bi_target b,
     ''Rust version: '' @ bi_rust_version b,
     ''License:      '' @ bi_license b,
     ''Homepage:     '' @ bi_homepage b,
     ''Author:       '' @ bi_authors b]"

section \<open>Properties\<close>

text \<open>The arguments an attribute names.\<close>

definition arg_refs :: "arg_spec \<Rightarrow> string list" where
  "arg_refs a = a_conflicts a @ map fst (a_required_if a) @ map snd (a_requires_if a) @ map fst (a_default_if a)"

text \<open>The value of a bare flag is one its type admits.\<close>

definition missing_ok :: "arg_spec \<Rightarrow> bool" where
  "missing_ok a = (case a_missing a of None \<Rightarrow> True | Some s \<Rightarrow> a_type a = T_Bool \<and> s \<in> {''true'', ''false''})"



end
