(* ===== verification/Log_Addr.thy ===== *)
theory Log_Addr
  imports Error_Pages
begin

text \<open>
  The request log (\<^verbatim>\<open>src/log_addr.rs\<close>). A log entry is a value: its level and its text. The request's
  \<^verbatim>\<open>X-Forwarded-For\<close> header is under the client's control, so the lemmas say when it counts and what of it
  reaches the log.
\<close>

datatype log_entry = Log_Info string | Log_Debug string

definition log_addr_init :: "bool \<Rightarrow> request_handler_opts \<Rightarrow> request_handler_opts" where
  "log_addr_init enabled opts = opts\<lparr>o_log_remote_address := enabled\<rparr>"

abbreviation X_FORWARDED_FOR :: string where "X_FORWARDED_FOR \<equiv> ''x-forwarded-for''"

fun method_str :: "http_method \<Rightarrow> string" where
  "method_str OPTIONS = ''OPTIONS''"
| "method_str GET = ''GET''"
| "method_str POST = ''POST''"
| "method_str PUT = ''PUT''"
| "method_str DELETE = ''DELETE''"
| "method_str HEAD = ''HEAD''"
| "method_str TRACE = ''TRACE''"
| "method_str CONNECT = ''CONNECT''"
| "method_str PATCH = ''PATCH''"
| "method_str (Extension s) = s"

definition real_ip :: "api \<Rightarrow> request \<Rightarrow> ip_addr option" where
  "real_ip api req =
     Option.bind (Option.bind (hm_get (r_headers req) X_FORWARDED_FOR) (hv_to_str api))
       (\<lambda>s. parse_ip_addr (str_trim (hd (split_on (CHR '','') s))))"

definition log_addr_pre_process ::
  "api \<Rightarrow> request_handler_opts \<Rightarrow> request \<Rightarrow> socket_addr option \<Rightarrow> log_entry" where
  "log_addr_pre_process api opts req remote_addr =
     (let remote = (if o_log_remote_address opts then
                      (case remote_addr of
                         Some addr \<Rightarrow> '' remote_addr='' @ show_socket_addr addr
                       | None \<Rightarrow> [])
                    else []);
          forwarded = (if o_log_forwarded_for opts
                          \<and> (o_trusted_proxies opts = []
                             \<or> (case remote_addr of
                                  None \<Rightarrow> False
                                | Some addr \<Rightarrow> sa_ip addr \<in> set (o_trusted_proxies opts))) then
                         (case real_ip api req of
                            Some ip \<Rightarrow> '' real_remote_ip='' @ show_ip_addr ip
                          | None \<Rightarrow> [])
                       else []);
          line = ''incoming request: method='' @ method_str (r_method req) @ '' uri='' @ u_str (r_uri req)
                   @ remote @ forwarded
      in if o_health opts \<and> is_health_endpoint req then Log_Debug line else Log_Info line)"

section \<open>Properties\<close>

text \<open>With trusted proxies configured, the log entry of a request from any other address is the same
  whatever its \<^verbatim>\<open>X-Forwarded-For\<close> header is: the header cannot be forged past the list.\<close>

theorem forwarded_for_trusted:
  assumes "o_trusted_proxies opts \<noteq> []"
    and "\<forall>addr. remote_addr = Some addr \<longrightarrow> sa_ip addr \<notin> set (o_trusted_proxies opts)"
  shows "log_addr_pre_process api opts (req\<lparr>r_headers := hm_insert X_FORWARDED_FOR v (r_headers req)\<rparr>) remote_addr
    = log_addr_pre_process api opts req remote_addr"
  using assms
  by (auto simp: log_addr_pre_process_def is_health_endpoint_def Let_def split: option.splits)

theorem forwarded_for_trusted_witness:
  "log_addr_pre_process sample_api
      (default_handler_opts\<lparr>o_log_forwarded_for := True, o_trusted_proxies := [V4 10 0 0 1]\<rparr>)
      ((sample_request GET ''/'' [])\<lparr>r_headers := hm_insert X_FORWARDED_FOR ''1.2.3.4'' []\<rparr>)
      (Some \<lparr>sa_ip = V4 6 6 6 6, sa_port = 4000\<rparr>)
   = Log_Info ''incoming request: method=GET uri=/''"
  using forwarded_for_trusted
    [of "default_handler_opts\<lparr>o_log_forwarded_for := True, o_trusted_proxies := [V4 10 0 0 1]\<rparr>"
      "Some \<lparr>sa_ip = V4 6 6 6 6, sa_port = 4000\<rparr>" sample_api "''1.2.3.4''" "sample_request GET ''/'' []"]
  by (simp add: log_addr_pre_process_def default_handler_opts_def sample_request_def sample_uri_def)

end
