(* ===== verification/Https_Redirect.thy ===== *)
theory Https_Redirect
  imports Error_Pages
begin

text \<open>
  The redirect from HTTP to HTTPS: \<^verbatim>\<open>src/https_redirect.rs\<close> and the service of the redirect server in
  \<^verbatim>\<open>src/server.rs\<close>, which turns an error status into an error page.
\<close>

record redirect_opts =
  ro_https_hostname :: string
  ro_https_port :: u16
  ro_allowed_hosts :: "string list"

definition redirect_to_https :: "api \<Rightarrow> request \<Rightarrow> redirect_opts \<Rightarrow> (status, resp) result" where
  "redirect_to_https api req opts =
     (case typed_host api (r_headers req) of
        Some from_hostname \<Rightarrow>
          if \<not> list_ex (\<lambda>s. s = from_hostname) (ro_allowed_hosts opts) then Inl (Err BAD_REQUEST)
          else
            (let url = concat [''https://'', ro_https_hostname opts, '':'', nat_str (unat (ro_https_port opts)),
                         u_str (r_uri req)];
                 resp = empty_response MOVED_PERMANENTLY
             in if hv_valid api url then Inr (insert_header LOCATION url resp)
                else Inl (Panic ''called `Result::unwrap()` on an `Err` value''))
      | None \<Rightarrow> Inl (Err BAD_REQUEST))"

definition redirect_service ::
  "api \<Rightarrow> fs \<Rightarrow> redirect_opts \<Rightarrow> path \<Rightarrow> path \<Rightarrow> request \<Rightarrow> handled" where
  "redirect_service api fs opts page404 page50x req =
     (case redirect_to_https api req opts of
        Inr resp \<Rightarrow> Inr resp
      | Inl (Err status) \<Rightarrow> error_response api fs (r_uri req) (r_method req) status page404 page50x
      | Inl (Panic msg) \<Rightarrow> Inl (Panic msg))"

section \<open>Properties\<close>

text \<open>The redirect server redirects exactly the requests whose \<^verbatim>\<open>Host\<close> is on the list, always to the
  configured host and port with the request's own URI, and answers every other request with a 400 page; it
  can only panic where that URL is no header value.\<close>

theorem https_redirect_only_listed:
  "redirect_service api fs opts page404 page50x req =
     (case typed_host api (r_headers req) of
        Some h \<Rightarrow>
          if h \<in> set (ro_allowed_hosts opts) then
            (let url = ''https://'' @ ro_https_hostname opts @ '':'' @ nat_str (unat (ro_https_port opts)) @ u_str (r_uri req)
             in if hv_valid api url
                then Inr \<lparr>resp_status = MOVED_PERMANENTLY, resp_headers = [(LOCATION, url)], resp_body = Empty_Body\<rparr>
                else Inl (Panic ''called `Result::unwrap()` on an `Err` value''))
          else Inr (page_response api (r_method req) BAD_REQUEST (error_page_content api fs BAD_REQUEST page404 page50x))
      | None \<Rightarrow> Inr (page_response api (r_method req) BAD_REQUEST (error_page_content api fs BAD_REQUEST page404 page50x)))"
  by (auto simp: redirect_service_def redirect_to_https_def error_response_def insert_header_def
      empty_response_def new_response_def list_ex_iff Let_def split: option.splits)

end
