(* ===== verification/Tls.thy ===== *)
theory Tls
  imports Error_Pages Ip_Addr
begin

text \<open>
  TLS (\<^verbatim>\<open>src/tls.rs\<close>): building the configuration from a certificate and a key, the lazily opened files they
  are read from, and the stream that finishes its handshake before it moves any data. PEM parsing,
  \<^verbatim>\<open>ServerConfig\<close>, the handshake and the encrypted stream are rustls': parameters.
\<close>

section \<open>Lazily opened files\<close>

record lazy_file =
  lz_path :: path
  lz_file :: "file_reader option"

definition read_opened :: "lazy_file \<Rightarrow> file_reader \<Rightarrow> nat \<Rightarrow> io_error + (bytes \<times> lazy_file)" where
  "read_opened self f n =
     (case file_read f n of Inl e \<Rightarrow> Inl e | Inr (bs, f') \<Rightarrow> Inr (bs, self\<lparr>lz_file := Some f'\<rparr>))"

definition lazy_read :: "fs \<Rightarrow> lazy_file read" where
  "lazy_read fs self n =
     (case lz_file self of
        None \<Rightarrow>
          (case fs_open fs (lz_path self) of
             Inl e \<Rightarrow> Inl e
           | Inr f \<Rightarrow> read_opened self (f_read_err f, f_data f) n)
      | Some f \<Rightarrow> read_opened self f n)"

definition lazy_rest :: "fs \<Rightarrow> lazy_file \<Rightarrow> bytes" where
  "lazy_rest fs self =
     (case lz_file self of
        Some f \<Rightarrow> snd f
      | None \<Rightarrow> (case fs_open fs (lz_path self) of Inr f \<Rightarrow> f_data f | Inl _ \<Rightarrow> []))"

definition lazy_ok :: "fs \<Rightarrow> lazy_file \<Rightarrow> bool" where
  "lazy_ok fs self \<longleftrightarrow>
     (case lz_file self of
        Some f \<Rightarrow> fst f = None
      | None \<Rightarrow> (case fs_open fs (lz_path self) of Inr f \<Rightarrow> f_read_err f = None | Inl _ \<Rightarrow> False))"

interpretation lazy: byte_reader "lazy_read fs" "lazy_rest fs" "lazy_ok fs" for fs
proof
  fix r n
  assume ok: "lazy_ok fs r"
  obtain f where f: "lazy_read fs r n = read_opened r (None, f) n" "lazy_rest fs r = f"
    using ok by (auto simp: lazy_ok_def lazy_read_def lazy_rest_def split: option.splits sum.splits)
  have "read_opened r (None, f) n = Inr (take n f, r\<lparr>lz_file := Some (None, drop n f)\<rparr>)"
    by (simp add: read_opened_def)
  with f show "\<exists>bs r'. lazy_read fs r n = Inr (bs, r') \<and> lazy_ok fs r' \<and> lazy_rest fs r = bs @ lazy_rest fs r'
      \<and> length bs \<le> n \<and> (bs = [] \<longrightarrow> n = 0 \<or> lazy_rest fs r = [])"
    by (auto simp: lazy_ok_def lazy_rest_def)
qed

section \<open>The configuration\<close>

datatype 'e tls_config_error =
    Tls_Io io_error
  | CertParseError
  | InvalidIdentityPem
  | EmptyKey
  | UnknownPrivateKeyFormat
  | InvalidKey 'e

datatype pem_item = Pkcs1Key bytes | Pkcs8Key bytes | Sec1Key bytes | Other_Item bytes

text \<open>
  A PEM file is the list of its items, \<open>None\<close> for one that does not parse. \<open>tls_single_cert\<close> is
  \<^verbatim>\<open>with_no_client_auth().with_single_cert(..)\<close>.
\<close>

record ('c, 'e) tls_env =
  pem_certs :: "bytes \<Rightarrow> bytes list option"
  pem_items :: "bytes \<Rightarrow> pem_item option list"
  tls_single_cert :: "bytes list \<Rightarrow> bytes \<Rightarrow> 'e + 'c"

record 'c server_config =
  sc_config :: 'c
  sc_alpn_protocols :: "string list"

datatype tls_source = Src_Empty | Src_Bytes bytes | Src_File lazy_file

record tls_config_builder =
  tb_cert :: tls_source
  tb_key :: tls_source

definition tls_builder_new :: tls_config_builder where
  "tls_builder_new = \<lparr>tb_cert = Src_Empty, tb_key = Src_Empty\<rparr>"

definition key_path :: "path \<Rightarrow> tls_config_builder \<Rightarrow> tls_config_builder" where
  "key_path p self = self\<lparr>tb_key := Src_File \<lparr>lz_path = p, lz_file = None\<rparr>\<rparr>"

definition tls_key :: "bytes \<Rightarrow> tls_config_builder \<Rightarrow> tls_config_builder" where
  "tls_key k self = self\<lparr>tb_key := Src_Bytes k\<rparr>"

definition cert_path :: "path \<Rightarrow> tls_config_builder \<Rightarrow> tls_config_builder" where
  "cert_path p self = self\<lparr>tb_cert := Src_File \<lparr>lz_path = p, lz_file = None\<rparr>\<rparr>"

definition tls_cert :: "bytes \<Rightarrow> tls_config_builder \<Rightarrow> tls_config_builder" where
  "tls_cert c self = self\<lparr>tb_cert := Src_Bytes c\<rparr>"

text \<open>\<^verbatim>\<open>read_to_end\<close> of a source; for a file, what draining the lazy reader gives, as shown below.\<close>

definition source_read_to_end :: "fs \<Rightarrow> tls_source \<Rightarrow> io_error + bytes" where
  "source_read_to_end fs src =
     (case src of
        Src_Empty \<Rightarrow> Inr []
      | Src_Bytes b \<Rightarrow> Inr b
      | Src_File lz \<Rightarrow>
          (case lz_file lz of
             None \<Rightarrow> fs_read fs (lz_path lz)
           | Some (Some e, _) \<Rightarrow> Inl e
           | Some (None, b) \<Rightarrow> Inr b))"

fun key_loop :: "pem_item option list \<Rightarrow> bytes option \<Rightarrow> 'e tls_config_error + bytes option" where
  "key_loop [] key = Inr key"
| "key_loop (None # items) key = Inl InvalidIdentityPem"
| "key_loop (Some (Pkcs1Key k) # items) key = key_loop items (Some k)"
| "key_loop (Some (Pkcs8Key k) # items) key = key_loop items (Some k)"
| "key_loop (Some (Sec1Key k) # items) key = key_loop items (Some k)"
| "key_loop (Some (Other_Item b) # items) key = Inl UnknownPrivateKeyFormat"

definition tls_build ::
  "('c, 'e) tls_env \<Rightarrow> fs \<Rightarrow> tls_config_builder \<Rightarrow> 'e tls_config_error + 'c server_config" where
  "tls_build env fs self =
     (case (case source_read_to_end fs (tb_cert self) of
              Inl _ \<Rightarrow> None
            | Inr bs \<Rightarrow> pem_certs env bs) of
        None \<Rightarrow> Inl CertParseError
      | Some cert \<Rightarrow>
          (case source_read_to_end fs (tb_key self) of
             Inl e \<Rightarrow> Inl (Tls_Io e)
           | Inr key_buf \<Rightarrow>
               if key_buf = [] then Inl EmptyKey
               else
                 (case key_loop (pem_items env key_buf) None of
                    Inl e \<Rightarrow> Inl e
                  | Inr None \<Rightarrow> Inl EmptyKey
                  | Inr (Some key) \<Rightarrow>
                      (case tls_single_cert env cert key of
                         Inl e \<Rightarrow> Inl (InvalidKey e)
                       | Inr config \<Rightarrow> Inr \<lparr>sc_config = config, sc_alpn_protocols = [''h2'', ''http/1.1'']\<rparr>))))"

section \<open>The stream\<close>

datatype 'a io_poll = Pending | Ready "io_error + 'a"

text \<open>The handshake and the encrypted stream of tokio-rustls.\<close>

record ('h, 's) tls_ops =
  hs_poll :: "'h \<Rightarrow> 'h \<times> 's io_poll"
  str_read :: "'s \<Rightarrow> nat \<Rightarrow> 's \<times> bytes io_poll"
  str_write :: "'s \<Rightarrow> bytes \<Rightarrow> 's \<times> nat io_poll"
  str_flush :: "'s \<Rightarrow> 's \<times> unit io_poll"
  str_shutdown :: "'s \<Rightarrow> 's \<times> unit io_poll"

datatype ('h, 's) tls_state = Handshaking 'h | Streaming 's

record ('h, 's) tls_stream =
  ts_state :: "('h, 's) tls_state"
  ts_remote_addr :: socket_addr

definition tls_stream_new :: "'h \<Rightarrow> socket_addr \<Rightarrow> ('h, 's) tls_stream" where
  "tls_stream_new accept remote_addr = \<lparr>ts_state = Handshaking accept, ts_remote_addr = remote_addr\<rparr>"

definition tls_poll_read ::
  "('h, 's) tls_ops \<Rightarrow> ('h, 's) tls_stream \<Rightarrow> nat \<Rightarrow> ('h, 's) tls_stream \<times> bytes io_poll" where
  "tls_poll_read ops self n =
     (case ts_state self of
        Handshaking accept \<Rightarrow>
          (case hs_poll ops accept of
             (accept, Pending) \<Rightarrow> (self\<lparr>ts_state := Handshaking accept\<rparr>, Pending)
           | (accept, Ready (Inl err)) \<Rightarrow> (self\<lparr>ts_state := Handshaking accept\<rparr>, Ready (Inl err))
           | (_, Ready (Inr stream)) \<Rightarrow>
               (case str_read ops stream n of (stream, r) \<Rightarrow> (self\<lparr>ts_state := Streaming stream\<rparr>, r)))
      | Streaming stream \<Rightarrow>
          (case str_read ops stream n of (stream, r) \<Rightarrow> (self\<lparr>ts_state := Streaming stream\<rparr>, r)))"

definition tls_poll_write ::
  "('h, 's) tls_ops \<Rightarrow> ('h, 's) tls_stream \<Rightarrow> bytes \<Rightarrow> ('h, 's) tls_stream \<times> nat io_poll" where
  "tls_poll_write ops self buf =
     (case ts_state self of
        Handshaking accept \<Rightarrow>
          (case hs_poll ops accept of
             (accept, Pending) \<Rightarrow> (self\<lparr>ts_state := Handshaking accept\<rparr>, Pending)
           | (accept, Ready (Inl err)) \<Rightarrow> (self\<lparr>ts_state := Handshaking accept\<rparr>, Ready (Inl err))
           | (_, Ready (Inr stream)) \<Rightarrow>
               (case str_write ops stream buf of (stream, r) \<Rightarrow> (self\<lparr>ts_state := Streaming stream\<rparr>, r)))
      | Streaming stream \<Rightarrow>
          (case str_write ops stream buf of (stream, r) \<Rightarrow> (self\<lparr>ts_state := Streaming stream\<rparr>, r)))"

definition tls_poll_flush :: "('h, 's) tls_ops \<Rightarrow> ('h, 's) tls_stream \<Rightarrow> ('h, 's) tls_stream \<times> unit io_poll" where
  "tls_poll_flush ops self =
     (case ts_state self of
        Handshaking _ \<Rightarrow> (self, Ready (Inr ()))
      | Streaming stream \<Rightarrow>
          (case str_flush ops stream of (stream, r) \<Rightarrow> (self\<lparr>ts_state := Streaming stream\<rparr>, r)))"

definition tls_poll_shutdown :: "('h, 's) tls_ops \<Rightarrow> ('h, 's) tls_stream \<Rightarrow> ('h, 's) tls_stream \<times> unit io_poll" where
  "tls_poll_shutdown ops self =
     (case ts_state self of
        Handshaking _ \<Rightarrow> (self, Ready (Inr ()))
      | Streaming stream \<Rightarrow>
          (case str_shutdown ops stream of (stream, r) \<Rightarrow> (self\<lparr>ts_state := Streaming stream\<rparr>, r)))"

datatype 'a accept_poll = Accept_Pending | Accept_Ready "(io_error + 'a) option"

text \<open>Each accepted socket, given as its handshake and peer address, becomes a stream that starts with it.\<close>

definition tls_poll_accept :: "('h \<times> socket_addr) accept_poll \<Rightarrow> ('h, 's) tls_stream accept_poll" where
  "tls_poll_accept incoming =
     (case incoming of
        Accept_Pending \<Rightarrow> Accept_Pending
      | Accept_Ready (Some (Inr (sock, addr))) \<Rightarrow> Accept_Ready (Some (Inr (tls_stream_new sock addr)))
      | Accept_Ready (Some (Inl e)) \<Rightarrow> Accept_Ready (Some (Inl e))
      | Accept_Ready None \<Rightarrow> Accept_Ready None)"

text \<open>The calls hyper makes on a stream, with their results, in any order.\<close>

datatype tls_event =
    Ev_Read nat "bytes io_poll"
  | Ev_Write bytes "nat io_poll"
  | Ev_Flush "unit io_poll"
  | Ev_Shutdown "unit io_poll"

inductive tls_run ::
  "('h, 's) tls_ops \<Rightarrow> ('h, 's) tls_stream \<Rightarrow> tls_event list \<Rightarrow> ('h, 's) tls_stream \<Rightarrow> bool" for ops where
  tls_start: "tls_run ops self [] self"
| tls_read: "tls_run ops self evs s \<Longrightarrow> tls_poll_read ops s n = (s', r) \<Longrightarrow>
    tls_run ops self (evs @ [Ev_Read n r]) s'"
| tls_write: "tls_run ops self evs s \<Longrightarrow> tls_poll_write ops s b = (s', w) \<Longrightarrow>
    tls_run ops self (evs @ [Ev_Write b w]) s'"
| tls_flush: "tls_run ops self evs s \<Longrightarrow> tls_poll_flush ops s = (s', u) \<Longrightarrow>
    tls_run ops self (evs @ [Ev_Flush u]) s'"
| tls_shutdown: "tls_run ops self evs s \<Longrightarrow> tls_poll_shutdown ops s = (s', u) \<Longrightarrow>
    tls_run ops self (evs @ [Ev_Shutdown u]) s'"

fun moves_data :: "tls_event \<Rightarrow> bool" where
  "moves_data (Ev_Read n (Ready (Inr _))) = True"
| "moves_data (Ev_Write b (Ready (Inr _))) = True"
| "moves_data _ = False"

definition streaming :: "('h, 's) tls_stream \<Rightarrow> bool" where
  "streaming s \<longleftrightarrow> (case ts_state s of Streaming _ \<Rightarrow> True | Handshaking _ \<Rightarrow> False)"

text \<open>The private key of a PEM item, if it is one.\<close>

fun item_key :: "pem_item option \<Rightarrow> bytes option" where
  "item_key (Some (Pkcs1Key k)) = Some k"
| "item_key (Some (Pkcs8Key k)) = Some k"
| "item_key (Some (Sec1Key k)) = Some k"
| "item_key _ = None"

section \<open>Lemmas\<close>

lemma tls_poll_read_state:
  "tls_poll_read ops s n = (s', r) \<Longrightarrow>
     ts_remote_addr s' = ts_remote_addr s \<and> (streaming s \<or> moves_data (Ev_Read n r) \<longrightarrow> streaming s')"
  by (auto simp: tls_poll_read_def streaming_def split: tls_state.splits prod.splits io_poll.splits sum.splits)

lemma tls_poll_write_state:
  "tls_poll_write ops s b = (s', w) \<Longrightarrow>
     ts_remote_addr s' = ts_remote_addr s \<and> (streaming s \<or> moves_data (Ev_Write b w) \<longrightarrow> streaming s')"
  by (auto simp: tls_poll_write_def streaming_def split: tls_state.splits prod.splits io_poll.splits sum.splits)

lemma tls_poll_end_state:
  "tls_poll_flush ops s = (s', u) \<Longrightarrow> ts_remote_addr s' = ts_remote_addr s \<and> (streaming s \<longrightarrow> streaming s')"
  "tls_poll_shutdown ops s = (s', u) \<Longrightarrow> ts_remote_addr s' = ts_remote_addr s \<and> (streaming s \<longrightarrow> streaming s')"
  by (auto simp: tls_poll_flush_def tls_poll_shutdown_def streaming_def split: tls_state.splits prod.splits)

lemma key_loop_Some:
  "key_loop items key = Inr (Some k) \<longleftrightarrow>
     None \<notin> set (map item_key items) \<and> last (key # map item_key items) = Some k"
  by (induction items key rule: key_loop.induct) auto

section \<open>Properties\<close>

text \<open>C9: in every run of a TLS stream, whatever the order of the calls, no byte is read or written before the
  handshake is finished: after a call that moved data the stream is encrypted, and stays so; the peer
  address never changes.\<close>

theorem tls_no_plaintext:
  assumes "tls_run ops (tls_stream_new accept addr) evs s"
  shows "ts_remote_addr s = addr \<and> (list_ex moves_data evs \<longrightarrow> streaming s)"
  using assms
  by (induction "tls_stream_new accept addr :: ('a, 'b) tls_stream" evs s rule: tls_run.induct)
     (auto simp: tls_stream_new_def dest!: tls_poll_read_state tls_poll_write_state tls_poll_end_state)

definition sample_tls :: "(nat, bytes) tls_ops" where
  "sample_tls =
     \<lparr>hs_poll = (\<lambda>h. case h of 0 \<Rightarrow> (0, Ready (Inr ''secret'')) | Suc h \<Rightarrow> (h, Pending)),
      str_read = (\<lambda>s n. (drop n s, Ready (Inr (take n s)))),
      str_write = (\<lambda>s b. (s, Ready (Inr (length b)))),
      str_flush = (\<lambda>s. (s, Ready (Inr ()))),
      str_shutdown = (\<lambda>s. (s, Ready (Inr ())))\<rparr>"

theorem tls_no_plaintext_witness:
  "tls_run sample_tls (tls_stream_new 1 \<lparr>sa_ip = V4 10 0 0 1, sa_port = 9\<rparr>)
     [Ev_Flush (Ready (Inr ())), Ev_Read 3 Pending, Ev_Read 3 (Ready (Inr ''sec''))]
     \<lparr>ts_state = Streaming ''ret'', ts_remote_addr = \<lparr>sa_ip = V4 10 0 0 1, sa_port = 9\<rparr>\<rparr>
   \<and> streaming \<lparr>ts_state = Streaming ''ret'' :: (nat, bytes) tls_state,
       ts_remote_addr = \<lparr>sa_ip = V4 10 0 0 1, sa_port = 9\<rparr>\<rparr>"
proof -
  let ?a = "\<lparr>sa_ip = V4 10 0 0 1, sa_port = 9\<rparr>"
  have r: "tls_run sample_tls (tls_stream_new 1 ?a)
      ((([] @ [Ev_Flush (Ready (Inr ()))]) @ [Ev_Read 3 Pending]) @ [Ev_Read 3 (Ready (Inr ''sec''))])
      \<lparr>ts_state = Streaming ''ret'', ts_remote_addr = ?a\<rparr>"
    by (rule tls_run.intros tls_run.intros(4) | code_simp)+
  then show ?thesis using tls_no_plaintext [OF r] by simp
qed

text \<open>C33: reading a lazily opened file to the end, with any buffer size, gives what reading the file at once
  gives, within one read more than it has bytes; a file that cannot be opened fails at the first read.\<close>

theorem lazy_file_drained:
  assumes "0 < n" "0 < fuel" "\<And>f. fs_open fs p = Inr f \<Longrightarrow> length (f_data f) < fuel"
  shows "drain (lazy_read fs) fuel \<lparr>fst_reader = \<lparr>lz_path = p, lz_file = None\<rparr>, fst_buf_size = n\<rparr>
    = Some (source_read_to_end fs (tb_key (key_path p b)))"
proof (cases "lazy_ok fs \<lparr>lz_path = p, lz_file = None\<rparr>")
  case True
  then show ?thesis
    using lazy.drain_rest [of fs "\<lparr>fst_reader = \<lparr>lz_path = p, lz_file = None\<rparr>, fst_buf_size = n\<rparr>" fuel] assms
    by (auto simp: lazy_ok_def lazy_rest_def source_read_to_end_def key_path_def fs_read_def split: sum.splits)
next
  case False
  moreover obtain k where "fuel = Suc k" using assms(2) by (cases fuel) auto
  ultimately show ?thesis
    by (auto simp: lazy_ok_def lazy_read_def read_opened_def poll_next_def source_read_to_end_def key_path_def
        fs_read_def split: sum.splits option.splits)
qed

theorem lazy_file_drained_witness:
  "drain (lazy_read hello_fs) 30 \<lparr>fst_reader = \<lparr>lz_path = ''/w/a.txt'', lz_file = None\<rparr>, fst_buf_size = 2\<rparr>
    = Some (source_read_to_end hello_fs (tb_key (key_path ''/w/a.txt'' tls_builder_new)))"
  by (rule lazy_file_drained) (simp_all add: hello_fs_def sample_fs_def)

text \<open>Building the TLS configuration succeeds exactly when the certificates parse, the key file is readable
  and holds private keys and nothing else, and rustls takes the certificates with the last of the keys; it
  then offers HTTP/2 before HTTP/1.1.\<close>

theorem tls_build_accepts:
  "tls_build env fs b = Inr c \<longleftrightarrow>
     (\<exists>cert_buf certs key_buf k config.
        source_read_to_end fs (tb_cert b) = Inr cert_buf \<and> pem_certs env cert_buf = Some certs
        \<and> source_read_to_end fs (tb_key b) = Inr key_buf \<and> key_buf \<noteq> []
        \<and> None \<notin> set (map item_key (pem_items env key_buf))
        \<and> last (None # map item_key (pem_items env key_buf)) = Some k
        \<and> tls_single_cert env certs k = Inr config
        \<and> c = \<lparr>sc_config = config, sc_alpn_protocols = [''h2'', ''http/1.1'']\<rparr>)"
proof -
  have "None \<notin> set (map item_key items) \<and> last (None # map item_key items) = Some k \<and> R
      \<longleftrightarrow> key_loop items None = (Inr (Some k) :: 'a tls_config_error + bytes option) \<and> R" for items k R
    by (simp add: key_loop_Some)
  then show ?thesis
    unfolding tls_build_def by (auto split: sum.splits option.splits simp del: set_map)
qed

end
