(* ===== verification/Signals.thy ===== *)
theory Signals
  imports SWS_Prelude
begin

text \<open>
  Waiting for the end (\<^verbatim>\<open>src/signals.rs\<close>). Each server that runs (one, or the HTTP/2 server and the redirect
  server) awaits \<^verbatim>\<open>wait_for_signals\<close>: a task that follows the process's signals and a task that follows the
  caller's cancel channel, either of which lets it go on to shut down. The servers share one cancel
  receiver behind a mutex. Both tasks still hold their sender while they wait and send before they drop it,
  and the signal streams are closed only after the servers have ended, so \<^verbatim>\<open>base_rx.recv()\<close> returns exactly
  when a task has sent.
\<close>

datatype signal = SIGHUP | SIGTERM | SIGINT | SIGQUIT

definition create_signals :: "signal list" where
  "create_signals = [SIGHUP, SIGTERM, SIGINT, SIGQUIT]"

datatype cancel_task = Locking | Awaiting_Change | Cancel_Ended

record waiter =
  w_observing :: bool
  w_cancel :: cancel_task
  w_released :: bool

text \<open>The state of \<^verbatim>\<open>tokio::sync::watch::Receiver\<close>: a value not seen yet, and whether the sender is gone.\<close>

record watch =
  wt_unseen :: bool
  wt_closed :: bool

record signal_system =
  sys_recv :: "watch option"
  sys_waiters :: "waiter list"

definition new_waiter :: waiter where
  "new_waiter = \<lparr>w_observing = True, w_cancel = Locking, w_released = False\<rparr>"

definition signals_start :: "watch option \<Rightarrow> nat \<Rightarrow> signal_system" where
  "signals_start recv n = \<lparr>sys_recv = recv, sys_waiters = replicate n new_waiter\<rparr>"

section \<open>The tasks\<close>

text \<open>The signal task: one turn of its loop.\<close>

definition on_signal :: "signal \<Rightarrow> waiter \<Rightarrow> waiter" where
  "on_signal s w =
     (if \<not> w_observing w then w
      else case s of
        SIGHUP \<Rightarrow> w
      | SIGTERM \<Rightarrow> w\<lparr>w_observing := False, w_released := True\<rparr>
      | SIGINT \<Rightarrow> w\<lparr>w_observing := False, w_released := True\<rparr>
      | SIGQUIT \<Rightarrow> w\<lparr>w_observing := False, w_released := True\<rparr>)"

text \<open>The cancel task takes the lock, which it then keeps until \<^verbatim>\<open>changed()\<close> returns; without a receiver it ends.\<close>

definition lock_free :: "signal_system \<Rightarrow> bool" where
  "lock_free sys \<longleftrightarrow> list_all (\<lambda>w. w_cancel w \<noteq> Awaiting_Change) (sys_waiters sys)"

definition on_lock :: "watch option \<Rightarrow> waiter \<Rightarrow> waiter" where
  "on_lock recv w = w\<lparr>w_cancel := (if recv = None then Cancel_Ended else Awaiting_Change)\<rparr>"

definition on_changed :: "waiter \<Rightarrow> waiter" where
  "on_changed w = w\<lparr>w_cancel := Cancel_Ended, w_released := True\<rparr>"

definition delay_graceful_shutdown :: "u8 \<Rightarrow> nat" where
  "delay_graceful_shutdown grace_period_secs = (if 0 < grace_period_secs then unat grace_period_secs else 0)"

section \<open>Interleavings\<close>

datatype sig_event = Ev_Signal signal | Ev_Cancel | Ev_Cancel_Dropped | Ev_Lock nat | Ev_Changed nat

inductive sig_step :: "signal_system \<Rightarrow> sig_event \<Rightarrow> signal_system \<Rightarrow> bool" where
  step_signal: "s \<in> set create_signals \<Longrightarrow>
    sig_step sys (Ev_Signal s) (sys\<lparr>sys_waiters := map (on_signal s) (sys_waiters sys)\<rparr>)"
| step_cancel: "sys_recv sys = Some c \<Longrightarrow> \<not> wt_closed c \<Longrightarrow>
    sig_step sys Ev_Cancel (sys\<lparr>sys_recv := Some (c\<lparr>wt_unseen := True\<rparr>)\<rparr>)"
| step_dropped: "sys_recv sys = Some c \<Longrightarrow>
    sig_step sys Ev_Cancel_Dropped (sys\<lparr>sys_recv := Some (c\<lparr>wt_closed := True\<rparr>)\<rparr>)"
| step_lock: "i < length (sys_waiters sys) \<Longrightarrow> w_cancel (sys_waiters sys ! i) = Locking \<Longrightarrow> lock_free sys \<Longrightarrow>
    sig_step sys (Ev_Lock i) (sys\<lparr>sys_waiters := (sys_waiters sys)[i := on_lock (sys_recv sys) (sys_waiters sys ! i)]\<rparr>)"
| step_changed: "i < length (sys_waiters sys) \<Longrightarrow> w_cancel (sys_waiters sys ! i) = Awaiting_Change \<Longrightarrow>
    sys_recv sys = Some c \<Longrightarrow> wt_unseen c \<or> wt_closed c \<Longrightarrow>
    sig_step sys (Ev_Changed i)
      (sys\<lparr>sys_recv := Some (c\<lparr>wt_unseen := False\<rparr>),
           sys_waiters := (sys_waiters sys)[i := on_changed (sys_waiters sys ! i)]\<rparr>)"

inductive sig_run :: "signal_system \<Rightarrow> sig_event list \<Rightarrow> signal_system \<Rightarrow> bool" where
  run_start: "sig_run sys [] sys"
| run_step: "sig_run sys evs sys' \<Longrightarrow> sig_step sys' e sys'' \<Longrightarrow> sig_run sys (evs @ [e]) sys''"

inductive_cases sig_step_cases: "sig_step sys e sys'"

text \<open>The signals that end the server.\<close>

fun ends :: "sig_event \<Rightarrow> bool" where
  "ends (Ev_Signal s) = (s \<noteq> SIGHUP)"
| "ends _ = False"

definition released :: "signal_system \<Rightarrow> nat" where
  "released sys = length (filter w_released (sys_waiters sys))"

section \<open>Lemmas\<close>

lemma on_signal_ends: "w_observing w \<or> w_released w \<Longrightarrow> s \<noteq> SIGHUP \<Longrightarrow> w_released (on_signal s w)"
  by (cases s) (auto simp: on_signal_def)

lemma on_signal_keeps:
  "w_released w \<Longrightarrow> w_released (on_signal s w)"
  "w_observing w \<or> w_released w \<Longrightarrow> w_observing (on_signal s w) \<or> w_released (on_signal s w)"
  by (cases s; auto simp: on_signal_def)+

lemma on_signal_SIGHUP [simp]: "on_signal SIGHUP w = w"
  by (simp add: on_signal_def)

lemma on_lock_simps [simp]:
  "w_released (on_lock recv w) = w_released w" "w_observing (on_lock recv w) = w_observing w"
  by (simp_all add: on_lock_def)

lemma on_changed_simps [simp]: "w_released (on_changed w)" "w_observing (on_changed w) = w_observing w"
  by (simp_all add: on_changed_def)

text \<open>A waiter that is not released still follows the signals.\<close>

lemma waiting_observes:
  "sig_step sys e sys' \<Longrightarrow> list_all (\<lambda>w. w_observing w \<or> w_released w) (sys_waiters sys) \<Longrightarrow>
     list_all (\<lambda>w. w_observing w \<or> w_released w) (sys_waiters sys')"
  by (erule sig_step_cases) (auto simp: list_all_length nth_list_update on_signal_keeps)

lemma step_ends:
  "sig_step sys e sys' \<Longrightarrow> list_all (\<lambda>w. w_observing w \<or> w_released w) (sys_waiters sys) \<Longrightarrow>
     ends e \<or> list_all w_released (sys_waiters sys) \<Longrightarrow> list_all w_released (sys_waiters sys')"
  by (erule sig_step_cases) (auto simp: list_all_length nth_list_update on_signal_keeps on_signal_ends)

lemma length_filter_update:
  "i < length xs \<Longrightarrow> length (filter P (xs[i := x])) + of_bool (P (xs ! i)) = length (filter P xs) + of_bool (P x)"
  using arg_cong [OF id_take_nth_drop [of i xs], of "\<lambda>ys. length (filter P ys)"]
  by (simp add: upd_conv_take_nth_drop)

lemma length_filter_update_le:
  "i < length xs \<Longrightarrow> P x = P (xs ! i) \<Longrightarrow> length (filter P (xs[i := x])) = length (filter P xs)"
  "i < length xs \<Longrightarrow> length (filter P (xs[i := x])) \<le> Suc (length (filter P xs))"
  using length_filter_update [of i xs P x] by (cases "P x"; cases "P (xs ! i)"; simp)+

text \<open>Without a signal that ends the server, every release uses up a cancellation.\<close>

lemma step_released:
  assumes "sig_step sys e sys'" "\<not> ends e" "e \<noteq> Ev_Cancel_Dropped"
    and "sys_recv sys = Some c" "\<not> wt_closed c"
  shows "\<exists>c'. sys_recv sys' = Some c' \<and> \<not> wt_closed c'
    \<and> released sys' + of_bool (wt_unseen c') \<le> released sys + of_bool (wt_unseen c) + of_bool (e = Ev_Cancel)"
  using assms
  by cases (auto simp: released_def length_filter_update_le map_idI)

lemma run_released:
  assumes "sig_run (signals_start (Some c0) n) evs sys" "\<not> wt_closed c0" "\<not> wt_unseen c0"
    and "list_all (\<lambda>e. \<not> ends e \<and> e \<noteq> Ev_Cancel_Dropped) evs"
  shows "\<exists>c. sys_recv sys = Some c \<and> \<not> wt_closed c
    \<and> released sys + of_bool (wt_unseen c) \<le> length (filter (\<lambda>e. e = Ev_Cancel) evs)"
  using assms
proof (induction "signals_start (Some c0) n" evs sys rule: sig_run.induct)
  case run_start
  then show ?case by (simp add: signals_start_def released_def new_waiter_def)
next
  case (run_step evs sys' e sys'')
  then obtain c where c: "sys_recv sys' = Some c" "\<not> wt_closed c"
    and le: "released sys' + of_bool (wt_unseen c) \<le> length (filter (\<lambda>e. e = Ev_Cancel) evs)"
    by auto
  obtain c' where "sys_recv sys'' = Some c'" "\<not> wt_closed c'"
    and "released sys'' + of_bool (wt_unseen c') \<le> released sys' + of_bool (wt_unseen c) + of_bool (e = Ev_Cancel)"
    using step_released [OF run_step(3) _ _ c] run_step.prems(3) by simp blast
  with le show ?case by (cases "e = Ev_Cancel") simp_all
qed

lemma run_waiters: "sig_run sys evs sys' \<Longrightarrow> length (sys_waiters sys') = length (sys_waiters sys)"
  by (induction rule: sig_run.induct) (auto elim!: sig_step_cases)

lemma run_observes:
  "sig_run sys evs sys' \<Longrightarrow> list_all (\<lambda>w. w_observing w \<or> w_released w) (sys_waiters sys) \<Longrightarrow>
     list_all (\<lambda>w. w_observing w \<or> w_released w) (sys_waiters sys')
     \<and> (list_ex ends evs \<longrightarrow> list_all w_released (sys_waiters sys'))"
proof (induction rule: sig_run.induct)
  case (run_step sys evs sys' e sys'')
  then show ?case using waiting_observes [OF run_step.hyps(2)] step_ends [OF run_step.hyps(2)] by auto
qed simp

lemma run_ends: "sig_run (signals_start recv n) evs sys \<Longrightarrow> list_ex ends evs \<Longrightarrow> released sys = n"
  using run_observes [of "signals_start recv n" evs sys] run_waiters [of "signals_start recv n" evs sys]
  by (auto simp: signals_start_def released_def new_waiter_def list_all_iff filter_id_conv)

lemma step_quiet:
  "sig_step sys e sys' \<Longrightarrow> \<not> ends e \<Longrightarrow> e \<noteq> Ev_Cancel \<Longrightarrow> e \<noteq> Ev_Cancel_Dropped \<Longrightarrow>
     sys_recv sys \<in> {None, Some \<lparr>wt_unseen = False, wt_closed = False\<rparr>} \<Longrightarrow>
     sys_recv sys' = sys_recv sys \<and> released sys' = released sys"
  by (erule sig_step_cases) (auto simp: released_def length_filter_update_le map_idI)

lemma run_quiet:
  "sig_run sys evs sys' \<Longrightarrow> list_all (\<lambda>e. \<not> ends e \<and> e \<noteq> Ev_Cancel \<and> e \<noteq> Ev_Cancel_Dropped) evs \<Longrightarrow>
     sys_recv sys \<in> {None, Some \<lparr>wt_unseen = False, wt_closed = False\<rparr>} \<Longrightarrow>
     sys_recv sys' = sys_recv sys \<and> released sys' = released sys"
proof (induction rule: sig_run.induct)
  case (run_step sys evs sys' e sys'')
  then show ?case using step_quiet [OF run_step.hyps(2)] by auto
qed simp

lemmas sample_signals = signals_start_def new_waiter_def create_signals_def on_lock_def on_signal_def
  on_changed_def lock_free_def numeral_2_eq_2

section \<open>Properties\<close>

text \<open>C39: a cancellation lets go at most one server: they share one receiver, and the one that holds its lock
  marks the value as seen. With the HTTP/2 and the redirect server running, one message of the caller
  leaves one of them up until a signal comes or the sender is dropped.\<close>

theorem cancel_releases_one:
  assumes "sig_run (signals_start (Some \<lparr>wt_unseen = False, wt_closed = False\<rparr>) n) evs sys"
    and "list_all (\<lambda>e. \<not> ends e \<and> e \<noteq> Ev_Cancel_Dropped) evs"
  shows "released sys \<le> length (filter (\<lambda>e. e = Ev_Cancel) evs)"
  using run_released [OF assms(1) _ _ assms(2)] by auto

theorem cancel_releases_one_witness:
  "sig_run (signals_start (Some \<lparr>wt_unseen = False, wt_closed = False\<rparr>) 2)
      [Ev_Lock 0, Ev_Cancel, Ev_Changed 0, Ev_Lock 1]
      \<lparr>sys_recv = Some \<lparr>wt_unseen = False, wt_closed = False\<rparr>,
       sys_waiters = [\<lparr>w_observing = True, w_cancel = Cancel_Ended, w_released = True\<rparr>,
                      \<lparr>w_observing = True, w_cancel = Awaiting_Change, w_released = False\<rparr>]\<rparr>
   \<and> released \<lparr>sys_recv = Some \<lparr>wt_unseen = False, wt_closed = False\<rparr>,
       sys_waiters = [\<lparr>w_observing = True, w_cancel = Cancel_Ended, w_released = True\<rparr>,
                      \<lparr>w_observing = True, w_cancel = Awaiting_Change, w_released = False\<rparr>]\<rparr> \<le> 1"
proof -
  let ?c = "\<lparr>wt_unseen = False, wt_closed = False\<rparr>"
  note run_step [OF run_step [OF run_step [OF run_step [OF run_start
    step_lock [of 0 "signals_start (Some ?c) 2"]] step_cancel [of _ ?c]]
    step_changed [of 0 _ "?c\<lparr>wt_unseen := True\<rparr>"]] step_lock [of 1]]
  then have r: "sig_run (signals_start (Some ?c) 2) [Ev_Lock 0, Ev_Cancel, Ev_Changed 0, Ev_Lock 1]
      \<lparr>sys_recv = Some ?c,
       sys_waiters = [\<lparr>w_observing = True, w_cancel = Cancel_Ended, w_released = True\<rparr>,
                      \<lparr>w_observing = True, w_cancel = Awaiting_Change, w_released = False\<rparr>]\<rparr>"
    by (simp add: sample_signals)
  then show ?thesis using cancel_releases_one [OF r] by simp
qed

end
