(* ===== verification/Server.thy ===== *)
theory Server
  imports Handler Settings Log_Addr Https_Redirect Tls Signals
begin

text \<open>
  Starting the server (\<^verbatim>\<open>src/server.rs\<close>), with the memory cache's start (\<^verbatim>\<open>init\<close> of \<^verbatim>\<open>src/mem_cache/cache.rs\<close>) and
  the service each connection gets (\<^verbatim>\<open>src/service.rs\<close>). Starting either fails or gives a running server: the
  listeners, the options its handler works with, the cache store, the TLS configuration and the redirect
  server. What sockets, signal registration and the metrics registry answer is the record \<open>server_env\<close>.
\<close>

section \<open>Server::new\<close>

record server =
  sv_opts :: settings
  sv_worker_threads :: usize
  sv_max_blocking_threads :: usize

definition server_new :: "usize option \<Rightarrow> settings \<Rightarrow> (string, server) result" where
  "server_new available_parallelism opts =
     (case available_parallelism of
        None \<Rightarrow> Inl (Err ''unable to get current platform cpus or lack of permissions to query available parallelism'')
      | Some cpus \<Rightarrow>
          (let n = g_threads_multiplier (s_general opts);
               worker_threads = (if n = 0 \<or> n = 1 then cpus else cpus * n)
           in Inr \<lparr>sv_opts = opts, sv_worker_threads = worker_threads,
                   sv_max_blocking_threads = g_max_blocking_threads (s_general opts)\<rparr>))"

section \<open>The memory cache\<close>

text \<open>\<open>cache_build capacity ttl tti\<close> tells whether the cache builder accepts the durations (it panics otherwise).\<close>

definition mem_cache_init ::
  "(u64 \<Rightarrow> u64 \<Rightarrow> u64 \<Rightarrow> bool) \<Rightarrow> store \<Rightarrow> request_handler_opts \<Rightarrow> (string, store \<times> request_handler_opts) result" where
  "mem_cache_init cache_build store handler_opts =
     (case o_advanced_opts handler_opts of
        None \<Rightarrow> Inr (store, handler_opts)
      | Some advanced_opts \<Rightarrow>
          (case adv_memory_cache advanced_opts of
             None \<Rightarrow> Inr (store, handler_opts)
           | Some opts \<Rightarrow>
               (let capacity = case_option 256 id (mcs_capacity opts);
                    ttl = case_option 3600 id (mcs_ttl opts);
                    tti = case_option 300 id (mcs_tti opts);
                    max_file_size = case_option 8192 id (mcs_max_file_size opts);
                    mem_opts = mem_cache_opts_new max_file_size
                in if \<not> cache_build capacity ttl tti then Inl (Panic ''cache builder: duration out of bounds'')
                   else if store \<noteq> None then Inl (Err ''unable to initialize the in-memory cache store'')
                   else Inr (Some Map.empty, handler_opts\<lparr>o_memory_cache := Some mem_opts\<rparr>))))"

section \<open>Server::start_server\<close>

text \<open>
  \<open>se_listen_fd\<close> is \<^verbatim>\<open>ListenFd::take_tcp_listener\<close>, \<open>se_bind\<close> binding a socket, \<open>se_nonblocking\<close> setting the listener at
  an address non-blocking, \<open>se_incoming\<close> handing it to tokio and \<open>se_from_tcp\<close> to hyper, \<open>se_signals\<close> registering
  the signals and \<open>se_registered\<close> registering the metrics collector.
\<close>

record ('c, 'e) server_env =
  se_listen_fd :: "usize \<Rightarrow> (string, bool) result"
  se_bind :: "socket_addr \<Rightarrow> bool"
  se_nonblocking :: "string \<Rightarrow> bool"
  se_incoming :: "string \<Rightarrow> bool"
  se_from_tcp :: "string \<Rightarrow> bool"
  se_signals :: "signal list \<Rightarrow> bool"
  se_registered :: bool
  se_cache_build :: "u64 \<Rightarrow> u64 \<Rightarrow> u64 \<Rightarrow> bool"
  se_tls :: "('c, 'e) tls_env"

text \<open>The question mark operator.\<close>

definition and_then :: "('e, 'a) result \<Rightarrow> ('a \<Rightarrow> ('e, 'b) result) \<Rightarrow> ('e, 'b) result" where
  "and_then r f = (case r of Inl e \<Rightarrow> Inl e | Inr x \<Rightarrow> f x)"

definition ensure :: "bool \<Rightarrow> string \<Rightarrow> (string, unit) result" where
  "ensure b msg = (if b then Inr () else Inl (Err msg))"

definition bind_socket :: "('c, 'e) server_env \<Rightarrow> string \<Rightarrow> u16 \<Rightarrow> (string, socket_addr) result" where
  "bind_socket env host port =
     (case parse_ip_addr host of
        None \<Rightarrow> Inl (Err (''failed to parse '' @ host @ '' address''))
      | Some ip \<Rightarrow>
          (let addr = \<lparr>sa_ip = ip, sa_port = port\<rparr>
           in if se_bind env addr then Inr addr
              else Inl (Err (''failed to bind to '' @ show_socket_addr addr @ '' address''))))"

definition tcp_listener :: "('c, 'e) server_env \<Rightarrow> general \<Rightarrow> (string, string) result" where
  "tcp_listener env general =
     (case g_fd general of
        Some fd \<Rightarrow>
          and_then (se_listen_fd env fd) (\<lambda>found.
            if found then Inr (''@FD('' @ nat_str (unat fd) @ '')'')
            else Inl (Err ''failed to convert inherited 'fd' into a 'tcp' listener''))
      | None \<Rightarrow>
          and_then (bind_socket env (g_host general) (g_port general)) (\<lambda>addr. Inr (show_socket_addr addr)))"

text \<open>\<^verbatim>\<open>Path::starts_with\<close> compares components.\<close>

definition path_starts_with :: "path \<Rightarrow> path \<Rightarrow> bool" where
  "path_starts_with p base = prefix (components base) (components p)"

definition resolve_page :: "path \<Rightarrow> path \<Rightarrow> path" where
  "resolve_page root_dir page =
     (if \<not> has_root page \<and> \<not> path_starts_with page root_dir then path_push root_dir page else page)"

definition comma_list :: "string \<Rightarrow> string list" where
  "comma_list s = map str_trim (split_on (CHR '','') s)"

text \<open>The options of the request handler, filled in by the modules one after the other.\<close>

definition base_handler_opts :: "general \<Rightarrow> advanced option \<Rightarrow> path \<Rightarrow> string list \<Rightarrow> request_handler_opts" where
  "base_handler_opts general advanced_opts root_dir index_files =
     default_handler_opts
       \<lparr>o_root_dir := root_dir,
        o_page404 := resolve_page root_dir (g_page404 general),
        o_page50x := resolve_page root_dir (g_page50x general),
        o_log_remote_address := g_log_remote_address general,
        o_log_forwarded_for := g_log_forwarded_for general,
        o_trusted_proxies := g_trusted_proxies general,
        o_redirect_trailing_slash := g_redirect_trailing_slash general,
        o_ignore_hidden_files := g_ignore_hidden_files general,
        o_disable_symlinks := g_disable_symlinks general,
        o_index_files := index_files,
        o_advanced_opts := advanced_opts\<rparr>"

definition init_modules ::
  "api \<Rightarrow> ('c, 'e) server_env \<Rightarrow> fs \<Rightarrow> store \<Rightarrow> general \<Rightarrow> request_handler_opts
     \<Rightarrow> (string, store \<times> request_handler_opts) result" where
  "init_modules api env fs store general opts =
     (let opts = listing_init (g_directory_listing general) (g_directory_listing_order general)
                   (g_directory_listing_format general) opts;
          opts = fallback_init fs (g_page_fallback general) opts;
          opts = health_init (g_health general) opts;
          opts = log_addr_init (g_log_remote_address general) opts
      in and_then (metrics_init (se_registered env) (g_experimental_metrics general) opts) (\<lambda>opts.
         and_then (cors_init api (g_cors_allow_origins general) (g_cors_allow_headers general)
                     (g_cors_expose_headers general) opts) (\<lambda>opts.
         let opts = basic_auth_init (g_basic_auth general) opts;
             opts = maintenance_init (g_maintenance_mode general) (g_maintenance_mode_status general)
                      (g_maintenance_mode_file general) opts;
             opts = compression_static_init (g_compression_static general) opts;
             opts = compression_init (g_compression general) (g_compression_level general) opts;
             opts = control_init (g_cache_control_headers general) opts;
             opts = security_init (g_security_headers general) opts
         in mem_cache_init (se_cache_build env) store opts)))"

text \<open>The redirect server: its address, options and error pages.\<close>

definition start_redirect ::
  "('c, 'e) server_env \<Rightarrow> general \<Rightarrow> (string, (socket_addr \<times> redirect_opts) option) result" where
  "start_redirect env general =
     (if \<not> g_https_redirect general then Inr None
      else
        and_then (bind_socket env (g_host general) (g_https_redirect_from_port general)) (\<lambda>addr.
        and_then (ensure (se_nonblocking env (show_socket_addr addr)) ''failed to set TCP non-blocking mode'') (\<lambda>_.
        and_then (ensure (se_signals env create_signals) ''failed to register termination signals'') (\<lambda>_.
        let redirect_allowed_hosts = comma_list (g_https_redirect_from_hosts general)
        in and_then (ensure (redirect_allowed_hosts \<noteq> [])
                       ''https redirect allowed hosts is empty, provide at least one host or IP'') (\<lambda>_.
           if \<not> se_from_tcp env (show_socket_addr addr)
           then Inl (Panic ''called `Result::unwrap()` on an `Err` value'')
           else Inr (Some (addr,
                  \<lparr>ro_https_hostname = g_https_redirect_host general, ro_https_port = g_port general,
                   ro_allowed_hosts = redirect_allowed_hosts\<rparr>)))))))"

text \<open>The HTTP/2 server over TLS and its redirect server, or the HTTP/1 server.\<close>

definition start_http2 ::
  "('c, 'e) server_env \<Rightarrow> fs \<Rightarrow> general \<Rightarrow> string
     \<Rightarrow> (string, 'c server_config \<times> (socket_addr \<times> redirect_opts) option) result" where
  "start_http2 env fs general addr_str =
     and_then (ensure (se_nonblocking env addr_str) ''failed to set TCP non-blocking mode'') (\<lambda>_.
     and_then (ensure (se_incoming env addr_str) ''failed to create tokio::net::TcpListener'') (\<lambda>_.
     case g_http2_tls_cert general of
       None \<Rightarrow> Inl (Err ''failed to initialize TLS because cert file missing'')
     | Some cert \<Rightarrow>
         (case g_http2_tls_key general of
            None \<Rightarrow> Inl (Err ''failed to initialize TLS because key file missing'')
          | Some key \<Rightarrow>
              (case tls_build (se_tls env) fs (key_path key (cert_path cert tls_builder_new)) of
                 Inl _ \<Rightarrow> Inl (Err ''failed to initialize TLS probably because invalid cert or key file'')
               | Inr tls \<Rightarrow>
                   and_then (ensure (se_signals env create_signals) ''failed to register termination signals'') (\<lambda>_.
                   and_then (start_redirect env general) (\<lambda>redirect. Inr (tls, redirect)))))))"

definition start_http1 :: "('c, 'e) server_env \<Rightarrow> string \<Rightarrow> (string, unit) result" where
  "start_http1 env addr_str =
     and_then (ensure (se_signals env create_signals) ''failed to register termination signals'') (\<lambda>_.
     and_then (ensure (se_nonblocking env addr_str) ''failed to set TCP non-blocking mode'') (\<lambda>_.
     if \<not> se_from_tcp env addr_str then Inl (Panic ''called `Result::unwrap()` on an `Err` value'') else Inr ()))"

record 'c running =
  rn_addr :: string
  rn_opts :: request_handler_opts
  rn_store :: store
  rn_grace_period :: u8
  rn_https :: "('c server_config \<times> (socket_addr \<times> redirect_opts) option) option"

definition start_server ::
  "api \<Rightarrow> ('c, 'e) server_env \<Rightarrow> fs \<Rightarrow> store \<Rightarrow> server \<Rightarrow> (string, 'c running) result" where
  "start_server api env fs store self =
     (let general = s_general (sv_opts self);
          advanced_opts = s_advanced (sv_opts self)
      in and_then (tcp_listener env general) (\<lambda>addr_str.
         case get_valid_dirpath fs (g_root general) of
           Inl _ \<Rightarrow> Inl (Err ''root directory was not found or inaccessible'')
         | Inr root_dir \<Rightarrow>
             (let index_files = comma_list (g_index_files general)
              in and_then (ensure (index_files \<noteq> [])
                             ''index files list is empty, provide at least one index file'') (\<lambda>_.
                 and_then (init_modules api env fs store general
                             (base_handler_opts general advanced_opts root_dir index_files)) (\<lambda>(store, handler_opts).
                 and_then (if g_http2 general then and_then (start_http2 env fs general addr_str) (Inr \<circ> Some)
                           else and_then (start_http1 env addr_str) (\<lambda>_. Inr None)) (\<lambda>https.
                 Inr \<lparr>rn_addr = addr_str, rn_opts = handler_opts, rn_store = store,
                      rn_grace_period = g_grace_period general, rn_https = https\<rparr>))))))"

text \<open>
  \<^verbatim>\<open>run_standalone\<close> runs the server on a tokio runtime, if one can be built; a server that does not start ends the
  process with exit code 1.
\<close>

datatype 'c run = Exit nat string | Serving "'c running"

definition run_server_on_rt ::
  "(usize \<Rightarrow> usize \<Rightarrow> (string, unit) result) \<Rightarrow> api \<Rightarrow> ('c, 'e) server_env \<Rightarrow> fs \<Rightarrow> store \<Rightarrow> server
     \<Rightarrow> (string, 'c run) result" where
  "run_server_on_rt runtime_build api env fs store self =
     and_then (runtime_build (sv_worker_threads self) (sv_max_blocking_threads self)) (\<lambda>_.
       case start_server api env fs store self of
         Inr rn \<Rightarrow> Inr (Serving rn)
       | Inl (Err err) \<Rightarrow> Inr (Exit 1 err)
       | Inl (Panic msg) \<Rightarrow> Inl (Panic msg))"

section \<open>The services\<close>

text \<open>
  What a connection's service does with a request: \<^verbatim>\<open>RouterService\<close> gives each connection a \<^verbatim>\<open>RequestService\<close> with
  the peer's address, which logs the request and hands it to the handler.
\<close>

record request_service =
  rs_handler :: request_handler_opts
  rs_remote_addr :: "socket_addr option"

definition service_build :: "request_handler_opts \<Rightarrow> socket_addr option \<Rightarrow> request_service" where
  "service_build handler remote_addr = \<lparr>rs_handler = handler, rs_remote_addr = remote_addr\<rparr>"

definition router_call :: "request_handler_opts \<Rightarrow> ('h, 's) tls_stream + socket_addr \<Rightarrow> request_service" where
  "router_call handler conn =
     service_build handler (case conn of Inl s \<Rightarrow> Some (ts_remote_addr s) | Inr addr \<Rightarrow> Some addr)"

definition service_call :: "api \<Rightarrow> fs \<Rightarrow> store \<Rightarrow> request_service \<Rightarrow> request \<Rightarrow> log_entry \<times> handled" where
  "service_call api fs store self req =
     (log_addr_pre_process api (rs_handler self) req (rs_remote_addr self),
      handle api fs store (rs_handler self) req)"

section \<open>Lemmas\<close>

lemma and_then_Inr: "and_then r f = Inr y \<longleftrightarrow> (\<exists>x. r = Inr x \<and> f x = Inr y)"
  by (cases r) (simp_all add: and_then_def)

lemma ensure_Inr [simp]: "ensure b msg = Inr u \<longleftrightarrow> b"
  by (simp add: ensure_def)

lemma comma_list_ne [simp]: "comma_list s \<noteq> []"
  by (simp add: comma_list_def)

lemma metrics_init_Inr:
  "metrics_init registered enabled opts = Inr opts' \<longleftrightarrow>
     (enabled \<longrightarrow> registered) \<and> opts' = opts\<lparr>o_experimental_metrics := enabled\<rparr>"
  by (auto simp: metrics_init_def Let_def)

lemma cors_init_Inr:
  "cors_init api a h e opts = Inr opts' \<longleftrightarrow>
     (\<exists>c. cors_new api (str_trim a) (str_trim h) (str_trim e) = Inr c \<and> opts' = opts\<lparr>o_cors := c\<rparr>)"
  by (auto simp: cors_init_def split: sum.splits)

lemmas init_defs = listing_init_def fallback_init_def health_init_def log_addr_init_def metrics_init_Inr
  cors_init_Inr basic_auth_init_def maintenance_init_def compression_static_init_def compression_init_def
  control_init_def security_init_def

lemma mem_cache_init_Inr:
  "mem_cache_init build store opts = Inr (store', opts') \<Longrightarrow>
     (case Option.bind (o_advanced_opts opts) adv_memory_cache of
        None \<Rightarrow> store' = store \<and> opts' = opts
      | Some m \<Rightarrow> store = None \<and> store' = Some Map.empty
          \<and> opts' = opts\<lparr>o_memory_cache := Some \<lparr>max_file_size = 1024 * 1024 * case_option 8192 id (mcs_max_file_size m)\<rparr>\<rparr>)"
  by (auto simp: mem_cache_init_def mem_cache_opts_new_def Let_def split: option.splits if_splits)

text \<open>The handler's options, written out.\<close>

definition handler_opts_of ::
  "fs \<Rightarrow> general \<Rightarrow> advanced option \<Rightarrow> configured option \<Rightarrow> request_handler_opts" where
  "handler_opts_of fs g adv c =
      \<lparr>o_root_dir = g_root g,
       o_memory_cache = map_option (\<lambda>m. \<lparr>max_file_size = 1024 * 1024 * case_option 8192 id (mcs_max_file_size m)\<rparr>)
          (Option.bind adv adv_memory_cache),
       o_compression = g_compression g, o_compression_level = g_compression_level g,
       o_compression_static = g_compression_static g,
       o_dir_listing = g_directory_listing g, o_dir_listing_order = g_directory_listing_order g,
       o_dir_listing_format = g_directory_listing_format g, o_cors = c,
       o_security_headers = g_security_headers g, o_cache_control_headers = g_cache_control_headers g,
       o_page404 = resolve_page (g_root g) (g_page404 g), o_page50x = resolve_page (g_root g) (g_page50x g),
       o_page_fallback = read_bytes_default fs (g_page_fallback g), o_basic_auth = str_trim (g_basic_auth g),
       o_index_files = comma_list (g_index_files g), o_log_remote_address = g_log_remote_address g,
       o_log_forwarded_for = g_log_forwarded_for g, o_trusted_proxies = g_trusted_proxies g,
       o_redirect_trailing_slash = g_redirect_trailing_slash g, o_ignore_hidden_files = g_ignore_hidden_files g,
       o_disable_symlinks = g_disable_symlinks g, o_health = g_health g,
       o_experimental_metrics = g_experimental_metrics g, o_maintenance_mode = g_maintenance_mode g,
       o_maintenance_mode_status = g_maintenance_mode_status g,
       o_maintenance_mode_file = g_maintenance_mode_file g, o_advanced_opts = adv\<rparr>"

lemma init_modules_Inr:
  assumes "init_modules api env fs store g
      (base_handler_opts g adv (g_root g) (comma_list (g_index_files g))) = Inr (store', opts)"
  shows "\<exists>c. cors_new api (str_trim (g_cors_allow_origins g)) (str_trim (g_cors_allow_headers g))
        (str_trim (g_cors_expose_headers g)) = Inr c \<and> opts = handler_opts_of fs g adv c
    \<and> store' = (if Option.bind adv adv_memory_cache = None then store else Some Map.empty)"
proof -
  obtain c where c: "cors_new api (str_trim (g_cors_allow_origins g)) (str_trim (g_cors_allow_headers g))
        (str_trim (g_cors_expose_headers g)) = Inr c"
    and m: "mem_cache_init (se_cache_build env) store ((handler_opts_of fs g adv c)\<lparr>o_memory_cache := None\<rparr>)
      = Inr (store', opts)"
    using assms
    by (auto simp: init_modules_def init_defs base_handler_opts_def default_handler_opts_def and_then_Inr Let_def
        handler_opts_of_def)
  show ?thesis
    using c mem_cache_init_Inr [OF m]
    by (cases "Option.bind adv adv_memory_cache") (simp_all add: handler_opts_of_def)
qed

lemma get_valid_dirpath_Inr: "get_valid_dirpath fs p = Inr d \<Longrightarrow> d = p \<and> is_dir fs p"
  by (auto simp: get_valid_dirpath_def split: if_splits)

lemma start_server_Inr:
  assumes "start_server api env fs store self = Inr rn"
  shows "is_dir fs (g_root (s_general (sv_opts self)))
    \<and> init_modules api env fs store (s_general (sv_opts self))
        (base_handler_opts (s_general (sv_opts self)) (s_advanced (sv_opts self)) (g_root (s_general (sv_opts self)))
          (comma_list (g_index_files (s_general (sv_opts self))))) = Inr (rn_store rn, rn_opts rn)
    \<and> (rn_https rn = None \<longleftrightarrow> \<not> g_http2 (s_general (sv_opts self)))"
  using assms
  by (cases "get_valid_dirpath fs (g_root (s_general (sv_opts self)))")
     (auto simp: start_server_def and_then_Inr Let_def dest!: get_valid_dirpath_Inr split: if_splits)

text \<open>Once the server has started, every request is answered.\<close>

lemma started_answers:
  assumes "start_server api env fs None self = Inr rn" "inclusive_ranges api" "rn_store rn \<noteq> None \<longrightarrow> store \<noteq> None"
  shows "\<exists>r. snd (service_call api fs' store (router_call (rn_opts rn) conn) req) = Inr r"
proof -
  from start_server_Inr [OF assms(1)] obtain c where
    "rn_opts rn = handler_opts_of fs (s_general (sv_opts self)) (s_advanced (sv_opts self)) c"
    "rn_store rn = (if Option.bind (s_advanced (sv_opts self)) adv_memory_cache = None then None else Some Map.empty)"
    by (blast dest: init_modules_Inr)
  then have "o_memory_cache (rn_opts rn) \<noteq> None \<longrightarrow> rn_store rn \<noteq> None"
    by (simp add: handler_opts_of_def)
  with assms(2,3) show ?thesis
    unfolding service_call_def router_call_def service_build_def
    using handle_answers [OF assms(2), of "rn_opts rn" store] by simp
qed

section \<open>Properties\<close>

text \<open>C18: a server that starts serves a root that is a directory, with each option of its settings where the
  handler reads it, relative error pages below the root, the index files split at commas and trimmed, a cache
  store exactly when a memory cache is configured, and TLS exactly when HTTP/2 is on.\<close>

theorem server_started:
  assumes "start_server api env fs None self = Inr rn"
  shows "is_dir fs (g_root (s_general (sv_opts self)))
    \<and> (\<exists>c. rn_opts rn = handler_opts_of fs (s_general (sv_opts self)) (s_advanced (sv_opts self)) c
         \<and> cors_new api (str_trim (g_cors_allow_origins (s_general (sv_opts self))))
             (str_trim (g_cors_allow_headers (s_general (sv_opts self))))
             (str_trim (g_cors_expose_headers (s_general (sv_opts self)))) = Inr c)
    \<and> (rn_store rn \<noteq> None \<longleftrightarrow> o_memory_cache (rn_opts rn) \<noteq> None)
    \<and> (rn_https rn = None \<longleftrightarrow> \<not> g_http2 (s_general (sv_opts self)))"
proof -
  from start_server_Inr [OF assms] obtain c where
    "rn_opts rn = handler_opts_of fs (s_general (sv_opts self)) (s_advanced (sv_opts self)) c"
    "cors_new api (str_trim (g_cors_allow_origins (s_general (sv_opts self))))
             (str_trim (g_cors_allow_headers (s_general (sv_opts self))))
             (str_trim (g_cors_expose_headers (s_general (sv_opts self)))) = Inr c"
    "rn_store rn = (if Option.bind (s_advanced (sv_opts self)) adv_memory_cache = None then None else Some Map.empty)"
    by (blast dest: init_modules_Inr)
  with start_server_Inr [OF assms] show ?thesis
    by (simp add: handler_opts_of_def)
qed

section \<open>Witnesses\<close>

definition sample_server_env :: "(unit, unit) server_env" where
  "sample_server_env =
     \<lparr>se_listen_fd = (\<lambda>_. Inr True), se_bind = (\<lambda>_. True), se_nonblocking = (\<lambda>_. True), se_incoming = (\<lambda>_. True),
      se_from_tcp = (\<lambda>_. True), se_signals = (\<lambda>_. True), se_registered = True, se_cache_build = (\<lambda>_ _ _. True),
      se_tls = \<lparr>pem_certs = (\<lambda>b. Some [b]), pem_items = (\<lambda>b. [Some (Pkcs8Key b)]),
                tls_single_cert = (\<lambda>_ _. Inr ())\<rparr>\<rparr>"

definition sample_server :: server where
  "sample_server =
     \<lparr>sv_opts =
        \<lparr>s_general = cli_defaults\<lparr>g_host := ''127.0.0.1'', g_root := ''/srv/w'', g_index_files := ''index.html, a.txt''\<rparr>,
         s_advanced = Some \<lparr>adv_headers = None, adv_rewrites = None, adv_redirects = None, adv_virtual_hosts = None,
           adv_memory_cache = Some \<lparr>mcs_capacity = None, mcs_ttl = None, mcs_tti = None, mcs_max_file_size = Some 1\<rparr>\<rparr>\<rparr>,
      sv_worker_threads = 4, sv_max_blocking_threads = 512\<rparr>"

lemma sample_started:
  "\<exists>rn. start_server sample_api sample_server_env (sample_fs site) None
     (sample_server\<lparr>sv_opts := (sv_opts sample_server)\<lparr>s_advanced := adv\<rparr>\<rparr>) = Inr rn"
proof -
  have ip: "parse_ip_addr ''127.0.0.1'' = Some (V4 127 0 0 1)" by code_simp
  have trim: "str_trim [] = []" by code_simp
  show ?thesis
    by (simp add: start_server_def sample_server_def sample_server_env_def cli_defaults_def tcp_listener_def
        bind_socket_def and_then_def ip get_valid_dirpath_def path_exists_def is_dir_def sample_fs_def site_def
        sample_meta_def ensure_def init_modules_def metrics_init_def cors_init_def cors_new_def trim
        mem_cache_init_def base_handler_opts_def listing_init_def fallback_init_def health_init_def
        log_addr_init_def basic_auth_init_def maintenance_init_def compression_static_init_def
        compression_init_def control_init_def security_init_def start_http1_def Let_def split: option.split)
qed

theorem server_started_witness:
  "\<exists>rn. start_server sample_api sample_server_env (sample_fs site) None sample_server = Inr rn
     \<and> o_index_files (rn_opts rn) = [''index.html'', ''a.txt''] \<and> o_page404 (rn_opts rn) = ''/srv/w/./404.html''
     \<and> rn_store rn \<noteq> None \<and> rn_https rn = None"
proof -
  obtain rn where rn: "start_server sample_api sample_server_env (sample_fs site) None sample_server = Inr rn"
    using sample_started [of "s_advanced (sv_opts sample_server)"] by auto
  have "comma_list ''index.html, a.txt'' = [''index.html'', ''a.txt'']"
    "resolve_page ''/srv/w'' ''./404.html'' = ''/srv/w/./404.html''" by code_simp+
  with rn server_started [OF rn] show ?thesis
    by (auto simp: handler_opts_of_def sample_server_def cli_defaults_def)
qed

end
