(* ===== verification/Shutdown.thy ===== *)
theory Shutdown
  imports Server Signals
begin

text \<open>
  The end of the server (\<^verbatim>\<open>Server::start_server\<close> of \<^verbatim>\<open>src/server.rs\<close> after the servers are set up, and
  \<^verbatim>\<open>run_server_on_rt\<close>). Every server is given a shutdown future, \<^verbatim>\<open>wait_for_signals\<close>; the program waits for the
  servers' own futures and returns, fails or ends the process. hyper is third-party: what its futures have come to
  is an argument, \<open>None\<close> for one that is pending, and \<open>graceful\<close> is its documented behaviour.
\<close>

type_synonym future = "(string, unit) result option"

datatype run_end = Run_Returns "(string, unit) result" | Process_Exit nat

definition has_redirect :: "'c running \<Rightarrow> bool" where
  "has_redirect rn = (case rn_https rn of Some (_, Some _) \<Rightarrow> True | _ \<Rightarrow> False)"

text \<open>The HTTP/2 and the redirect server share the cancel receiver; the HTTP/1 server has it for itself.\<close>

definition server_waiters :: "watch option \<Rightarrow> 'c running \<Rightarrow> signal_system" where
  "server_waiters cancel_recv rn = signals_start cancel_recv (if has_redirect rn then 2 else 1)"

text \<open>
  With a redirect server both servers are tasks that end the process if their server fails; a task that panics is an
  error of the join.
\<close>

definition await_tasks :: "future \<Rightarrow> future \<Rightarrow> run_end option" where
  "await_tasks http2_server server_redirect =
     (let failed = (\<lambda>f. case f of Some (Inl (Err _)) \<Rightarrow> True | _ \<Rightarrow> False);
          panicked = (\<lambda>f. case f of Some (Inl (Panic _)) \<Rightarrow> True | _ \<Rightarrow> False)
      in if failed http2_server \<or> failed server_redirect then Some (Process_Exit 1)
         else if panicked http2_server \<or> panicked server_redirect then Some (Run_Returns (Inl (Err ''task panicked'')))
         else if http2_server = None \<or> server_redirect = None then None
         else Some (Run_Returns (Inr ())))"

definition await_servers :: "'c running \<Rightarrow> future list \<Rightarrow> run_end option" where
  "await_servers rn futures =
     (if has_redirect rn then await_tasks (futures ! 0) (futures ! 1)
      else map_option Run_Returns (futures ! 0))"

text \<open>\<^verbatim>\<open>run_server_on_rt\<close> ends the process when \<^verbatim>\<open>start_server\<close> has failed.\<close>

definition rt_end :: "run_end \<Rightarrow> run_end" where
  "rt_end e = (case e of Run_Returns (Inl (Err _)) \<Rightarrow> Process_Exit 1 | _ \<Rightarrow> e)"

definition serving_end :: "'c running \<Rightarrow> future list \<Rightarrow> run_end option" where
  "serving_end rn futures = map_option rt_end (await_servers rn futures)"

section \<open>hyper\<close>

text \<open>
  A server with a graceful shutdown completes without an error only after its shutdown future has completed.
\<close>

definition graceful :: "signal_system \<Rightarrow> future list \<Rightarrow> bool" where
  "graceful sys futures \<longleftrightarrow>
     list_all2 (\<lambda>w f. f = Some (Inr ()) \<longrightarrow> w_released w) (sys_waiters sys) futures"

text \<open>The servers that were let go have served what was open and completed.\<close>

definition drained :: "signal_system \<Rightarrow> future list \<Rightarrow> bool" where
  "drained sys futures \<longleftrightarrow>
     list_all2 (\<lambda>w f. w_released w \<longrightarrow> f = Some (Inr ())) (sys_waiters sys) futures"

section \<open>Lemmas\<close>

lemma await_tasks_Inr:
  "await_tasks a b = Some (Run_Returns (Inr ())) \<longleftrightarrow> a = Some (Inr ()) \<and> b = Some (Inr ())"
  by (auto simp: await_tasks_def Let_def split: option.splits sum.splits abort.splits)

lemma rt_end_Inr [simp]: "rt_end e = Run_Returns (Inr ()) \<longleftrightarrow> e = Run_Returns (Inr ())"
  by (auto simp: rt_end_def split: run_end.splits sum.splits abort.splits)

text \<open>The program returns without an error exactly when all its servers have.\<close>

lemma serving_end_Inr:
  assumes "length futures = (if has_redirect rn then 2 else 1)"
  shows "serving_end rn futures = Some (Run_Returns (Inr ())) \<longleftrightarrow> list_all (\<lambda>f. f = Some (Inr ())) futures"
  using assms
  by (auto simp: serving_end_def await_servers_def await_tasks_Inr numeral_2_eq_2 length_Suc_conv split: if_splits)

lemma all_released:
  assumes "graceful sys futures" "list_all (\<lambda>f. f = Some (Inr ())) futures"
  shows "released sys = length futures"
proof -
  have "list_all w_released (sys_waiters sys)" "length (sys_waiters sys) = length futures"
    using assms by (auto simp: graceful_def list_all2_conv_all_nth list_all_length)
  then show ?thesis by (simp add: released_def list_all_iff filter_id_conv [THEN iffD2])
qed

lemma all_drained:
  "drained sys futures \<Longrightarrow> released sys = length (sys_waiters sys) \<Longrightarrow> list_all (\<lambda>f. f = Some (Inr ())) futures"
  using length_filter_less [of _ "sys_waiters sys" w_released]
  by (auto simp: drained_def released_def list_all2_conv_all_nth list_all_length) (metis less_irrefl nth_mem)

lemma no_receiver:
  "sig_run sys evs sys' \<Longrightarrow> sys_recv sys = None \<Longrightarrow>
     sys_recv sys' = None \<and> Ev_Cancel \<notin> set evs \<and> Ev_Cancel_Dropped \<notin> set evs"
  by (induction rule: sig_run.induct) (auto elim!: sig_step_cases)

section \<open>Properties\<close>

text \<open>C21: the program ends when it is asked to and not before. In every interleaving: if it has returned without an
  error, then SIGTERM, SIGINT or SIGQUIT has arrived, the caller has dropped its cancel sender, or it has
  sent at least one cancellation per server; and once one of those signals has arrived, the program returns
  without an error when its servers have completed.\<close>

theorem ends_when_asked:
  assumes "sig_run (server_waiters recv rn) evs sys" "recv \<in> {None, Some \<lparr>wt_unseen = False, wt_closed = False\<rparr>}"
    and "graceful sys futures"
  shows "(serving_end rn futures = Some (Run_Returns (Inr ())) \<longrightarrow>
        list_ex ends evs \<or> Ev_Cancel_Dropped \<in> set evs
      \<or> length (sys_waiters sys) \<le> length (filter (\<lambda>e. e = Ev_Cancel) evs))
    \<and> (list_ex ends evs \<and> drained sys futures \<longrightarrow> serving_end rn futures = Some (Run_Returns (Inr ())))"
proof -
  let ?n = "if has_redirect rn then 2 else 1 :: nat"
  note run = assms(1) [unfolded server_waiters_def]
  have n: "length (sys_waiters sys) = ?n" "length futures = ?n"
    using run_waiters [OF run] assms(3)
    by (auto simp: signals_start_def graceful_def list_all2_lengthD [symmetric])
  have "released sys = ?n" if "list_all (\<lambda>f. f = Some (Inr ())) futures"
    using all_released [OF assms(3) that] n by simp
  moreover have "released sys \<le> length (filter (\<lambda>e. e = Ev_Cancel) evs)"
    if "\<not> list_ex ends evs" "Ev_Cancel_Dropped \<notin> set evs"
  proof (cases recv)
    case None
    then have "Ev_Cancel \<notin> set evs" using no_receiver [OF run] by (simp add: signals_start_def)
    with that have "list_all (\<lambda>e. \<not> ends e \<and> e \<noteq> Ev_Cancel \<and> e \<noteq> Ev_Cancel_Dropped) evs"
      by (auto simp: list_all_iff list_ex_iff)
    with None run_quiet [OF run] have "released sys = released (signals_start None ?n)" by (simp add: signals_start_def)
    then show ?thesis by (simp add: signals_start_def released_def new_waiter_def)
  next
    case (Some c)
    have "list_all (\<lambda>e. \<not> ends e \<and> e \<noteq> Ev_Cancel_Dropped) evs"
      using that by (auto simp: list_all_iff list_ex_iff)
    with Some assms(2) run run_released [of c ?n evs sys] show ?thesis by auto
  qed
  moreover have "list_all (\<lambda>f. f = Some (Inr ())) futures" if "list_ex ends evs" "drained sys futures"
    using all_drained [OF that(2)] run_ends [OF run that(1)] n by simp
  ultimately show ?thesis
    unfolding serving_end_Inr [OF n(2)] n(1) by metis
qed

theorem ends_when_asked_witness:
  "list_ex ends [Ev_Lock 0, Ev_Signal SIGHUP, Ev_Signal SIGTERM]
   \<and> serving_end \<lparr>rn_addr = [], rn_opts = default_handler_opts, rn_store = None, rn_grace_period = 0, rn_https = None\<rparr>
       [Some (Inr ())] = Some (Run_Returns (Inr ()))"
proof -
  let ?rn = "\<lparr>rn_addr = [], rn_opts = default_handler_opts, rn_store = None, rn_grace_period = 0, rn_https = None\<rparr>"
  let ?sys = "\<lparr>sys_recv = None,
       sys_waiters = [\<lparr>w_observing = False, w_cancel = Cancel_Ended, w_released = True\<rparr>]\<rparr>"
  note run_step [OF run_step [OF run_step [OF run_start step_lock [of 0 "signals_start None 1"]]
    step_signal [of SIGHUP]] step_signal [of SIGTERM]]
  then have "sig_run (server_waiters None ?rn) [Ev_Lock 0, Ev_Signal SIGHUP, Ev_Signal SIGTERM] ?sys"
    by (simp add: server_waiters_def has_redirect_def sample_signals)
  from ends_when_asked [OF this, of "[Some (Inr ())]"] show ?thesis
    by (simp add: graceful_def drained_def)
qed

end
