(* ===== verification/Windows_Service.thy ===== *)
theory Windows_Service
  imports Shutdown
begin

text \<open>
  The Windows build where it differs: \<^verbatim>\<open>src/winservice.rs\<close>, the wait for ctrl+c of \<^verbatim>\<open>src/signals.rs\<close>, the path
  adjustment of \<^verbatim>\<open>src/helpers.rs\<close> and the extra entries of \<^verbatim>\<open>main\<close>. The service control manager is third-party: its
  answers are arguments, and what the program tells it is a list of the calls, in order.
\<close>

section \<open>helpers.rs\<close>

definition VERBATIM_PREFIX :: string where
  "VERBATIM_PREFIX = [CHR 0x5C, CHR 0x5C, CHR ''?'', CHR 0x5C]"

definition adjust_canonicalization :: "path \<Rightarrow> string" where
  "adjust_canonicalization p =
     (let p = (case to_str p of None \<Rightarrow> [] | Some s \<Rightarrow> s)
      in if prefix VERBATIM_PREFIX p
         then (case strip_prefix VERBATIM_PREFIX p of None \<Rightarrow> [] | Some s \<Rightarrow> s)
         else p)"

section \<open>winservice.rs: the running service\<close>

text \<open>
  \<^verbatim>\<open>pop\<close> and \<^verbatim>\<open>with_file_name\<close> of \<^verbatim>\<open>current_exe()\<close>, an absolute path with backslashes; the root of a drive keeps
  its separator.
\<close>

definition backslash :: char where "backslash = CHR 0x5C"

definition exe_dir :: "path \<Rightarrow> path" where
  "exe_dir exe =
     (case rsplit_once backslash exe of
        None \<Rightarrow> []
      | Some (dir, _) \<Rightarrow> if ends_with (CHR '':'') dir then dir @ [backslash] else dir)"

definition exe_with_file_name :: "path \<Rightarrow> string \<Rightarrow> path" where
  "exe_with_file_name exe name =
     (case rsplit_once backslash exe of None \<Rightarrow> name | Some (dir, _) \<Rightarrow> dir @ backslash # name)"

definition SERVICE_NAME :: string where "SERVICE_NAME = ''static-web-server''"
definition SERVICE_EXE :: string where "SERVICE_EXE = ''static-web-server.exe''"
definition SERVICE_DISPLAY_NAME :: string where "SERVICE_DISPLAY_NAME = ''Static Web Server''"
definition SERVICE_DESC :: string where
  "SERVICE_DESC = ''A cross-platform, high-performance and asynchronous web server for static files-serving''"

datatype service_type = OWN_PROCESS

definition SERVICE_TYPE :: service_type where "SERVICE_TYPE = OWN_PROCESS"

datatype service_state =
  Svc_Stopped | Svc_StartPending | Svc_StopPending | Svc_Running | Svc_ContinuePending | Svc_PausePending | Svc_Paused

text \<open>The wait hint is in seconds, the exit code a Win32 one.\<close>

record service_status =
  svs_type :: service_type
  svs_state :: service_state
  svs_accepts_stop :: bool
  svs_exit_code :: nat
  svs_checkpoint :: nat
  svs_wait_hint :: nat

definition next_status :: "service_state \<Rightarrow> nat \<Rightarrow> nat \<Rightarrow> service_status" where
  "next_status current_state checkpoint wait_hint =
     \<lparr>svs_type = SERVICE_TYPE, svs_state = current_state, svs_accepts_stop = True, svs_exit_code = 0,
      svs_checkpoint = checkpoint, svs_wait_hint = wait_hint\<rparr>"

text \<open>\<open>report\<close> is the system's answer to a status; the statuses it took are appended to \<open>told\<close>.\<close>

definition set_service_state ::
  "(service_status \<Rightarrow> (string, unit) result) \<Rightarrow> service_state \<Rightarrow> nat \<Rightarrow> nat \<Rightarrow> service_status list
     \<Rightarrow> (string, unit) result \<times> service_status list" where
  "set_service_state report current_state checkpoint wait_hint told =
     (let s = next_status current_state checkpoint wait_hint
      in case report s of Inr u \<Rightarrow> (Inr u, told @ [s]) | Inl e \<Rightarrow> (Inl e, told))"

text \<open>The event handler: the sender is taken by the first stop; a send without a receiver is an error it unwraps.\<close>

datatype control_event = Ctl_Interrogate | Ctl_Stop | Ctl_Other

datatype handler_result = No_Error | Not_Implemented

definition event_handler :: "bool \<Rightarrow> bool \<Rightarrow> control_event \<Rightarrow> (string, handler_result \<times> bool \<times> bool) result" where
  "event_handler receiver_alive shutdown_tx control_event =
     (case control_event of
        Ctl_Interrogate \<Rightarrow> Inr (No_Error, shutdown_tx, False)
      | Ctl_Stop \<Rightarrow>
          if shutdown_tx then
            if receiver_alive then Inr (No_Error, False, True)
            else Inl (Panic ''called `Result::unwrap()` on an `Err` value'')
          else Inr (No_Error, False, False)
      | Ctl_Other \<Rightarrow> Inr (Not_Implemented, shutdown_tx, False))"

text \<open>The handler over a sequence of events: its state and how many messages it has sent.\<close>

fun handle_events :: "bool \<Rightarrow> bool \<Rightarrow> control_event list \<Rightarrow> (string, bool \<times> nat) result" where
  "handle_events alive tx [] = Inr (tx, 0)"
| "handle_events alive tx (e # es) =
     and_then (event_handler alive tx e) (\<lambda>(_, tx, sent).
       and_then (handle_events alive tx es) (\<lambda>(tx, n). Inr (tx, (if sent then 1 else 0) + n)))"

text \<open>
  How \<^verbatim>\<open>run_as_service\<close> ends: with an error of the runtime, with the end of the process (a server that does not start, or
  fails while it serves), or after a shutdown, when \<open>cancel_fn\<close> has been called. \<open>serves_well\<close> says whether
  hyper's servers end without an error.
\<close>

definition run_as_service ::
  "('c run \<Rightarrow> bool) \<Rightarrow> (string, 'c run) result \<Rightarrow> ('t \<Rightarrow> 't) \<Rightarrow> 't \<Rightarrow> run_end \<times> 't" where
  "run_as_service serves_well started cancel_fn told =
     (case started of
        Inl e \<Rightarrow> (Run_Returns (Inl e), told)
      | Inr (Exit code _) \<Rightarrow> (Process_Exit code, told)
      | Inr (Serving rn) \<Rightarrow>
          if serves_well (Serving rn) then (Run_Returns (Inr ()), cancel_fn told)
          else (Process_Exit 1, told))"

text \<open>
  \<open>register\<close> is the answer to the registration. Windows has no termination signals to register: there \<open>se_signals\<close>
  never fails.
\<close>

definition run_service ::
  "api \<Rightarrow> 't config_env \<Rightarrow> ('c, 'e) server_env \<Rightarrow> (usize \<Rightarrow> usize \<Rightarrow> (string, unit) result) \<Rightarrow> usize option \<Rightarrow> fs
     \<Rightarrow> general \<Rightarrow> (string \<Rightarrow> (string, unit) result) \<Rightarrow> (service_status \<Rightarrow> (string, unit) result) \<Rightarrow> ('c run \<Rightarrow> bool)
     \<Rightarrow> run_end \<times> service_status list" where
  "run_service api cenv env runtime_build available_parallelism fs cli register report serves_well =
     (case settings_read api cenv fs False cli of
        Inl e \<Rightarrow> (Run_Returns (Inl e), [])
      | Inr opts \<Rightarrow>
          (case register SERVICE_NAME of
             Inl e \<Rightarrow> (Run_Returns (Inl e), [])
           | Inr _ \<Rightarrow>
               (case set_service_state report Svc_Running 1 0 [] of
                  (Inl e, told) \<Rightarrow> (Run_Returns (Inl e), told)
                | (Inr _, told) \<Rightarrow>
                    (let stop_handler = (\<lambda>told. snd (set_service_state report Svc_StopPending 2 3 told));
                         (ended, told) =
                           (case server_new available_parallelism opts of
                              Inr server \<Rightarrow>
                                run_as_service serves_well (run_server_on_rt runtime_build api env fs None server)
                                  stop_handler told
                            | Inl e \<Rightarrow> (Run_Returns (Inl e), told))
                     in case ended of
                          Process_Exit code \<Rightarrow> (Process_Exit code, told)
                        | Run_Returns (Inl (Panic msg)) \<Rightarrow> (Run_Returns (Inl (Panic msg)), told)
                        | Run_Returns _ \<Rightarrow>
                            (case set_service_state report Svc_Stopped 3 3 told of
                               (r, told) \<Rightarrow> (Run_Returns r, told))))))"

section \<open>winservice.rs: installing\<close>

record service_info =
  si_name :: string
  si_display_name :: string
  si_type :: service_type
  si_on_demand :: bool
  si_executable_path :: path
  si_launch_arguments :: "string list"

datatype scm_call =
    Set_Current_Dir path
  | Start_Dispatcher string
  | Connect "string list"
  | Create_Service service_info
  | Set_Description string
  | Open_Service string "string list"
  | Query_Status
  | Stop_Service
  | Sleep nat
  | Delete_Service

text \<open>A sequence of calls up to the first one that fails.\<close>

definition scm :: "(scm_call \<Rightarrow> (string, 'a) result) \<Rightarrow> scm_call \<Rightarrow> ('a \<Rightarrow> (string, 'b) result \<times> scm_call list)
    \<Rightarrow> (string, 'b) result \<times> scm_call list" where
  "scm answer call k =
     (case answer call of Inl e \<Rightarrow> (Inl e, [call]) | Inr a \<Rightarrow> (case k a of (r, calls) \<Rightarrow> (r, call # calls)))"

definition service_arguments :: "path \<Rightarrow> string list" where
  "service_arguments config_file =
     (let f = adjust_canonicalization config_file
      in ''--windows-service=true'' # (if f \<noteq> [] then [''--config-file='' @ f] else []))"

definition install_service ::
  "(scm_call \<Rightarrow> (string, unit) result) \<Rightarrow> path \<Rightarrow> path \<Rightarrow> (string, unit) result \<times> scm_call list" where
  "install_service answer current_exe config_file =
     scm answer (Connect [''CONNECT'', ''CREATE_SERVICE'']) (\<lambda>_.
     scm answer (Create_Service
         \<lparr>si_name = SERVICE_NAME, si_display_name = SERVICE_DISPLAY_NAME, si_type = SERVICE_TYPE,
          si_on_demand = True, si_executable_path = exe_with_file_name current_exe SERVICE_EXE,
          si_launch_arguments = service_arguments config_file\<rparr>) (\<lambda>_.
     scm answer (Set_Description SERVICE_DESC) (\<lambda>_. (Inr (), []))))"

definition uninstall_service ::
  "(scm_call \<Rightarrow> (string, service_state) result) \<Rightarrow> (string, unit) result \<times> scm_call list" where
  "uninstall_service answer =
     scm answer (Connect [''CONNECT'']) (\<lambda>_.
     scm answer (Open_Service SERVICE_NAME [''QUERY_STATUS'', ''STOP'', ''DELETE'']) (\<lambda>_.
     scm answer Query_Status (\<lambda>current_state.
       let delete = scm answer Delete_Service (\<lambda>_. (Inr (), []))
       in if current_state \<noteq> Svc_Stopped
          then scm answer Stop_Service (\<lambda>_. case delete of (r, calls) \<Rightarrow> (r, Sleep 1 # calls))
          else delete)))"

text \<open>The directory change is unwrapped, the dispatcher's error is given a context.\<close>

definition run_server_as_service ::
  "(scm_call \<Rightarrow> (string, unit) result) \<Rightarrow> path \<Rightarrow> (string, unit) result \<times> scm_call list" where
  "run_server_as_service answer current_exe =
     (let cd = Set_Current_Dir (exe_dir current_exe); dispatch = Start_Dispatcher SERVICE_NAME
      in case answer cd of
           Inl _ \<Rightarrow> (Inl (Panic ''called `Result::unwrap()` on an `Err` value''), [cd])
         | Inr _ \<Rightarrow>
             (case answer dispatch of
                Inl _ \<Rightarrow> (Inl (Err ''error registering generated `ffi_service_main` with the system''), [cd, dispatch])
              | Inr _ \<Rightarrow> (Inr (), [cd, dispatch])))"

section \<open>bin/server.rs\<close>

datatype win_commands = Install | Uninstall | Win_Generate bool bool path

datatype win_entry =
    Show_Version
  | Install_Service path
  | Uninstall_Service
  | Generate_Artifacts bool bool path
  | Run_As_Service
  | Run_Standalone

definition windows_main :: "bool \<Rightarrow> win_commands option \<Rightarrow> path \<Rightarrow> bool \<Rightarrow> win_entry" where
  "windows_main version commands config_file windows_service =
     (if version then Show_Version
      else case commands of
        Some Install \<Rightarrow> Install_Service config_file
      | Some Uninstall \<Rightarrow> Uninstall_Service
      | Some (Win_Generate completions man_pages out_dir) \<Rightarrow> Generate_Artifacts completions man_pages out_dir
      | None \<Rightarrow> if windows_service then Run_As_Service else Run_Standalone)"

section \<open>signals.rs\<close>

text \<open>
  \<^verbatim>\<open>wait_for_ctrl_c\<close>: each server takes the mutex around the receiver and keeps it until \<^verbatim>\<open>changed()\<close> returns,
  which it does for a new value and once the sender is gone.
\<close>

datatype ctrl_c_waiter = CC_Locking | CC_Waiting | CC_Released

type_synonym ctrl_c_system = "watch option \<times> ctrl_c_waiter list"

inductive ctrl_c_step :: "ctrl_c_system \<Rightarrow> ctrl_c_system \<Rightarrow> bool" where
  cc_lock: "i < length ws \<Longrightarrow> ws ! i = CC_Locking \<Longrightarrow> CC_Waiting \<notin> set ws \<Longrightarrow>
    ctrl_c_step (recv, ws) (recv, ws[i := (if recv = None then CC_Released else CC_Waiting)])"
| cc_changed: "i < length ws \<Longrightarrow> ws ! i = CC_Waiting \<Longrightarrow> wt_unseen c \<or> wt_closed c \<Longrightarrow>
    ctrl_c_step (Some c, ws) (Some (c\<lparr>wt_unseen := False\<rparr>), ws[i := CC_Released])"

inductive ctrl_c_run :: "ctrl_c_system \<Rightarrow> nat \<Rightarrow> ctrl_c_system \<Rightarrow> bool" where
  cc_start: "ctrl_c_run sys 0 sys"
| cc_step: "ctrl_c_run sys n sys' \<Longrightarrow> ctrl_c_step sys' sys'' \<Longrightarrow> ctrl_c_run sys (Suc n) sys''"

inductive_cases ctrl_c_step_cases: "ctrl_c_step sys sys'"

section \<open>Lemmas\<close>

lemma handle_events_taken: "handle_events alive False es = Inr (False, 0)"
proof (induction es)
  case (Cons e es)
  then show ?case by (cases e) (simp_all add: event_handler_def and_then_def)
qed simp

lemma handle_events_sent:
  "handle_events alive tx es =
     (if tx \<and> Ctl_Stop \<in> set es
      then if alive then Inr (False, 1) else Inl (Panic ''called `Result::unwrap()` on an `Err` value'')
      else Inr (tx, 0))"
proof (induction es arbitrary: tx)
  case (Cons e es)
  then show ?case
    by (cases e) (auto simp: event_handler_def and_then_def handle_events_taken)
qed simp

text \<open>The steps a waiter still has to take.\<close>

fun cc_left :: "ctrl_c_waiter \<Rightarrow> nat" where
  "cc_left CC_Locking = 2" | "cc_left CC_Waiting = 1" | "cc_left CC_Released = 0"

definition cc_measure :: "ctrl_c_system \<Rightarrow> nat" where
  "cc_measure sys = sum_list (map cc_left (snd sys))"

lemma sum_list_update_less:
  assumes "i < length ws" "f w < f (ws ! i)"
  shows "sum_list (map f (ws[i := w])) < (sum_list (map f ws) :: nat)"
proof -
  have "sum_list ((map f ws)[i := f w]) < sum_list (map f ws)"
    using assms sum_list_update [of i "map f ws" "f w"] elem_le_sum_list [of i "map f ws"] by simp
  then show ?thesis by (simp add: map_update)
qed

lemma cc_step_measure: "ctrl_c_step sys sys' \<Longrightarrow> cc_measure sys' < cc_measure sys"
  by (erule ctrl_c_step_cases) (auto simp: cc_measure_def intro!: sum_list_update_less)

definition cc_closed :: "ctrl_c_system \<Rightarrow> bool" where
  "cc_closed sys = (case fst sys of None \<Rightarrow> True | Some c \<Rightarrow> wt_closed c)"

lemma cc_step_closed: "ctrl_c_step sys sys' \<Longrightarrow> cc_closed sys \<Longrightarrow> cc_closed sys'"
  by (erule ctrl_c_step_cases) (auto simp: cc_closed_def)

text \<open>Without a receiver nobody ever waits.\<close>

definition cc_sane :: "ctrl_c_system \<Rightarrow> bool" where
  "cc_sane sys \<longleftrightarrow> (fst sys = None \<longrightarrow> CC_Waiting \<notin> set (snd sys))"

lemma cc_step_sane: "ctrl_c_step sys sys' \<Longrightarrow> cc_sane sys \<Longrightarrow> cc_sane sys'"
  by (erule ctrl_c_step_cases) (auto simp: cc_sane_def dest: set_update_subset_insert [THEN subsetD])

lemma cc_progress:
  assumes "cc_closed sys" "cc_sane sys" "w \<in> set (snd sys)" "w \<noteq> CC_Released"
  shows "\<exists>sys'. ctrl_c_step sys sys'"
proof -
  obtain recv ws where sys: "sys = (recv, ws)" by fastforce
  show ?thesis
  proof (cases "CC_Waiting \<in> set ws")
    case True
    then obtain i where "i < length ws" "ws ! i = CC_Waiting" by (auto simp: in_set_conv_nth)
    moreover obtain c where "recv = Some c" "wt_closed c"
      using True assms(1,2) by (auto simp: sys cc_closed_def cc_sane_def split: option.splits)
    ultimately show ?thesis unfolding sys by (blast intro: cc_changed)
  next
    case False
    with assms(3,4) have "w = CC_Locking" by (metis ctrl_c_waiter.exhaust snd_conv sys)
    then obtain i where "i < length ws" "ws ! i = CC_Locking"
      using assms(3) by (auto simp: sys in_set_conv_nth)
    with False show ?thesis unfolding sys by (blast intro: cc_lock)
  qed
qed

lemma cc_run_keeps:
  assumes "ctrl_c_run sys n sys'" "cc_closed sys" "cc_sane sys"
  shows "cc_measure sys' + n \<le> cc_measure sys \<and> cc_closed sys' \<and> cc_sane sys'"
  using assms
proof induction
  case (cc_step sys n sys' sys'')
  then show ?case
    using cc_step_measure [of sys' sys''] cc_step_closed [of sys' sys''] cc_step_sane [of sys' sys''] by force
qed simp

text \<open>What a finished sequence of calls has been answered.\<close>

lemma scm_Inr:
  "scm answer call k = (Inr r, calls) \<longleftrightarrow>
     (\<exists>a calls'. answer call = Inr a \<and> k a = (Inr r, calls') \<and> calls = call # calls')"
  by (auto simp: scm_def split: sum.splits prod.splits)

lemma set_service_state_cases:
  obtains "set_service_state report st cp hint told = (Inr (), told @ [next_status st cp hint])"
  | e where "set_service_state report st cp hint told = (Inl e, told)"
  by (cases "report (next_status st cp hint)") (auto simp: set_service_state_def Let_def)

abbreviation "running_status \<equiv> next_status Svc_Running 1 0"
abbreviation "stop_pending_status \<equiv> next_status Svc_StopPending 2 3"
abbreviation "stopped_status \<equiv> next_status Svc_Stopped 3 3"

lemma run_as_service_told:
  assumes "run_as_service well started (\<lambda>told. snd (set_service_state report Svc_StopPending 2 3 told)) told = (ended, told')"
  shows "told' = told \<or> told' = told @ [stop_pending_status] \<and> ended = Run_Returns (Inr ())"
  using assms
  by (cases rule: set_service_state_cases [of report Svc_StopPending 2 3 told])
     (auto simp: run_as_service_def split: sum.splits run.splits if_splits)

text \<open>The ways a service can go.\<close>

lemma run_service_cases:
  assumes "run_service api cenv env rt_build cpus fs cli register report well = (ended, told)"
  obtains (unregistered) e where "told = []" "ended = Run_Returns (Inl e)"
  | (died) code where "told = [running_status]" "ended = Process_Exit code"
  | (unreported) e where "told \<in> {[running_status], [running_status, stop_pending_status]}" "ended = Run_Returns (Inl e)"
  | (stopped) "told \<in> {[running_status, stopped_status], [running_status, stop_pending_status, stopped_status]}"
      "ended = Run_Returns (Inr ())"
proof (cases "\<exists>o' u. settings_read api cenv fs False cli = Inr o' \<and> register SERVICE_NAME = Inr u \<and> report running_status = Inr ()")
  case False
  with assms have "told = [] \<and> (\<exists>e. ended = Run_Returns (Inl e))"
    by (auto simp: run_service_def set_service_state_def Let_def split: sum.splits)
  then show thesis using unregistered by blast
next
  case True
  then obtain o' u where ok: "settings_read api cenv fs False cli = Inr o'" "register SERVICE_NAME = Inr u" "report running_status = Inr ()" by blast
  obtain e t where mid: "(case server_new cpus o' of
      Inr server \<Rightarrow> run_as_service well (run_server_on_rt rt_build api env fs None server) (\<lambda>told. snd (set_service_state report Svc_StopPending 2 3 told)) [running_status]
    | Inl e \<Rightarrow> (Run_Returns (Inl e), [running_status])) = (e, t)" by fastforce
  have first: "set_service_state report Svc_Running 1 0 [] = (Inr (), [running_status])"
    using ok(3) by (simp add: set_service_state_def)
  have t: "t = [running_status] \<or> t = [running_status, stop_pending_status] \<and> e = Run_Returns (Inr ())"
    using mid run_as_service_told [of well _ report "[running_status]" e t] by (auto split: sum.splits)
  have run: "run_service api cenv env rt_build cpus fs cli register report well =
      (case e of
         Process_Exit code \<Rightarrow> (Process_Exit code, t)
       | Run_Returns (Inl (Panic msg)) \<Rightarrow> (Run_Returns (Inl (Panic msg)), t)
       | Run_Returns _ \<Rightarrow> (case set_service_state report Svc_Stopped 3 3 t of (r, told) \<Rightarrow> (Run_Returns r, told)))"
    by (simp only: run_service_def ok(1,2) sum.case first prod.case Let_def mid)
  have last: "thesis" if "(case set_service_state report Svc_Stopped 3 3 t of (r, told) \<Rightarrow> (Run_Returns r, told)) = (ended, told)"
  proof (cases rule: set_service_state_cases [of report Svc_Stopped 3 3 t])
    case 1
    with that t show thesis by (intro stopped) auto
  next
    case (2 e)
    with that t show thesis by (intro unreported [of e]) auto
  qed
  show thesis
  proof (cases e)
    case (Process_Exit code)
    with run assms t show thesis by (intro died [of code]) auto
  next
    case (Run_Returns r)
    show thesis
    proof (cases "\<exists>msg. r = Inl (Panic msg)")
      case True
      then obtain msg where "r = Inl (Panic msg)" by blast
      with Run_Returns run assms t show thesis by (intro unreported [of "Panic msg"]) auto
    next
      case False
      with Run_Returns run assms have "(case set_service_state report Svc_Stopped 3 3 t of (r, told) \<Rightarrow> (Run_Returns r, told)) = (ended, told)"
        by (auto split: sum.splits abort.splits)
      then show thesis by (rule last)
    qed
  qed
qed

section \<open>Properties\<close>


text \<open>C23: on Windows every server that waits is let go once ctrl+c was pressed or the service stopped, although the
  servers share one receiver behind a mutex: when the sender is gone, the waiting tasks take at most two steps each
  and can only come to rest when all of them are released.\<close>

theorem ctrl_c_releases_all:
  assumes "ctrl_c_run (Some c, ws) n sys" "wt_closed c"
  shows "n \<le> 2 * length ws \<and> ((\<exists>sys'. ctrl_c_step sys sys') \<or> set (snd sys) \<subseteq> {CC_Released})"
proof -
  have k: "cc_measure sys + n \<le> cc_measure (Some c, ws)" "cc_closed sys" "cc_sane sys"
    using cc_run_keeps [OF assms(1)] assms(2) by (auto simp: cc_closed_def cc_sane_def)
  have "sum_list (map cc_left ws) \<le> 2 * length ws"
  proof (induction ws)
    case (Cons w ws)
    then show ?case by (cases w) auto
  qed simp
  with k(1) have "n \<le> 2 * length ws" by (simp add: cc_measure_def)
  with cc_progress [OF k(2,3)] show ?thesis by blast
qed

text \<open>Uninstalling: the service is deleted only after it was seen stopped or was told to stop.\<close>

lemma uninstall_stops_first:
  assumes "uninstall_service answer = (Inr (), calls)"
  shows "\<exists>st. answer Query_Status = Inr st
    \<and> calls = [Connect [''CONNECT''], Open_Service SERVICE_NAME [''QUERY_STATUS'', ''STOP'', ''DELETE''], Query_Status]
        @ (if st = Svc_Stopped then [] else [Stop_Service, Sleep 1]) @ [Delete_Service]"
proof -
  let ?delete = "scm answer Delete_Service (\<lambda>_. (Inr (), []))"
  obtain st calls' where st: "answer Query_Status = Inr st"
    and c: "calls = [Connect [''CONNECT''], Open_Service SERVICE_NAME [''QUERY_STATUS'', ''STOP'', ''DELETE''], Query_Status] @ calls'"
    and d: "(if st \<noteq> Svc_Stopped then scm answer Stop_Service (\<lambda>_. case ?delete of (r, calls) \<Rightarrow> (r, Sleep 1 # calls))
        else ?delete) = (Inr (), calls')"
    using assms unfolding uninstall_service_def scm_Inr Let_def by (elim exE conjE) simp
  from d have "calls' = (if st = Svc_Stopped then [] else [Stop_Service, Sleep 1]) @ [Delete_Service]"
    by (auto simp: scm_def split: if_splits sum.splits)
  with st c show ?thesis by blast
qed

text \<open>Installing: the service is started with \<^verbatim>\<open>--windows-service=true\<close>, so that \<^verbatim>\<open>main\<close> runs it as one.\<close>

lemma install_arguments:
  assumes "install_service answer exe config_file = (Inr (), calls)"
  shows "\<exists>info. Create_Service info \<in> set calls \<and> si_launch_arguments info = service_arguments config_file
    \<and> hd (si_launch_arguments info) = ''--windows-service=true''"
  using assms by (auto simp: install_service_def scm_Inr service_arguments_def Let_def)

text \<open>One stop is delivered, however many are asked for; one that comes when the server has ended is a panic.\<close>

lemma stop_delivered_once:
  "handle_events True True (es @ [Ctl_Stop] @ es') = Inr (False, 1)"
  "handle_events False True (es @ [Ctl_Stop] @ es') = Inl (Panic ''called `Result::unwrap()` on an `Err` value'')"
  by (simp_all add: handle_events_sent)

section \<open>Witnesses\<close>


theorem ctrl_c_releases_all_witness:
  "ctrl_c_run (Some \<lparr>wt_unseen = True, wt_closed = True\<rparr>, [CC_Locking, CC_Released]) 2
      (Some \<lparr>wt_unseen = False, wt_closed = True\<rparr>, [CC_Released, CC_Released])
    \<and> (2 :: nat) \<le> 2 * length [CC_Locking, CC_Released]"
proof -
  let ?c = "\<lparr>wt_unseen = True, wt_closed = True\<rparr>"
  have "ctrl_c_step (Some ?c, [CC_Locking, CC_Released]) (Some ?c, [CC_Waiting, CC_Released])"
    using cc_lock [of 0 "[CC_Locking, CC_Released]" "Some ?c"] by simp
  moreover have "ctrl_c_step (Some ?c, [CC_Waiting, CC_Released]) (Some \<lparr>wt_unseen = False, wt_closed = True\<rparr>, [CC_Released, CC_Released])"
    using cc_changed [of 0 "[CC_Waiting, CC_Released]" ?c] by simp
  ultimately have run: "ctrl_c_run (Some ?c, [CC_Locking, CC_Released]) (Suc (Suc 0))
      (Some \<lparr>wt_unseen = False, wt_closed = True\<rparr>, [CC_Released, CC_Released])"
    by (intro cc_step [OF cc_step [OF cc_start]])
  with ctrl_c_releases_all [OF run] show ?thesis by (simp add: numeral_2_eq_2)
qed

end
