(* ===== verification/Spec2Isabelle.thy ===== *)
theory Spec2Isabelle
  imports Cache_Server Head_Get Links Cli Windows_Service Server
begin

text \<open>
  \<^bold>\<open>Static Web Server\<close>: a verification of the server's code (\<^verbatim>\<open>src/\<close>, version 2.34) from the command line to
  the bytes of a response.

  \<^bold>\<open>The program.\<close> \<^verbatim>\<open>main\<close> reads the settings (command line, then the configuration file on top), builds a
  \<^verbatim>\<open>Server\<close> and starts it: a listener, the options of the request handler filled in module by module, the
  memory cache, and hyper over TCP or TLS, with a redirect server beside it if asked for. Each connection gets
  a service that logs a request and hands it to \<^verbatim>\<open>RequestHandler::handle\<close>. The handler runs the stages that may
  answer by themselves (method check, health, metrics, CORS, authorization, maintenance, redirects,
  rewrites), then the static file handler, then the stages that work on its response (fallback page, CORS
  headers, \<^verbatim>\<open>Vary\<close>, compression, cache-control, security and custom headers).

  \<^bold>\<open>Conventions.\<close> The model is of the Unix build with all features, release arithmetic; the code that only Windows
  builds have is in \<open>Windows_Service\<close>. Rust strings, byte
  vectors and paths are lists of bytes (\<open>string\<close>); \<^verbatim>\<open>u8\<close>, \<^verbatim>\<open>u16\<close>, \<^verbatim>\<open>u64\<close> and \<^verbatim>\<open>usize\<close> are words; a fallible function
  returns \<open>Inr\<close> of its value, \<open>Inl (Err e)\<close> or, where the source can panic, \<open>Inl (Panic msg)\<close>. What the
  server gets from other crates is an argument: the record \<open>api\<close> (header syntax, dates, MIME types, globs and
  regular expressions, bcrypt, percent coding and so on), \<open>config_env\<close> (TOML, the tracing crates), \<open>server_env\<close>
  (sockets, signal registration, the metrics registry), \<open>tls_env\<close> and \<open>tls_ops\<close> (PEM files, rustls). The
  disk is the record \<open>fs\<close>, what a path answers to each system call. Where a property needs one of them
  to behave, that is a hypothesis of the property, and a witness evaluates it on the small world of
  \<open>Samples\<close>.

  \<^bold>\<open>Foundations.\<close>
  \<^item> \<open>SWS_Prelude\<close>, \<open>Rust_Str\<close>, \<open>Float32\<close>, \<open>Ip_Addr\<close>: words, results, \<open>outcome\<close> (which errors and values are
    possible), and the parts of the standard library the code uses: splitting and trimming, UTF-8, decimal
    \<^verbatim>\<open>f32\<close> parsing, IP addresses.
  \<^item> \<open>Paths\<close> (\<^verbatim>\<open>fs/path.rs\<close>): Unix paths, hidden components, the sanitizer; it only ever appends plain names to
    the base.
  \<^item> \<open>Http\<close>, \<open>Body\<close>: methods (\<^verbatim>\<open>http_ext.rs\<close>), header maps with the laws \<open>header_map_ops\<close>, requests, responses
    and the bodies hyper polls.
  \<^item> \<open>File_System\<close> (\<^verbatim>\<open>fs/meta.rs\<close>, \<^verbatim>\<open>fs/stream.rs\<close>, \<^verbatim>\<open>helpers.rs\<close>): metadata, readers and file streams. The locale
    \<open>byte_reader\<close> is the contract of \<^verbatim>\<open>std::io::Read\<close>, interpreted for cursors, files, buffered and limited
    files, and in \<open>Tls\<close> for the lazily opened file.

  \<^bold>\<open>Serving a file.\<close>
  \<^item> \<open>Conditional_Headers\<close>, \<open>File_Response\<close> (\<^verbatim>\<open>conditional_headers.rs\<close>, \<^verbatim>\<open>response.rs\<close>): preconditions and byte
    ranges; a range is the one RFC 9110 defines but for two edge cases, and the body read to the end is
    exactly those bytes.
  \<^item> \<open>Mem_Cache\<close>, \<open>Cache_Run\<close> (\<^verbatim>\<open>mem_cache/\<close>): the cache store, the stream that fills it, and runs of requests,
    polls, disconnects and evictions as a step relation; an entry is always a complete copy of its file, and
    a reply from the cache is the reply from the file.
  \<^item> \<open>Compression\<close>, \<open>Accept_Encoding\<close> (\<^verbatim>\<open>compression.rs\<close>, \<^verbatim>\<open>compression_static.rs\<close>, \<^verbatim>\<open>headers_ext/\<close>): parsing and
    ordering the client's codings, choosing one, wrapping a body, finding a pre-compressed file.
  \<^item> \<open>Directory_Listing\<close> (\<^verbatim>\<open>directory_listing.rs\<close>): entries, their order, sizes, HTML and JSON. \<open>Links\<close>: the link of an
    entry, followed, is the entry again, for every percent coder that meets \<open>percent_laws\<close>.
  \<^item> \<open>Static_Files\<close> (\<^verbatim>\<open>static_files.rs\<close>): confinement to the base directory, proved through the locale
    \<open>serving_area\<close> as non-interference of files elsewhere; hidden files; the statuses that can occur;
    what a plain request for a file or a directory is answered.

  \<^bold>\<open>Handling a request.\<close>
  \<^item> \<open>Handler_Opts\<close> holds the options and the contract \<open>response_stage\<close> of a stage that only touches headers,
    with its composition \<open>two_stages\<close>. \<open>Error_Pages\<close> (error, fallback, maintenance pages, health, metrics),
    \<open>Header_Stages\<close> (cache-control, security, custom headers, virtual hosts), \<open>Basic_Auth\<close>, \<open>Cors\<close>,
    \<open>Redirects\<close> (with rewrites), \<open>Log_Addr\<close> are the stages, each with the lemmas about what it lets
    through and what it changes.
  \<^item> \<open>Handler\<close> (\<^verbatim>\<open>handler.rs\<close>) composes them: every request is answered, the response depends only on the
    configured roots and pages, nothing is served without the credentials, and the later stages
    change only a known set of headers.
  \<^item> Properties of the whole handler. \<open>Stage_Relations\<close> has the rules that carry a relation between two requests
    and two responses through all stages. With them \<open>Head_Get\<close> shows that HEAD is answered like GET, and
    \<open>Cache_Server\<close> that the memory cache cannot be seen in any state a run of the server reaches. \<open>Regular_Fs\<close>
    states what a disk is expected to do for that (\<open>regular\<close>: a path answers alike however it is spelt, and its
    metadata tells the length of the file), \<open>Replies\<close> says where a response can come from, and \<open>Framing\<close> that
    \<^verbatim>\<open>Content-Length\<close> is the length of the body.

  \<^bold>\<open>Running the server.\<close>
  \<^item> \<open>Settings\<close> (\<^verbatim>\<open>settings/\<close>): options and defaults, the configuration file, how they merge, and the compiled
    advanced settings. \<open>Cli\<close> (\<^verbatim>\<open>settings/cli.rs\<close>, \<^verbatim>\<open>settings/cli_output.rs\<close>): the table of arguments, whose
    defaults have the types of the fields and are the values the server starts from. \<open>Logger\<close> (\<^verbatim>\<open>logger.rs\<close>):
    the set-up of the log.
  \<^item> \<open>Tls\<close> (\<^verbatim>\<open>tls.rs\<close>): the configuration, the lazy files and the stream, whose runs move no data before the
    handshake is done. \<open>Https_Redirect\<close> (\<^verbatim>\<open>https_redirect.rs\<close>). \<open>Signals\<close> (\<^verbatim>\<open>signals.rs\<close>): the tasks that wait
    for the end as an interleaving of steps.
  \<^item> \<open>Server\<close> (\<^verbatim>\<open>server.rs\<close>, \<^verbatim>\<open>service.rs\<close>): start-up with all its failures; every setting reaches the option the
    handler reads. \<open>Shutdown\<close>: what the program comes to when its servers end; it ends when it is asked
    to and not before. \<open>Windows_Service\<close> (\<^verbatim>\<open>winservice.rs\<close>): the statuses a service reports, its control events, installing
    and uninstalling, and the waiting for ctrl+c. This theory adds \<^verbatim>\<open>main\<close> and the property that spans everything.

  \<^bold>\<open>Fuel.\<close> Only \<open>drain\<close>, which reads a stream to its end, takes fuel; the properties about it give the amount
  (more than the bytes left) that is always enough. All other functions are total.

  \<^bold>\<open>Not modelled.\<close> Log output other than the request log, hyper's and tokio's scheduling, the delegating \<^verbatim>\<open>transport.rs\<close>, type aliases
  (\<^verbatim>\<open>error.rs\<close>, \<^verbatim>\<open>lib.rs\<close>) and the test fixtures. The expiry times of the cache are the cache library's; a run
  allows any entry to vanish at any time.
\<close>

section \<open>The program\<close>

text \<open>
  \<^verbatim>\<open>main\<close> of \<^verbatim>\<open>src/bin/server.rs\<close>: read the settings, then print the version, generate completions and manual
  pages, or run the server. \<open>render\<close> is the generator's writing to a directory.
\<close>

datatype 'c program = Version_Shown | Generated "path list" | Ran "'c run"

definition generate :: "(path \<Rightarrow> (string, unit) result) \<Rightarrow> commands \<Rightarrow> (string, path list) result" where
  "generate render command =
     (case command of Generate completions man_pages out_dir \<Rightarrow>
        (let comp_dir = path_push out_dir ''completions'';
             man_dir = path_push out_dir ''man''
         in and_then (if completions \<or> \<not> man_pages then and_then (render comp_dir) (\<lambda>_. Inr [comp_dir]) else Inr [])
              (\<lambda>comps. and_then (if man_pages \<or> \<not> completions then and_then (render man_dir) (\<lambda>_. Inr [man_dir]) else Inr [])
              (\<lambda>mans. Inr (comps @ mans)))))"

definition main ::
  "api \<Rightarrow> 't config_env \<Rightarrow> ('c, 'e) server_env \<Rightarrow> (path \<Rightarrow> (string, unit) result) \<Rightarrow> usize option
     \<Rightarrow> (usize \<Rightarrow> usize \<Rightarrow> (string, unit) result) \<Rightarrow> fs \<Rightarrow> general \<Rightarrow> (string, 'c program) result" where
  "main api cenv env render available_parallelism runtime_build fs cli =
     and_then (settings_read api cenv fs True cli) (\<lambda>opts.
       if g_version (s_general opts) then Inr Version_Shown
       else case g_commands (s_general opts) of
         Some command \<Rightarrow> and_then (generate render command) (Inr \<circ> Generated)
       | None \<Rightarrow>
           and_then (server_new available_parallelism opts) (\<lambda>server.
           and_then (run_server_on_rt runtime_build api env fs None server) (Inr \<circ> Ran)))"

section \<open>Properties\<close>

lemma run_Serving:
  "run_server_on_rt rt api env fs store sv = Inr (Serving rn) \<Longrightarrow> start_server api env fs store sv = Inr rn"
  by (auto simp: run_server_on_rt_def and_then_Inr split: sum.splits abort.splits)

lemma server_new_opts: "server_new cpus opts = Inr sv \<Longrightarrow> sv_opts sv = opts"
  by (auto simp: server_new_def Let_def split: option.splits)

lemma main_Serving:
  assumes "main api cenv env render cpus rt fs cli = Inr (Ran (Serving rn))"
  shows "\<exists>sv. settings_read api cenv fs True cli = Inr (sv_opts sv) \<and> start_server api env fs None sv = Inr rn"
  using assms
  by (auto simp: main_def and_then_Inr dest!: run_Serving server_new_opts split: if_splits option.splits)


definition sample_cli :: general where
  "sample_cli = s_general (sv_opts sample_server)"


end
